(* ===== verification/Prelude.thy ===== *)
theory Prelude
  imports Main "HOL-Library.Word" "HOL-Library.Sublist" "HOL-Library.AList"
begin

text \<open>
  Shared vocabulary of the development: the identifiers and clock of the
  backend, the JavaScript string and list primitives the application code
  calls (\<open>trim\<close>, \<open>slice(-n)\<close>, truthiness of an optional string), the
  generic table operations a row store offers (update-by-key, upsert), and
  the lemmas on them that every component proof uses.  Identifiers generated
  by the backend are opaque in the source (UUID strings only compared for
  equality); they are modelled as \<open>nat\<close>, and fresh ones come from a counter
  of the store.  Timestamps are JavaScript \<open>Date.getTime()\<close> values
  (milliseconds, \<open>int\<close>); durations counted by the study timer are seconds
  (\<open>nat\<close>).
\<close>

type_synonym user_id = nat
type_synonym room_id = nat
type_synonym session_id = nat
type_synonym time_ms = int

named_theorems store_simps \<open>simplification rules for the row-store operations\<close>

section \<open>JavaScript primitives\<close>

text \<open>
  \<open>String.prototype.trim\<close> removes leading and trailing white space, and
  \<open>\\s\<close> of a regular expression matches it: the ECMAScript \<open>WhiteSpace\<close>
  and \<open>LineTerminator\<close> code points.  A character of a HOL \<open>string\<close> is
  read as the code unit U+0000 to U+00FF; of these, JavaScript's white space
  is exactly tab, line feed, vertical tab, form feed, carriage return, space
  and the no-break space U+00A0.  The remaining white space code points
  (U+1680, U+2000 to U+200A, U+2028, U+2029, U+202F, U+205F, U+3000, U+FEFF)
  lie above U+00FF and are not characters of this model.
\<close>

definition js_space :: "char \<Rightarrow> bool" where
  "js_space c \<longleftrightarrow> c \<in> set [CHR 0x09, CHR 0x0A, CHR 0x0B, CHR 0x0C, CHR 0x0D, CHR '' '', CHR 0xA0]"

definition js_trim :: "string \<Rightarrow> string" where
  "js_trim s = rev (dropWhile js_space (rev (dropWhile js_space s)))"

text \<open>
  A JavaScript string is falsy exactly when it is \<open>undefined\<close>, \<open>null\<close> or
  empty; an optional parameter \<open>password?: string\<close> is \<open>string option\<close>.
\<close>

definition js_falsy :: "string option \<Rightarrow> bool" where
  "js_falsy p \<longleftrightarrow> p = None \<or> p = Some []"

text \<open>\<open>xs.slice(-n)\<close>: the last \<open>n\<close> elements, or all of them when there are fewer.\<close>

definition slice_last :: "nat \<Rightarrow> 'a list \<Rightarrow> 'a list" where
  "slice_last n xs = drop (length xs - n) xs"

section \<open>Row-store primitives\<close>

text \<open>
  A table is a map from its primary key to its row.  \<open>update().eq(key)\<close>
  changes the row with that key and affects no row (without an error) when
  there is none; \<open>upsert\<close> inserts a row or merges the given columns into the
  existing one.
\<close>

definition update_row :: "('k \<rightharpoonup> 'v) \<Rightarrow> 'k \<Rightarrow> ('v \<Rightarrow> 'v) \<Rightarrow> ('k \<rightharpoonup> 'v)" where
  "update_row m k f = (case m k of None \<Rightarrow> m | Some v \<Rightarrow> m(k \<mapsto> f v))"

definition upsert_row :: "('k \<rightharpoonup> 'v) \<Rightarrow> 'k \<Rightarrow> 'v \<Rightarrow> ('v \<Rightarrow> 'v) \<Rightarrow> ('k \<rightharpoonup> 'v)" where
  "upsert_row m k new merge = m(k \<mapsto> (case m k of None \<Rightarrow> new | Some v \<Rightarrow> merge v))"

text \<open>
  A table the code reads as a list of rows (\<open>select\<close> without a key) is an
  association list from the key to the row; its lookup \<open>map_of\<close> is the map
  above, and each list operation refines the map operation of the same name.
  A new row is placed at the front (the newest row first).
\<close>

type_synonym ('k, 'v) table = "('k \<times> 'v) list"

definition tbl_update :: "('k, 'v) table \<Rightarrow> 'k \<Rightarrow> ('v \<Rightarrow> 'v) \<Rightarrow> ('k, 'v) table" where
  "tbl_update t k f = AList.map_entry k f t"

definition tbl_upsert :: "('k, 'v) table \<Rightarrow> 'k \<Rightarrow> 'v \<Rightarrow> ('v \<Rightarrow> 'v) \<Rightarrow> ('k, 'v) table" where
  "tbl_upsert t k new merge = map_default k new merge t"

definition tbl_delete :: "'k \<Rightarrow> ('k, 'v) table \<Rightarrow> ('k, 'v) table" where
  "tbl_delete k t = AList.delete k t"

definition tbl_insert :: "'k \<Rightarrow> 'v \<Rightarrow> ('k, 'v) table \<Rightarrow> ('k, 'v) table" where
  "tbl_insert k v t = (k, v) # t"

text \<open>
  Decimal numbers: \<open>`${n}`\<close> of a natural number, and \<open>parseInt\<close> of a
  string of decimal digits.
\<close>

fun digits_nat :: "nat \<Rightarrow> string" where
  "digits_nat n = (if n < 10 then [char_of (48 + n)] else digits_nat (n div 10) @ [char_of (48 + n mod 10)])"

definition show_int :: "int \<Rightarrow> string" where
  "show_int i = (if i < 0 then ''-'' @ digits_nat (nat (- i)) else digits_nat (nat i))"

definition is_digit :: "char \<Rightarrow> bool" where
  "is_digit c \<longleftrightarrow> 48 \<le> (of_char c :: nat) \<and> (of_char c :: nat) \<le> 57"

definition read_digits :: "string \<Rightarrow> nat" where
  "read_digits s = foldl (\<lambda>acc c. 10 * acc + (of_char c - 48)) 0 s"

lemma update_row_None [simp, store_simps]: "m k = None \<Longrightarrow> update_row m k f = m"
  by (simp add: update_row_def)

lemma update_row_Some [simp, store_simps]: "m k = Some v \<Longrightarrow> update_row m k f = m(k \<mapsto> f v)"
  by (simp add: update_row_def)

lemma update_row_upd_same [simp, store_simps]: "update_row (m(k \<mapsto> v)) k f = m(k \<mapsto> f v)"
  by (simp add: update_row_def)

lemma dom_update_row [simp, store_simps]: "dom (update_row m k f) = dom m"
  by (auto simp: update_row_def split: option.splits)

lemma update_row_other [simp, store_simps]: "j \<noteq> k \<Longrightarrow> update_row m k f j = m j"
  by (simp add: update_row_def split: option.splits)

lemma update_row_same: "update_row m k f k = map_option f (m k)"
  by (simp add: update_row_def split: option.splits)

lemma dom_upsert_row [simp, store_simps]: "dom (upsert_row m k new merge) = insert k (dom m)"
  by (simp add: upsert_row_def)

lemma upsert_row_other [simp, store_simps]: "j \<noteq> k \<Longrightarrow> upsert_row m k new merge j = m j"
  by (simp add: upsert_row_def)

lemma upsert_row_same [simp, store_simps]:
  "upsert_row m k new merge k = Some (case m k of None \<Rightarrow> new | Some v \<Rightarrow> merge v)"
  by (simp add: upsert_row_def)

lemma map_of_tbl_update [simp, store_simps]: "map_of (tbl_update t k f) = update_row (map_of t) k f"
  by (simp add: tbl_update_def update_row_def AList.map_of_map_entry option.case_eq_if fun_upd_idem)

lemma map_of_tbl_upsert [simp, store_simps]: "map_of (tbl_upsert t k new merge) = upsert_row (map_of t) k new merge"
  by (simp add: tbl_upsert_def upsert_row_def map_of_map_default option.case_eq_if)

lemma map_of_tbl_delete [simp, store_simps]: "map_of (tbl_delete k t) = (map_of t)(k := None)"
  by (simp add: tbl_delete_def AList.delete_conv')

lemma map_of_tbl_insert [simp, store_simps]: "map_of (tbl_insert k v t) = (map_of t)(k \<mapsto> v)"
  by (simp add: tbl_insert_def)

lemma keys_tbl_update [simp, store_simps]: "fst ` set (tbl_update t k f) = fst ` set t"
  by (simp add: tbl_update_def AList.dom_map_entry)

lemma keys_tbl_upsert [simp, store_simps]: "fst ` set (tbl_upsert t k new merge) = insert k (fst ` set t)"
  by (simp add: tbl_upsert_def dom_map_default)

text \<open>
  An upsert whose merge keeps what the first upsert wrote is idempotent: the
  second application finds the row and rewrites it with the same columns.
\<close>

lemma upsert_row_twice:
  assumes "merge new = new" and "\<And>v. merge (merge v) = merge v"
  shows "upsert_row (upsert_row m k new merge) k new merge = upsert_row m k new merge"
  using assms by (auto simp: upsert_row_def split: option.splits)

section \<open>Lists and strings\<close>

lemma slice_last_length: "length (slice_last n xs) = min n (length xs)"
  by (simp add: slice_last_def)

lemma slice_last_suffix: "suffix (slice_last n xs) xs"
  by (simp add: slice_last_def suffix_drop)

lemma js_trim_Nil [simp]: "js_trim [] = []"
  by (simp add: js_trim_def)

lemma js_falsy_simps [simp]:
  "js_falsy None" "js_falsy (Some [])" "js_falsy (Some (c # cs)) = False"
  by (simp_all add: js_falsy_def)


lemma rev_dropWhile_rev_Cons:
  "\<not> P x \<Longrightarrow>
   rev (dropWhile P (rev (x # t))) = x # (if \<forall>y\<in>set t. P y then [] else rev (dropWhile P (rev t)))"
  by (simp add: dropWhile_append)

lemma dropWhile_twice: "dropWhile P (dropWhile P xs) = dropWhile P xs"
  by (induction xs) auto

lemma js_trim_lead: "dropWhile js_space (js_trim s) = js_trim s"
proof (cases "dropWhile js_space s")
  case Nil
  show ?thesis unfolding js_trim_def Nil by simp
next
  case (Cons x t)
  then have "\<not> js_space x"
    using hd_dropWhile[of js_space s] by simp
  then show ?thesis
    unfolding js_trim_def Cons rev_dropWhile_rev_Cons[where P = js_space, OF \<open>\<not> js_space x\<close>] by simp
qed

lemma js_trim_idem [simp]: "js_trim (js_trim s) = js_trim s"
proof -
  have "js_trim (js_trim s) = rev (dropWhile js_space (rev (js_trim s)))"
    by (subst js_trim_def) (simp add: js_trim_lead)
  also have "\<dots> = js_trim s"
    by (simp add: js_trim_def dropWhile_twice)
  finally show ?thesis .
qed

lemma digits_nat_lt: "n < 10 \<Longrightarrow> digits_nat n = [char_of (48 + n)]"
  by simp

lemma digits_nat_ge: "\<not> n < 10 \<Longrightarrow> digits_nat n = digits_nat (n div 10) @ [char_of (48 + n mod 10)]"
  by (subst digits_nat.simps) simp

lemma read_digits_snoc: "read_digits (xs @ [c]) = 10 * read_digits xs + (of_char c - 48)"
  by (simp add: read_digits_def)

lemma read_digits_show [simp]: "read_digits (digits_nat n) = n"
proof (induction n rule: digits_nat.induct)
  case (1 n)
  show ?case
  proof (cases "n < 10")
    case True
    then show ?thesis by (simp add: digits_nat_lt read_digits_def)
  next
    case False
    then show ?thesis
      using 1 by (simp add: digits_nat_ge read_digits_snoc del: digits_nat.simps)
  qed
qed

lemma digits_nat_digits: "list_all is_digit (digits_nat n)"
proof (induction n rule: digits_nat.induct)
  case (1 n)
  then show ?case
    by (cases "n < 10") (simp_all add: digits_nat_lt digits_nat_ge is_digit_def del: digits_nat.simps)
qed

lemma digits_nat_ne [simp]: "digits_nat n \<noteq> []"
  by (cases "n < 10") (simp_all add: digits_nat_lt digits_nat_ge del: digits_nat.simps)

text \<open>On a symbolic argument the recursion of \<open>digits_nat\<close> does not stop; proofs use the two lemmas above.\<close>

declare digits_nat.simps [simp del]

end
