(* ===== verification/Polyfills.thy ===== *)
theory Polyfills
  imports Complex_Main Prelude
begin

text \<open>
  The runtime polyfills of \<open>src/proje/index.js\<close>, installed before the
  router starts: \<open>Symbol.asyncIterator\<close>, \<open>crypto.getRandomValues\<close>, a default
  \<open>Symbol.asyncIterator\<close> on \<open>Object.prototype\<close> and one on
  \<open>Promise.prototype\<close>.  A value is described by what the polyfilled
  iterator looks at; an iterator is the sequence of results of its
  \<open>next()\<close> calls, and \<open>for await\<close> runs with fuel so that a loop that never
  ends is the value \<open>None\<close> for every amount of fuel.
\<close>

datatype 'v step = Yield 'v | Done

text \<open>
  The values a stream can be: \<open>null\<close>/\<open>undefined\<close>, a string, a plain
  object, an object with its own \<open>next\<close>, a thenable that is not a
  \<open>Promise\<close>, a \<open>Promise\<close> (both resolving to a value), or an object with its
  own async iterator.
\<close>

datatype 'v js_val =
    JNullish
  | JStr string
  | JPlain
  | JHasNext "nat \<Rightarrow> 'v step"
  | JThenable 'v
  | JPromise 'v
  | JOwnIter "'v list"

text \<open>
  \<open>stream[Symbol.asyncIterator]\<close> and the iterator it returns, when it is a
  function.  Without the polyfills only an object's own iterator exists.
  With them, every non-nullish value inherits one: an object with \<open>next\<close>
  is its own iterator, a thenable or a \<open>Promise\<close> yields its resolved value
  at every call and never reports \<open>done\<close>, anything else is done at once.
\<close>

fun async_iterator :: "bool \<Rightarrow> 'v js_val \<Rightarrow> (nat \<Rightarrow> 'v step) option" where
  "async_iterator poly (JOwnIter vs) = Some (\<lambda>i. if i < length vs then Yield (vs ! i) else Done)"
| "async_iterator poly JNullish = None"
| "async_iterator poly (JHasNext nx) = (if poly then Some nx else None)"
| "async_iterator poly (JThenable v) = (if poly then Some (\<lambda>_. Yield v) else None)"
| "async_iterator poly (JPromise v) = (if poly then Some (\<lambda>_. Yield v) else None)"
| "async_iterator poly (JStr s) = (if poly then Some (\<lambda>_. Done) else None)"
| "async_iterator poly JPlain = (if poly then Some (\<lambda>_. Done) else None)"

text \<open>\<open>for await (const x of it)\<close> from the \<open>i\<close>-th call on, with fuel.\<close>

fun for_await :: "nat \<Rightarrow> (nat \<Rightarrow> 'v step) \<Rightarrow> nat \<Rightarrow> 'v list option" where
  "for_await 0 it i = None"
| "for_await (Suc n) it i =
     (case it i of Done \<Rightarrow> Some [] | Yield v \<Rightarrow> map_option (Cons v) (for_await n it (Suc i)))"

text \<open>\<open>crypto.getRandomValues\<close> when missing: each entry \<open>Math.floor(Math.random() * 256)\<close>.\<close>

definition get_random_values :: "real list \<Rightarrow> nat list" where
  "get_random_values rs = map (\<lambda>r. nat \<lfloor>r * 256\<rfloor>) rs"

section \<open>Lemmas\<close>

text \<open>With the polyfills, every non-nullish value has an async iterator, so \<open>typeof stream[Symbol.asyncIterator] === 'function'\<close> holds for every stream.\<close>

lemma polyfill_iterator_everywhere: "v \<noteq> JNullish \<Longrightarrow> async_iterator True v \<noteq> None"
  by (cases v) simp_all

text \<open>An object with its own iterator of \<open>n\<close> values is read completely with \<open>n + 1\<close> steps of fuel.\<close>

lemma for_await_own_from:
  "length vs = i + m \<Longrightarrow>
   for_await (Suc m) (\<lambda>i. if i < length vs then Yield (vs ! i) else Done) i = Some (drop i vs)"
proof (induction m arbitrary: i)
  case 0
  then show ?case by simp
next
  case (Suc m)
  then have "i < length vs" by simp
  then show ?case using Suc.IH[of "Suc i"] Suc.prems by (simp add: Cons_nth_drop_Suc)
qed

lemma for_await_own:
  "for_await (Suc (length vs)) (\<lambda>i. if i < length vs then Yield (vs ! i) else Done) 0 = Some vs"
  using for_await_own_from[of vs 0 "length vs"] by simp

text \<open>A string or a plain object iterates to nothing: the stream is read as the empty text.\<close>

lemma for_await_plain: "async_iterator True v = Some it \<Longrightarrow> v = JPlain \<or> v = JStr s \<Longrightarrow> for_await (Suc n) it 0 = Some []"
  by auto

text \<open>\<open>for await\<close> over a \<open>Promise\<close> or a thenable with the polyfills never ends: no amount of fuel suffices.\<close>

lemma for_await_promise_diverges:
  "async_iterator True (JPromise v) = Some it \<Longrightarrow> for_await n it i = None"
proof (induction n arbitrary: i)
  case 0
  then show ?case by simp
next
  case (Suc n)
  then show ?case by auto
qed

text \<open>The polyfilled random bytes are bytes.\<close>

lemma get_random_values_bytes: "\<forall>r \<in> set rs. 0 \<le> r \<and> r < 1 \<Longrightarrow> \<forall>b \<in> set (get_random_values rs). b < 256"
proof -
  assume h: "\<forall>r \<in> set rs. 0 \<le> r \<and> r < 1"
  have "nat \<lfloor>r * 256\<rfloor> < 256" if "0 \<le> r" "r < 1" for r :: real
  proof -
    have "r * 256 < 256" using that by simp
    then have "\<lfloor>r * 256\<rfloor> < 256" by linarith
    then show ?thesis using that by linarith
  qed
  then show ?thesis using h by (auto simp: get_random_values_def)
qed

end
