(* ===== verification/Store.thy ===== *)
theory Store
  imports Prelude
begin

text \<open>
  The hosted row store the study features talk to, as the source uses it
  (\<open>supabase.from(table)\<close> in \<open>src/proje/hooks/useStudyTimer.ts\<close>,
  \<open>src/proje/hooks/useStudyRooms.ts\<close> and
  \<open>src/proje/components/Study/StudyRoom.tsx\<close>): the tables
  \<open>study_rooms\<close> and \<open>study_room_members\<close> (primary key
  \<open>(room_id, user_id)\<close>), which the code also reads as lists of rows, as
  association lists; \<open>study_sessions\<close>, only read by key, as a map; a counter that
  hands out fresh identifiers on insert, and one flag \<open>online\<close> that says
  whether table calls succeed.  A call made while \<open>online\<close> is false returns
  the backend's \<open>error\<close> object and changes nothing.  The backend itself is a
  library the program calls, not code of the repository: these definitions
  give its contract, and the components' definitions call them.
\<close>

record session_row =
  s_user :: user_id
  s_created :: time_ms
  s_duration :: nat
  s_ended :: "time_ms option"

record room_row =
  r_name :: string
  r_description :: string
  r_private :: bool
  r_password :: "string option"
  r_creator :: user_id

record member_row =
  m_joined :: time_ms
  m_session :: "session_id option"

record db =
  online :: bool
  study_rooms :: "(room_id, room_row) table"
  study_members :: "(room_id \<times> user_id, member_row) table"
  study_sessions :: "session_id \<rightharpoonup> session_row"
  next_id :: nat

text \<open>
  The errors the room operations throw, one constructor per \<open>throw\<close> of the
  source (the Turkish messages are given beside them) and one for a failed
  backend call.
\<close>

datatype error =
    NotAuthenticated   \<comment> \<open>'Oturum acmaniz gerekiyor'\<close>
  | NotFound           \<comment> \<open>\<open>.single()\<close> found no row\<close>
  | PasswordRequired   \<comment> \<open>'Bu oda icin sifre gerekli' / 'Sifre gerekli'\<close>
  | WrongPassword      \<comment> \<open>'Yanlis sifre'\<close>
  | NameRequired       \<comment> \<open>'Oda adi gerekli'\<close>
  | VideoUrlRequired   \<comment> \<open>'Video URL gerekli'\<close>
  | StoreUnavailable   \<comment> \<open>the backend returned an error object\<close>
  | ClientTypeError    \<comment> \<open>a JavaScript \<open>TypeError\<close> thrown by the client code itself\<close>

definition empty_db :: db where
  "empty_db = \<lparr>online = True, study_rooms = [], study_members = [],
     study_sessions = Map.empty, next_id = 0\<rparr>"

text \<open>\<open>insert(row).select().single()\<close>: the new row gets a fresh identifier.\<close>

definition insert_session :: "session_row \<Rightarrow> db \<Rightarrow> session_id \<times> db" where
  "insert_session r d =
     (next_id d, d\<lparr>study_sessions := (study_sessions d)(next_id d \<mapsto> r), next_id := Suc (next_id d)\<rparr>)"

definition insert_room :: "room_row \<Rightarrow> db \<Rightarrow> room_id \<times> db" where
  "insert_room r d =
     (next_id d, d\<lparr>study_rooms := tbl_insert (next_id d) r (study_rooms d), next_id := Suc (next_id d)\<rparr>)"

text \<open>
  Every identifier in use is below the counter: the store's freshness
  invariant, which the insert operations keep.
\<close>

text \<open>The owner of a session row, if there is one.\<close>

definition session_owner :: "db \<Rightarrow> session_id \<Rightarrow> user_id option" where
  "session_owner d k = map_option s_user (study_sessions d k)"

definition ids_fresh :: "db \<Rightarrow> bool" where
  "ids_fresh d \<longleftrightarrow>
     (\<forall>i \<in> dom (study_sessions d). i < next_id d) \<and> (\<forall>i \<in> fst ` set (study_rooms d). i < next_id d) \<and>
     (\<forall>k \<in> fst ` set (study_members d). fst k < next_id d)"

lemma insert_session_fst [store_simps]: "fst (insert_session r d) = next_id d"
  by (simp add: insert_session_def)

lemma insert_session_row [store_simps]:
  "study_sessions (snd (insert_session r d)) = (study_sessions d)(next_id d \<mapsto> r)"
  by (simp add: insert_session_def)

lemma insert_session_frame [simp, store_simps]:
  "online (snd (insert_session r d)) = online d"
  "study_rooms (snd (insert_session r d)) = study_rooms d"
  "study_members (snd (insert_session r d)) = study_members d"
  "next_id (snd (insert_session r d)) = Suc (next_id d)"
  by (simp_all add: insert_session_def)

lemma insert_room_frame [simp, store_simps]:
  "online (snd (insert_room r d)) = online d"
  "study_sessions (snd (insert_room r d)) = study_sessions d"
  "study_members (snd (insert_room r d)) = study_members d"
  "study_rooms (snd (insert_room r d)) = tbl_insert (next_id d) r (study_rooms d)"
  "next_id (snd (insert_room r d)) = Suc (next_id d)"
  "fst (insert_room r d) = next_id d"
  by (simp_all add: insert_room_def)

lemma session_owner_insert_session [simp, store_simps]:
  "session_owner (snd (insert_session r d)) k = (if k = next_id d then Some (s_user r) else session_owner d k)"
  by (simp add: session_owner_def insert_session_def)

lemma session_owner_update [simp, store_simps]:
  "session_owner (d\<lparr>study_sessions := update_row (study_sessions d) j (\<lambda>r. r\<lparr>s_duration := x, s_ended := y\<rparr>)\<rparr>) k =
   session_owner d k"
  by (cases "k = j") (simp_all add: session_owner_def update_row_def option.map_comp comp_def split: option.splits)

lemma session_owner_members [simp, store_simps]:
  "session_owner (d\<lparr>study_members := ms\<rparr>) k = session_owner d k"
  by (simp add: session_owner_def)

lemma ids_fresh_empty [simp]: "ids_fresh empty_db"
  by (simp add: ids_fresh_def empty_db_def)

lemma ids_fresh_new_session: "ids_fresh d \<Longrightarrow> study_sessions d (next_id d) = None"
  by (auto simp: ids_fresh_def)

lemma ids_fresh_new_room: "ids_fresh d \<Longrightarrow> map_of (study_rooms d) (next_id d) = None"
  by (auto simp: ids_fresh_def map_of_eq_None_iff)

lemma ids_fresh_insert_session: "ids_fresh d \<Longrightarrow> ids_fresh (snd (insert_session r d))"
  by (simp add: ids_fresh_def insert_session_def) (blast intro: less_SucI)

lemma ids_fresh_insert_room: "ids_fresh d \<Longrightarrow> ids_fresh (snd (insert_room r d))"
  by (simp add: ids_fresh_def insert_room_def tbl_insert_def) (blast intro: less_SucI)

lemma ids_fresh_new_member: "ids_fresh d \<Longrightarrow> map_of (study_members d) (next_id d, u) = None"
  by (auto simp: ids_fresh_def map_of_eq_None_iff)

lemma ids_fresh_tables [simp]:
  "ids_fresh (d\<lparr>study_members := tbl_update (study_members d) k g\<rparr>) = ids_fresh d"
  "ids_fresh (d\<lparr>study_sessions := update_row (study_sessions d) j f\<rparr>) = ids_fresh d"
  by (simp_all add: ids_fresh_def)

end
