(* ===== verification/StudyRooms.thy ===== *)
theory StudyRooms
  imports Store
begin

text \<open>
  Study rooms: the hook \<open>useStudyRooms\<close> (\<open>src/proje/hooks/useStudyRooms.ts\<close>)
  with its operations \<open>createRoom\<close>, \<open>joinRoom\<close>, \<open>leaveRoom\<close>,
  \<open>deleteRoom\<close> and \<open>updateSession\<close>; the modals that call them
  (\<open>src/proje/components/Study/CreateRoomModal.tsx\<close>,
  \<open>src/proje/components/Study/JoinRoomModal.tsx\<close>); and the room list of the
  study tab (\<open>src/proje/app/(tabs)/study.tsx\<close>: \<open>RoomCard\<close>,
  \<open>handleJoinRoom\<close>, \<open>handleDeleteRoom\<close>).  Each operation returns
  \<open>error + 'a\<close> (the thrown error or the value) and the new store; the
  hook's \<open>setError(err.message)\<close> records the \<open>Inl\<close> value in its
  \<open>error\<close> state and is not modelled separately.
\<close>

section \<open>The hook's operations\<close>

text \<open>
  \<open>joinRoom(roomId, password?)\<close>: the signed-in user is required; the room is
  read with \<open>.single()\<close> (no row is an error); a private room needs a truthy
  password equal to the stored \<open>password_hash\<close>; then the member row
  \<open>(room_id, user_id)\<close> is upserted.  The upsert sends only the two key
  columns, so an existing row keeps its \<open>joined_at\<close> and its session; a new
  row gets the column defaults (\<open>joined_at = now()\<close>, no session).
\<close>

definition new_member :: "time_ms \<Rightarrow> member_row" where
  "new_member now = \<lparr>m_joined = now, m_session = None\<rparr>"

definition join_room :: "user_id option \<Rightarrow> time_ms \<Rightarrow> room_id \<Rightarrow> string option \<Rightarrow> db \<Rightarrow> (error + room_row) \<times> db" where
  "join_room me now rid pw d =
     (case me of
        None \<Rightarrow> (Inl NotAuthenticated, d)
      | Some u \<Rightarrow>
          if \<not> online d then (Inl StoreUnavailable, d)
          else
            (case map_of (study_rooms d) rid of
               None \<Rightarrow> (Inl NotFound, d)
             | Some r \<Rightarrow>
                 if r_private r \<and> js_falsy pw then (Inl PasswordRequired, d)
                 else if r_private r \<and> pw \<noteq> r_password r then (Inl WrongPassword, d)
                 else (Inr r, d\<lparr>study_members := tbl_upsert (study_members d) (rid, u) (new_member now) id\<rparr>)))"

text \<open>
  \<open>createRoom(name, description, isPrivate, password?)\<close>: inserts the room
  with \<open>password_hash = password\<close> and the user as creator, then calls
  \<open>joinRoom\<close> with the same password; an error of the join is the error of
  the create, and the inserted room stays.
\<close>

definition create_room ::
  "user_id option \<Rightarrow> time_ms \<Rightarrow> string \<Rightarrow> string \<Rightarrow> bool \<Rightarrow> string option \<Rightarrow> db \<Rightarrow> (error + room_id) \<times> db" where
  "create_room me now name desc priv pw d =
     (case me of
        None \<Rightarrow> (Inl NotAuthenticated, d)
      | Some u \<Rightarrow>
          if \<not> online d then (Inl StoreUnavailable, d)
          else
            (let (rid, d1) = insert_room \<lparr>r_name = name, r_description = desc, r_private = priv,
                                          r_password = pw, r_creator = u\<rparr> d
             in (case join_room me now rid pw d1 of
                   (Inl e, d2) \<Rightarrow> (Inl e, d2)
                 | (Inr _, d2) \<Rightarrow> (Inr rid, d2))))"

text \<open>\<open>leaveRoom(roomId)\<close>: deletes the caller's member row.\<close>

definition leave_room :: "user_id option \<Rightarrow> room_id \<Rightarrow> db \<Rightarrow> (error + unit) \<times> db" where
  "leave_room me rid d =
     (case me of
        None \<Rightarrow> (Inl NotAuthenticated, d)
      | Some u \<Rightarrow>
          if \<not> online d then (Inl StoreUnavailable, d)
          else (Inr (), d\<lparr>study_members := tbl_delete (rid, u) (study_members d)\<rparr>))"

text \<open>
  \<open>deleteRoom(roomId)\<close>: deletes the room whose id and creator match; for
  another user's room the filter matches no row, which is no error.  The
  store deletes the room's member rows with it (the cascade of the schema,
  spec section 3).
\<close>

definition delete_room :: "user_id option \<Rightarrow> room_id \<Rightarrow> db \<Rightarrow> (error + unit) \<times> db" where
  "delete_room me rid d =
     (case me of
        None \<Rightarrow> (Inl NotAuthenticated, d)
      | Some u \<Rightarrow>
          if \<not> online d then (Inl StoreUnavailable, d)
          else
            (case map_of (study_rooms d) rid of
               Some r \<Rightarrow>
                 if r_creator r = u
                 then (Inr (), d\<lparr>study_rooms := tbl_delete rid (study_rooms d),
                                study_members := filter (\<lambda>(k, m). fst k \<noteq> rid) (study_members d)\<rparr>)
                 else (Inr (), d)
             | None \<Rightarrow> (Inr (), d)))"

text \<open>\<open>updateSession(roomId, sessionId)\<close> of this hook: as the timer's, but a failure is thrown.\<close>

definition rooms_update_session :: "user_id option \<Rightarrow> room_id \<Rightarrow> session_id option \<Rightarrow> db \<Rightarrow> (error + unit) \<times> db" where
  "rooms_update_session me rid sid d =
     (case me of
        None \<Rightarrow> (Inl NotAuthenticated, d)
      | Some u \<Rightarrow>
          if \<not> online d then (Inl StoreUnavailable, d)
          else (Inr (), d\<lparr>study_members := tbl_update (study_members d) (rid, u) (\<lambda>m. m\<lparr>m_session := sid\<rparr>)\<rparr>))"

section \<open>The modals\<close>

text \<open>
  \<open>CreateRoomModal.handleCreate\<close>: an empty (after \<open>trim\<close>) name is refused;
  the password is passed only for a private room.  The modal's password is
  its text field, a string that may be empty.
\<close>

definition create_modal ::
  "user_id option \<Rightarrow> time_ms \<Rightarrow> string \<Rightarrow> string \<Rightarrow> bool \<Rightarrow> string \<Rightarrow> db \<Rightarrow> (error + room_id) \<times> db" where
  "create_modal me now name desc priv password d =
     (if js_trim name = [] then (Inl NameRequired, d)
      else create_room me now name desc priv (if priv then Some password else None) d)"

text \<open>
  \<open>JoinRoomModal.handleJoin\<close>: an empty (after \<open>trim\<close>) password is refused
  before any call; otherwise the untrimmed password is passed to
  \<open>joinRoom\<close>.
\<close>

definition join_modal :: "user_id option \<Rightarrow> time_ms \<Rightarrow> room_id \<Rightarrow> string \<Rightarrow> db \<Rightarrow> (error + room_row) \<times> db" where
  "join_modal me now rid password d =
     (if js_trim password = [] then (Inl PasswordRequired, d)
      else join_room me now rid (Some password) d)"

section \<open>The study tab's room list\<close>

text \<open>
  What the tab shows: the list, the password modal for a room, or the open
  room (\<open>selectedRoomForJoin\<close>/\<open>showJoinModal\<close> and
  \<open>selectedRoomId\<close>/\<open>selectedRoom\<close>).
\<close>

datatype tab_view = Browsing | JoinPrompt room_id | InRoom room_id

text \<open>
  \<open>handleJoinRoom(roomId, isPrivate, name)\<close>: a private room opens the
  password modal; a public room is opened directly, without any call to the
  store.
\<close>

definition tab_open_room :: "user_id option \<Rightarrow> room_id \<Rightarrow> bool \<Rightarrow> tab_view \<Rightarrow> tab_view" where
  "tab_open_room me rid priv v =
     (case me of
        None \<Rightarrow> v
      | Some u \<Rightarrow> if priv then JoinPrompt rid else InRoom rid)"

text \<open>The modal's \<open>onSuccess(room)\<close> opens the room it joined.\<close>

definition tab_join_prompt ::
  "user_id option \<Rightarrow> time_ms \<Rightarrow> room_id \<Rightarrow> string \<Rightarrow> tab_view \<times> db \<Rightarrow> tab_view \<times> db" where
  "tab_join_prompt me now rid password = (\<lambda>(v, d).
     (case join_modal me now rid password d of
        (Inl e, d') \<Rightarrow> (v, d')
      | (Inr r, d') \<Rightarrow> (InRoom rid, d')))"

text \<open>
  \<open>RoomCard\<close>: the member count shown is \<open>room.members?.length || 0\<close>, where
  \<open>members\<close> is the embedded aggregate \<open>study_room_members(count)\<close>; the
  store answers an embedded count with a one-element list holding the count.
  The active count is the number of members with a session.  The delete
  button is shown to the creator only.
\<close>

text \<open>The member rows of a room, as \<open>select ... .eq('room_id', roomId)\<close> returns them.\<close>

definition members_of :: "db \<Rightarrow> room_id \<Rightarrow> (user_id \<times> member_row) list" where
  "members_of d rid = [(snd k, m). (k, m) \<leftarrow> study_members d, fst k = rid]"

definition embedded_count :: "db \<Rightarrow> room_id \<Rightarrow> nat list" where
  "embedded_count d rid = [length (members_of d rid)]"

definition card_member_count :: "db \<Rightarrow> room_id \<Rightarrow> nat" where
  "card_member_count d rid = length (embedded_count d rid)"

definition card_active_count :: "db \<Rightarrow> room_id \<Rightarrow> nat" where
  "card_active_count d rid = length (filter (\<lambda>(u, m). m_session m \<noteq> None) (members_of d rid))"

definition card_shows_delete :: "user_id option \<Rightarrow> room_row \<Rightarrow> bool" where
  "card_shows_delete me r = (me = Some (r_creator r))"


text \<open>
  The tab's state around the create modal: the view, whether the modal is
  shown, and the modal's own \<open>error\<close> state.
\<close>

record tab_ui =
  tab_view :: tab_view
  create_open :: bool
  create_err :: "error option"

text \<open>
  Creating from the tab: \<open>handleCreate\<close> calls \<open>onSuccess()\<close> without an
  argument, and the tab's callback runs \<open>setShowCreateModal(false)\<close> and then
  reads \<open>newRoom.id\<close> of \<open>undefined\<close>, a \<open>TypeError\<close> that
  \<open>handleCreate\<close> catches into the modal's error; \<open>handleClose\<close> is skipped.
\<close>

definition tab_create_room ::
  "user_id option \<Rightarrow> time_ms \<Rightarrow> string \<Rightarrow> string \<Rightarrow> bool \<Rightarrow> string \<Rightarrow> tab_ui \<times> db \<Rightarrow> tab_ui \<times> db" where
  "tab_create_room me now name desc priv password = (\<lambda>(ui, d).
     (case create_modal me now name desc priv password d of
        (Inl e, d') \<Rightarrow> (ui\<lparr>create_err := Some e\<rparr>, d')
      | (Inr rid, d') \<Rightarrow> (ui\<lparr>create_open := False, create_err := Some ClientTypeError\<rparr>, d')))"

text \<open>\<open>handleDeleteRoom(roomId)\<close>: a thrown error is only logged.\<close>

definition tab_delete_room :: "user_id option \<Rightarrow> room_id \<Rightarrow> db \<Rightarrow> db" where
  "tab_delete_room me rid d = (case me of None \<Rightarrow> d | Some u \<Rightarrow> snd (delete_room me rid d))"

section \<open>Behaviour of the operations\<close>

lemma tbl_upsert_id_present:
  "k \<in> fst ` set t \<Longrightarrow> tbl_upsert t k v id = t"
  by (induction t) (auto simp: tbl_upsert_def)

lemma tbl_upsert_id_idem:
  "tbl_upsert (tbl_upsert t k v id) k v' id = tbl_upsert t k v id"
  by (simp add: tbl_upsert_id_present)

lemma join_room_rooms [simp]: "study_rooms (snd (join_room me now rid pw d)) = study_rooms d"
  by (simp add: join_room_def split: option.splits)

lemma join_room_online [simp]: "online (snd (join_room me now rid pw d)) = online d"
  by (simp add: join_room_def split: option.splits)

lemma create_room_inserts:
  assumes "online d"
  shows "create_room (Some u) now name desc priv pw d =
    (case join_room (Some u) now (next_id d) pw
            (snd (insert_room \<lparr>r_name = name, r_description = desc, r_private = priv, r_password = pw, r_creator = u\<rparr> d)) of
       (Inl e, d2) \<Rightarrow> (Inl e, d2)
     | (Inr _, d2) \<Rightarrow> (Inr (next_id d), d2))"
  using assms by (simp add: create_room_def insert_room_def)

text \<open>
  Joining is idempotent: a second \<open>joinRoom\<close> by the same user with the
  same password gives the same answer and leaves the store as the first left
  it (one member row per room and user).
\<close>

theorem join_room_idempotent:
  "join_room me now' rid pw (snd (join_room me now rid pw d)) = join_room me now rid pw d"
  by (auto simp: join_room_def tbl_upsert_id_idem split: option.splits)

lemma join_room_idempotent_witness:
  "join_room (Some 3) 20 0 None (snd (join_room (Some 3) 10 0 None (snd (insert_room \<lparr>r_name = ''math'', r_description = [],
      r_private = False, r_password = None, r_creator = 1\<rparr> empty_db)))) =
   join_room (Some 3) 10 0 None (snd (insert_room \<lparr>r_name = ''math'', r_description = [],
      r_private = False, r_password = None, r_creator = 1\<rparr> empty_db)) \<and>
   study_members (snd (join_room (Some 3) 10 0 None (snd (insert_room \<lparr>r_name = ''math'', r_description = [],
      r_private = False, r_password = None, r_creator = 1\<rparr> empty_db)))) = [((0, 3), new_member 10)]"
  using join_room_idempotent [where me = "Some 3" and now = 10 and now' = 20 and rid = 0 and pw = None
      and d = "snd (insert_room \<lparr>r_name = ''math'', r_description = [], r_private = False, r_password = None, r_creator = 1\<rparr> empty_db)"]
  by (simp add: join_room_def insert_room_def empty_db_def tbl_insert_def tbl_upsert_def)

text \<open>
  C5. A join of a private room with a password other than the stored one
  fails and leaves the store unchanged: no member row is created.
\<close>

theorem join_private_wrong_password_rejected:
  assumes "map_of (study_rooms d) rid = Some r" and "r_private r" and "pw \<noteq> r_password r"
  shows "snd (join_room me now rid pw d) = d \<and> isl (fst (join_room me now rid pw d))"
  using assms by (simp add: join_room_def split: option.splits)


lemma join_private_wrong_password_rejected_witness:
  "snd (join_room (Some 2) 10 0 (Some ''abc'') (snd (insert_room \<lparr>r_name = ''algebra'', r_description = [], r_private = True, r_password = Some ''xyz'', r_creator = 1\<rparr> empty_db))) = snd (insert_room \<lparr>r_name = ''algebra'', r_description = [], r_private = True, r_password = Some ''xyz'', r_creator = 1\<rparr> empty_db) \<and>
   isl (fst (join_room (Some 2) 10 0 (Some ''abc'') (snd (insert_room \<lparr>r_name = ''algebra'', r_description = [], r_private = True, r_password = Some ''xyz'', r_creator = 1\<rparr> empty_db))))"
  using join_private_wrong_password_rejected [where d = "snd (insert_room \<lparr>r_name = ''algebra'', r_description = [], r_private = True, r_password = Some ''xyz'', r_creator = 1\<rparr> empty_db)" and rid = 0
      and r = "\<lparr>r_name = ''algebra'', r_description = [], r_private = True, r_password = Some ''xyz'', r_creator = 1\<rparr>" and pw = "Some ''abc''" and me = "Some 2" and now = 10]
  by (simp add: insert_room_def empty_db_def tbl_insert_def)

text \<open>
  C6. A join of an existing public room, or of a private room with its
  (non-empty) password, succeeds and leaves a member row for the user.
\<close>

theorem join_room_success:
  assumes "online d" and "map_of (study_rooms d) rid = Some r"
    and "\<not> r_private r \<or> (pw = r_password r \<and> \<not> js_falsy pw)"
  shows "join_room (Some u) now rid pw d =
           (Inr r, d\<lparr>study_members := tbl_upsert (study_members d) (rid, u) (new_member now) id\<rparr>) \<and>
         map_of (study_members (snd (join_room (Some u) now rid pw d))) (rid, u) \<noteq> None"
  using assms by (auto simp: join_room_def)

lemma join_room_success_witness:
  "map_of (study_members (snd (join_room (Some 2) 10 0 (Some ''xyz'') (snd (insert_room \<lparr>r_name = ''algebra'', r_description = [], r_private = True, r_password = Some ''xyz'', r_creator = 1\<rparr> empty_db))))) (0, 2) \<noteq> None"
  using join_room_success [where d = "snd (insert_room \<lparr>r_name = ''algebra'', r_description = [], r_private = True, r_password = Some ''xyz'', r_creator = 1\<rparr> empty_db)" and rid = 0
      and r = "\<lparr>r_name = ''algebra'', r_description = [], r_private = True, r_password = Some ''xyz'', r_creator = 1\<rparr>" and pw = "Some ''xyz''" and u = 2 and now = 10]
  by (simp add: insert_room_def empty_db_def tbl_insert_def)

text \<open>
  C7. Creating a private room with an empty password inserts the room and
  then fails in the creator's own \<open>joinRoom\<close> (the empty password is
  falsy): the room stays, without its creator as a member.
\<close>

theorem create_private_empty_password_orphans_room:
  assumes "online d" and "ids_fresh d" and "js_trim name \<noteq> []"
  shows "case create_modal (Some u) now name desc True [] d of (res, d') \<Rightarrow>
           res = Inl PasswordRequired \<and>
           map_of (study_rooms d') (next_id d) =
             Some \<lparr>r_name = name, r_description = desc, r_private = True, r_password = Some [], r_creator = u\<rparr> \<and>
           map_of (study_members d') (next_id d, u) = None"
  using assms ids_fresh_new_member [OF assms(2), of u]
  by (simp add: create_modal_def create_room_inserts join_room_def insert_room_def tbl_insert_def)

lemma create_private_empty_password_orphans_room_witness:
  "case create_modal (Some 4) 0 ''physics'' [] True [] empty_db of (res, d') \<Rightarrow>
     res = Inl PasswordRequired \<and>
     map_of (study_rooms d') 0 = Some \<lparr>r_name = ''physics'', r_description = [], r_private = True, r_password = Some [], r_creator = 4\<rparr> \<and>
     map_of (study_members d') (0, 4) = None"
  using create_private_empty_password_orphans_room [where d = empty_db and u = 4 and now = 0 and name = "''physics''" and desc = "[]"]
  by (simp add: empty_db_def js_trim_def js_space_def ids_fresh_def)

text \<open>
  C8. A user other than the creator cannot delete a room: the delete
  filters on the creator and changes nothing.
\<close>

theorem delete_room_only_creator:
  assumes "map_of (study_rooms d) rid = Some r" and "me \<noteq> Some (r_creator r)"
  shows "snd (delete_room me rid d) = d"
  using assms by (auto simp: delete_room_def split: option.splits)

lemma delete_room_only_creator_witness:
  "snd (delete_room (Some 2) 0 (snd (insert_room \<lparr>r_name = ''algebra'', r_description = [], r_private = True, r_password = Some ''xyz'', r_creator = 1\<rparr> empty_db))) = snd (insert_room \<lparr>r_name = ''algebra'', r_description = [], r_private = True, r_password = Some ''xyz'', r_creator = 1\<rparr> empty_db)"
  using delete_room_only_creator [where d = "snd (insert_room \<lparr>r_name = ''algebra'', r_description = [], r_private = True, r_password = Some ''xyz'', r_creator = 1\<rparr> empty_db)" and rid = 0
      and r = "\<lparr>r_name = ''algebra'', r_description = [], r_private = True, r_password = Some ''xyz'', r_creator = 1\<rparr>" and me = "Some 2"]
  by (simp add: insert_room_def empty_db_def tbl_insert_def)

text \<open>
  The spec's scenario: a private room created with password xyz; a
  join with abc fails with a wrong-password error and creates no member row;
  the retry with xyz creates it.
\<close>

theorem private_join_scenario:
  "case create_room (Some 1) 0 ''algebra'' [] True (Some ''xyz'') empty_db of (r0, d0) \<Rightarrow>
   case join_modal (Some 2) 10 0 ''abc'' d0 of (r1, d1) \<Rightarrow>
   case join_modal (Some 2) 20 0 ''xyz'' d1 of (r2, d2) \<Rightarrow>
     r0 = Inr 0 \<and> r1 = Inl WrongPassword \<and> map_of (study_members d1) (0, 2) = None \<and>
     \<not> isl r2 \<and> map_of (study_members d2) (0, 2) = Some (new_member 20)"
  by (simp add: create_room_def join_modal_def join_room_def insert_room_def empty_db_def tbl_insert_def
      tbl_upsert_def js_trim_def js_space_def)

text \<open>
  A successful create from the study tab does not open the new room:
  the room exists with its creator as a member, the modal is hidden, the
  view is unchanged, and the modal's error holds the \<open>TypeError\<close> thrown by
  the tab's \<open>onSuccess\<close> callback.
\<close>

theorem tab_create_success_not_opened:
  assumes "online d" and "ids_fresh d" and "js_trim name \<noteq> []" and "\<not> priv \<or> password \<noteq> []"
  shows "case tab_create_room (Some u) now name desc priv password (ui, d) of (ui', d') \<Rightarrow>
     tab_view ui' = tab_view ui \<and> \<not> create_open ui' \<and> create_err ui' = Some ClientTypeError \<and>
     map_of (study_members d') (next_id d, u) = Some (new_member now)"
proof -
  have "map_of (study_members d) (next_id d, u) = None" using assms(2) by (rule ids_fresh_new_member)
  moreover have "\<not> (priv \<and> js_falsy (if priv then Some password else None))"
    using assms(4) by (cases password) (auto simp: js_falsy_def)
  ultimately show ?thesis
    using assms(1,3)
    by (simp add: tab_create_room_def create_modal_def create_room_inserts join_room_def insert_room_def tbl_insert_def)
qed

lemma tab_create_success_not_opened_witness:
  "case tab_create_room (Some 4) 0 ''physics'' [] False [] (\<lparr>tab_view = Browsing, create_open = True, create_err = None\<rparr>, empty_db) of
     (ui', d') \<Rightarrow> tab_view ui' = Browsing \<and> \<not> create_open ui' \<and> create_err ui' = Some ClientTypeError \<and>
     map_of (study_members d') (0, 4) = Some (new_member 0)"
  using tab_create_success_not_opened [where d = empty_db and u = 4 and now = 0 and name = "''physics''" and desc = "[]"
      and priv = False and password = "[]" and ui = "\<lparr>tab_view = Browsing, create_open = True, create_err = None\<rparr>"]
  by (simp add: empty_db_def js_trim_def js_space_def ids_fresh_def)

end
