(* ===== verification/WatchRooms.thy ===== *)
theory WatchRooms
  imports Complex_Main "HOL-Library.Multiset" Store
begin

text \<open>
  Watch rooms: the tables the watch feature uses (\<open>watch_rooms\<close>,
  \<open>watch_room_members\<close>, \<open>watch_room_messages\<close>, \<open>video_states\<close>), the
  create and join modals (\<open>src/proje/components/Watch/CreateRoomModal.tsx\<close>,
  \<open>src/proje/components/Watch/JoinRoomModal.tsx\<close>), the room list of the
  watch tab (\<open>src/proje/app/(tabs)/watch.tsx\<close>) and the chat of the room
  screen (\<open>src/proje/components/Watch/WatchRoom.tsx\<close>: \<open>handleSend\<close>,
  \<open>fetchMessages\<close> and the message list).  The playback state and its
  synchronisation are in \<open>WatchSync\<close>.  A video position is a JavaScript
  number of seconds, modelled as \<open>real\<close>.
\<close>

record watch_room_row =
  w_name :: string
  w_description :: string
  w_video_url :: string
  w_private :: bool
  w_password :: "string option"
  w_creator :: user_id

record video_row =
  v_playing :: bool
  v_time :: real
  v_updated :: time_ms

record message_row =
  msg_id :: nat
  msg_room :: room_id
  msg_user :: user_id
  msg_content :: string
  msg_created :: time_ms

record wdb =
  w_online :: bool
  watch_rooms :: "(room_id, watch_room_row) table"
  watch_members :: "(room_id \<times> user_id, time_ms) table"
  video_states :: "room_id \<rightharpoonup> video_row"
  watch_messages :: "message_row list"
  w_next_id :: nat

definition empty_wdb :: wdb where
  "empty_wdb = \<lparr>w_online = True, watch_rooms = [], watch_members = [], video_states = Map.empty,
     watch_messages = [], w_next_id = 0\<rparr>"

section \<open>Creating, joining and deleting\<close>

text \<open>
  The member upsert of both modals sends \<open>joined_at = now\<close> with
  \<open>onConflict: 'room_id,user_id'\<close>: a new row, or the existing row with a new
  \<open>joined_at\<close>.
\<close>

definition upsert_watch_member :: "room_id \<Rightarrow> user_id \<Rightarrow> time_ms \<Rightarrow> wdb \<Rightarrow> wdb" where
  "upsert_watch_member rid u now w =
     w\<lparr>watch_members := tbl_upsert (watch_members w) (rid, u) now (\<lambda>_. now)\<rparr>"

text \<open>
  \<open>CreateWatchRoomModal.handleCreate\<close>: name and video URL must be non-empty
  after \<open>trim\<close>; a user is required; the room is inserted with
  \<open>password_hash = isPrivate ? password : null\<close>; the creator is upserted as
  a member.  Each failed call is thrown.
\<close>

definition watch_create ::
  "user_id option \<Rightarrow> time_ms \<Rightarrow> string \<Rightarrow> string \<Rightarrow> string \<Rightarrow> bool \<Rightarrow> string \<Rightarrow> wdb \<Rightarrow> (error + room_id) \<times> wdb" where
  "watch_create me now name desc url priv password w =
     (if js_trim name = [] then (Inl NameRequired, w)
      else if js_trim url = [] then (Inl VideoUrlRequired, w)
      else case me of
        None \<Rightarrow> (Inl NotAuthenticated, w)
      | Some u \<Rightarrow>
          if \<not> w_online w then (Inl StoreUnavailable, w)
          else
            (let rid = w_next_id w;
                 w1 = w\<lparr>watch_rooms := tbl_insert rid \<lparr>w_name = name, w_description = desc, w_video_url = url,
                          w_private = priv, w_password = (if priv then Some password else None), w_creator = u\<rparr>
                          (watch_rooms w),
                        w_next_id := Suc rid\<rparr>
             in (Inr rid, upsert_watch_member rid u now w1)))"

text \<open>
  \<open>JoinWatchRoomModal.handleJoin\<close>: an empty (after \<open>trim\<close>) password is
  refused; a user is required; the room is read with \<open>.single()\<close>; its
  \<open>password_hash\<close> must equal the typed password; then the member is upserted.
\<close>

definition watch_join :: "user_id option \<Rightarrow> time_ms \<Rightarrow> room_id \<Rightarrow> string \<Rightarrow> wdb \<Rightarrow> (error + watch_room_row) \<times> wdb" where
  "watch_join me now rid password w =
     (if js_trim password = [] then (Inl PasswordRequired, w)
      else case me of
        None \<Rightarrow> (Inl NotAuthenticated, w)
      | Some u \<Rightarrow>
          if \<not> w_online w then (Inl StoreUnavailable, w)
          else
            (case map_of (watch_rooms w) rid of
               None \<Rightarrow> (Inl NotFound, w)
             | Some r \<Rightarrow>
                 if w_password r \<noteq> Some password then (Inl WrongPassword, w)
                 else (Inr r, upsert_watch_member rid u now w)))"

text \<open>
  The watch tab: \<open>handleJoinRoom\<close> opens a private room's password modal and a
  public room directly (no member row is written); \<open>handleDeleteRoom\<close>
  deletes by id alone, and a failure is only logged.  The delete button of
  \<open>RoomCard\<close> is shown to the creator only.
\<close>

datatype watch_view = WBrowsing | WJoinPrompt room_id | WInRoom room_id

definition watch_open_room :: "room_id \<Rightarrow> bool \<Rightarrow> watch_view" where
  "watch_open_room rid priv = (if priv then WJoinPrompt rid else WInRoom rid)"

definition watch_delete :: "room_id \<Rightarrow> wdb \<Rightarrow> wdb" where
  "watch_delete rid w =
     (if \<not> w_online w then w
      else w\<lparr>watch_rooms := tbl_delete rid (watch_rooms w),
             watch_members := filter (\<lambda>(k, t). fst k \<noteq> rid) (watch_members w),
             video_states := (video_states w)(rid := None)\<rparr>)"

definition watch_card_shows_delete :: "user_id option \<Rightarrow> watch_room_row \<Rightarrow> bool" where
  "watch_card_shows_delete me r = (me = Some (w_creator r))"

section \<open>The watch tab's room list\<close>

text \<open>
  The tab's own state: the rooms of the last successful \<open>fetchRooms\<close>
  (\<open>select('*, members:watch_room_members(count)')\<close>, newest first, which is
  the order of the table since rows are inserted at its head), \<open>loading\<close>
  and \<open>error\<close>.  The embedded count arrives as a one-element list.
\<close>

record watch_tab =
  wt_rooms :: "(room_id \<times> watch_room_row \<times> nat list) list"
  wt_loading :: bool
  wt_error :: "error option"

definition watch_tab0 :: watch_tab where
  "watch_tab0 = \<lparr>wt_rooms = [], wt_loading = True, wt_error = None\<rparr>"

text \<open>
  \<open>fetchRooms\<close>, run at mount and on every change of \<open>watch_rooms\<close>: on
  success \<open>setRooms\<close>, on failure \<open>setError\<close>; \<open>loading\<close> ends either way.
  Nothing clears \<open>error\<close>.
\<close>

definition watch_fetch_rooms :: "wdb \<Rightarrow> watch_tab \<Rightarrow> watch_tab" where
  "watch_fetch_rooms w t =
     (if \<not> w_online w then t\<lparr>wt_error := Some StoreUnavailable, wt_loading := False\<rparr>
      else t\<lparr>wt_rooms := map (\<lambda>(rid, r). (rid, r, [length (filter (\<lambda>(k, _). fst k = rid) (watch_members w))]))
                            (watch_rooms w),
             wt_loading := False\<rparr>)"

text \<open>The stores read by the fetches the change feed triggers, in order.\<close>

definition watch_tab_run :: "watch_tab \<Rightarrow> wdb list \<Rightarrow> watch_tab" where
  "watch_tab_run = foldl (\<lambda>t w. watch_fetch_rooms w t)"

text \<open>\<open>RoomCard\<close>: name, lock, description, \<open>`${room.members?.length || 0} uye`\<close> and the creator's delete button.\<close>

record watch_card =
  cd_room :: room_id
  cd_name :: string
  cd_private :: bool
  cd_description :: string
  cd_members :: string
  cd_delete :: bool

definition watch_card_of :: "user_id option \<Rightarrow> room_id \<times> watch_room_row \<times> nat list \<Rightarrow> watch_card" where
  "watch_card_of me x =
     (case x of (rid, r, ms) \<Rightarrow>
        \<lparr>cd_room = rid, cd_name = w_name r, cd_private = w_private r, cd_description = w_description r,
         cd_members = digits_nat (length ms) @ '' uye'', cd_delete = watch_card_shows_delete me r\<rparr>)"

text \<open>\<open>RoomSection\<close>: its cards, or the empty-section text.\<close>

definition watch_section :: "user_id option \<Rightarrow> (room_id \<times> watch_room_row \<times> nat list) list \<Rightarrow> watch_card list \<times> string option" where
  "watch_section me rs =
     (map (watch_card_of me) rs, if rs = [] then Some ''Bu kategoride henuz oda yok'' else None)"

datatype watch_tab_view =
    WTLoading
  | WTError error
  | WTLists "watch_card list \<times> string option" "watch_card list \<times> string option" bool

text \<open>
  The render: loading, else the error, else the private and public
  sections and, when both are empty, the invitation to create a room.
\<close>

definition watch_tab_view :: "user_id option \<Rightarrow> watch_tab \<Rightarrow> watch_tab_view" where
  "watch_tab_view me t =
     (if wt_loading t then WTLoading
      else case wt_error t of
        Some e \<Rightarrow> WTError e
      | None \<Rightarrow>
          (let priv = filter (\<lambda>(_, r, _). w_private r) (wt_rooms t);
               pub = filter (\<lambda>(_, r, _). \<not> w_private r) (wt_rooms t)
           in WTLists (watch_section me priv) (watch_section me pub) (priv = [] \<and> pub = [])))"

section \<open>The room's chat\<close>

text \<open>
  \<open>handleSend\<close>: nothing happens for a blank draft or while a send is in
  flight; the trimmed text is inserted; the draft is cleared only on
  success, and a failure sets the screen's error and keeps the draft.
\<close>

record chat_input =
  ci_draft :: string
  ci_loading :: bool
  ci_error :: "string option"

definition watch_send :: "user_id \<Rightarrow> room_id \<Rightarrow> time_ms \<Rightarrow> chat_input \<Rightarrow> wdb \<Rightarrow> chat_input \<times> wdb" where
  "watch_send u rid now ci w =
     (if js_trim (ci_draft ci) = [] \<or> ci_loading ci then (ci, w)
      else if \<not> w_online w then (ci\<lparr>ci_error := Some ''Mesaj gonderilemedi''\<rparr>, w)
      else (ci\<lparr>ci_draft := []\<rparr>,
            w\<lparr>watch_messages := watch_messages w @
                 [\<lparr>msg_id = w_next_id w, msg_room = rid, msg_user = u, msg_content = js_trim (ci_draft ci),
                   msg_created = now\<rparr>],
              w_next_id := Suc (w_next_id w)\<rparr>))"

text \<open>
  \<open>fetchMessages\<close>: the room's messages in ascending \<open>created_at\<close> order
  (a stable sort, so equal times keep the store's order), each with its
  author's name or \<open>'Anonim Kullanici'\<close>.
\<close>

definition room_messages :: "room_id \<Rightarrow> wdb \<Rightarrow> message_row list" where
  "room_messages rid w = sort_key msg_created (filter (\<lambda>m. msg_room m = rid) (watch_messages w))"

definition message_author :: "(user_id \<rightharpoonup> string) \<Rightarrow> message_row \<Rightarrow> string" where
  "message_author names m = (case names (msg_user m) of Some n \<Rightarrow> n | None \<Rightarrow> ''Anonim Kullanici'')"

text \<open>
  The messages stored are trimmed and non-empty, as \<open>handleSend\<close> writes
  them.
\<close>

definition messages_trimmed :: "wdb \<Rightarrow> bool" where
  "messages_trimmed w \<longleftrightarrow>
     list_all (\<lambda>m. msg_content m \<noteq> [] \<and> js_trim (msg_content m) = msg_content m) (watch_messages w)"

text \<open>
  The message list: a message is the user's own when its author is the
  user; the author's name is shown on another user's message that does not
  follow a message of the same author.
\<close>

fun show_sender :: "user_id option \<Rightarrow> user_id option \<Rightarrow> message_row list \<Rightarrow> bool list" where
  "show_sender me prev [] = []"
| "show_sender me prev (m # ms) =
     ((Some (msg_user m) \<noteq> me \<and> prev \<noteq> Some (msg_user m)) # show_sender me (Some (msg_user m)) ms)"


section \<open>Properties\<close>

text \<open>Scenario: a private watch room with password xyz; abc is refused and writes nothing; xyz joins.\<close>

theorem watch_join_scenario:
  "watch_create (Some 1) 0 ''Film'' [] ''https://youtu.be/abc'' True ''xyz'' empty_wdb =
     (Inr 0, snd (watch_create (Some 1) 0 ''Film'' [] ''https://youtu.be/abc'' True ''xyz'' empty_wdb)) \<and>
   watch_join (Some 2) 5 0 ''abc'' (snd (watch_create (Some 1) 0 ''Film'' [] ''https://youtu.be/abc'' True ''xyz'' empty_wdb)) =
     (Inl WrongPassword, snd (watch_create (Some 1) 0 ''Film'' [] ''https://youtu.be/abc'' True ''xyz'' empty_wdb)) \<and>
   map_of (watch_members (snd (watch_create (Some 1) 0 ''Film'' [] ''https://youtu.be/abc'' True ''xyz'' empty_wdb))) (0, 2) = None \<and>
   map_of (watch_members (snd (watch_join (Some 2) 7 0 ''xyz''
      (snd (watch_create (Some 1) 0 ''Film'' [] ''https://youtu.be/abc'' True ''xyz'' empty_wdb))))) (0, 2) = Some 7"
  by (simp add: watch_create_def watch_join_def upsert_watch_member_def empty_wdb_def js_trim_def js_space_def
      tbl_insert_def tbl_upsert_def)

text \<open>C21. A refused join leaves the store unchanged: no member row is written.\<close>

theorem watch_join_refused_unchanged:
  "isl (fst (watch_join me now rid pw w)) \<Longrightarrow> snd (watch_join me now rid pw w) = w"
  by (auto simp: watch_join_def split: option.splits if_splits)

theorem watch_join_refused_unchanged_witness:
  "isl (fst (watch_join (Some 2) 5 0 ''abc'' (snd (watch_create (Some 1) 0 ''Film'' [] ''u'' True ''xyz'' empty_wdb)))) \<and>
   snd (watch_join (Some 2) 5 0 ''abc'' (snd (watch_create (Some 1) 0 ''Film'' [] ''u'' True ''xyz'' empty_wdb))) =
     snd (watch_create (Some 1) 0 ''Film'' [] ''u'' True ''xyz'' empty_wdb)"
  using watch_join_refused_unchanged[where me = "Some 2" and now = 5 and rid = 0 and pw = "''abc''"
      and w = "snd (watch_create (Some 1) 0 ''Film'' [] ''u'' True ''xyz'' empty_wdb)"]
  by (simp add: watch_create_def watch_join_def upsert_watch_member_def empty_wdb_def js_trim_def js_space_def
      tbl_insert_def tbl_upsert_def)

text \<open>C22. A private watch room whose password is blank can never be joined through the password modal.\<close>

theorem watch_blank_password_unjoinable:
  assumes room: "map_of (watch_rooms w) rid = Some r" and pw: "w_password r = Some p" and blank: "js_trim p = []"
  shows "isl (fst (watch_join me now rid typed w))"
proof (cases "js_trim typed = []")
  case True
  then show ?thesis by (simp add: watch_join_def)
next
  case False
  then have "typed \<noteq> p" using blank by auto
  then show ?thesis
    using False room pw by (simp add: watch_join_def split: option.splits)
qed

theorem watch_blank_password_unjoinable_witness:
  "fst (watch_create (Some 1) 0 ''Film'' [] ''u'' True '' '' empty_wdb) = Inr 0 \<and>
   isl (fst (watch_join (Some 1) 9 0 ''x'' (snd (watch_create (Some 1) 0 ''Film'' [] ''u'' True '' '' empty_wdb))))"
  using watch_blank_password_unjoinable[where w = "snd (watch_create (Some 1) 0 ''Film'' [] ''u'' True '' '' empty_wdb)"
      and rid = 0 and p = "'' ''" and me = "Some 1" and now = 9 and typed = "''x''"
      and r = "\<lparr>w_name = ''Film'', w_description = [], w_video_url = ''u'', w_private = True, w_password = Some '' '', w_creator = 1\<rparr>"]
  by (simp add: watch_create_def upsert_watch_member_def empty_wdb_def js_trim_def js_space_def tbl_insert_def)

text \<open>Every message the room's chat stores is trimmed and non-empty.\<close>

theorem watch_send_trimmed:
  "messages_trimmed w \<Longrightarrow> messages_trimmed (snd (watch_send u rid now ci w))"
  by (simp add: watch_send_def messages_trimmed_def)

theorem watch_send_trimmed_witness:
  "messages_trimmed (snd (watch_send 2 0 10 \<lparr>ci_draft = '' hi '', ci_loading = False, ci_error = None\<rparr> empty_wdb)) \<and>
   map msg_content (watch_messages (snd (watch_send 2 0 10 \<lparr>ci_draft = '' hi '', ci_loading = False, ci_error = None\<rparr> empty_wdb))) =
     [''hi'']"
  using watch_send_trimmed[where w = empty_wdb and u = 2 and rid = 0 and now = 10
      and ci = "\<lparr>ci_draft = '' hi '', ci_loading = False, ci_error = None\<rparr>"]
  by (simp add: messages_trimmed_def empty_wdb_def watch_send_def js_trim_def js_space_def)

text \<open>The room's chat lists exactly the room's messages, in ascending creation time.\<close>

theorem room_messages_sorted:
  "sorted (map msg_created (room_messages rid w)) \<and>
   mset (room_messages rid w) = mset (filter (\<lambda>m. msg_room m = rid) (watch_messages w))"
  by (simp add: room_messages_def)

lemma watch_fetch_error_kept:
  "wt_error t = Some e \<Longrightarrow> wt_error (watch_fetch_rooms w t) \<in> {Some e, Some StoreUnavailable}"
  by (simp add: watch_fetch_rooms_def)

lemma watch_tab_run_error:
  "wt_error t \<noteq> None \<Longrightarrow> wt_error (watch_tab_run t ws) \<noteq> None \<and> (ws \<noteq> [] \<longrightarrow> \<not> wt_loading (watch_tab_run t ws))"
proof (induction ws arbitrary: t)
  case Nil
  then show ?case by (simp add: watch_tab_run_def)
next
  case (Cons w ws)
  have "wt_error (watch_fetch_rooms w t) \<noteq> None" "\<not> wt_loading (watch_fetch_rooms w t)"
    using Cons.prems by (simp_all add: watch_fetch_rooms_def)
  then show ?case
    using Cons.IH[of "watch_fetch_rooms w t"] by (cases "ws = []") (simp_all add: watch_tab_run_def)
qed

text \<open>C30. One failed fetchRooms hides the watch tab's room list for good: whatever later fetches return, the tab shows an error.\<close>

theorem watch_tab_error_sticks:
  assumes "\<not> w_online w"
  shows "\<exists>e. watch_tab_view me (watch_tab_run (watch_fetch_rooms w t) ws) = WTError e"
proof -
  have "wt_error (watch_fetch_rooms w t) \<noteq> None" "\<not> wt_loading (watch_fetch_rooms w t)"
    using assms by (simp_all add: watch_fetch_rooms_def)
  then have "wt_error (watch_tab_run (watch_fetch_rooms w t) ws) \<noteq> None \<and>
             \<not> wt_loading (watch_tab_run (watch_fetch_rooms w t) ws)"
    using watch_tab_run_error[of "watch_fetch_rooms w t" ws] by (cases "ws = []") (simp_all add: watch_tab_run_def)
  then show ?thesis
    by (auto simp: watch_tab_view_def split: option.splits)
qed

theorem watch_tab_error_sticks_witness:
  "watch_tab_view (Some 1) (watch_tab_run (watch_fetch_rooms (empty_wdb\<lparr>w_online := False\<rparr>) watch_tab0) [empty_wdb])
     = WTError StoreUnavailable"
  using watch_tab_error_sticks[where w = "empty_wdb\<lparr>w_online := False\<rparr>" and t = watch_tab0 and ws = "[empty_wdb]" and me = "Some 1"]
  by (simp add: watch_tab_view_def watch_tab_run_def watch_fetch_rooms_def empty_wdb_def watch_tab0_def)

end
