(* ===== verification/UIKit.thy ===== *)
theory UIKit
  imports Complex_Main Prelude
begin

text \<open>
  The UI kit the screens are built from: the scales of
  \<open>src/proje/constants/Theme.ts\<close> (\<open>FontSizes\<close>, \<open>Spacing\<close>, \<open>BorderRadius\<close>
  and the colours the kit uses), the \<open>Button\<close> of
  \<open>src/proje/components/UI/Button.tsx\<close> (its style, its content and whether
  a press reaches \<open>onPress\<close>) and the \<open>Input\<close> of
  \<open>src/proje/components/UI/Input.tsx\<close> (focus, the floating label and the
  password eye as a state machine, and what it renders), the \<open>Card\<close>, the
  floating bubbles of \<open>FloatingBubble.tsx\<close> (their random props per
  render), the theme context of \<open>src/proje/context/ThemeContext.tsx\<close> and
  the tab bar of \<open>src/proje/app/(tabs)/_layout.tsx\<close>.  Colours are the hex
  strings of the theme; animations are modelled by the value they settle
  at.
\<close>

section \<open>Theme\<close>

datatype font_token = FsXs | FsSm | FsMd | FsLg | FsXl | FsXxl | FsXxxl

fun font_px :: "font_token \<Rightarrow> nat" where
  "font_px FsXs = 12" | "font_px FsSm = 14" | "font_px FsMd = 16" | "font_px FsLg = 18"
| "font_px FsXl = 20" | "font_px FsXxl = 24" | "font_px FsXxxl = 32"

datatype space_token = SpXs | SpSm | SpMd | SpLg | SpXl | SpXxl

fun spacing_px :: "space_token \<Rightarrow> nat" where
  "spacing_px SpXs = 4" | "spacing_px SpSm = 8" | "spacing_px SpMd = 16"
| "spacing_px SpLg = 24" | "spacing_px SpXl = 32" | "spacing_px SpXxl = 48"

datatype radius_token = BrXs | BrSm | BrMd | BrLg | BrXl | BrRound

fun radius_px :: "radius_token \<Rightarrow> nat" where
  "radius_px BrXs = 4" | "radius_px BrSm = 8" | "radius_px BrMd = 12"
| "radius_px BrLg = 16" | "radius_px BrXl = 24" | "radius_px BrRound = 9999"

type_synonym color = string

definition primary_500 :: color where "primary_500 = ''#4169E1''"
definition dark_gray_600 :: color where "dark_gray_600 = ''#666666''"
definition dark_gray_700 :: color where "dark_gray_700 = ''#4D4D4D''"
definition text_primary :: color where "text_primary = ''#FFFFFF''"
definition transparent :: color where "transparent = ''transparent''"

section \<open>Button\<close>

datatype button_variant = Primary | Secondary | Outline | Ghost

datatype button_size = Small | Medium | Large

text \<open>The sizes are ordered as the kit grows them (small, medium, large).\<close>

fun size_rank :: "button_size \<Rightarrow> nat" where
  "size_rank Small = 0" | "size_rank Medium = 1" | "size_rank Large = 2"

instantiation button_size :: linorder
begin

definition less_eq_button_size where
  "x \<le> y \<longleftrightarrow> size_rank x \<le> size_rank y"

definition less_button_size where
  "x < y \<longleftrightarrow> size_rank x < size_rank (y::button_size)"

instance
proof
  fix x y z :: button_size
  show "(x < y) = (x \<le> y \<and> \<not> y \<le> x)" by (auto simp: less_eq_button_size_def less_button_size_def)
  show "x \<le> x" by (simp add: less_eq_button_size_def)
  show "x \<le> y \<Longrightarrow> y \<le> z \<Longrightarrow> x \<le> z" by (simp add: less_eq_button_size_def)
  show "x \<le> y \<Longrightarrow> y \<le> x \<Longrightarrow> x = y"
    by (cases x; cases y) (simp_all add: less_eq_button_size_def)
  show "x \<le> y \<or> y \<le> x" by (auto simp: less_eq_button_size_def)
qed

end

datatype icon_position = IconLeft | IconRight

text \<open>
  The props of \<open>Button\<close>; \<open>b_icon\<close> is the icon's position when an icon is
  passed (\<open>icon && iconPosition\<close>).
\<close>

record button_props =
  b_title :: string
  b_variant :: button_variant
  b_size :: button_size
  b_loading :: bool
  b_disabled :: bool
  b_icon :: "icon_position option"

definition button_defaults :: "string \<Rightarrow> button_props" where
  "button_defaults t = \<lparr>b_title = t, b_variant = Primary, b_size = Medium, b_loading = False,
                        b_disabled = False, b_icon = None\<rparr>"

text \<open>\<open>getButtonStyles\<close>: opacity (in percent), background, border, paddings and radius.\<close>

record button_style =
  bs_opacity :: nat
  bs_background :: color
  bs_border :: "color option"
  bs_pad_v :: nat
  bs_pad_h :: nat
  bs_radius :: nat

definition get_button_styles :: "button_props \<Rightarrow> button_style" where
  "get_button_styles p =
     (let bg = (case b_variant p of Primary \<Rightarrow> primary_500 | Secondary \<Rightarrow> dark_gray_700
                                  | Outline \<Rightarrow> transparent | Ghost \<Rightarrow> transparent);
          border = (case b_variant p of Outline \<Rightarrow> Some primary_500 | _ \<Rightarrow> None);
          (pv, ph, r) = (case b_size p of Small \<Rightarrow> (SpXs, SpMd, BrSm) | Medium \<Rightarrow> (SpSm, SpLg, BrMd)
                                       | Large \<Rightarrow> (SpMd, SpXl, BrLg))
      in \<lparr>bs_opacity = (if b_disabled p then 50 else 100), bs_background = bg, bs_border = border,
          bs_pad_v = spacing_px pv, bs_pad_h = spacing_px ph, bs_radius = radius_px r\<rparr>)"

text \<open>\<open>getTextStyles\<close>: the title's colour and font size.\<close>

definition get_text_styles :: "button_props \<Rightarrow> color \<times> nat" where
  "get_text_styles p =
     ((case b_variant p of Primary \<Rightarrow> text_primary | Secondary \<Rightarrow> text_primary
                         | Outline \<Rightarrow> primary_500 | Ghost \<Rightarrow> primary_500),
      font_px (case b_size p of Small \<Rightarrow> FsSm | Medium \<Rightarrow> FsMd | Large \<Rightarrow> FsLg))"

text \<open>\<open>renderContent\<close>: the spinner while loading, else the title with the icon on its side.\<close>

datatype button_item = BSpinner color | BIcon | BTitle string "color \<times> nat" "nat \<times> nat"

definition render_content :: "button_props \<Rightarrow> button_item list" where
  "render_content p =
     (if b_loading p then [BSpinner (if b_variant p = Primary then ''white'' else primary_500)]
      else case b_icon p of
        Some IconLeft \<Rightarrow> [BIcon, BTitle (b_title p) (get_text_styles p) (spacing_px SpSm, 0)]
      | Some IconRight \<Rightarrow> [BTitle (b_title p) (get_text_styles p) (0, spacing_px SpSm), BIcon]
      | None \<Rightarrow> [BTitle (b_title p) (get_text_styles p) (0, 0)])"

text \<open>The touchable: its style, its content, and \<open>disabled={disabled || isLoading}\<close>.\<close>

record button_view =
  bv_style :: button_style
  bv_content :: "button_item list"
  bv_enabled :: bool

definition button :: "button_props \<Rightarrow> button_view" where
  "button p = \<lparr>bv_style = get_button_styles p, bv_content = render_content p,
               bv_enabled = (\<not> (b_disabled p \<or> b_loading p))\<rparr>"

text \<open>A press calls \<open>onPress\<close> exactly when the touchable is enabled.\<close>

definition button_press :: "button_props \<Rightarrow> ('s \<Rightarrow> 's) \<Rightarrow> 's \<Rightarrow> 's" where
  "button_press p on_press s = (if bv_enabled (button p) then on_press s else s)"

section \<open>Input\<close>

text \<open>
  The props of \<open>Input\<close> that decide what it shows: \<open>label\<close>, \<open>error\<close>,
  whether a left icon is passed, \<open>secureTextEntry\<close>, and \<open>value\<close>
  (\<open>None\<close> for undefined).
\<close>

record input_props =
  ip_label :: "string option"
  ip_error :: "string option"
  ip_left_icon :: bool
  ip_secure :: bool
  ip_value :: "string option"

text \<open>
  The state: \<open>isFocused\<close>, \<open>isPasswordVisible\<close>, whether the label is raised
  (\<open>labelScale\<close> 0.85 and \<open>labelTranslateY\<close> -20, else 1 and 0) and whether the
  border has the focus colour.
\<close>

record input_state =
  is_focused :: bool
  is_pw_visible :: bool
  is_label_up :: bool
  is_border_focus :: bool

definition input_mount :: "input_props \<Rightarrow> input_state" where
  "input_mount p = \<lparr>is_focused = False, is_pw_visible = False, is_label_up = (\<not> js_falsy (ip_value p)),
                    is_border_focus = False\<rparr>"

datatype input_event = IFocus | IBlur | ITogglePassword | IValue "string option"

text \<open>
  \<open>handleFocus\<close>, \<open>handleBlur\<close> and \<open>togglePasswordVisibility\<close>; \<open>IValue\<close> is a
  new \<open>value\<close> prop from the parent (the shared values keep their state).
\<close>

fun input_step :: "input_props \<Rightarrow> input_state \<Rightarrow> input_event \<Rightarrow> input_props \<times> input_state" where
  "input_step p s IFocus =
     (p, s\<lparr>is_focused := True, is_border_focus := True,
           is_label_up := (if js_falsy (ip_value p) then True else is_label_up s)\<rparr>)"
| "input_step p s IBlur =
     (p, s\<lparr>is_focused := False, is_border_focus := False,
           is_label_up := (if js_falsy (ip_value p) then False else is_label_up s)\<rparr>)"
| "input_step p s ITogglePassword = (p, s\<lparr>is_pw_visible := \<not> is_pw_visible s\<rparr>)"
| "input_step p s (IValue v) = (p\<lparr>ip_value := v\<rparr>, s)"

definition input_run :: "input_props \<Rightarrow> input_state \<Rightarrow> input_event list \<Rightarrow> input_props \<times> input_state" where
  "input_run p s es = foldl (\<lambda>(p, s) e. input_step p s e) (p, s) es"

text \<open>What the input renders.\<close>

record input_view =
  iv_label :: "(string \<times> bool) option"
  iv_error_style :: bool
  iv_focus_style :: bool
  iv_masked :: bool
  iv_eye :: "bool option"
  iv_pad_left :: "nat option"
  iv_pad_right :: "nat option"
  iv_error_text :: "string option"

definition input_view :: "input_props \<Rightarrow> input_state \<Rightarrow> input_view" where
  "input_view p s =
     \<lparr>iv_label = (if \<not> js_falsy (ip_label p) then Some (the (ip_label p), is_label_up s) else None),
      iv_error_style = (\<not> js_falsy (ip_error p)),
      iv_focus_style = is_focused s,
      iv_masked = (ip_secure p \<and> \<not> is_pw_visible s),
      iv_eye = (if ip_secure p then Some (is_pw_visible s) else None),
      iv_pad_left = (if ip_left_icon p then Some 8 else None),
      iv_pad_right = (if ip_secure p then Some 40 else None),
      iv_error_text = (if \<not> js_falsy (ip_error p) then ip_error p else None)\<rparr>"

section \<open>Card\<close>

datatype elevation = ElevSmall | ElevMedium | ElevLarge

text \<open>\<open>Shadows\<close> of the theme: offset height, opacity (in hundredths) and Android elevation.\<close>

fun shadow :: "elevation \<Rightarrow> nat \<times> nat \<times> nat" where
  "shadow ElevSmall = (1, 20, 2)" | "shadow ElevMedium = (2, 25, 5)" | "shadow ElevLarge = (4, 30, 8)"

record card_props =
  cp_elevation :: elevation
  cp_animated :: bool
  cp_on_press :: bool

text \<open>
  What \<open>Card\<close> renders: its shadow, whether it is an animated view with
  touch handlers, and the scale its touch sets (\<open>handlePressIn\<close> and
  \<open>handlePressOut\<close>, in hundredths).  \<open>onPress\<close> only gates the animation:
  no handler of the card calls it.
\<close>

record card_view =
  cv_shadow :: "nat \<times> nat \<times> nat"
  cv_touch :: bool
  cv_radius :: nat

definition card :: "card_props \<Rightarrow> card_view" where
  "card p = \<lparr>cv_shadow = shadow (cp_elevation p), cv_touch = cp_animated p, cv_radius = radius_px BrMd\<rparr>"

datatype touch = TouchStart | TouchEnd

definition card_touch :: "card_props \<Rightarrow> nat \<Rightarrow> touch \<Rightarrow> nat" where
  "card_touch p scale t =
     (if cp_animated p \<and> cp_on_press p then (case t of TouchStart \<Rightarrow> 98 | TouchEnd \<Rightarrow> 100)
      else scale)"

section \<open>Theme context and tab bar\<close>

text \<open>
  \<open>ThemeProvider\<close> holds \<open>isDarkMode\<close> (initially dark) and \<open>toggleTheme\<close>;
  the \<open>theme\<close> it provides is \<open>Colors\<close> whatever the mode.  \<open>useTheme\<close>
  outside a provider throws.  The palette is given by the two entries the
  tab bar reads.
\<close>

record theme_ctx =
  tc_dark :: bool

definition theme_provider0 :: theme_ctx where
  "theme_provider0 = \<lparr>tc_dark = True\<rparr>"

definition toggle_theme :: "theme_ctx \<Rightarrow> theme_ctx" where
  "toggle_theme c = c\<lparr>tc_dark := \<not> tc_dark c\<rparr>"

definition text_inactive :: color where "text_inactive = ''#666666''"

definition ctx_theme :: "theme_ctx \<Rightarrow> color \<times> color" where
  "ctx_theme c = (primary_500, text_inactive)"

definition use_theme :: "theme_ctx option \<Rightarrow> string + (color \<times> color)" where
  "use_theme c = (case c of None \<Rightarrow> Inl ''useTheme must be used within a ThemeProvider'' | Some t \<Rightarrow> Inr (ctx_theme t))"

text \<open>\<open>TabLayout\<close>: the five tabs in order, with their titles and the tint colours read from the theme.\<close>

record tab_bar =
  tb_tabs :: "(string \<times> string) list"
  tb_active_tint :: color
  tb_inactive_tint :: color
  tb_height :: nat

definition tab_layout :: "theme_ctx option \<Rightarrow> string + tab_bar" where
  "tab_layout c =
     (case use_theme c of
        Inl e \<Rightarrow> Inl e
      | Inr (active, inactive) \<Rightarrow>
          Inr \<lparr>tb_tabs = [(''index'', ''Home''), (''chat'', ''Chat''), (''watch'', ''Watch''),
                          (''study'', ''Study''), (''profile'', ''Profile'')],
               tb_active_tint = active, tb_inactive_tint = inactive, tb_height = 60\<rparr>)"

section \<open>Floating bubbles\<close>

text \<open>
  \<open>FloatingBubble\<close>'s default props are expressions over
  \<open>Math.random()\<close>, evaluated again at every render of the bubble; the
  draws are parameters in \<open>[0, 1)\<close>.  The size is read by the style at
  every render; start position, delay and duration are read only by the
  mount effect.
\<close>

record bubble_props =
  bp_size :: real
  bp_delay :: real
  bp_duration :: real
  bp_start_x :: real
  bp_start_y :: real

definition bubble_defaults :: "real \<Rightarrow> real \<Rightarrow> real \<times> real \<times> real \<times> real \<Rightarrow> bubble_props" where
  "bubble_defaults width height rs =
     (case rs of (r1, r2, r3, r4) \<Rightarrow>
        \<lparr>bp_size = 30 + r1 * 50, bp_delay = r2 * 10000, bp_duration = 15000 + r3 * 20000,
         bp_start_x = r4 * width, bp_start_y = height + 100\<rparr>)"

text \<open>The bubble's box: width, height, corner radius and colour.\<close>

definition bubble_box :: "bubble_props \<Rightarrow> string \<Rightarrow> real \<times> real \<times> real \<times> string" where
  "bubble_box p color = (bp_size p, bp_size p, bp_size p / 2, color)"

definition bubble_count :: nat where
  "bubble_count = 12"

text \<open>\<open>FloatingBubbleBackground\<close>: bubble \<open>i\<close> has hue \<open>i * (360 / 12)\<close>, printed in an \<open>hsla\<close> colour.\<close>

definition bubble_color :: "nat \<Rightarrow> string" where
  "bubble_color i = ''hsla('' @ digits_nat (i * (360 div bubble_count)) @ '', 70%, 65%, 0.1)''"

definition bubble_background :: "real \<Rightarrow> real \<Rightarrow> (nat \<Rightarrow> real \<times> real \<times> real \<times> real) \<Rightarrow> (real \<times> real \<times> real \<times> string) list" where
  "bubble_background width height draws =
     map (\<lambda>i. bubble_box (bubble_defaults width height (draws i)) (bubble_color i)) [0..<bubble_count]"

text \<open>The parent changes \<open>value\<close> only while the field has the focus (the user types into it).\<close>

fun typed_while_focused :: "input_props \<Rightarrow> input_state \<Rightarrow> input_event list \<Rightarrow> bool" where
  "typed_while_focused p s [] = True"
| "typed_while_focused p s (e # es) =
     ((case e of IValue _ \<Rightarrow> is_focused s | _ \<Rightarrow> True) \<and>
      typed_while_focused (fst (input_step p s e)) (snd (input_step p s e)) es)"

section \<open>Lemmas\<close>

lemma input_run_Cons [simp]:
  "input_run p s (e # es) = input_run (fst (input_step p s e)) (snd (input_step p s e)) es"
  by (simp add: input_run_def split_def)

lemma input_run_Nil [simp]: "input_run p s [] = (p, s)"
  by (simp add: input_run_def)

text \<open>Each step keeps the label raised exactly when the field is focused or holds text.\<close>

lemma input_step_label:
  assumes "is_label_up s = (is_focused s \<or> \<not> js_falsy (ip_value p))"
      and "case e of IValue _ \<Rightarrow> is_focused s | _ \<Rightarrow> True"
  shows "is_label_up (snd (input_step p s e)) =
         (is_focused (snd (input_step p s e)) \<or> \<not> js_falsy (ip_value (fst (input_step p s e))))"
  using assms by (cases e) auto

text \<open>A loading or disabled button swallows the press.\<close>

lemma button_press_blocked:
  "b_loading p \<or> b_disabled p \<Longrightarrow> button_press p f s = s"
  by (auto simp: button_press_def button_def)

text \<open>A larger button size never gives smaller paddings, corner radius or title font.\<close>

lemma button_size_mono:
  assumes "b_size p \<le> b_size q"
  shows "bs_pad_v (get_button_styles p) \<le> bs_pad_v (get_button_styles q) \<and>
         bs_pad_h (get_button_styles p) \<le> bs_pad_h (get_button_styles q) \<and>
         bs_radius (get_button_styles p) \<le> bs_radius (get_button_styles q) \<and>
         snd (get_text_styles p) \<le> snd (get_text_styles q)"
  using assms
  by (cases "b_size p"; cases "b_size q")
     (simp_all add: less_eq_button_size_def get_button_styles_def get_text_styles_def Let_def)

text \<open>\<open>toggleTheme\<close> changes nothing that is drawn: the tab bar is the same in both modes.\<close>

lemma toggle_theme_invisible: "tab_layout (Some (toggle_theme c)) = tab_layout (Some c)"
  by (simp add: tab_layout_def use_theme_def ctx_theme_def)

lemma input_run_label:
  "is_label_up s = (is_focused s \<or> \<not> js_falsy (ip_value p)) \<Longrightarrow> typed_while_focused p s es \<Longrightarrow>
   is_label_up (snd (input_run p s es)) = (is_focused (snd (input_run p s es)) \<or> \<not> js_falsy (ip_value (fst (input_run p s es))))"
proof (induction es arbitrary: p s)
  case Nil
  then show ?case by simp
next
  case (Cons e es)
  have "is_label_up (snd (input_step p s e)) =
        (is_focused (snd (input_step p s e)) \<or> \<not> js_falsy (ip_value (fst (input_step p s e))))"
    using Cons.prems by (intro input_step_label) simp_all
  then show ?case using Cons.IH Cons.prems(2) by simp
qed

text \<open>
  C39. The floating label of an input is raised exactly when the field is
  focused or holds text, after any sequence of focus, blur, password-eye
  and typing events from mount in which the text changes only while the
  field has the focus.
\<close>

theorem input_label_tracks_focus:
  assumes "typed_while_focused p (input_mount p) es"
  shows "is_label_up (snd (input_run p (input_mount p) es)) =
         (is_focused (snd (input_run p (input_mount p) es)) \<or> \<not> js_falsy (ip_value (fst (input_run p (input_mount p) es))))"
  using input_run_label[OF _ assms] by (simp add: input_mount_def)

theorem input_label_tracks_focus_witness:
  "typed_while_focused \<lparr>ip_label = Some ''Oda Adi'', ip_error = None, ip_left_icon = True, ip_secure = False, ip_value = Some []\<rparr>
     (input_mount \<lparr>ip_label = Some ''Oda Adi'', ip_error = None, ip_left_icon = True, ip_secure = False, ip_value = Some []\<rparr>)
     [IFocus, IValue (Some ''Fizik''), IBlur, ITogglePassword] \<and>
   is_label_up (snd (input_run \<lparr>ip_label = Some ''Oda Adi'', ip_error = None, ip_left_icon = True, ip_secure = False, ip_value = Some []\<rparr>
     (input_mount \<lparr>ip_label = Some ''Oda Adi'', ip_error = None, ip_left_icon = True, ip_secure = False, ip_value = Some []\<rparr>)
     [IFocus, IValue (Some ''Fizik''), IBlur, ITogglePassword])) = True"
proof
  show h: "typed_while_focused \<lparr>ip_label = Some ''Oda Adi'', ip_error = None, ip_left_icon = True, ip_secure = False, ip_value = Some []\<rparr>
     (input_mount \<lparr>ip_label = Some ''Oda Adi'', ip_error = None, ip_left_icon = True, ip_secure = False, ip_value = Some []\<rparr>)
     [IFocus, IValue (Some ''Fizik''), IBlur, ITogglePassword]"
    by (simp add: input_mount_def)
  show "is_label_up (snd (input_run \<lparr>ip_label = Some ''Oda Adi'', ip_error = None, ip_left_icon = True, ip_secure = False, ip_value = Some []\<rparr>
     (input_mount \<lparr>ip_label = Some ''Oda Adi'', ip_error = None, ip_left_icon = True, ip_secure = False, ip_value = Some []\<rparr>)
     [IFocus, IValue (Some ''Fizik''), IBlur, ITogglePassword])) = True"
    using input_label_tracks_focus[OF h] by (simp add: js_falsy_def)
qed

text \<open>Every bubble is between 30 and 80 points wide.\<close>

lemma bubble_size_bounds:
  "0 \<le> r1 \<Longrightarrow> r1 < 1 \<Longrightarrow> 30 \<le> bp_size (bubble_defaults w h (r1, r2, r3, r4)) \<and> bp_size (bubble_defaults w h (r1, r2, r3, r4)) < 80"
  by (simp add: bubble_defaults_def)

text \<open>
  A re-render of the background draws new sizes: any two different draws
  give the bubble a different box, so the bubbles change size whenever
  the screen that holds them re-renders.
\<close>

lemma bubble_rerender_resizes:
  "fst r \<noteq> fst r' \<Longrightarrow> i < bubble_count \<Longrightarrow> bubble_background w h (\<lambda>_. r) ! i \<noteq> bubble_background w h (\<lambda>_. r') ! i"
  by (cases r; cases r') (simp add: bubble_background_def bubble_box_def bubble_defaults_def)

end
