(* ===== verification/RoomModals.thy ===== *)
theory RoomModals
  imports StudyRooms WatchRooms UIKit
begin

text \<open>
  The four room modals as forms (\<open>src/proje/components/Study/CreateRoomModal.tsx\<close>,
  \<open>JoinRoomModal.tsx\<close> and their watch counterparts under
  \<open>components/Watch\<close>): the fields and the private toggle, the press that
  runs the handler already modelled (\<open>create_modal\<close>, \<open>join_modal\<close>,
  \<open>watch_create\<close>, \<open>watch_join\<close>), \<open>handleClose\<close> that resets the form, and the
  render.  A press reports whether \<open>onSuccess\<close> was called; after it the
  form is reset by \<open>handleClose\<close>.  The error line holds the thrown error.
\<close>

record room_form =
  rf_name :: string
  rf_desc :: string
  rf_video :: string
  rf_private :: bool
  rf_password :: string
  rf_error :: "error option"

definition room_form0 :: room_form where
  "room_form0 = \<lparr>rf_name = [], rf_desc = [], rf_video = [], rf_private = False, rf_password = [], rf_error = None\<rparr>"

datatype form_event = FName string | FDesc string | FVideo string | FTogglePrivate | FPassword string | FClose

text \<open>The fields' \<open>onChangeText\<close>, the toggle \<open>setIsPrivate(!isPrivate)\<close>, and \<open>handleClose\<close>.\<close>

fun form_step :: "room_form \<Rightarrow> form_event \<Rightarrow> room_form" where
  "form_step f (FName s) = f\<lparr>rf_name := s\<rparr>"
| "form_step f (FDesc s) = f\<lparr>rf_desc := s\<rparr>"
| "form_step f (FVideo s) = f\<lparr>rf_video := s\<rparr>"
| "form_step f FTogglePrivate = f\<lparr>rf_private := \<not> rf_private f\<rparr>"
| "form_step f (FPassword s) = f\<lparr>rf_password := s\<rparr>"
| "form_step f FClose = room_form0"

text \<open>
  The study tab's \<open>onSuccess(newRoom)\<close> for the create modal, as the modal
  calls it (\<open>onSuccess()\<close>, no argument): \<open>setShowCreateModal(false)\<close>, then
  \<open>newRoom.id\<close> of \<open>undefined\<close> throws a \<open>TypeError\<close>.  The value is what the
  callback throws, if anything.
\<close>

definition study_tab_on_success :: "room_id \<Rightarrow> error option" where
  "study_tab_on_success r = Some ClientTypeError"

text \<open>
  The create buttons: the handler's error is shown; success calls
  \<open>onSuccess\<close> and then \<open>handleClose\<close>, which resets the form, unless the
  callback throws: then its error is shown and the form is kept.
\<close>

definition study_create_press :: "user_id option \<Rightarrow> time_ms \<Rightarrow> db \<Rightarrow> room_form \<Rightarrow> room_form \<times> db \<times> bool" where
  "study_create_press me now d f =
     (case create_modal me now (rf_name f) (rf_desc f) (rf_private f) (rf_password f) d of
        (Inl e, d') \<Rightarrow> (f\<lparr>rf_error := Some e\<rparr>, d', False)
      | (Inr r, d') \<Rightarrow>
          (case study_tab_on_success r of
             None \<Rightarrow> (room_form0, d', True)
           | Some e \<Rightarrow> (f\<lparr>rf_error := Some e\<rparr>, d', True)))"

definition watch_create_press :: "user_id option \<Rightarrow> time_ms \<Rightarrow> wdb \<Rightarrow> room_form \<Rightarrow> room_form \<times> wdb \<times> bool" where
  "watch_create_press me now w f =
     (case watch_create me now (rf_name f) (rf_desc f) (rf_video f) (rf_private f) (rf_password f) w of
        (Inl e, w') \<Rightarrow> (f\<lparr>rf_error := Some e\<rparr>, w', False)
      | (Inr _, w') \<Rightarrow> (room_form0, w', True))"

text \<open>The join modals: one password field.\<close>

record join_form =
  jf_password :: string
  jf_error :: "error option"

definition join_form0 :: join_form where
  "join_form0 = \<lparr>jf_password = [], jf_error = None\<rparr>"

definition study_join_press :: "user_id option \<Rightarrow> time_ms \<Rightarrow> room_id \<Rightarrow> db \<Rightarrow> join_form \<Rightarrow> join_form \<times> db \<times> bool" where
  "study_join_press me now rid d f =
     (case join_modal me now rid (jf_password f) d of
        (Inl e, d') \<Rightarrow> (f\<lparr>jf_error := Some e\<rparr>, d', False)
      | (Inr _, d') \<Rightarrow> (join_form0, d', True))"

definition watch_join_press :: "user_id option \<Rightarrow> time_ms \<Rightarrow> room_id \<Rightarrow> wdb \<Rightarrow> join_form \<Rightarrow> join_form \<times> wdb \<times> bool" where
  "watch_join_press me now rid w f =
     (case watch_join me now rid (jf_password f) w of
        (Inl e, w') \<Rightarrow> (f\<lparr>jf_error := Some e\<rparr>, w', False)
      | (Inr _, w') \<Rightarrow> (join_form0, w', True))"

text \<open>The create modals' render: the fields shown (the password field only for a private room) and the error line.\<close>

record form_view =
  fv_title :: string
  fv_fields :: "string list"
  fv_private :: bool
  fv_error :: "error option"

definition create_form_view :: "bool \<Rightarrow> room_form \<Rightarrow> form_view" where
  "create_form_view watch f =
     \<lparr>fv_title = (if watch then ''Yeni Izleme Odasi'' else ''Yeni Calisma Odasi''),
      fv_fields = [rf_name f, rf_desc f] @ (if watch then [rf_video f] else []) @
                  (if rf_private f then [rf_password f] else []),
      fv_private = rf_private f, fv_error = rf_error f\<rparr>"

definition join_form_view :: "string \<Rightarrow> join_form \<Rightarrow> form_view" where
  "join_form_view room_name f =
     \<lparr>fv_title = ''Sifreli Odaya Katil'', fv_fields = [room_name, jf_password f], fv_private = True,
      fv_error = jf_error f\<rparr>"

section \<open>The press in flight\<close>

text \<open>
  The handlers are \<open>async\<close>: \<open>setLoading(true)\<close>, then the awaited calls,
  then \<open>onSuccess\<close> and \<open>handleClose\<close> or \<open>setError\<close>, and
  \<open>setLoading(false)\<close> in \<open>finally\<close>.  A modal's state is its form, the
  loading flag the button receives as \<open>isLoading\<close>, the result of the call in
  flight, and the number of \<open>onSuccess\<close> calls made.  A press goes through
  \<open>Button\<close> (\<open>button_press\<close>), which drops it while loading; the calls'
  writes are made when the press is handled and their result is delivered
  by \<open>MSettle\<close>.  A check that throws before the handler's first
  \<open>await\<close> (a blank name, link or password, or no user) is caught in the
  same synchronous run of the handler: React batches \<open>setLoading(true)\<close>,
  \<open>setError\<close> and \<open>setLoading(false)\<close>, so such a press shows its error at
  once, is never loading and makes no call.
\<close>

record ('f, 'r) modal_st =
  ms_form :: 'f
  ms_loading :: bool
  ms_pending :: "(error + 'r) option"
  ms_success :: nat

datatype 'e modal_event = MForm 'e | MPress "user_id option" time_ms | MSettle

definition modal0 :: "'f \<Rightarrow> ('f, 'r) modal_st" where
  "modal0 f = \<lparr>ms_form = f, ms_loading = False, ms_pending = None, ms_success = 0\<rparr>"

text \<open>The checks each handler makes before its first \<open>await\<close>, in the source's order.\<close>

definition study_create_guard :: "user_id option \<Rightarrow> room_form \<Rightarrow> error option" where
  "study_create_guard me f = (if js_trim (rf_name f) = [] then Some NameRequired else None)"

definition watch_create_guard :: "user_id option \<Rightarrow> room_form \<Rightarrow> error option" where
  "watch_create_guard me f =
     (if js_trim (rf_name f) = [] then Some NameRequired
      else if js_trim (rf_video f) = [] then Some VideoUrlRequired
      else if me = None then Some NotAuthenticated else None)"

definition study_join_guard :: "user_id option \<Rightarrow> join_form \<Rightarrow> error option" where
  "study_join_guard me f = (if js_trim (jf_password f) = [] then Some PasswordRequired else None)"

definition watch_join_guard :: "user_id option \<Rightarrow> join_form \<Rightarrow> error option" where
  "watch_join_guard me f =
     (if js_trim (jf_password f) = [] then Some PasswordRequired
      else if me = None then Some NotAuthenticated else None)"

text \<open>The submit button of a modal (\<open>size="large"\<close>, \<open>isLoading={loading}\<close>).\<close>

definition submit_button :: "string \<Rightarrow> bool \<Rightarrow> button_props" where
  "submit_button t loading = (button_defaults t)\<lparr>b_size := Large, b_loading := loading\<rparr>"

text \<open>
  One step of a modal, given its form step, how the error line is set, the
  reset form of \<open>handleClose\<close>, the handler's synchronous checks, the call
  it makes after them, what the parent's \<open>onSuccess\<close> throws (if anything)
  and its button's title.
\<close>

fun modal_step ::
  "('f \<Rightarrow> 'e \<Rightarrow> 'f) \<Rightarrow> ('f \<Rightarrow> error option \<Rightarrow> 'f) \<Rightarrow> 'f \<Rightarrow> (user_id option \<Rightarrow> 'f \<Rightarrow> error option) \<Rightarrow>
   (user_id option \<Rightarrow> time_ms \<Rightarrow> 'f \<Rightarrow> 'd \<Rightarrow> (error + 'r) \<times> 'd) \<Rightarrow> ('r \<Rightarrow> error option) \<Rightarrow> string \<Rightarrow>
   ('f, 'r) modal_st \<times> 'd \<Rightarrow> 'e modal_event \<Rightarrow> ('f, 'r) modal_st \<times> 'd" where
  "modal_step fstep err reset pre call ok t (m, d) (MForm e) = (m\<lparr>ms_form := fstep (ms_form m) e\<rparr>, d)"
| "modal_step fstep err reset pre call ok t (m, d) (MPress me now) =
     button_press (submit_button t (ms_loading m))
       (\<lambda>(m, d). case pre me (ms_form m) of
                   Some e \<Rightarrow> (m\<lparr>ms_form := err (err (ms_form m) None) (Some e)\<rparr>, d)
                 | None \<Rightarrow>
                     (case call me now (ms_form m) d of
                        (r, d') \<Rightarrow> (m\<lparr>ms_form := err (ms_form m) None, ms_loading := True, ms_pending := Some r\<rparr>, d')))
       (m, d)"
| "modal_step fstep err reset pre call ok t (m, d) MSettle =
     (case ms_pending m of
        None \<Rightarrow> (m, d)
      | Some (Inl e) \<Rightarrow> (m\<lparr>ms_form := err (ms_form m) (Some e), ms_loading := False, ms_pending := None\<rparr>, d)
      | Some (Inr r) \<Rightarrow>
          (case ok r of
             None \<Rightarrow> (m\<lparr>ms_form := reset, ms_loading := False, ms_pending := None,
                          ms_success := Suc (ms_success m)\<rparr>, d)
           | Some e \<Rightarrow> (m\<lparr>ms_form := err (ms_form m) (Some e), ms_loading := False, ms_pending := None,
                            ms_success := Suc (ms_success m)\<rparr>, d)))"

definition modal_run ::
  "('f \<Rightarrow> 'e \<Rightarrow> 'f) \<Rightarrow> ('f \<Rightarrow> error option \<Rightarrow> 'f) \<Rightarrow> 'f \<Rightarrow> (user_id option \<Rightarrow> 'f \<Rightarrow> error option) \<Rightarrow>
   (user_id option \<Rightarrow> time_ms \<Rightarrow> 'f \<Rightarrow> 'd \<Rightarrow> (error + 'r) \<times> 'd) \<Rightarrow> ('r \<Rightarrow> error option) \<Rightarrow> string \<Rightarrow>
   ('f, 'r) modal_st \<times> 'd \<Rightarrow> 'e modal_event list \<Rightarrow> ('f, 'r) modal_st \<times> 'd" where
  "modal_run fstep err reset pre call ok t = foldl (modal_step fstep err reset pre call ok t)"

text \<open>The four modals as instances: their calls are the handlers modelled in \<open>StudyRooms\<close> and \<open>WatchRooms\<close>.\<close>

definition study_create_call :: "user_id option \<Rightarrow> time_ms \<Rightarrow> room_form \<Rightarrow> db \<Rightarrow> (error + room_id) \<times> db" where
  "study_create_call me now f d = create_modal me now (rf_name f) (rf_desc f) (rf_private f) (rf_password f) d"

definition watch_create_call :: "user_id option \<Rightarrow> time_ms \<Rightarrow> room_form \<Rightarrow> wdb \<Rightarrow> (error + room_id) \<times> wdb" where
  "watch_create_call me now f w = watch_create me now (rf_name f) (rf_desc f) (rf_video f) (rf_private f) (rf_password f) w"

definition study_create_modal :: "(room_form, room_id) modal_st \<times> db \<Rightarrow> form_event modal_event list \<Rightarrow> (room_form, room_id) modal_st \<times> db" where
  "study_create_modal = modal_run form_step (\<lambda>f e. f\<lparr>rf_error := e\<rparr>) room_form0 study_create_guard study_create_call study_tab_on_success ''Oda Olustur''"

definition watch_create_modal :: "(room_form, room_id) modal_st \<times> wdb \<Rightarrow> form_event modal_event list \<Rightarrow> (room_form, room_id) modal_st \<times> wdb" where
  "watch_create_modal = modal_run form_step (\<lambda>f e. f\<lparr>rf_error := e\<rparr>) room_form0 watch_create_guard watch_create_call (\<lambda>_. None) ''Oda Olustur''"

text \<open>The join modals' form: the password field and \<open>handleClose\<close>.\<close>

datatype join_event = JPassword string | JClose

fun join_form_step :: "join_form \<Rightarrow> join_event \<Rightarrow> join_form" where
  "join_form_step f (JPassword s) = f\<lparr>jf_password := s\<rparr>"
| "join_form_step f JClose = join_form0"

definition study_join_call :: "room_id \<Rightarrow> user_id option \<Rightarrow> time_ms \<Rightarrow> join_form \<Rightarrow> db \<Rightarrow> (error + room_row) \<times> db" where
  "study_join_call rid me now f d = join_modal me now rid (jf_password f) d"

definition watch_join_call ::
  "room_id \<Rightarrow> user_id option \<Rightarrow> time_ms \<Rightarrow> join_form \<Rightarrow> wdb \<Rightarrow> (error + watch_room_row) \<times> wdb" where
  "watch_join_call rid me now f w = watch_join me now rid (jf_password f) w"

definition study_join_modal ::
  "room_id \<Rightarrow> (join_form, room_row) modal_st \<times> db \<Rightarrow> join_event modal_event list \<Rightarrow> (join_form, room_row) modal_st \<times> db" where
  "study_join_modal rid = modal_run join_form_step (\<lambda>f e. f\<lparr>jf_error := e\<rparr>) join_form0 study_join_guard (study_join_call rid) (\<lambda>_. None) ''Odaya Katil''"

definition watch_join_modal ::
  "room_id \<Rightarrow> (join_form, watch_room_row) modal_st \<times> wdb \<Rightarrow> join_event modal_event list \<Rightarrow>
   (join_form, watch_room_row) modal_st \<times> wdb" where
  "watch_join_modal rid = modal_run join_form_step (\<lambda>f e. f\<lparr>jf_error := e\<rparr>) join_form0 watch_join_guard (watch_join_call rid) (\<lambda>_. None) ''Odaya Katil''"

section \<open>Lemmas\<close>

text \<open>A refused create keeps every field, so the user can correct it; only the error changes.\<close>

lemma study_create_refused_keeps_fields:
  "\<not> snd (snd (study_create_press me now d f)) \<Longrightarrow>
   (fst (study_create_press me now d f))\<lparr>rf_error := rf_error f\<rparr> = f"
  by (auto simp: study_create_press_def split: sum.splits prod.splits option.splits)

text \<open>A password typed before the room is made public again is hidden but kept, and is not sent.\<close>

lemma study_public_create_ignores_password:
  "\<not> rf_private f \<Longrightarrow>
   snd (study_create_press me now d (f\<lparr>rf_password := p\<rparr>)) = snd (study_create_press me now d f)"
  by (simp add: study_create_press_def create_modal_def split: sum.splits prod.splits option.splits)

lemma watch_public_create_ignores_password:
  "\<not> rf_private f \<Longrightarrow>
   snd (watch_create_press me now w (f\<lparr>rf_password := p\<rparr>)) = snd (watch_create_press me now w f)"
  by (simp add: watch_create_press_def watch_create_def split: sum.splits prod.splits)

text \<open>A password typed and then hidden by the toggle is still in the form and is shown again by a second toggle.\<close>

lemma toggle_keeps_hidden_password:
  "fv_fields (create_form_view watch (form_step (form_step f FTogglePrivate) FTogglePrivate)) =
   fv_fields (create_form_view watch f)"
  by (simp add: create_form_view_def)

text \<open>The watch create modal checks the name, then the video link, before the session: a blank link is reported even when signed out, and nothing is written.\<close>

lemma watch_create_blank_url_first:
  "js_trim (rf_name f) \<noteq> [] \<Longrightarrow> js_trim (rf_video f) = [] \<Longrightarrow>
   watch_create_press me now w f = (f\<lparr>rf_error := Some VideoUrlRequired\<rparr>, w, False)"
  by (simp add: watch_create_press_def watch_create_def)

text \<open>A refused join keeps the typed password in the field next to the error.\<close>

lemma study_join_refused_keeps_password:
  "\<not> snd (snd (study_join_press me now rid d f)) \<Longrightarrow>
   jf_password (fst (study_join_press me now rid d f)) = jf_password f \<and>
   jf_error (fst (study_join_press me now rid d f)) \<noteq> None"
  by (auto simp: study_join_press_def split: sum.splits prod.splits)

lemma modal_run_Cons [simp]:
  "modal_run fs err reset pre call ok t s (e # es) = modal_run fs err reset pre call ok t (modal_step fs err reset pre call ok t s e) es"
  by (simp add: modal_run_def)

lemma modal_run_Nil [simp]: "modal_run fs err reset pre call ok t s [] = s"
  by (simp add: modal_run_def)

lemma submit_button_enabled [simp]: "bv_enabled (button (submit_button t l)) = (\<not> l)"
  by (simp add: button_def submit_button_def button_defaults_def)

text \<open>A check made before the first \<open>await\<close> refuses exactly as the handler's call would, with no write.\<close>

lemma guards_agree:
  "study_create_guard me f = Some e \<Longrightarrow> study_create_call me now f d = (Inl e, d)"
  "watch_create_guard me f = Some e \<Longrightarrow> watch_create_call me now f w = (Inl e, w)"
  "study_join_guard me jf = Some e \<Longrightarrow> study_join_call rid me now jf d = (Inl e, d)"
  "watch_join_guard me jf = Some e \<Longrightarrow> watch_join_call rid me now jf w = (Inl e, w)"
  by (auto simp: study_create_guard_def study_create_call_def create_modal_def watch_create_guard_def
      watch_create_call_def watch_create_def study_join_guard_def study_join_call_def join_modal_def
      watch_join_guard_def watch_join_call_def watch_join_def split: if_splits)

text \<open>After a press that passes the synchronous checks the modal is loading: the press started a call, or it was dropped by a loading button.\<close>

lemma modal_press_loading:
  "pre me (ms_form (fst s)) = None \<Longrightarrow> ms_loading (fst (modal_step fs err reset pre call ok t s (MPress me now)))"
  by (cases s) (auto simp: button_press_def split: prod.splits)

lemma modal_press_blocked:
  "ms_loading (fst s) \<Longrightarrow> modal_step fs err reset pre call ok t s (MPress me now) = s"
  by (cases s) (simp add: button_press_def)

lemma modal_press_refused:
  "\<not> ms_loading (fst s) \<Longrightarrow> pre me (ms_form (fst s)) = Some e \<Longrightarrow>
   modal_step fs err reset pre call ok t s (MPress me now) = ((fst s)\<lparr>ms_form := err (err (ms_form (fst s)) None) (Some e)\<rparr>, snd s)"
  by (cases s) (simp add: button_press_def)

lemma modal_run_presses_blocked:
  "ms_loading (fst s) \<Longrightarrow> modal_run fs err reset pre call ok t s (map (\<lambda>(m, n). MPress m n) ps) = s"
  by (induction ps) (auto simp: modal_press_blocked)

text \<open>A create refused by its name check stays refused, without a call, however often it is pressed.\<close>

lemma study_create_refused_presses:
  assumes "\<not> ms_loading (fst s)" "study_create_guard me (ms_form (fst s)) = Some e" "rf_error (ms_form (fst s)) = Some e"
  shows "study_create_modal s (map (\<lambda>(m, n). MPress m n) ps) = s"
proof (induction ps)
  case (Cons p ps)
  have "study_create_guard (fst p) (ms_form (fst s)) = Some e"
    using assms(2) by (simp add: study_create_guard_def split: if_splits)
  moreover have "(fst s)\<lparr>ms_form := ms_form (fst s)\<lparr>rf_error := Some e\<rparr>\<rparr> = fst s"
    using assms(3) by (cases "ms_form (fst s)") simp
  ultimately have "modal_step form_step (\<lambda>f e. f\<lparr>rf_error := e\<rparr>) room_form0 study_create_guard study_create_call
               study_tab_on_success ''Oda Olustur'' s (MPress (fst p) (snd p)) = s"
    using assms(1) by (simp add: modal_press_refused)
  then show ?case
    using Cons.IH by (simp add: study_create_modal_def case_prod_unfold)
qed (simp add: study_create_modal_def)

text \<open>
  C9. While a create is in flight its button is loading and drops every
  further press: tapping "Oda Olustur" any number of times before the
  call settles makes one call and creates at most one room.  A press
  refused by the name check is never in flight, and every further press is
  refused the same way.
\<close>

theorem create_press_in_flight_once:
  "study_create_modal s (MPress me now # map (\<lambda>(m, n). MPress m n) ps) = study_create_modal s [MPress me now]"
proof (cases "ms_loading (fst s)")
  case True
  then show ?thesis
    by (simp add: study_create_modal_def modal_press_blocked modal_run_presses_blocked)
next
  case False
  show ?thesis
  proof (cases "study_create_guard me (ms_form (fst s))")
    case None
    then show ?thesis
      by (simp add: study_create_modal_def modal_run_presses_blocked modal_press_loading)
  next
    case (Some e)
    let ?s1 = "((fst s)\<lparr>ms_form := ms_form (fst s)\<lparr>rf_error := Some e\<rparr>\<rparr>, snd s)"
    have step: "modal_step form_step (\<lambda>f e. f\<lparr>rf_error := e\<rparr>) room_form0 study_create_guard study_create_call
               study_tab_on_success ''Oda Olustur'' s (MPress me now) = ?s1"
      using False Some by (simp add: modal_press_refused)
    have "study_create_modal ?s1 (map (\<lambda>(m, n). MPress m n) ps) = ?s1"
      using False Some by (intro study_create_refused_presses[where me = me]) (simp_all add: study_create_guard_def)
    then show ?thesis
      using step by (simp add: study_create_modal_def)
  qed
qed

text \<open>
  A press that settles before anything else happens does what the
  synchronous handler does: the form, the store and the \<open>onSuccess\<close> call
  are those of \<open>study_create_press\<close>, and the button is no longer loading.
\<close>

lemma create_modal_settle_refines_press:
  assumes "\<not> ms_loading m" and "ms_pending m = None"
  shows "study_create_modal (m, d) [MPress me now, MSettle] =
         (case study_create_press me now d (ms_form m) of (f', d', ok) \<Rightarrow>
            (m\<lparr>ms_form := f', ms_loading := False, ms_pending := None,
               ms_success := ms_success m + (if ok then 1 else 0)\<rparr>, d'))"
  using assms
  by (simp add: study_create_modal_def button_press_def study_create_press_def study_create_call_def
      study_create_guard_def create_modal_def split: prod.splits sum.splits option.splits)

end
