(* ===== verification/WatchScreen.thy ===== *)
theory WatchScreen
  imports RoomModals
begin

text \<open>
  The watch tab \<open>src/proje/app/(tabs)/watch.tsx\<close> around its modals: the
  selection state (\<open>selectedRoomId\<close>/\<open>selectedRoom\<close>, \<open>showCreateModal\<close>,
  \<open>selectedRoomForJoin\<close>/\<open>showJoinModal\<close>), the card press
  \<open>handleJoinRoom\<close>, the header's create button, the two modals of
  \<open>RoomModals\<close> with the tab's \<open>onSuccess\<close> and \<open>onClose\<close> callbacks, and the
  room screen's \<open>onClose\<close>.  The create modal stays mounted (only its
  \<open>visible\<close> prop changes); the join modal is mounted while
  \<open>selectedRoomForJoin\<close> is set, so it starts from a fresh state each time.
\<close>

record watch_screen =
  wsc_view :: watch_view
  wsc_create_open :: bool
  wsc_create :: "(room_form, room_id) modal_st"
  wsc_join :: "(join_form, watch_room_row) modal_st option"
  wsc_db :: wdb

definition watch_screen0 :: "wdb \<Rightarrow> watch_screen" where
  "watch_screen0 w = \<lparr>wsc_view = WBrowsing, wsc_create_open = False, wsc_create = modal0 room_form0,
                      wsc_join = None, wsc_db = w\<rparr>"

datatype watch_screen_event =
    WCardPress room_id bool
  | WCreateButton
  | WCreateModal "form_event modal_event"
  | WJoinModal "join_event modal_event"
  | WRoomClose

text \<open>
  A modal event reaches a visible modal only.  The create modal's settle
  with a room calls the tab's \<open>onSuccess(newRoom)\<close>: the modal is hidden
  and the new room opened; its close button hides it.  The join modal's
  settle with a room opens the room it was shown for and unmounts the
  modal; its close button unmounts it.
\<close>

fun watch_screen_step :: "watch_screen \<Rightarrow> watch_screen_event \<Rightarrow> watch_screen" where
  "watch_screen_step s (WCardPress rid priv) =
     (case watch_open_room rid priv of
        WJoinPrompt r \<Rightarrow> s\<lparr>wsc_view := WJoinPrompt r, wsc_join := Some (modal0 join_form0)\<rparr>
      | v \<Rightarrow> s\<lparr>wsc_view := v\<rparr>)"
| "watch_screen_step s WCreateButton = s\<lparr>wsc_create_open := True\<rparr>"
| "watch_screen_step s (WCreateModal e) =
     (if \<not> wsc_create_open s then s
      else case modal_step form_step (\<lambda>f e. f\<lparr>rf_error := e\<rparr>) room_form0 watch_create_guard watch_create_call (\<lambda>_. None) ''Oda Olustur''
                  (wsc_create s, wsc_db s) e of
        (m', w') \<Rightarrow>
          (let s' = s\<lparr>wsc_create := m', wsc_db := w'\<rparr>
           in case (e, ms_pending (wsc_create s)) of
                (MSettle, Some (Inr rid)) \<Rightarrow> s'\<lparr>wsc_create_open := False, wsc_view := WInRoom rid\<rparr>
              | (MForm FClose, _) \<Rightarrow> s'\<lparr>wsc_create_open := False\<rparr>
              | _ \<Rightarrow> s'))"
| "watch_screen_step s (WJoinModal e) =
     (case (wsc_view s, wsc_join s) of
        (WJoinPrompt rid, Some m) \<Rightarrow>
          (case modal_step join_form_step (\<lambda>f e. f\<lparr>jf_error := e\<rparr>) join_form0 watch_join_guard (watch_join_call rid) (\<lambda>_. None) ''Odaya Katil''
                  (m, wsc_db s) e of
             (m', w') \<Rightarrow>
               (case (e, ms_pending m) of
                  (MSettle, Some (Inr _)) \<Rightarrow> s\<lparr>wsc_view := WInRoom rid, wsc_join := None, wsc_db := w'\<rparr>
                | (MForm JClose, _) \<Rightarrow> s\<lparr>wsc_view := WBrowsing, wsc_join := None, wsc_db := w'\<rparr>
                | _ \<Rightarrow> s\<lparr>wsc_join := Some m', wsc_db := w'\<rparr>))
      | _ \<Rightarrow> s)"
| "watch_screen_step s WRoomClose =
     (case wsc_view s of WInRoom _ \<Rightarrow> s\<lparr>wsc_view := WBrowsing\<rparr> | _ \<Rightarrow> s)"

definition watch_screen_run :: "watch_screen \<Rightarrow> watch_screen_event list \<Rightarrow> watch_screen" where
  "watch_screen_run = foldl watch_screen_step"

section \<open>Lemmas\<close>

lemma watch_screen_run_Cons [simp]:
  "watch_screen_run s (e # es) = watch_screen_run (watch_screen_step s e) es"
  by (simp add: watch_screen_run_def)

lemma watch_screen_run_Nil [simp]: "watch_screen_run s [] = s"
  by (simp add: watch_screen_run_def)

text \<open>
  C11. Creating a room through the open watch modal, signed in and online,
  with a name and a video link, opens the new room once the call settles:
  the room is in the store with its creator as a member, and the modal is
  hidden with an empty form.
\<close>

lemma watch_create_opens_room:
  assumes "wsc_create_open s" "\<not> ms_loading (wsc_create s)" "w_online (wsc_db s)"
    and "js_trim (rf_name (ms_form (wsc_create s))) \<noteq> []" "js_trim (rf_video (ms_form (wsc_create s))) \<noteq> []"
  shows "wsc_view (watch_screen_run s [WCreateModal (MPress (Some u) now), WCreateModal MSettle]) = WInRoom (w_next_id (wsc_db s)) \<and>
         map_of (watch_rooms (wsc_db (watch_screen_run s [WCreateModal (MPress (Some u) now), WCreateModal MSettle])))
           (w_next_id (wsc_db s)) \<noteq> None \<and>
         map_of (watch_members (wsc_db (watch_screen_run s [WCreateModal (MPress (Some u) now), WCreateModal MSettle])))
           (w_next_id (wsc_db s), u) \<noteq> None \<and>
         \<not> wsc_create_open (watch_screen_run s [WCreateModal (MPress (Some u) now), WCreateModal MSettle]) \<and>
         ms_form (wsc_create (watch_screen_run s [WCreateModal (MPress (Some u) now), WCreateModal MSettle])) = room_form0"
  using assms
  by (simp add: button_press_def watch_create_guard_def watch_create_call_def watch_create_def Let_def upsert_watch_member_def
      tbl_insert_def upsert_row_def split: prod.splits)

lemma watch_create_opens_room_witness:
  "wsc_create_open (watch_screen_run (watch_screen0 empty_wdb)
     [WCreateButton, WCreateModal (MForm (FName ''Film'')), WCreateModal (MForm (FVideo ''https://youtu.be/x''))]) \<and>
   wsc_view (watch_screen_run (watch_screen_run (watch_screen0 empty_wdb)
     [WCreateButton, WCreateModal (MForm (FName ''Film'')), WCreateModal (MForm (FVideo ''https://youtu.be/x''))])
     [WCreateModal (MPress (Some 1) 0), WCreateModal MSettle]) = WInRoom 0"
proof -
  let ?s = "watch_screen_run (watch_screen0 empty_wdb)
     [WCreateButton, WCreateModal (MForm (FName ''Film'')), WCreateModal (MForm (FVideo ''https://youtu.be/x''))]"
  have s: "?s = (watch_screen0 empty_wdb)\<lparr>wsc_create_open := True,
                 wsc_create := (modal0 room_form0)\<lparr>ms_form := room_form0\<lparr>rf_name := ''Film'', rf_video := ''https://youtu.be/x''\<rparr>\<rparr>\<rparr>"
    by (simp add: watch_screen0_def modal0_def room_form0_def)
  have "wsc_view (watch_screen_run ?s [WCreateModal (MPress (Some 1) 0), WCreateModal MSettle]) = WInRoom (w_next_id (wsc_db ?s))"
    using watch_create_opens_room[of ?s 1 0] unfolding s
    by (simp add: watch_screen0_def modal0_def room_form0_def empty_wdb_def js_trim_def js_space_def)
  then show ?thesis unfolding s by (simp add: watch_screen0_def empty_wdb_def)
qed

end
