(* ===== verification/StudyTimer.thy ===== *)
theory StudyTimer
  imports Store
begin

text \<open>
  The study timer hook \<open>useStudyTimer\<close> (\<open>src/proje/hooks/useStudyTimer.ts\<close>).
  Its React state (\<open>isRunning\<close>, \<open>isPaused\<close>, \<open>elapsedTime\<close>,
  \<open>currentSessionId\<close>) is the record \<open>timer\<close>; each callback is a function
  from the timer and the store to the new timer and store; the one-second
  \<open>setInterval\<close> of the hook's effect is the operation \<open>tick\<close>.  The result of
  \<open>supabase.auth.getUser()\<close> is the argument \<open>me\<close> (\<open>None\<close> when there is no
  user), and \<open>new Date()\<close> is the argument \<open>now\<close>.  React applies the
  \<open>set...\<close> calls of one callback before the next callback runs, so the
  callbacks are composed sequentially.
\<close>

record timer =
  is_running :: bool
  is_paused :: bool
  elapsed :: nat
  current_session :: "session_id option"

definition timer0 :: timer where
  "timer0 = \<lparr>is_running = False, is_paused = False, elapsed = 0, current_session = None\<rparr>"

text \<open>
  \<open>startTimer\<close>: no user, no change.  Otherwise the flags are set first, then a
  session row with duration 0 is inserted; when the insert fails the function
  returns \<open>null\<close> with the flags already set.  The result is the new session's
  identifier (the source returns the row).
\<close>

definition start_timer :: "user_id option \<Rightarrow> time_ms \<Rightarrow> timer \<Rightarrow> db \<Rightarrow> session_id option \<times> timer \<times> db" where
  "start_timer me now t d =
     (case me of
        None \<Rightarrow> (None, t, d)
      | Some u \<Rightarrow>
          (let t1 = t\<lparr>is_running := True, is_paused := False\<rparr> in
           if \<not> online d then (None, t1, d)
           else
             (let (sid, d') = insert_session \<lparr>s_user = u, s_created = now, s_duration = 0, s_ended = None\<rparr> d
              in (Some sid, t1\<lparr>current_session := Some sid\<rparr>, d'))))"

text \<open>
  \<open>stopTimer\<close>: without a current session it returns at once.  Otherwise it
  stops the counter and writes the counter and the end time onto the session
  row; a failed write is only logged.  It does not clear
  \<open>currentSessionId\<close>.
\<close>

definition write_duration :: "time_ms \<Rightarrow> timer \<Rightarrow> db \<Rightarrow> db" where
  "write_duration now t d =
     (case current_session t of
        None \<Rightarrow> d
      | Some sid \<Rightarrow>
          if online d
          then d\<lparr>study_sessions := update_row (study_sessions d) sid
                   (\<lambda>r. r\<lparr>s_duration := elapsed t, s_ended := Some now\<rparr>)\<rparr>
          else d)"

definition stop_timer :: "time_ms \<Rightarrow> timer \<Rightarrow> db \<Rightarrow> timer \<times> db" where
  "stop_timer now t d =
     (case current_session t of
        None \<Rightarrow> (t, d)
      | Some sid \<Rightarrow> (t\<lparr>is_running := False, is_paused := True\<rparr>, write_duration now t d))"

definition resume_timer :: "timer \<Rightarrow> timer" where
  "resume_timer t = t\<lparr>is_running := True, is_paused := False\<rparr>"

definition reset_timer :: "timer \<Rightarrow> timer" where
  "reset_timer t = t\<lparr>is_running := False, is_paused := False, elapsed := 0, current_session := None\<rparr>"

text \<open>\<open>saveSession\<close> performs the write of \<open>stopTimer\<close> and leaves the flags alone.\<close>

definition save_session :: "time_ms \<Rightarrow> timer \<Rightarrow> db \<Rightarrow> db" where
  "save_session now t d = write_duration now t d"

text \<open>
  \<open>updateSession(roomId, sessionId)\<close> of the timer hook: sets the caller's
  member row's \<open>current_session_id\<close>; a missing row is no error.
\<close>

definition update_session :: "user_id option \<Rightarrow> room_id \<Rightarrow> session_id option \<Rightarrow> db \<Rightarrow> db" where
  "update_session me rid sid d =
     (case me of
        None \<Rightarrow> d
      | Some u \<Rightarrow>
          if online d
          then d\<lparr>study_members := tbl_update (study_members d) (rid, u) (\<lambda>m. m\<lparr>m_session := sid\<rparr>)\<rparr>
          else d)"

text \<open>The interval callback \<open>setElapsedTime(time => time + 1)\<close>, armed while \<open>isRunning\<close>.\<close>

definition tick :: "timer \<Rightarrow> timer" where
  "tick t = (if is_running t then t\<lparr>elapsed := Suc (elapsed t)\<rparr> else t)"

section \<open>The timer as a state machine\<close>

text \<open>
  One constructor per callback of the hook; the step function applies it for
  the signed-in user \<open>u\<close>.
\<close>

datatype timer_event =
    Start time_ms
  | Stop time_ms
  | Resume
  | Reset
  | Save time_ms
  | SetSession room_id "session_id option"
  | Tick

fun timer_step :: "user_id \<Rightarrow> timer \<times> db \<Rightarrow> timer_event \<Rightarrow> timer \<times> db" where
  "timer_step u (t, d) (Start now) = snd (start_timer (Some u) now t d)"
| "timer_step u (t, d) (Stop now) = stop_timer now t d"
| "timer_step u (t, d) Resume = (resume_timer t, d)"
| "timer_step u (t, d) Reset = (reset_timer t, d)"
| "timer_step u (t, d) (Save now) = (t, save_session now t d)"
| "timer_step u (t, d) (SetSession rid sid) = (t, update_session (Some u) rid sid d)"
| "timer_step u (t, d) Tick = (tick t, d)"

definition timer_run :: "user_id \<Rightarrow> timer \<times> db \<Rightarrow> timer_event list \<Rightarrow> timer \<times> db" where
  "timer_run u = foldl (timer_step u)"

text \<open>
  The invariant: the two flags are never both set; the session the timer
  points at is a row of the store owned by the user; the store's identifiers
  are fresh.
\<close>

definition timer_inv :: "user_id \<Rightarrow> timer \<Rightarrow> db \<Rightarrow> bool" where
  "timer_inv u t d \<longleftrightarrow>
     \<not> (is_running t \<and> is_paused t) \<and>
     (case current_session t of
        None \<Rightarrow> True
      | Some sid \<Rightarrow> session_owner d sid = Some u) \<and>
     ids_fresh d"

text \<open>
  The timer button of the study tab (\<open>handleTimerAction\<close> and
  \<open>handleReset\<close> of \<open>src/proje/app/(tabs)/study.tsx\<close>): stop a running
  timer, resume a paused one (the same session goes on), start otherwise.
\<close>

definition tab_timer_action :: "user_id option \<Rightarrow> time_ms \<Rightarrow> timer \<times> db \<Rightarrow> timer \<times> db" where
  "tab_timer_action me now = (\<lambda>(t, d).
     (case me of
        None \<Rightarrow> (t, d)
      | Some u \<Rightarrow>
          if is_running t then stop_timer now t d
          else if is_paused t then (resume_timer t, d)
          else snd (start_timer me now t d)))"

definition tab_reset :: "user_id option \<Rightarrow> timer \<Rightarrow> timer" where
  "tab_reset me t = (case me of None \<Rightarrow> t | Some u \<Rightarrow> reset_timer t)"

text \<open>The study tab's unmount effect saves an open timer.\<close>

definition tab_unmount :: "time_ms \<Rightarrow> timer \<Rightarrow> db \<Rightarrow> db" where
  "tab_unmount now t d = (if is_running t \<or> is_paused t then save_session now t d else d)"

text \<open>
  That function is the cleanup of an effect with dependencies
  \<open>[isRunning, isPaused]\<close>.  Its closure holds the render in which the
  effect last ran: that render's flags and its \<open>saveSession\<close>, which reads
  that render's \<open>currentSessionId\<close> and \<open>elapsedTime\<close>.  After every
  render that changes a flag React runs the old cleanup and installs the
  effect again over the new render; on unmount it runs the cleanup of the
  effect installed last.  \<open>effect_commit now c r d\<close> commits the render
  \<open>r\<close> when the installed effect holds \<open>c\<close>.
\<close>

definition effect_commit :: "time_ms \<Rightarrow> timer \<Rightarrow> timer \<Rightarrow> db \<Rightarrow> timer \<times> db" where
  "effect_commit now c r d =
     (if is_running r = is_running c \<and> is_paused r = is_paused c then (c, d) else (r, tab_unmount now c d))"

text \<open>
  The study tab over time: the timer button, the reset button, the hook's
  tick, and leaving the screen.  The state is the hook's state, the render
  the installed effect holds, and the store.  The render in which a press
  changes the flags is committed after the press has sent its request
  (\<open>stopTimer\<close>'s update, \<open>startTimer\<close>'s insert), and before
  \<open>startTimer\<close>'s insert answers, so it still has the previous
  \<open>currentSessionId\<close>; the session id that arrives later changes no flag.
\<close>

datatype tab_event = TabPress time_ms | TabResetPress time_ms | TabTick | TabLeave time_ms

fun tab_step :: "user_id option \<Rightarrow> timer \<times> timer \<times> db \<Rightarrow> tab_event \<Rightarrow> timer \<times> timer \<times> db" where
  "tab_step me (t, c, d) (TabPress now) =
     (case tab_timer_action me now (t, d) of (t', d') \<Rightarrow>
        case effect_commit now c (t'\<lparr>current_session := current_session t\<rparr>) d' of (c', d'') \<Rightarrow> (t', c', d''))"
| "tab_step me (t, c, d) (TabResetPress now) =
     (case effect_commit now c (tab_reset me t) d of (c', d') \<Rightarrow> (tab_reset me t, c', d'))"
| "tab_step me (t, c, d) TabTick = (tick t, c, d)"
| "tab_step me (t, c, d) (TabLeave now) = (t, c, tab_unmount now c d)"

definition tab_run :: "user_id option \<Rightarrow> timer \<times> timer \<times> db \<Rightarrow> tab_event list \<Rightarrow> timer \<times> timer \<times> db" where
  "tab_run me = foldl (tab_step me)"

section \<open>Behaviour of the operations\<close>

lemma start_timer_no_user [simp]: "start_timer None now t d = (None, t, d)"
  by (simp add: start_timer_def)

lemma start_timer_online:
  "online d \<Longrightarrow> start_timer (Some u) now t d =
     (Some (next_id d),
      t\<lparr>is_running := True, is_paused := False, current_session := Some (next_id d)\<rparr>,
      snd (insert_session \<lparr>s_user = u, s_created = now, s_duration = 0, s_ended = None\<rparr> d))"
  by (simp add: start_timer_def insert_session_def)

lemma start_timer_offline:
  "\<not> online d \<Longrightarrow> start_timer (Some u) now t d = (None, t\<lparr>is_running := True, is_paused := False\<rparr>, d)"
  by (simp add: start_timer_def)

lemma stop_timer_no_session [simp]: "current_session t = None \<Longrightarrow> stop_timer now t d = (t, d)"
  by (simp add: stop_timer_def)

lemma stop_timer_session:
  "current_session t = Some sid \<Longrightarrow>
   stop_timer now t d = (t\<lparr>is_running := False, is_paused := True\<rparr>, write_duration now t d)"
  by (simp add: stop_timer_def)

lemma write_duration_online:
  "current_session t = Some sid \<Longrightarrow> online d \<Longrightarrow>
   write_duration now t d = d\<lparr>study_sessions := update_row (study_sessions d) sid
                   (\<lambda>r. r\<lparr>s_duration := elapsed t, s_ended := Some now\<rparr>)\<rparr>"
  by (simp add: write_duration_def)

lemma write_duration_frame [simp]:
  "online (write_duration now t d) = online d"
  "study_members (write_duration now t d) = study_members d"
  "study_rooms (write_duration now t d) = study_rooms d"
  "next_id (write_duration now t d) = next_id d"
  "dom (study_sessions (write_duration now t d)) = dom (study_sessions d)"
  "ids_fresh (write_duration now t d) = ids_fresh d"
  by (simp_all add: write_duration_def split: option.splits)

lemma write_duration_owner [simp]:
  "session_owner (write_duration now t d) k = session_owner d k"
  by (simp add: write_duration_def split: option.splits)

lemma update_session_frame [simp]:
  "online (update_session me rid sid d) = online d"
  "study_sessions (update_session me rid sid d) = study_sessions d"
  "study_rooms (update_session me rid sid d) = study_rooms d"
  "next_id (update_session me rid sid d) = next_id d"
  by (simp_all add: update_session_def split: option.splits)

lemma update_session_owner [simp]:
  "session_owner (update_session me rid sid d) k = session_owner d k"
  by (simp add: session_owner_def)

lemma update_session_fresh [simp]:
  "ids_fresh (update_session me rid sid d) = ids_fresh d"
  by (simp add: update_session_def split: option.splits)

lemma tick_frame [simp]:
  "is_running (tick t) = is_running t" "is_paused (tick t) = is_paused t"
  "current_session (tick t) = current_session t"
  by (simp_all add: tick_def)

lemma timer_run_append:
  "timer_run u s (es @ fs) = timer_run u (timer_run u s es) fs"
  by (simp add: timer_run_def)

lemma timer_run_simps [simp]:
  "timer_run u s [] = s"
  "timer_run u s (e # es) = timer_run u (timer_step u s e) es"
  by (simp_all add: timer_run_def)

text \<open>While the timer runs, each interval callback adds one second.\<close>

lemma timer_run_ticks:
  "is_running t \<Longrightarrow> timer_run u (t, d) (replicate n Tick) = (t\<lparr>elapsed := elapsed t + n\<rparr>, d)"
proof (induction n arbitrary: t)
  case 0
  then show ?case by simp
next
  case (Suc n)
  then have "timer_run u (tick t, d) (replicate n Tick) = (t\<lparr>elapsed := elapsed t + Suc n\<rparr>, d)"
    by (simp add: tick_def)
  then show ?case by simp
qed

lemma tab_timer_action_start:
  "\<not> is_running t \<Longrightarrow> \<not> is_paused t \<Longrightarrow> online d \<Longrightarrow>
   tab_timer_action (Some u) now (t, d) =
     (t\<lparr>is_running := True, is_paused := False, current_session := Some (next_id d)\<rparr>,
      snd (insert_session \<lparr>s_user = u, s_created = now, s_duration = 0, s_ended = None\<rparr> d))"
  by (simp add: tab_timer_action_def start_timer_online)

lemma tab_timer_action_stop:
  "is_running t \<Longrightarrow> current_session t = Some sid \<Longrightarrow>
   tab_timer_action (Some u) now (t, d) = (t\<lparr>is_running := False, is_paused := True\<rparr>, write_duration now t d)"
  by (simp add: tab_timer_action_def stop_timer_session)

lemma tab_timer_action_resume:
  "\<not> is_running t \<Longrightarrow> is_paused t \<Longrightarrow> tab_timer_action (Some u) now (t, d) = (resume_timer t, d)"
  by (simp add: tab_timer_action_def)

lemma timer_inv_start:
  assumes "timer_inv u t d"
  shows "case start_timer (Some u) now t d of (r, t', d') \<Rightarrow> timer_inv u t' d'"
proof (cases "online d")
  case True
  have "ids_fresh (snd (insert_session \<lparr>s_user = u, s_created = now, s_duration = 0, s_ended = None\<rparr> d))"
    using assms by (simp add: timer_inv_def ids_fresh_insert_session)
  with True show ?thesis
    by (simp add: start_timer_online timer_inv_def)
next
  case False
  with assms show ?thesis
    by (simp add: start_timer_offline timer_inv_def)
qed

lemma timer_step_inv:
  assumes "timer_inv u t d"
  shows "case timer_step u (t, d) e of (t', d') \<Rightarrow> timer_inv u t' d'"
proof (cases e)
  case (Start now)
  then show ?thesis using timer_inv_start [OF assms, of now] by (simp split: prod.splits)
next
  case (Stop now)
  then show ?thesis using assms
    by (simp add: stop_timer_def timer_inv_def split: option.splits)
next
  case (Save now)
  then show ?thesis using assms by (simp add: save_session_def timer_inv_def split: option.splits)
next
  case (SetSession rid sid)
  then show ?thesis using assms by (simp add: timer_inv_def split: option.splits)
qed (use assms in \<open>auto simp: timer_inv_def reset_timer_def resume_timer_def tick_def\<close>)


section \<open>The invariant\<close>

text \<open>
  C2. From a state satisfying the invariant, every sequence of the hook's
  callbacks leads to a state satisfying it: the flags are never both set and
  the timer's session is a row owned by the user.
\<close>

theorem timer_run_inv:
  "timer_inv u t d \<Longrightarrow> case timer_run u (t, d) es of (t', d') \<Rightarrow> timer_inv u t' d'"
proof (induction es arbitrary: t d)
  case Nil
  then show ?case by simp
next
  case (Cons e es)
  obtain t1 d1 where s1: "timer_step u (t, d) e = (t1, d1)" by fastforce
  with timer_step_inv [OF Cons.prems, of e] have "timer_inv u t1 d1" by simp
  then have "case timer_run u (t1, d1) es of (t', d') \<Rightarrow> timer_inv u t' d'" by (rule Cons.IH)
  with s1 show ?case by simp
qed

lemma timer_run_inv_witness:
  "case timer_run 7 (timer0, empty_db) [Start 0, Tick, Stop 1000, Resume, Start 2000] of
     (t', d') \<Rightarrow> timer_inv 7 t' d'"
  using timer_run_inv [of 7 timer0 empty_db "[Start 0, Tick, Stop 1000, Resume, Start 2000]"]
  by (simp add: timer_inv_def timer0_def)

lemma timer0_inv: "ids_fresh d \<Longrightarrow> timer_inv u timer0 d"
  by (simp add: timer_inv_def timer0_def)

text \<open>
  C1. A session started on a fresh (or reset) timer and stopped after \<open>n\<close>
  interval callbacks is stored with duration \<open>n\<close> seconds, its start and its
  end time, and the timer is left paused on that session.
\<close>

theorem session_duration_counts_ticks:
  assumes "online d" and "elapsed t = 0"
  shows "case timer_run u (t, d) (Start t0 # replicate n Tick @ [Stop t1]) of (t', d') \<Rightarrow>
           study_sessions d' (next_id d) = Some \<lparr>s_user = u, s_created = t0, s_duration = n, s_ended = Some t1\<rparr> \<and>
           \<not> is_running t' \<and> is_paused t' \<and> current_session t' = Some (next_id d)"
proof -
  let ?r = "\<lparr>s_user = u, s_created = t0, s_duration = 0, s_ended = None\<rparr>"
  let ?t1 = "t\<lparr>is_running := True, is_paused := False, current_session := Some (next_id d)\<rparr>"
  have start: "snd (start_timer (Some u) t0 t d) = (?t1, snd (insert_session ?r d))"
    using assms(1) by (simp add: start_timer_online)
  have ticks: "timer_run u (?t1, snd (insert_session ?r d)) (replicate n Tick) =
      (?t1\<lparr>elapsed := n\<rparr>, snd (insert_session ?r d))"
    using assms(2) by (simp add: timer_run_ticks)
  have run: "timer_run u (t, d) (Start t0 # replicate n Tick @ [Stop t1]) =
      stop_timer t1 (?t1\<lparr>elapsed := n\<rparr>) (snd (insert_session ?r d))"
    by (simp only: timer_run_simps timer_run_append start ticks timer_step.simps)
  show ?thesis
    unfolding run using assms
    by (simp add: stop_timer_session write_duration_online insert_session_row)
qed

lemma session_duration_counts_ticks_witness:
  "case timer_run 7 (timer0, empty_db) (Start 0 # replicate 65 Tick @ [Stop 65000]) of (t', d') \<Rightarrow>
     study_sessions d' 0 = Some \<lparr>s_user = 7, s_created = 0, s_duration = 65, s_ended = Some 65000\<rparr> \<and>
     \<not> is_running t' \<and> is_paused t' \<and> current_session t' = Some 0"
  using session_duration_counts_ticks [of empty_db timer0 7 0 65 65000]
  by (simp add: empty_db_def timer0_def)

section \<open>Failure and pause paths\<close>

text \<open>
  C3. When the session insert of \<open>startTimer\<close> fails, the timer is left
  running with no session: the store is unchanged, \<open>stopTimer\<close> returns
  at once without stopping it, and the interval keeps counting.
\<close>

theorem start_failure_leaves_timer_running:
  assumes "\<not> online d" and "current_session t = None"
  shows "case start_timer (Some u) now t d of (r, t', d') \<Rightarrow>
           r = None \<and> d' = d \<and> is_running t' \<and> current_session t' = None \<and>
           stop_timer now' t' d' = (t', d') \<and> elapsed (tick t') = Suc (elapsed t')"
  using assms by (simp add: start_timer_offline tick_def)

lemma start_failure_leaves_timer_running_witness:
  "case start_timer (Some 7) 0 timer0 (empty_db\<lparr>online := False\<rparr>) of (r, t', d') \<Rightarrow>
     r = None \<and> d' = empty_db\<lparr>online := False\<rparr> \<and> is_running t' \<and> current_session t' = None \<and>
     stop_timer 5000 t' d' = (t', d') \<and> elapsed (tick t') = Suc (elapsed t')"
  using start_failure_leaves_timer_running [where d = "empty_db\<lparr>online := False\<rparr>" and t = timer0 and u = 7 and now = 0 and now' = 5000]
  by (simp add: empty_db_def timer0_def)

text \<open>
  C4. On the study tab, stopping closes the session (its end time is set),
  and pressing the button again resumes the same session: the next stop
  rewrites the closed row with the accumulated duration and a new end time.
  These are the writes of the button's handlers; the tab's save effect
  writes again after them (\<open>tab_step\<close> below).
\<close>

theorem tab_resume_reopens_closed_session:
  assumes "online d" and "elapsed t = 0" and "\<not> is_running t" and "\<not> is_paused t"
  shows "study_sessions (snd (tab_timer_action (Some u) first_stop (timer_run u (tab_timer_action (Some u) start (t, d)) (replicate n Tick)))) (next_id d) =
           Some \<lparr>s_user = u, s_created = start, s_duration = n, s_ended = Some first_stop\<rparr> \<and>
         study_sessions (snd (tab_timer_action (Some u) second_stop (timer_run u (tab_timer_action (Some u) resume
            (tab_timer_action (Some u) first_stop (timer_run u (tab_timer_action (Some u) start (t, d)) (replicate n Tick)))) (replicate m Tick)))) (next_id d) =
           Some \<lparr>s_user = u, s_created = start, s_duration = n + m, s_ended = Some second_stop\<rparr>"
proof -
  let ?sid = "next_id d"
  let ?r = "\<lparr>s_user = u, s_created = start, s_duration = 0, s_ended = None\<rparr>"
  let ?d1 = "snd (insert_session ?r d)"
  let ?ta = "t\<lparr>is_running := True, is_paused := False, current_session := Some ?sid\<rparr>"
  have s1: "tab_timer_action (Some u) start (t, d) = (?ta, ?d1)"
    using assms by (simp add: tab_timer_action_start)
  have s2: "timer_run u (?ta, ?d1) (replicate n Tick) = (?ta\<lparr>elapsed := n\<rparr>, ?d1)"
    using assms by (simp add: timer_run_ticks)
  let ?d3 = "write_duration first_stop (?ta\<lparr>elapsed := n\<rparr>) ?d1"
  have s3: "tab_timer_action (Some u) first_stop (?ta\<lparr>elapsed := n\<rparr>, ?d1) = (?ta\<lparr>elapsed := n, is_running := False, is_paused := True\<rparr>, ?d3)"
    by (simp add: tab_timer_action_stop)
  have row3: "study_sessions ?d3 ?sid = Some (?r\<lparr>s_duration := n, s_ended := Some first_stop\<rparr>)"
    using assms by (simp add: write_duration_online insert_session_row)
  have s4: "tab_timer_action (Some u) resume (?ta\<lparr>elapsed := n, is_running := False, is_paused := True\<rparr>, ?d3) = (?ta\<lparr>elapsed := n\<rparr>, ?d3)"
    by (simp add: tab_timer_action_resume resume_timer_def)
  have s5: "timer_run u (?ta\<lparr>elapsed := n\<rparr>, ?d3) (replicate m Tick) = (?ta\<lparr>elapsed := n + m\<rparr>, ?d3)"
    by (simp add: timer_run_ticks)
  have s6: "tab_timer_action (Some u) second_stop (?ta\<lparr>elapsed := n + m\<rparr>, ?d3) = (?ta\<lparr>elapsed := n + m, is_running := False, is_paused := True\<rparr>,
      write_duration second_stop (?ta\<lparr>elapsed := n + m\<rparr>) ?d3)"
    by (simp add: tab_timer_action_stop)
  have row6: "study_sessions (write_duration second_stop (?ta\<lparr>elapsed := n + m\<rparr>) ?d3) ?sid =
      Some (?r\<lparr>s_duration := n + m, s_ended := Some second_stop\<rparr>)"
    using assms row3 by (simp add: write_duration_online)
  show ?thesis
    by (simp only: s1 s2 s3 s4 s5 s6 snd_conv row3 row6) simp
qed

lemma tab_resume_reopens_closed_session_witness:
  "study_sessions (snd (tab_timer_action (Some 7) 9000 (timer_run 7 (tab_timer_action (Some 7) 0 (timer0, empty_db)) (replicate 5 Tick)))) 0 =
     Some \<lparr>s_user = 7, s_created = 0, s_duration = 5, s_ended = Some 9000\<rparr> \<and>
   study_sessions (snd (tab_timer_action (Some 7) 20000 (timer_run 7 (tab_timer_action (Some 7) 10000
      (tab_timer_action (Some 7) 9000 (timer_run 7 (tab_timer_action (Some 7) 0 (timer0, empty_db)) (replicate 5 Tick)))) (replicate 3 Tick)))) 0 =
     Some \<lparr>s_user = 7, s_created = 0, s_duration = 8, s_ended = Some 20000\<rparr>"
  using tab_resume_reopens_closed_session [where d = empty_db and t = timer0 and u = 7 and start = 0 and first_stop = 9000
      and n = 5 and resume = 10000 and m = 3 and second_stop = 20000]
  by (simp add: empty_db_def timer0_def)

lemma tab_run_simps [simp]:
  "tab_run me s [] = s"
  "tab_run me s (e # es) = tab_run me (tab_step me s e) es"
  "tab_run me s (es @ fs) = tab_run me (tab_run me s es) fs"
  by (simp_all add: tab_run_def)

lemma tab_run_ticks:
  "is_running t \<Longrightarrow> tab_run me (t, c, d) (replicate n TabTick) = (t\<lparr>elapsed := elapsed t + n\<rparr>, c, d)"
proof (induction n arbitrary: t)
  case (Suc n)
  have "tick t = t\<lparr>elapsed := Suc (elapsed t)\<rparr>" using Suc.prems by (simp add: tick_def)
  then show ?case using Suc by simp
qed simp

lemma tab_press_fresh:
  assumes "online d" and "\<not> is_running t" and "\<not> is_paused t" and "current_session t = None"
  shows "tab_step (Some u) (t, t, d) (TabPress start) =
    (t\<lparr>is_running := True, is_paused := False, current_session := Some (next_id d)\<rparr>, t\<lparr>is_running := True, is_paused := False\<rparr>,
     snd (insert_session \<lparr>s_user = u, s_created = start, s_duration = 0, s_ended = None\<rparr> d))"
  using assms by (simp add: tab_timer_action_def start_timer_online effect_commit_def tab_unmount_def)

lemma effect_commit_flip:
  "is_running r \<noteq> is_running c \<or> is_paused r \<noteq> is_paused c \<Longrightarrow> effect_commit now c r d = (r, tab_unmount now c d)"
  by (auto simp: effect_commit_def)

text \<open>
  C10. On the study tab the save effect's cleanup runs on every change of
  the flags with the values of the render it was installed in.  Start, n
  seconds, stop, resume, m seconds and stop: the second stop's update
  writes n + m, and then the cleanup of the effect installed at the resume
  writes the n seconds it captured, so the session row is left with
  duration n.
\<close>

theorem tab_effect_saves_stale_duration:
  assumes "online d" and "elapsed t = 0" and "\<not> is_running t" and "\<not> is_paused t" and "current_session t = None"
  shows "study_sessions (snd (snd (tab_run (Some u) (t, t, d)
            (TabPress start # replicate n TabTick @ TabPress first_stop # TabPress resume # replicate m TabTick @ [TabPress second_stop]))))
            (next_id d) =
         Some \<lparr>s_user = u, s_created = start, s_duration = n, s_ended = Some second_stop\<rparr>"
proof -
  let ?sid = "next_id d"
  let ?r = "\<lparr>s_user = u, s_created = start, s_duration = 0, s_ended = None\<rparr>"
  let ?d1 = "snd (insert_session ?r d)"
  let ?ta = "t\<lparr>is_running := True, is_paused := False, current_session := Some ?sid\<rparr>"
  let ?c1 = "t\<lparr>is_running := True, is_paused := False\<rparr>"
  have s1: "tab_step (Some u) (t, t, d) (TabPress start) = (?ta, ?c1, ?d1)"
    using assms(1,3,4,5) by (rule tab_press_fresh)
  let ?tp = "?ta\<lparr>elapsed := n, is_running := False, is_paused := True\<rparr>"
  let ?d3 = "write_duration first_stop (?ta\<lparr>elapsed := n\<rparr>) ?d1"
  have s3: "tab_step (Some u) (?ta\<lparr>elapsed := n\<rparr>, ?c1, ?d1) (TabPress first_stop) = (?tp, ?tp, ?d3)"
    using assms(5) by (simp add: tab_timer_action_stop effect_commit_flip tab_unmount_def save_session_def write_duration_def)
  have row3: "study_sessions ?d3 ?sid = Some (?r\<lparr>s_duration := n, s_ended := Some first_stop\<rparr>)"
    using assms by (simp add: write_duration_online insert_session_row)
  let ?d4 = "write_duration resume ?tp ?d3"
  have s4: "tab_step (Some u) (?tp, ?tp, ?d3) (TabPress resume) = (?ta\<lparr>elapsed := n\<rparr>, ?ta\<lparr>elapsed := n\<rparr>, ?d4)"
    by (simp add: tab_timer_action_resume resume_timer_def effect_commit_flip tab_unmount_def save_session_def)
  have on4: "online ?d4" and row4: "study_sessions ?d4 ?sid = Some (?r\<lparr>s_duration := n, s_ended := Some resume\<rparr>)"
    using assms row3 by (simp_all add: write_duration_online insert_session_def)
  let ?d6 = "write_duration second_stop (?ta\<lparr>elapsed := n + m\<rparr>) ?d4"
  have s6: "tab_step (Some u) (?ta\<lparr>elapsed := n + m\<rparr>, ?ta\<lparr>elapsed := n\<rparr>, ?d4) (TabPress second_stop) =
      (?ta\<lparr>elapsed := n + m, is_running := False, is_paused := True\<rparr>, ?ta\<lparr>elapsed := n + m, is_running := False, is_paused := True\<rparr>,
       write_duration second_stop (?ta\<lparr>elapsed := n\<rparr>) ?d6)"
    by (simp add: tab_timer_action_stop effect_commit_flip tab_unmount_def save_session_def)
  have row6: "study_sessions (write_duration second_stop (?ta\<lparr>elapsed := n\<rparr>) ?d6) ?sid =
      Some (?r\<lparr>s_duration := n, s_ended := Some second_stop\<rparr>)"
    using on4 row4 by (simp add: write_duration_online)
  have "tab_run (Some u) (t, t, d)
          (TabPress start # replicate n TabTick @ TabPress first_stop # TabPress resume # replicate m TabTick @ [TabPress second_stop]) =
        (?ta\<lparr>elapsed := n + m, is_running := False, is_paused := True\<rparr>, ?ta\<lparr>elapsed := n + m, is_running := False, is_paused := True\<rparr>,
         write_duration second_stop (?ta\<lparr>elapsed := n\<rparr>) ?d6)"
  proof -
    have t1: "tab_run (Some u) (?ta, ?c1, ?d1) (replicate n TabTick) = (?ta\<lparr>elapsed := n\<rparr>, ?c1, ?d1)"
      using tab_run_ticks[of ?ta "Some u" ?c1 ?d1 n] assms(2) by simp
    have t2: "tab_run (Some u) (?ta\<lparr>elapsed := n\<rparr>, ?ta\<lparr>elapsed := n\<rparr>, ?d4) (replicate m TabTick) =
        (?ta\<lparr>elapsed := n + m\<rparr>, ?ta\<lparr>elapsed := n\<rparr>, ?d4)"
      using tab_run_ticks[of "?ta\<lparr>elapsed := n\<rparr>" "Some u" "?ta\<lparr>elapsed := n\<rparr>" ?d4 m] by simp
    show ?thesis
      by (simp only: tab_run_simps s1 t1 s3 s4 t2 s6)
  qed
  then show ?thesis
    using row6 by simp
qed

lemma tab_effect_saves_stale_duration_witness:
  "study_sessions (snd (snd (tab_run (Some 7) (timer0, timer0, empty_db)
      (TabPress 0 # replicate 5 TabTick @ TabPress 9000 # TabPress 10000 # replicate 3 TabTick @ [TabPress 20000])))) 0 =
     Some \<lparr>s_user = 7, s_created = 0, s_duration = 5, s_ended = Some 20000\<rparr>"
  using tab_effect_saves_stale_duration [where d = empty_db and t = timer0 and u = 7 and start = 0 and first_stop = 9000
      and n = 5 and resume = 10000 and m = 3 and second_stop = 20000]
  by (simp add: empty_db_def timer0_def)

text \<open>
  C36. Leaving the study tab while the timer runs its first session saves
  nothing: the effect was installed in the render that set the flags, before
  startTimer's insert answered, so its saveSession has no session id; the
  row keeps duration 0 and no end time, however long the timer ran.
\<close>

theorem tab_leave_first_run_saves_nothing:
  assumes "online d" and "elapsed t = 0" and "\<not> is_running t" and "\<not> is_paused t" and "current_session t = None"
  shows "study_sessions (snd (snd (tab_run (Some u) (t, t, d) (TabPress start # replicate n TabTick @ [TabLeave leave]))))
            (next_id d) =
         Some \<lparr>s_user = u, s_created = start, s_duration = 0, s_ended = None\<rparr>"
proof -
  let ?ta = "t\<lparr>is_running := True, is_paused := False, current_session := Some (next_id d)\<rparr>"
  let ?c1 = "t\<lparr>is_running := True, is_paused := False\<rparr>"
  let ?d1 = "snd (insert_session \<lparr>s_user = u, s_created = start, s_duration = 0, s_ended = None\<rparr> d)"
  have t1: "tab_run (Some u) (?ta, ?c1, ?d1) (replicate n TabTick) = (?ta\<lparr>elapsed := n\<rparr>, ?c1, ?d1)"
    using tab_run_ticks[of ?ta "Some u" ?c1 ?d1 n] assms(2) by simp
  have "tab_run (Some u) (t, t, d) (TabPress start # replicate n TabTick @ [TabLeave leave]) =
      (?ta\<lparr>elapsed := n\<rparr>, ?c1, tab_unmount leave ?c1 ?d1)"
    by (simp only: tab_run_simps tab_press_fresh[OF assms(1,3,4,5)] t1) (simp only: tab_step.simps)
  then show ?thesis
    using assms by (simp add: tab_unmount_def save_session_def write_duration_def insert_session_row)
qed

lemma tab_leave_first_run_saves_nothing_witness:
  "study_sessions (snd (snd (tab_run (Some 7) (timer0, timer0, empty_db) (TabPress 0 # replicate 30 TabTick @ [TabLeave 30000])))) 0 =
     Some \<lparr>s_user = 7, s_created = 0, s_duration = 0, s_ended = None\<rparr>"
  using tab_leave_first_run_saves_nothing [where d = empty_db and t = timer0 and u = 7 and start = 0 and n = 30 and leave = 30000]
  by (simp add: empty_db_def timer0_def)

end
