(* ===== verification/StudyTab.thy ===== *)
theory StudyTab
  imports StudyTimer StudyRooms
begin

text \<open>
  The study tab's render (\<open>src/proje/app/(tabs)/study.tsx\<close>) and the room
  list state of \<open>useStudyRooms\<close> (\<open>src/proje/hooks/useStudyRooms.ts\<close>):
  \<open>fetchRooms\<close>, run at mount and on every change of the rooms, members and
  sessions tables, snapshots each room with its embedded member count and
  its members with a current session; the tab shows loading, the error, or
  the private and public sections of \<open>RoomCard\<close>s.  Rows are inserted at
  the head of the table, so its order is \<open>created_at\<close> descending.
\<close>

record study_list =
  sl_rooms :: "(room_id \<times> room_row \<times> nat list \<times> nat) list"
  sl_loading :: bool
  sl_error :: "error option"

definition study_list0 :: study_list where
  "study_list0 = \<lparr>sl_rooms = [], sl_loading = True, sl_error = None\<rparr>"

text \<open>\<open>fetchRooms\<close>: \<open>setRooms\<close> on success, \<open>setError\<close> on failure, \<open>loading\<close> ends; nothing clears the error.\<close>

definition study_fetch_rooms :: "db \<Rightarrow> study_list \<Rightarrow> study_list" where
  "study_fetch_rooms d l =
     (if \<not> online d then l\<lparr>sl_error := Some StoreUnavailable, sl_loading := False\<rparr>
      else l\<lparr>sl_rooms := map (\<lambda>(rid, r). (rid, r, embedded_count d rid, card_active_count d rid)) (study_rooms d),
             sl_loading := False\<rparr>)"

text \<open>The stores read by the fetches the three change feeds trigger, in order.\<close>

definition study_list_run :: "study_list \<Rightarrow> db list \<Rightarrow> study_list" where
  "study_list_run = foldl (\<lambda>l d. study_fetch_rooms d l)"

record study_card =
  sc_room :: room_id
  sc_name :: string
  sc_private :: bool
  sc_description :: string
  sc_members :: string
  sc_active :: string
  sc_delete :: bool

text \<open>\<open>RoomCard\<close>: \<open>`${room.members?.length || 0} uye`\<close>, \<open>`${...current_session_id...length || 0} aktif`\<close>, and the creator's delete button.\<close>

definition study_card_of :: "user_id option \<Rightarrow> room_id \<times> room_row \<times> nat list \<times> nat \<Rightarrow> study_card" where
  "study_card_of me x =
     (case x of (rid, r, ms, act) \<Rightarrow>
        \<lparr>sc_room = rid, sc_name = r_name r, sc_private = r_private r, sc_description = r_description r,
         sc_members = digits_nat (length ms) @ '' uye'', sc_active = digits_nat act @ '' aktif'',
         sc_delete = card_shows_delete me r\<rparr>)"

definition study_section :: "user_id option \<Rightarrow> (room_id \<times> room_row \<times> nat list \<times> nat) list \<Rightarrow> study_card list \<times> string option" where
  "study_section me rs =
     (map (study_card_of me) rs, if rs = [] then Some ''Bu kategoride henuz oda yok'' else None)"

datatype study_tab_view =
    STLoading
  | STError error
  | STLists "study_card list \<times> string option" "study_card list \<times> string option" bool

definition study_tab_view :: "user_id option \<Rightarrow> study_list \<Rightarrow> study_tab_view" where
  "study_tab_view me l =
     (if sl_loading l then STLoading
      else case sl_error l of
        Some e \<Rightarrow> STError e
      | None \<Rightarrow>
          (let priv = filter (\<lambda>(_, r, _). r_private r) (sl_rooms l);
               pub = filter (\<lambda>(_, r, _). \<not> r_private r) (sl_rooms l)
           in STLists (study_section me priv) (study_section me pub) (priv = [] \<and> pub = [])))"

text \<open>The timer card's buttons: the label of the main button and whether reset is enabled (\<open>disabled={!elapsedTime}\<close>).\<close>

definition timer_button_label :: "timer \<Rightarrow> string" where
  "timer_button_label t = (if is_running t then ''Duraklat'' else if is_paused t then ''Devam Et'' else ''Basla'')"

definition reset_enabled :: "timer \<Rightarrow> bool" where
  "reset_enabled t \<longleftrightarrow> elapsed t \<noteq> 0"

text \<open>The auth effect: once loading ends, a missing user or session goes to sign-in.\<close>

definition study_redirects :: "bool \<Rightarrow> user_id option \<Rightarrow> bool \<Rightarrow> bool" where
  "study_redirects loading me has_session \<longleftrightarrow> \<not> loading \<and> (me = None \<or> \<not> has_session)"

section \<open>Lemmas\<close>

lemma study_fetch_rooms_flags:
  "\<not> sl_loading (study_fetch_rooms d l)"
  "sl_error l \<noteq> None \<Longrightarrow> sl_error (study_fetch_rooms d l) \<noteq> None"
  "\<not> online d \<Longrightarrow> sl_error (study_fetch_rooms d l) \<noteq> None"
  by (simp_all add: study_fetch_rooms_def)

lemma study_list_run_Cons [simp]: "study_list_run l (d # ds) = study_list_run (study_fetch_rooms d l) ds"
  by (simp add: study_list_run_def)

lemma study_list_run_Nil [simp]: "study_list_run l [] = l"
  by (simp add: study_list_run_def)

lemma study_list_run_flags:
  "sl_error l \<noteq> None \<Longrightarrow> \<not> sl_loading l \<Longrightarrow>
   sl_error (study_list_run l ds) \<noteq> None \<and> \<not> sl_loading (study_list_run l ds)"
proof (induction ds arbitrary: l)
  case Nil
  then show ?case by simp
next
  case (Cons d ds)
  have "sl_error (study_fetch_rooms d l) \<noteq> None" "\<not> sl_loading (study_fetch_rooms d l)"
    using Cons.prems study_fetch_rooms_flags(1)[of d l] study_fetch_rooms_flags(2)[of l d] by simp_all
  then show ?case
    using Cons.IH[of "study_fetch_rooms d l"] by simp
qed

text \<open>As on the watch tab, one failed fetch hides the study rooms until the tab remounts.\<close>

lemma study_tab_error_sticks:
  assumes "\<not> online d"
  shows "\<exists>e. study_tab_view me (study_list_run (study_fetch_rooms d l) ds) = STError e"
proof -
  have "sl_error (study_list_run (study_fetch_rooms d l) ds) \<noteq> None \<and>
        \<not> sl_loading (study_list_run (study_fetch_rooms d l) ds)"
    using study_list_run_flags study_fetch_rooms_flags(1)[of d l] study_fetch_rooms_flags(3)[OF assms, of l] by blast
  then show ?thesis
    by (auto simp: study_tab_view_def split: option.splits)
qed

text \<open>A paused timer is never running, so the main button then offers to resume.\<close>

lemma timer_button_label_inv:
  "timer_inv u t d \<Longrightarrow> is_paused t \<Longrightarrow> timer_button_label t = ''Devam Et''"
  by (simp add: timer_button_label_def timer_inv_def)

end
