(* ===== verification/TimerDisplay.thy ===== *)
theory TimerDisplay
  imports Prelude
begin

text \<open>
  How elapsed seconds are shown: the clock \<open>TimerDisplay\<close> of
  \<open>src/proje/components/UI/AnimatedCounter.tsx\<close> (two-digit fields
  \<open>formatNumberString\<close> separated by colons, fed with
  \<open>Math.floor(elapsedTime / 3600)\<close>, \<open>Math.floor((elapsedTime % 3600) / 60)\<close>
  and \<open>elapsedTime % 60\<close> by the study tab and the study room), and the
  member list's \<open>formatTime\<close> of \<open>src/proje/components/Study/StudyRoom.tsx\<close>.
  Elapsed times are whole seconds, so \<open>Math.floor\<close> of a field is the field.
\<close>

text \<open>\<open>formatNumberString\<close>: a leading zero below ten.\<close>

definition format_number_string :: "nat \<Rightarrow> string" where
  "format_number_string n = (if n < 10 then ''0'' @ digits_nat n else digits_nat n)"

text \<open>The three props the study tab and the study room pass to \<open>TimerDisplay\<close>.\<close>

definition timer_fields :: "nat \<Rightarrow> nat \<times> nat \<times> nat" where
  "timer_fields e = (e div 3600, (e mod 3600) div 60, e mod 60)"

datatype timer_size = SizeSmall | SizeMedium | SizeLarge

text \<open>\<open>getFontSize\<close> with \<open>FontSizes\<close> of \<open>src/proje/constants/Theme.ts\<close>.\<close>

definition timer_font_size :: "timer_size \<Rightarrow> nat" where
  "timer_font_size sz = (case sz of SizeSmall \<Rightarrow> 18 | SizeMedium \<Rightarrow> 24 | SizeLarge \<Rightarrow> 32)"

text \<open>The text \<open>TimerDisplay\<close> renders once the animations have settled.\<close>

definition timer_display :: "nat \<Rightarrow> nat \<Rightarrow> nat \<Rightarrow> string" where
  "timer_display h m s =
     format_number_string h @ '':'' @ format_number_string m @ '':'' @ format_number_string s"

definition elapsed_text :: "nat \<Rightarrow> string" where
  "elapsed_text e = (case timer_fields e of (h, m, s) \<Rightarrow> timer_display h m s)"

text \<open>\<open>formatTime\<close> of the member list: hours, minutes and seconds, leading zero fields dropped.\<close>

definition format_time :: "nat \<Rightarrow> string" where
  "format_time secs =
     (let h = secs div 3600; m = (secs mod 3600) div 60; s = secs mod 60
      in if 0 < h then digits_nat h @ ''s '' @ digits_nat m @ ''d '' @ digits_nat s @ ''sn''
         else if 0 < m then digits_nat m @ ''d '' @ digits_nat s @ ''sn''
         else digits_nat s @ ''sn'')"

text \<open>Reading a clock text back, as a user does: split at the colons and weigh the fields.\<close>

fun split_colon :: "string \<Rightarrow> string list" where
  "split_colon [] = [[]]"
| "split_colon (c # cs) =
     (if c = CHR '':'' then [] # split_colon cs
      else (case split_colon cs of [] \<Rightarrow> [[c]] | w # ws \<Rightarrow> (c # w) # ws))"

definition clock_value :: "string \<Rightarrow> nat" where
  "clock_value t =
     (case split_colon t of [h, m, s] \<Rightarrow> read_digits h * 3600 + read_digits m * 60 + read_digits s | _ \<Rightarrow> 0)"

section \<open>Lemmas\<close>

lemma split_colon_free: "CHR '':'' \<notin> set a \<Longrightarrow> split_colon a = [a]"
  by (induction a) auto

lemma split_colon_append: "CHR '':'' \<notin> set a \<Longrightarrow> split_colon (a @ CHR '':'' # rest) = a # split_colon rest"
proof (induction a)
  case Nil
  then show ?case by simp
next
  case (Cons c a)
  then show ?case by (cases "split_colon (a @ CHR '':'' # rest)") auto
qed

lemma digits_nat_no_colon: "CHR '':'' \<notin> set (digits_nat n)"
  using digits_nat_digits[of n] by (auto simp: list_all_iff is_digit_def)

lemma format_number_no_colon: "CHR '':'' \<notin> set (format_number_string n)"
  using digits_nat_no_colon[of n] by (auto simp: format_number_string_def)

lemma read_digits_zero_Cons [simp]: "read_digits (CHR ''0'' # s) = read_digits s"
  by (simp add: read_digits_def)

lemma read_format_number [simp]: "read_digits (format_number_string n) = n"
  by (simp add: format_number_string_def)

lemma format_number_length: "n < 100 \<Longrightarrow> length (format_number_string n) = 2"
  by (cases "n < 10") (simp_all add: format_number_string_def digits_nat_lt digits_nat_ge)

lemma hms_decompose: "e div 3600 * 3600 + e mod 3600 div 60 * 60 + e mod 60 = (e::nat)"
proof -
  have "e mod 3600 mod 60 = e mod 60"
    by (simp add: mod_mod_cancel)
  then have "e mod 3600 div 60 * 60 + e mod 60 = e mod 3600"
    by (metis div_mult_mod_eq)
  then show ?thesis
    by (metis add.assoc div_mult_mod_eq)
qed

text \<open>C40. Reading the clock the study tab and the study room show back gives the elapsed seconds: hours, minutes and seconds are split and printed without loss.\<close>

theorem elapsed_text_roundtrip: "clock_value (elapsed_text e) = e"
proof -
  have "split_colon (elapsed_text e) =
          [format_number_string (e div 3600), format_number_string (e mod 3600 div 60), format_number_string (e mod 60)]"
    by (simp add: elapsed_text_def timer_fields_def timer_display_def split_colon_append split_colon_free format_number_no_colon)
  moreover have "e div 3600 * 3600 + e mod 3600 div 60 * 60 + e mod 60 = e"
    by (rule hms_decompose)
  ultimately show ?thesis
    by (simp add: clock_value_def)
qed

lemma elapsed_text_length: "e < 360000 \<Longrightarrow> length (elapsed_text e) = 8"
  by (simp add: elapsed_text_def timer_fields_def timer_display_def format_number_length less_mult_imp_div_less)

end
