(* ===== verification/StudyScreen.thy ===== *)
theory StudyScreen
  imports StudyTab TimerDisplay
begin

text \<open>
  The whole study tab \<open>src/proje/app/(tabs)/study.tsx\<close> as one view: the
  auth gate, the open room, or the main screen with its header, the timer
  card (the clock \<open>TimerDisplay\<close> shows, the start/pause/resume button and
  the reset button) and the room list of \<open>StudyTab\<close>, with the two modals.
  \<open>handleCreateRoom\<close> opens the create modal.
\<close>

record study_main =
  sm_clock :: string
  sm_clock_size :: nat
  sm_button :: string
  sm_button_active :: bool
  sm_reset_enabled :: bool
  sm_rooms :: study_tab_view
  sm_create_modal :: bool
  sm_join_modal :: "room_id option"

datatype study_screen = StudyNothing | StudyInRoom room_id | StudyMain study_main

text \<open>
  \<open>if (loading || !user || !session) return null\<close>; then the open room;
  else the main screen.  The clock is fed \<open>Math.floor(elapsedTime / 3600)\<close>,
  the minutes and the seconds, at the large size.
\<close>

definition study_screen_view ::
  "bool \<Rightarrow> user_id option \<Rightarrow> bool \<Rightarrow> timer \<Rightarrow> study_list \<Rightarrow> tab_ui \<Rightarrow> study_screen" where
  "study_screen_view loading me has_session t l ui =
     (if loading \<or> me = None \<or> \<not> has_session then StudyNothing
      else case tab_view ui of
        InRoom rid \<Rightarrow> StudyInRoom rid
      | v \<Rightarrow> StudyMain
          \<lparr>sm_clock = elapsed_text (elapsed t), sm_clock_size = timer_font_size SizeLarge,
           sm_button = timer_button_label t, sm_button_active = is_running t,
           sm_reset_enabled = reset_enabled t, sm_rooms = study_tab_view me l,
           sm_create_modal = create_open ui,
           sm_join_modal = (case v of JoinPrompt rid \<Rightarrow> Some rid | _ \<Rightarrow> None)\<rparr>)"

text \<open>\<open>handleCreateRoom\<close>: for a signed-in user, \<open>setShowCreateModal(true)\<close>.\<close>

definition handle_create_room :: "user_id option \<Rightarrow> tab_ui \<Rightarrow> tab_ui" where
  "handle_create_room me ui = (case me of None \<Rightarrow> ui | Some _ \<Rightarrow> ui\<lparr>create_open := True\<rparr>)"

section \<open>Lemmas\<close>

text \<open>Without a user or a session the tab draws nothing, and once auth has loaded it redirects to sign-in.\<close>

lemma study_screen_signed_out:
  "me = None \<or> \<not> has_session \<Longrightarrow>
   study_screen_view loading me has_session t l ui = StudyNothing \<and> study_redirects loading me has_session = (\<not> loading)"
  by (auto simp: study_screen_view_def study_redirects_def)

text \<open>A fresh timer shows 00:00:00 with the start button, and reset disabled.\<close>

lemma study_screen_fresh_timer:
  "tab_view ui = Browsing \<Longrightarrow>
   study_screen_view False (Some u) True timer0 l ui =
     StudyMain \<lparr>sm_clock = ''00:00:00'', sm_clock_size = 32, sm_button = ''Basla'', sm_button_active = False,
                sm_reset_enabled = False, sm_rooms = study_tab_view (Some u) l, sm_create_modal = create_open ui,
                sm_join_modal = None\<rparr>"
  by (simp add: study_screen_view_def timer0_def elapsed_text_def timer_fields_def timer_display_def
      format_number_string_def timer_font_size_def timer_button_label_def reset_enabled_def digits_nat.simps char_of_def bit_0)

end
