(* ===== verification/InfoScreens.thy ===== *)
theory InfoScreens
  imports UIKit
begin

text \<open>
  Two screens without store access: the welcome screen
  \<open>src/proje/app/(auth)/index.tsx\<close> (its redirect effect, its feature list
  and its two buttons) and the help screen \<open>src/proje/app/help-support.tsx\<close>
  (its contact items and what pressing each opens).  The entrance
  animations are not modelled.
\<close>

section \<open>Welcome screen\<close>

datatype welcome_route = ToTabs | ToSignIn | ToSignUp

text \<open>
  The mount effect (dependencies \<open>[]\<close>): with \<open>isAuthenticated\<close> set at the
  first render it replaces the screen by the tabs, else it starts the
  animations.  It never runs again, so later values of
  \<open>isAuthenticated\<close> are not read.
\<close>

definition welcome_effect :: "bool list \<Rightarrow> welcome_route option" where
  "welcome_effect auths = (case auths of a # _ \<Rightarrow> if a then Some ToTabs else None | [] \<Rightarrow> None)"

definition welcome_features :: "string list" where
  "welcome_features =
     [''Ozel konusmalar icin sifreli sohbet odalari'', ''Verimlilik zamanlayicili calisma odalari'',
      ''Siralama tablolu ortak calisma alanlari'', ''Yapay zeka destekli egitim kocu'']"

definition welcome_buttons :: "(button_props \<times> welcome_route) list" where
  "welcome_buttons =
     [((button_defaults ''Giris Yap'')\<lparr>b_size := Large\<rparr>, ToSignIn),
      ((button_defaults ''Hesap Olustur'')\<lparr>b_variant := Outline, b_size := Large\<rparr>, ToSignUp)]"

record welcome_view =
  wlv_title :: string
  wlv_tagline :: string
  wlv_features :: "string list"
  wlv_buttons :: "button_view list"

definition welcome_screen :: welcome_view where
  "welcome_screen = \<lparr>wlv_title = ''Ding'', wlv_tagline = ''Baglan. Sohbet Et. Birlikte Calis.'',
              wlv_features = welcome_features, wlv_buttons = map (button \<circ> fst) welcome_buttons\<rparr>"

definition welcome_press :: "nat \<Rightarrow> welcome_route option" where
  "welcome_press i = (if i < length welcome_buttons then Some (snd (welcome_buttons ! i)) else None)"

section \<open>Help screen\<close>

text \<open>What a press opens: a URL through \<open>Linking.openURL\<close>, or nothing (\<open>handleChat\<close> only logs).\<close>

datatype help_action = OpenUrl string | LogOnly string

record contact_item =
  ci_title :: string
  ci_value :: string
  ci_action :: help_action

definition help_items :: "contact_item list" where
  "help_items =
     [\<lparr>ci_title = ''E-posta'', ci_value = ''akdemiribrahim007@gmail.com'',
       ci_action = OpenUrl ''mailto:akdemiribrahim007@gmail.com''\<rparr>,
      \<lparr>ci_title = ''Canli Destek'', ci_value = ''7/24 Chat Destegi'', ci_action = LogOnly ''Chat destegi yakinda!''\<rparr>,
      \<lparr>ci_title = ''Website'', ci_value = ''https://roomiks.netlify.app/'', ci_action = OpenUrl ''https://roomiks.netlify.app/''\<rparr>,
      \<lparr>ci_title = ''Telefon'', ci_value = ''+90 532 385 9586'', ci_action = OpenUrl ''tel:+905323859586''\<rparr>]"

definition help_press :: "nat \<Rightarrow> string option" where
  "help_press i = (if i < length help_items then (case ci_action (help_items ! i) of OpenUrl u \<Rightarrow> Some u | LogOnly _ \<Rightarrow> None)
                   else None)"

section \<open>Root layout\<close>

text \<open>
  \<open>RootLayout\<close> of \<open>src/proje/app/_layout.tsx\<close>: nothing is drawn until the
  fonts are loaded or have failed; then the splash screen is hidden and
  the stack is drawn inside the theme and auth providers, with its four
  screens and their presentation.
\<close>

datatype presentation = CardPresentation | ModalPresentation

definition root_screens :: "(string \<times> presentation) list" where
  "root_screens = [(''(auth)'', CardPresentation), (''(tabs)'', CardPresentation),
                   (''pro-upgrade'', ModalPresentation), (''+not-found'', ModalPresentation)]"

definition root_layout :: "bool \<Rightarrow> bool \<Rightarrow> ((string \<times> presentation) list) option" where
  "root_layout fonts_loaded font_error = (if \<not> fonts_loaded \<and> \<not> font_error then None else Some root_screens)"

definition splash_hidden :: "bool \<Rightarrow> bool \<Rightarrow> bool" where
  "splash_hidden fonts_loaded font_error = (fonts_loaded \<or> font_error)"

section \<open>Lemmas\<close>

text \<open>A session restored after the first render is never noticed: the welcome screen stays.\<close>

lemma welcome_late_auth_ignored: "welcome_effect (False # rest) = None"
  by (simp add: welcome_effect_def)

text \<open>The two welcome buttons are large and always enabled; the first leads to sign-in, the second to sign-up.\<close>

lemma welcome_buttons_routes:
  "welcome_press 0 = Some ToSignIn \<and> welcome_press 1 = Some ToSignUp \<and>
   (\<forall>b \<in> set (wlv_buttons welcome_screen). bv_enabled b)"
  by (simp add: welcome_press_def welcome_buttons_def welcome_screen_def button_def button_defaults_def)

text \<open>The advertised round-the-clock live support opens nothing; every other contact item opens its own value.\<close>

lemma help_live_support_inert:
  "help_press 1 = None \<and> ci_value (help_items ! 1) = ''7/24 Chat Destegi'' \<and>
   help_press 2 = Some (ci_value (help_items ! 2))"
  by (simp add: help_press_def help_items_def)

text \<open>The splash screen is hidden exactly when the stack is drawn: a font failure falls back to the system fonts instead of blocking.\<close>

lemma splash_hidden_iff_drawn: "splash_hidden l e \<longleftrightarrow> root_layout l e \<noteq> None"
  by (simp add: splash_hidden_def root_layout_def)

end
