(* ===== verification/Accounts.thy ===== *)
theory Accounts
  imports Prelude
begin

text \<open>
  The account forms: sign-in and sign-up (\<open>src/proje/app/(auth)/sign-in.tsx\<close>,
  \<open>src/proje/app/(auth)/sign-up.tsx\<close>) with their \<open>validateForm\<close>, the
  e-mail pattern \<open>/\S+@\S+\.\S+/\<close> and the rate-limit cooldown of sign-up;
  the account settings screen (\<open>src/proje/app/account-settings.tsx\<close>) and
  the notification toggles (\<open>src/proje/app/notification-settings.tsx\<close>).
  The authentication library (\<open>signIn\<close>, \<open>signUp\<close>, \<open>auth.updateUser\<close>)
  is not in the repository: its answer is an input of the handlers.
  \<open>\S\<close> is a character that is not JavaScript white space (\<open>js_space\<close>).
\<close>

section \<open>The e-mail pattern\<close>

definition nonspace :: "char \<Rightarrow> bool" where
  "nonspace c \<longleftrightarrow> \<not> js_space c"

text \<open>A prefix matching \<open>\S*\.\S+\<close>.\<close>

fun dot_tail :: "string \<Rightarrow> bool" where
  "dot_tail [] = False"
| "dot_tail (c # cs) = ((c = CHR ''.'' \<and> cs \<noteq> [] \<and> nonspace (hd cs)) \<or> (nonspace c \<and> dot_tail cs))"

text \<open>\<open>/\S+@\S+\.\S+/.test(s)\<close>: the pattern is not anchored, so it matches anywhere in \<open>s\<close>.\<close>

fun email_ok :: "string \<Rightarrow> bool" where
  "email_ok (a # c # rest) =
     ((nonspace a \<and> c = CHR ''@'' \<and> rest \<noteq> [] \<and> nonspace (hd rest) \<and> dot_tail (tl rest)) \<or> email_ok (c # rest))"
| "email_ok _ = False"

text \<open>The pattern's meaning, as the reference for \<open>email_ok\<close>.\<close>

definition email_ref :: "string \<Rightarrow> bool" where
  "email_ref s \<longleftrightarrow> (\<exists>p u v w q. s = p @ u @ ''@'' @ v @ ''.'' @ w @ q \<and>
      u \<noteq> [] \<and> v \<noteq> [] \<and> w \<noteq> [] \<and> list_all nonspace (u @ v @ w))"

section \<open>Sign-in and sign-up\<close>

record form_errors =
  fe_name :: "string option"
  fe_email :: "string option"
  fe_password :: "string option"
  fe_confirm :: "string option"

definition no_errors :: form_errors where
  "no_errors = \<lparr>fe_name = None, fe_email = None, fe_password = None, fe_confirm = None\<rparr>"

text \<open>The answer of the authentication call: success, or an error whose \<open>message\<close> may be undefined.\<close>

datatype auth_result = AuthOk | AuthError "string option"

definition email_error :: "string \<Rightarrow> string option" where
  "email_error email =
     (if email = [] then Some ''E-posta adresi gerekli''
      else if \<not> email_ok email then Some ''Gecerli bir e-posta adresi girin'' else None)"

definition sign_in_errors :: "string \<Rightarrow> string \<Rightarrow> form_errors" where
  "sign_in_errors email password =
     no_errors\<lparr>fe_email := email_error email,
               fe_password := (if password = [] then Some ''Sifre gerekli'' else None)\<rparr>"

definition message_has :: "string \<Rightarrow> string option \<Rightarrow> bool" where
  "message_has t m = (case m of None \<Rightarrow> False | Some s \<Rightarrow> sublist t s)"

text \<open>
  \<open>handleSignIn\<close>: the errors shown and whether \<open>signIn\<close> was called.
\<close>

definition handle_sign_in :: "string \<Rightarrow> string \<Rightarrow> auth_result \<Rightarrow> form_errors \<times> bool" where
  "handle_sign_in email password r =
     (let errs = sign_in_errors email password
      in if errs \<noteq> no_errors then (errs, False)
         else case r of
           AuthOk \<Rightarrow> (errs, True)
         | AuthError m \<Rightarrow>
             if message_has ''invalid_credentials'' m
             then (no_errors\<lparr>fe_email := Some ''E-posta adresi veya sifre hatali'',
                             fe_password := Some ''E-posta adresi veya sifre hatali''\<rparr>, True)
             else (no_errors\<lparr>fe_password := Some ''Giris yapilamadi. Lutfen tekrar deneyin.''\<rparr>, True))"

record signup_form =
  su_name :: string
  su_email :: string
  su_password :: string
  su_confirm :: string
  su_errors :: form_errors
  su_cooldown :: nat

definition sign_up_errors :: "signup_form \<Rightarrow> form_errors" where
  "sign_up_errors f =
     \<lparr>fe_name = (if su_name f = [] then Some ''Isim gerekli'' else None),
      fe_email = email_error (su_email f),
      fe_password = (if su_password f = [] then Some ''Sifre gerekli''
                     else if length (su_password f) < 6 then Some ''Sifre en az 6 karakter olmali'' else None),
      fe_confirm = (if su_password f \<noteq> su_confirm f then Some ''Sifreler eslesmiyor'' else None)\<rparr>"

text \<open>\<open>s.match(/\d+/)\<close>: the first maximal run of digits, or \<open>null\<close>.\<close>

definition first_number :: "string \<Rightarrow> string option" where
  "first_number s =
     (let r = dropWhile (\<lambda>c. \<not> is_digit c) s in if r = [] then None else Some (takeWhile is_digit r))"

text \<open>A JavaScript exception that escapes the handler.\<close>

datatype js_exception = TypeError

text \<open>
  The \<open>catch\<close> block of \<open>handleSignUp\<close>.  On a rate-limit error it reads
  \<open>parseInt(error.message.match(/\d+/)[0] || '60')\<close>; when the message has
  no digit, \<open>match\<close> is \<open>null\<close> and indexing it throws.
\<close>

definition sign_up_answer :: "auth_result \<Rightarrow> signup_form \<Rightarrow> signup_form \<times> js_exception option" where
  "sign_up_answer r f =
     (case r of
        AuthOk \<Rightarrow> (f\<lparr>su_errors := no_errors\<lparr>fe_email := Some ''Kayit basarili! Lutfen e-posta adresinizi dogrulayin.''\<rparr>\<rparr>, None)
      | AuthError m \<Rightarrow>
          if message_has ''over_email_send_rate_limit'' m
          then (case first_number (the m) of
                  None \<Rightarrow> (f, Some TypeError)
                | Some ds \<Rightarrow>
                    (let w = read_digits (if ds = [] then ''60'' else ds)
                     in (f\<lparr>su_cooldown := w,
                           su_errors := no_errors\<lparr>fe_email := Some (''Guvenlik nedeniyle '' @ digits_nat w @ '' saniye beklemeniz gerekiyor.'')\<rparr>\<rparr>,
                         None)))
          else (f\<lparr>su_errors := no_errors\<lparr>fe_email := Some (if js_falsy m then ''Kayit basarisiz. Lutfen tekrar deneyin.'' else the m)\<rparr>\<rparr>, None))"

text \<open>
  \<open>handleSignUp\<close>: \<open>validateForm()\<close> sets the errors first; an invalid form
  or a running cooldown returns; otherwise \<open>signUp\<close> is called, with answer
  \<open>r\<close>.  The second component says whether \<open>signUp\<close> was called.
\<close>

definition handle_sign_up :: "auth_result \<Rightarrow> signup_form \<Rightarrow> (signup_form \<times> js_exception option) \<times> bool" where
  "handle_sign_up r f =
     (let f1 = f\<lparr>su_errors := sign_up_errors f\<rparr>
      in if sign_up_errors f \<noteq> no_errors \<or> 0 < su_cooldown f then ((f1, None), False)
         else (sign_up_answer r f1, True))"

text \<open>The cooldown effect: one second later, \<open>setCooldown(c => c - 1)\<close> while it is positive.\<close>

definition cooldown_tick :: "signup_form \<Rightarrow> signup_form" where
  "cooldown_tick f = (if 0 < su_cooldown f then f\<lparr>su_cooldown := su_cooldown f - 1\<rparr> else f)"

text \<open>
  The button: its title shows the remaining seconds while the cooldown runs;
  it gets \<open>disabled={cooldown > 0}\<close> and \<open>isLoading\<close> of the auth context,
  and \<open>Button\<close> is enabled when neither holds.
\<close>

definition sign_up_button :: "bool \<Rightarrow> signup_form \<Rightarrow> string \<times> bool" where
  "sign_up_button loading f =
     (if 0 < su_cooldown f then ''Lutfen '' @ digits_nat (su_cooldown f) @ '' saniye bekleyin'' else ''Hesap Olustur'',
      \<not> (0 < su_cooldown f \<or> loading))"

section \<open>Account settings\<close>

text \<open>
  The rows the screen reads and writes: the user's \<open>name\<close>, the
  \<open>profile_photos\<close> row (\<open>photo_url\<close> may be \<open>null\<close>), the storage bucket's
  object paths, and the number of \<open>USER_DATA_UPDATED\<close> events emitted.
  \<open>a_online\<close> false makes every call fail with \<open>net_error\<close>.
\<close>

record adb =
  a_online :: bool
  a_names :: "user_id \<rightharpoonup> string option"
  a_photos :: "user_id \<rightharpoonup> string option"
  a_objects :: "string list"
  a_events :: nat

record account_screen =
  ac_name :: string
  ac_avatar :: "string option"
  ac_new_pw :: string
  ac_confirm :: string
  ac_loading :: bool
  ac_error :: "string option"
  ac_success :: "string option"

definition net_error :: string where
  "net_error = ''Network request failed''"

text \<open>
  \<open>fetchUserProfile\<close>: the name by \<open>.single()\<close> (no row is an error), then
  the photo by \<open>.maybeSingle()\<close>; any error shows one message.
\<close>

definition fetch_user_profile :: "user_id option \<Rightarrow> adb \<Rightarrow> account_screen \<Rightarrow> account_screen" where
  "fetch_user_profile me d sc =
     (case me of None \<Rightarrow> sc
      | Some u \<Rightarrow>
          if \<not> a_online d then sc\<lparr>ac_error := Some ''Profil bilgileri yuklenirken bir hata olustu''\<rparr>
          else (case a_names d u of
            None \<Rightarrow> sc\<lparr>ac_error := Some ''Profil bilgileri yuklenirken bir hata olustu''\<rparr>
          | Some n \<Rightarrow>
              (let sc1 = sc\<lparr>ac_name := (case n of None \<Rightarrow> [] | Some x \<Rightarrow> x)\<rparr>
               in case a_photos d u of None \<Rightarrow> sc1 | Some p \<Rightarrow> sc1\<lparr>ac_avatar := p\<rparr>)))"

text \<open>\<open>uri.split('.').pop() || 'jpg'\<close>: the text after the last dot, or the whole uri when it has none.\<close>

definition file_ext :: "string \<Rightarrow> string" where
  "file_ext uri = (let e = rev (takeWhile (\<lambda>c. c \<noteq> CHR ''.'') (rev uri)) in if e = [] then ''jpg'' else e)"

definition avatar_path :: "user_id \<Rightarrow> time_ms \<Rightarrow> string \<Rightarrow> string" where
  "avatar_path u now uri = ''photos/'' @ digits_nat u @ ''-'' @ show_int now @ ''.'' @ file_ext uri"

definition public_url :: "string \<Rightarrow> string" where
  "public_url path = ''/storage/v1/object/public/profile_photos/'' @ path"

text \<open>
  \<open>uploadAvatar\<close>: upload to the bucket (an existing path is refused, the
  client does not pass \<open>upsert\<close>), upsert the \<open>profile_photos\<close> row on
  \<open>user_id\<close>, show the photo and emit \<open>USER_DATA_UPDATED\<close>.
\<close>

definition upload_avatar :: "user_id option \<Rightarrow> time_ms \<Rightarrow> string \<Rightarrow> adb \<Rightarrow> account_screen \<Rightarrow> account_screen \<times> adb" where
  "upload_avatar me now uri d sc =
     (case me of None \<Rightarrow> (sc, d)
      | Some u \<Rightarrow>
          (let path = avatar_path u now uri; fail = sc\<lparr>ac_error := Some ''Profil fotografi guncellenirken bir hata olustu'', ac_loading := False\<rparr>
           in if \<not> a_online d \<or> path \<in> set (a_objects d) then (fail, d)
              else (sc\<lparr>ac_avatar := Some (public_url path), ac_success := Some ''Profil fotografi basariyla guncellendi'',
                       ac_error := None, ac_loading := False\<rparr>,
                    d\<lparr>a_objects := a_objects d @ [path], a_photos := (a_photos d)(u \<mapsto> Some (public_url path)),
                      a_events := Suc (a_events d)\<rparr>)))"

text \<open>\<open>handleUpdateProfile\<close>: \<open>update({ name }).eq('id', user.id)\<close>; no matching row is no error.\<close>

definition handle_update_profile :: "user_id option \<Rightarrow> adb \<Rightarrow> account_screen \<Rightarrow> account_screen \<times> adb" where
  "handle_update_profile me d sc =
     (case me of None \<Rightarrow> (sc, d)
      | Some u \<Rightarrow>
          if \<not> a_online d then (sc\<lparr>ac_error := Some net_error, ac_success := None, ac_loading := False\<rparr>, d)
          else (sc\<lparr>ac_error := None, ac_success := Some ''Profil basariyla guncellendi'', ac_loading := False\<rparr>,
                d\<lparr>a_names := update_row (a_names d) u (\<lambda>_. Some (ac_name sc)), a_events := Suc (a_events d)\<rparr>))"

text \<open>
  \<open>handleUpdatePassword\<close>: the two fields must be equal, then
  \<open>auth.updateUser({ password })\<close> answers \<open>r\<close>.  The result says whether the
  call was made.
\<close>

definition handle_update_password :: "user_id option \<Rightarrow> auth_result \<Rightarrow> account_screen \<Rightarrow> account_screen \<times> bool" where
  "handle_update_password me r sc =
     (case me of None \<Rightarrow> (sc, False)
      | Some u \<Rightarrow>
          if ac_new_pw sc \<noteq> ac_confirm sc
          then (sc\<lparr>ac_error := Some ''Yeni sifreler eslesmiyor'', ac_success := None, ac_loading := False\<rparr>, False)
          else (case r of
            AuthOk \<Rightarrow> (sc\<lparr>ac_error := None, ac_success := Some ''Sifre basariyla guncellendi'', ac_new_pw := [], ac_confirm := [],
                          ac_loading := False\<rparr>, True)
          | AuthError m \<Rightarrow> (sc\<lparr>ac_error := m, ac_success := None, ac_loading := False\<rparr>, True)))"

section \<open>Notification settings\<close>

record notif_setting =
  ns_id :: string
  ns_enabled :: bool

definition notif0 :: "notif_setting list" where
  "notif0 = [\<lparr>ns_id = ''messages'', ns_enabled = True\<rparr>, \<lparr>ns_id = ''study_reminders'', ns_enabled = True\<rparr>,
             \<lparr>ns_id = ''room_invites'', ns_enabled = True\<rparr>, \<lparr>ns_id = ''achievements'', ns_enabled = True\<rparr>]"

definition toggle_setting :: "string \<Rightarrow> notif_setting list \<Rightarrow> notif_setting list" where
  "toggle_setting i ss = map (\<lambda>s. if ns_id s = i then s\<lparr>ns_enabled := \<not> ns_enabled s\<rparr> else s) ss"

section \<open>Lemmas\<close>

lemma dot_tail_iff:
  "dot_tail cs \<longleftrightarrow> (\<exists>v w q. cs = v @ CHR ''.'' # w @ q \<and> w \<noteq> [] \<and> list_all nonspace (v @ w))"
proof (induction cs)
  case Nil
  then show ?case by simp
next
  case (Cons c cs)
  show ?case
  proof
    assume "dot_tail (c # cs)"
    then consider "c = CHR ''.''" "cs \<noteq> []" "nonspace (hd cs)" | "nonspace c" "dot_tail cs"
      by auto
    then show "\<exists>v w q. c # cs = v @ CHR ''.'' # w @ q \<and> w \<noteq> [] \<and> list_all nonspace (v @ w)"
    proof cases
      case 1
      then show ?thesis
        by (intro exI[of _ "[]"] exI[of _ "[hd cs]"] exI[of _ "tl cs"]) simp
    next
      case 2
      then obtain v w q where "cs = v @ CHR ''.'' # w @ q" "w \<noteq> []" "list_all nonspace (v @ w)"
        using Cons.IH by blast
      with 2 show ?thesis
        by (intro exI[of _ "c # v"] exI[of _ w] exI[of _ q]) simp
    qed
  next
    assume "\<exists>v w q. c # cs = v @ CHR ''.'' # w @ q \<and> w \<noteq> [] \<and> list_all nonspace (v @ w)"
    then obtain v w q where eq: "c # cs = v @ CHR ''.'' # w @ q" and w: "w \<noteq> []" and ns: "list_all nonspace (v @ w)"
      by blast
    show "dot_tail (c # cs)"
    proof (cases v)
      case Nil
      with eq w ns show ?thesis by (cases w) auto
    next
      case (Cons x v')
      with eq w ns have "nonspace c" "dot_tail cs"
        using Cons.IH by auto
      then show ?thesis by simp
    qed
  qed
qed

lemma email_ok_iff:
  "email_ok s \<longleftrightarrow> (\<exists>p a b zs. s = p @ a # CHR ''@'' # b # zs \<and> nonspace a \<and> nonspace b \<and> dot_tail zs)"
proof (induction s rule: email_ok.induct)
  case (1 a c rest)
  show ?case
  proof
    assume "email_ok (a # c # rest)"
    then consider "nonspace a" "c = CHR ''@''" "rest \<noteq> []" "nonspace (hd rest)" "dot_tail (tl rest)" | "email_ok (c # rest)"
      by auto
    then show "\<exists>p a' b zs. a # c # rest = p @ a' # CHR ''@'' # b # zs \<and> nonspace a' \<and> nonspace b \<and> dot_tail zs"
    proof cases
      case 1
      then show ?thesis
        by (intro exI[of _ "[]"] exI[of _ a] exI[of _ "hd rest"] exI[of _ "tl rest"]) simp
    next
      case 2
      then obtain p a' b zs where "c # rest = p @ a' # CHR ''@'' # b # zs" "nonspace a'" "nonspace b" "dot_tail zs"
        using "1.IH" by blast
      then show ?thesis
        by (intro exI[of _ "a # p"]) auto
    qed
  next
    assume "\<exists>p a' b zs. a # c # rest = p @ a' # CHR ''@'' # b # zs \<and> nonspace a' \<and> nonspace b \<and> dot_tail zs"
    then obtain p a' b zs where eq: "a # c # rest = p @ a' # CHR ''@'' # b # zs"
      and h: "nonspace a'" "nonspace b" "dot_tail zs" by blast
    show "email_ok (a # c # rest)"
    proof (cases p)
      case Nil
      with eq h show ?thesis by auto
    next
      case (Cons x p')
      with eq h have "email_ok (c # rest)"
        using "1.IH" by auto
      then show ?thesis by simp
    qed
  qed
qed auto


text \<open>The sign-in and sign-up e-mail check is the unanchored pattern \<open>/\S+@\S+\.\S+/\<close>: it accepts exactly the texts containing some non-blank run, an at sign, a non-blank run, a dot and a non-blank run.\<close>

theorem email_ok_equiv: "email_ok s = email_ref s"
proof
  assume "email_ok s"
  then obtain p a b zs where s: "s = p @ a # CHR ''@'' # b # zs" and ab: "nonspace a" "nonspace b"
    and "dot_tail zs" unfolding email_ok_iff by blast
  then obtain v w q where zs: "zs = v @ CHR ''.'' # w @ q" "w \<noteq> []" "list_all nonspace (v @ w)"
    unfolding dot_tail_iff by blast
  show "email_ref s"
    unfolding email_ref_def
    by (rule exI[of _ p], rule exI[of _ "[a]"], rule exI[of _ "b # v"], rule exI[of _ w], rule exI[of _ q])
       (use s ab zs in simp)
next
  assume "email_ref s"
  then obtain p u v w q where s: "s = p @ u @ ''@'' @ v @ ''.'' @ w @ q"
    and ne: "u \<noteq> []" "v \<noteq> []" "w \<noteq> []" and ns: "list_all nonspace (u @ v @ w)"
    unfolding email_ref_def by blast
  obtain b v' where v: "v = b # v'" using ne(2) by (cases v) auto
  have "dot_tail (v' @ CHR ''.'' # w @ q)"
    unfolding dot_tail_iff using ne(3) ns v by (intro exI[of _ v'] exI[of _ w] exI[of _ q]) simp
  moreover have "s = (p @ butlast u) @ last u # CHR ''@'' # b # (v' @ CHR ''.'' # w @ q)"
    using s v ne(1) by (simp add: append_butlast_last_id[symmetric])
  moreover have "nonspace (last u)" "nonspace b"
    using ns ne(1) v by (simp_all add: list_all_iff)
  ultimately show "email_ok s"
    unfolding email_ok_iff by blast
qed


lemma first_number_digits:
  assumes "list_all (\<lambda>c. \<not> is_digit c) p" and "q = [] \<or> \<not> is_digit (hd q)"
  shows "first_number (p @ digits_nat n @ q) = Some (digits_nat n)"
proof -
  obtain d ds where dn: "digits_nat n = d # ds" using digits_nat_ne[of n] by (cases "digits_nat n") blast+
  have dig: "list_all is_digit (d # ds)" using digits_nat_digits[of n] dn by (simp only:)
  have drop: "dropWhile (\<lambda>c. \<not> is_digit c) (p @ digits_nat n @ q) = d # ds @ q"
    using assms(1) dig dn by (simp add: dropWhile_append3 list_all_iff del: digits_nat.simps)
  have "takeWhile is_digit (d # ds @ q) = d # ds"
    using dig assms(2) by (cases q) (simp_all add: takeWhile_append2 list_all_iff del: digits_nat.simps)
  then show ?thesis
    using drop dn by (simp add: first_number_def del: digits_nat.simps)
qed

lemma cooldown_tick_upd: "cooldown_tick (f\<lparr>su_cooldown := c\<rparr>) = f\<lparr>su_cooldown := c - 1\<rparr>"
  by (simp add: cooldown_tick_def)

lemma cooldown_ticks: "(cooldown_tick ^^ k) f = f\<lparr>su_cooldown := su_cooldown f - k\<rparr>"
proof (induction k)
  case 0
  then show ?case by simp
next
  case (Suc k)
  have "(cooldown_tick ^^ Suc k) f = cooldown_tick (f\<lparr>su_cooldown := su_cooldown f - k\<rparr>)"
    using Suc.IH by (simp only: funpow.simps comp_apply)
  also have "\<dots> = f\<lparr>su_cooldown := su_cooldown f - Suc k\<rparr>"
    by (simp only: cooldown_tick_upd diff_Suc_eq_diff_pred diff_commute[of _ 1])
  finally show ?case .
qed

text \<open>C37. A rate-limit answer whose message has no digit makes handleSignUp throw: the fallback \<open>'60'\<close> is never reached.\<close>

theorem rate_limit_without_digits_throws:
  assumes "sign_up_errors f = no_errors" and "su_cooldown f = 0"
    and "sublist ''over_email_send_rate_limit'' m" and "list_all (\<lambda>c. \<not> is_digit c) m"
  shows "handle_sign_up (AuthError (Some m)) f = ((f\<lparr>su_errors := no_errors\<rparr>, Some TypeError), True)"
proof -
  have "first_number m = None"
    using assms(4) by (simp add: first_number_def list_all_iff)
  then show ?thesis
    using assms by (simp add: handle_sign_up_def sign_up_answer_def message_has_def)
qed


theorem rate_limit_without_digits_throws_witness:
  "handle_sign_up (AuthError (Some ''over_email_send_rate_limit''))
     \<lparr>su_name = ''Ali'', su_email = ''ali@okul.com'', su_password = ''secret'', su_confirm = ''secret'',
      su_errors = no_errors, su_cooldown = 0\<rparr> =
   ((\<lparr>su_name = ''Ali'', su_email = ''ali@okul.com'', su_password = ''secret'', su_confirm = ''secret'',
      su_errors = no_errors, su_cooldown = 0\<rparr>, Some TypeError), True)"
  using rate_limit_without_digits_throws[where m = "''over_email_send_rate_limit''" and
      f = "\<lparr>su_name = ''Ali'', su_email = ''ali@okul.com'', su_password = ''secret'', su_confirm = ''secret'',
            su_errors = no_errors, su_cooldown = 0\<rparr>"]
  by (simp add: sign_up_errors_def email_error_def no_errors_def nonspace_def js_space_def is_digit_def)


lemma handle_sign_up_calls:
  "snd (handle_sign_up r g) \<longleftrightarrow> sign_up_errors g = no_errors \<and> su_cooldown g = 0"
  by (simp add: handle_sign_up_def Let_def)

lemma sign_up_errors_upd [simp]:
  "sign_up_errors (g\<lparr>su_cooldown := c\<rparr>) = sign_up_errors g"
  "sign_up_errors (g\<lparr>su_errors := e\<rparr>) = sign_up_errors g"
  by (simp_all add: sign_up_errors_def)

lemma rate_limit_answer:
  assumes "sublist ''over_email_send_rate_limit'' (p @ digits_nat n @ q)"
    and "list_all (\<lambda>c. \<not> is_digit c) p" and "q = [] \<or> \<not> is_digit (hd q)"
  shows "sign_up_answer (AuthError (Some (p @ digits_nat n @ q))) g =
           (g\<lparr>su_cooldown := n,
              su_errors := no_errors\<lparr>fe_email := Some (''Guvenlik nedeniyle '' @ digits_nat n @ '' saniye beklemeniz gerekiyor.'')\<rparr>\<rparr>,
            None)"
  using assms first_number_digits[OF assms(2,3), of n]
  by (simp add: sign_up_answer_def message_has_def del: digits_nat.simps)

text \<open>C38. After a rate-limit answer that names a number of seconds, handleSignUp sets the cooldown to that number and refuses to call signUp, with the button disabled, for exactly that many ticks.\<close>

theorem rate_limit_cooldown:
  assumes valid: "sign_up_errors f = no_errors" and idle: "su_cooldown f = 0"
    and msg: "sublist ''over_email_send_rate_limit'' (p @ digits_nat n @ q)"
    and pre: "list_all (\<lambda>c. \<not> is_digit c) p" and post: "q = [] \<or> \<not> is_digit (hd q)"
  shows "su_cooldown (fst (fst (handle_sign_up (AuthError (Some (p @ digits_nat n @ q))) f))) = n \<and>
         (\<forall>k<n. \<not> snd (handle_sign_up r ((cooldown_tick ^^ k) (fst (fst (handle_sign_up (AuthError (Some (p @ digits_nat n @ q))) f))))) \<and>
                \<not> snd (sign_up_button loading ((cooldown_tick ^^ k) (fst (fst (handle_sign_up (AuthError (Some (p @ digits_nat n @ q))) f)))))) \<and>
         snd (handle_sign_up r ((cooldown_tick ^^ n) (fst (fst (handle_sign_up (AuthError (Some (p @ digits_nat n @ q))) f)))))"
proof -
  define E where "E = no_errors\<lparr>fe_email := Some (''Guvenlik nedeniyle '' @ digits_nat n @ '' saniye beklemeniz gerekiyor.'')\<rparr>"
  have g: "fst (fst (handle_sign_up (AuthError (Some (p @ digits_nat n @ q))) f)) = f\<lparr>su_errors := E, su_cooldown := n\<rparr>"
    using valid idle rate_limit_answer[OF msg pre post, of "f\<lparr>su_errors := no_errors\<rparr>"]
    by (simp add: handle_sign_up_def E_def)
  show ?thesis
    unfolding g cooldown_ticks
    using valid by (simp add: handle_sign_up_calls sign_up_button_def)
qed

theorem rate_limit_cooldown_witness:
  "su_cooldown (fst (fst (handle_sign_up (AuthError (Some ''over_email_send_rate_limit: retry after 30s''))
     \<lparr>su_name = ''Ali'', su_email = ''ali@okul.com'', su_password = ''secret'', su_confirm = ''secret'',
      su_errors = no_errors, su_cooldown = 0\<rparr>))) = 30"
proof -
  have d: "digits_nat 30 = ''30''" by (simp add: digits_nat.simps char_of_def bit_0)
  have m: "''over_email_send_rate_limit: retry after 30s'' = ''over_email_send_rate_limit: retry after '' @ digits_nat 30 @ ''s''"
    unfolding d by simp
  have msg: "sublist ''over_email_send_rate_limit'' (''over_email_send_rate_limit: retry after '' @ digits_nat 30 @ ''s'')"
    unfolding append_assoc[symmetric]
    by (intro sublist_append_rightI prefix_imp_sublist) simp
  have valid: "sign_up_errors \<lparr>su_name = ''Ali'', su_email = ''ali@okul.com'', su_password = ''secret'', su_confirm = ''secret'',
      su_errors = no_errors, su_cooldown = 0\<rparr> = no_errors"
    by (simp add: sign_up_errors_def email_error_def no_errors_def nonspace_def js_space_def)
  have pre: "list_all (\<lambda>c. \<not> is_digit c) ''over_email_send_rate_limit: retry after ''"
    by (simp add: is_digit_def)
  have post: "''s'' = [] \<or> \<not> is_digit (hd ''s'')"
    by (simp add: is_digit_def)
  show ?thesis
    unfolding m using rate_limit_cooldown[OF valid _ msg pre post, where r = AuthOk] by simp
qed

end
