(* ===== verification/NotificationView.thy ===== *)
theory NotificationView
  imports Accounts
begin

text \<open>
  The render of \<open>src/proje/app/notification-settings.tsx\<close>: one row per
  setting, in the order of the state, with its title, its description and
  its switch, whose \<open>onValueChange\<close> calls \<open>toggleSetting\<close> with the row's id;
  the header's back button leaves the screen, whose state is then dropped
  (the next visit mounts \<open>notif0\<close> again).
\<close>

definition notif_text :: "string \<Rightarrow> string \<times> string" where
  "notif_text i =
     (if i = ''messages'' then (''Mesaj Bildirimleri'', ''Yeni mesaj geldiginde bildirim al'')
      else if i = ''study_reminders'' then (''Calisma Hatirlaticilari'', ''Gunluk calisma hedeflerini hatirlat'')
      else if i = ''room_invites'' then (''Oda Davetleri'', ''Yeni oda davetlerinde bildirim al'')
      else (''Basarim Bildirimleri'', ''Yeni basarimlar kazandiginda bildirim al''))"

record notif_row =
  nr_title :: string
  nr_description :: string
  nr_switch :: bool

definition notif_row_of :: "notif_setting \<Rightarrow> notif_row" where
  "notif_row_of s = \<lparr>nr_title = fst (notif_text (ns_id s)), nr_description = snd (notif_text (ns_id s)),
                      nr_switch = ns_enabled s\<rparr>"

definition notif_view :: "notif_setting list \<Rightarrow> notif_row list" where
  "notif_view ss = map notif_row_of ss"

text \<open>A visit: the switches pressed (by row index), then the back button.\<close>

datatype notif_event = NSwitch nat | NBack

fun notif_visit :: "notif_setting list \<Rightarrow> notif_event list \<Rightarrow> notif_setting list" where
  "notif_visit ss [] = ss"
| "notif_visit ss (NSwitch k # es) =
     notif_visit (if k < length ss then toggle_setting (ns_id (ss ! k)) ss else ss) es"
| "notif_visit ss (NBack # es) = notif_visit notif0 es"

section \<open>Lemmas\<close>

lemma toggle_setting_ids [simp]: "map ns_id (toggle_setting i ss) = map ns_id ss"
  by (induction ss) (simp_all add: toggle_setting_def)

lemma length_toggle_setting [simp]: "length (toggle_setting i ss) = length ss"
  by (simp add: toggle_setting_def)

lemma notif_visit_ids: "map ns_id ss = map ns_id notif0 \<Longrightarrow> map ns_id (notif_visit ss es) = map ns_id notif0"
  by (induction ss es rule: notif_visit.induct) simp_all

lemma toggle_setting_nth:
  "distinct (map ns_id ss) \<Longrightarrow> j < length ss \<Longrightarrow> k < length ss \<Longrightarrow>
   ns_enabled (toggle_setting (ns_id (ss ! k)) ss ! j) = (if j = k then \<not> ns_enabled (ss ! j) else ns_enabled (ss ! j))"
  using nth_eq_iff_index_eq[of "map ns_id ss" j k] by (auto simp: toggle_setting_def)

text \<open>
  Pressing a row's switch flips that row's switch only, and the rows keep
  their titles; the ids of the initial list are distinct, so no other row
  is touched.
\<close>

lemma notif_switch_flips_one:
  "map ns_id ss = map ns_id notif0 \<Longrightarrow> j < 4 \<Longrightarrow> k < 4 \<Longrightarrow>
   nr_switch (notif_view (notif_visit ss [NSwitch k]) ! j) =
     (if j = k then \<not> nr_switch (notif_view ss ! j) else nr_switch (notif_view ss ! j))
   \<and> nr_title (notif_view (notif_visit ss [NSwitch k]) ! j) = nr_title (notif_view ss ! j)"
proof -
  assume ids: "map ns_id ss = map ns_id notif0" and jk: "j < 4" "k < 4"
  have len: "length ss = 4" using arg_cong[OF ids, of length] by (simp add: notif0_def)
  have dist: "distinct (map ns_id ss)" using ids by (simp add: notif0_def)
  have tid: "ns_id (toggle_setting i ss ! j) = ns_id (ss ! j)" for i
    using len jk by (simp add: toggle_setting_def)
  show ?thesis
    using toggle_setting_nth[OF dist] len jk tid
    by (simp add: notif_view_def notif_row_of_def)
qed

text \<open>Leaving the screen drops every change: whatever was switched, the next visit shows the initial rows.\<close>

lemma notif_back_forgets:
  "notif_view (notif_visit ss (es @ [NBack])) = notif_view notif0"
  by (induction ss es rule: notif_visit.induct) simp_all

end
