(* ===== verification/Presence.thy ===== *)
theory Presence
  imports StudyTimer StudyRooms
begin

text \<open>
  The study room screen \<open>StudyRoom\<close>
  (\<open>src/proje/components/Study/StudyRoom.tsx\<close>): the presence aggregation
  that turns the room's member rows into per-member running counters, and the
  room's timer button, which drives the timer hook of \<open>StudyTimer\<close> and
  publishes the session on the member row.  The screen state is the fetched
  member list and the map \<open>memberTimers\<close>; the realtime callbacks
  (\<open>postgres_changes\<close> on \<open>study_room_members\<close> and \<open>study_sessions\<close>)
  re-run \<open>fetchMembers\<close>.  Profile photos (\<open>memberPhotos\<close>) are not modelled.
\<close>

section \<open>Fetched rows and the screen state\<close>

text \<open>
  One element of the \<open>select\<close> of \<open>fetchMembers\<close>: the member's user, its
  \<open>current_session_id\<close>, and the embedded session row that id points at
  (\<open>null\<close> when there is none).
\<close>

record member_view =
  mv_user :: user_id
  mv_session_id :: "session_id option"
  mv_session :: "session_row option"

record member_timer =
  mt_start :: time_ms
  mt_elapsed :: int

text \<open>
  The screen's state: \<open>members\<close>, \<open>memberTimers\<close>, and the value of the
  timer hook's \<open>elapsedTime\<close> in the render whose \<open>fetchMembers\<close> the realtime
  callbacks captured (the effect that subscribes runs once per \<open>roomId\<close>).
\<close>

record room_screen =
  rs_members :: "member_view list"
  rs_timers :: "user_id \<rightharpoonup> member_timer"
  rs_mount_elapsed :: nat

definition member_views :: "db \<Rightarrow> room_id \<Rightarrow> member_view list" where
  "member_views d rid =
     map (\<lambda>(u, m). \<lparr>mv_user = u, mv_session_id = m_session m,
                    mv_session = (case m_session m of None \<Rightarrow> None | Some sid \<Rightarrow> study_sessions d sid)\<rparr>)
         (members_of d rid)"

text \<open>
  The counter \<open>fetchMembers\<close> computes for a member with a session: the
  user's own is the timer hook's \<open>elapsedTime\<close>; another member's is
  \<open>Math.floor((now - created_at) / 1000)\<close>, the seconds since the session
  row was created.
\<close>

definition snapshot_timer :: "user_id option \<Rightarrow> time_ms \<Rightarrow> nat \<Rightarrow> member_view \<Rightarrow> session_row \<Rightarrow> member_timer" where
  "snapshot_timer me now local v s =
     (if Some (mv_user v) = me then \<lparr>mt_start = s_created s, mt_elapsed = int local\<rparr>
      else \<lparr>mt_start = s_created s, mt_elapsed = (now - s_created s) div 1000\<rparr>)"

text \<open>
  \<open>roomMembers.forEach\<close> assigns \<open>newTimers[member.user_id]\<close> for each member
  with a session id and a session row; a later assignment to the same key
  overwrites an earlier one, which is \<open>map_of\<close> of the reversed list.
\<close>

definition snapshot_timers :: "user_id option \<Rightarrow> time_ms \<Rightarrow> nat \<Rightarrow> member_view list \<Rightarrow> user_id \<rightharpoonup> member_timer" where
  "snapshot_timers me now local vs =
     map_of (rev [(mv_user v, snapshot_timer me now local v (the (mv_session v))).
                  v \<leftarrow> vs, mv_session_id v \<noteq> None \<and> mv_session v \<noteq> None])"

text \<open>\<open>fetchMembers\<close>: on a failed query nothing changes.\<close>

definition fetch_members :: "user_id option \<Rightarrow> time_ms \<Rightarrow> nat \<Rightarrow> room_id \<Rightarrow> db \<Rightarrow> room_screen \<Rightarrow> room_screen" where
  "fetch_members me now local rid d rs =
     (if \<not> online d then rs
      else (let vs = member_views d rid in
            rs\<lparr>rs_members := vs, rs_timers := snapshot_timers me now local vs\<rparr>))"

text \<open>A realtime change event runs the captured \<open>fetchMembers\<close>.\<close>

definition on_member_change :: "user_id option \<Rightarrow> time_ms \<Rightarrow> room_id \<Rightarrow> db \<Rightarrow> room_screen \<Rightarrow> room_screen" where
  "on_member_change me now rid d rs = fetch_members me now (rs_mount_elapsed rs) rid d rs"

text \<open>
  The one-second interval of the second effect: each member with a session
  id that already has a counter keeps it, with the user's own set to the
  hook's \<open>elapsedTime\<close> and another's advanced by one; every other entry is
  dropped.
\<close>

definition presence_tick :: "user_id option \<Rightarrow> nat \<Rightarrow> room_screen \<Rightarrow> room_screen" where
  "presence_tick me local rs =
     rs\<lparr>rs_timers := map_of (rev
        [(mv_user v, (let pt = the (rs_timers rs (mv_user v)) in
                      if Some (mv_user v) = me then pt\<lparr>mt_elapsed := int local\<rparr>
                      else pt\<lparr>mt_elapsed := mt_elapsed pt + 1\<rparr>)).
         v \<leftarrow> rs_members rs, mv_session_id v \<noteq> None \<and> rs_timers rs (mv_user v) \<noteq> None])\<rparr>"

section \<open>The room's timer button\<close>

text \<open>
  \<open>handleTimerAction\<close> of the room: a running timer is stopped and the
  member row's session cleared; a paused one is resumed and a new session is
  started and published; otherwise a session is started and published.
  \<open>handleReset\<close> resets the timer and clears the member row's session.
\<close>

definition start_and_publish :: "user_id option \<Rightarrow> time_ms \<Rightarrow> room_id \<Rightarrow> timer \<Rightarrow> db \<Rightarrow> timer \<times> db" where
  "start_and_publish me now rid t d =
     (case start_timer me now t d of
        (Some sid, t', d') \<Rightarrow> (t', update_session me rid (Some sid) d')
      | (None, t', d') \<Rightarrow> (t', d'))"

definition room_timer_action :: "user_id option \<Rightarrow> time_ms \<Rightarrow> room_id \<Rightarrow> timer \<times> db \<Rightarrow> timer \<times> db" where
  "room_timer_action me now rid = (\<lambda>(t, d).
     if is_running t then (case stop_timer now t d of (t', d') \<Rightarrow> (t', update_session me rid None d'))
     else if is_paused t then start_and_publish me now rid (resume_timer t) d
     else start_and_publish me now rid t d)"

definition room_reset :: "user_id option \<Rightarrow> room_id \<Rightarrow> timer \<times> db \<Rightarrow> timer \<times> db" where
  "room_reset me rid = (\<lambda>(t, d). (reset_timer t, update_session me rid None d))"

section \<open>The room screen over time\<close>

text \<open>
  The screen as first rendered (no members, no counters) and its
  \<open>[roomId]\<close> effect: \<open>fetchMembers\<close> of that render, and the three
  subscriptions, whose callbacks keep calling the \<open>fetchMembers\<close> of that
  same render and so read the \<open>elapsedTime\<close> the timer hook had then.  The
  effect runs again only for another \<open>roomId\<close>, which is another mount.
\<close>

definition room_mount :: "user_id option \<Rightarrow> time_ms \<Rightarrow> room_id \<Rightarrow> timer \<Rightarrow> db \<Rightarrow> room_screen" where
  "room_mount me now rid t d =
     fetch_members me now (elapsed t) rid d \<lparr>rs_members = [], rs_timers = Map.empty, rs_mount_elapsed = elapsed t\<rparr>"

text \<open>
  What happens to a mounted room screen: its timer button and reset, the
  timer hook's one-second tick, the presence interval, a realtime change
  event, and writes of other clients (the store is replaced by any other
  store).
\<close>

datatype room_event =
    RoomAction time_ms
  | RoomReset
  | RoomTick
  | RoomPresenceTick
  | RoomChange time_ms
  | RoomRemote db

fun room_step :: "user_id option \<Rightarrow> room_id \<Rightarrow> timer \<times> db \<times> room_screen \<Rightarrow> room_event \<Rightarrow> timer \<times> db \<times> room_screen" where
  "room_step me rid (t, d, rs) (RoomAction now) = (case room_timer_action me now rid (t, d) of (t', d') \<Rightarrow> (t', d', rs))"
| "room_step me rid (t, d, rs) RoomReset = (case room_reset me rid (t, d) of (t', d') \<Rightarrow> (t', d', rs))"
| "room_step me rid (t, d, rs) RoomTick = (tick t, d, rs)"
| "room_step me rid (t, d, rs) RoomPresenceTick = (t, d, presence_tick me (elapsed t) rs)"
| "room_step me rid (t, d, rs) (RoomChange now) = (t, d, on_member_change me now rid d rs)"
| "room_step me rid (t, d, rs) (RoomRemote d') = (t, d', rs)"

definition room_run :: "user_id option \<Rightarrow> room_id \<Rightarrow> timer \<times> db \<times> room_screen \<Rightarrow> room_event list \<Rightarrow> timer \<times> db \<times> room_screen" where
  "room_run me rid = foldl (room_step me rid)"


text \<open>Sample data for the witnesses: two members of room 0, user 1 timing a session created at 1000 ms, user 2 waiting.\<close>

definition presence_demo_db :: db where
  "presence_demo_db = empty_db\<lparr>
     study_members := [((0, 1), \<lparr>m_joined = 0, m_session = Some 5\<rparr>), ((0, 2), \<lparr>m_joined = 0, m_session = None\<rparr>)],
     study_sessions := [5 \<mapsto> \<lparr>s_user = 1, s_created = 1000, s_duration = 0, s_ended = None\<rparr>],
     next_id := 6\<rparr>"

definition presence_demo_screen :: room_screen where
  "presence_demo_screen = \<lparr>rs_members = [], rs_timers = Map.empty, rs_mount_elapsed = 0\<rparr>"


section \<open>Lookups in the rebuilt counter maps\<close>

lemma map_of_rev_filter_Some:
  assumes "distinct (map key vs)" and "v \<in> set vs" and "P v"
  shows "map_of (rev [(key x, g x). x \<leftarrow> vs, P x]) (key v) = Some (g v)"
proof -
  have eq: "[(key x, g x). x \<leftarrow> vs, P x] = map (\<lambda>x. (key x, g x)) (filter P vs)"
    by (induction vs) auto
  have "distinct (map key (filter P vs))" using assms(1) by (rule distinct_map_filter)
  then have "distinct (map fst (rev [(key x, g x). x \<leftarrow> vs, P x]))"
    by (simp add: eq comp_def rev_map [symmetric])
  moreover have "(key v, g v) \<in> set (rev [(key x, g x). x \<leftarrow> vs, P x])"
    using assms(2,3) by (auto simp: eq)
  ultimately show ?thesis by simp
qed

lemma map_of_rev_filter_None:
  assumes "\<forall>x \<in> set vs. key x = k \<longrightarrow> \<not> P x"
  shows "map_of (rev [(key x, g x). x \<leftarrow> vs, P x]) k = None"
  using assms by (auto simp: map_of_eq_None_iff)

lemma set_members_of: "set (members_of d rid) = {(u, m). ((rid, u), m) \<in> set (study_members d)}"
  by (auto simp: members_of_def)

lemma distinct_rows_of_key:
  "distinct (map fst ms) \<Longrightarrow> distinct (map fst [(snd k, m). (k, m) \<leftarrow> ms, fst k = r])"
  by (induction ms) (auto simp: image_iff)

lemma distinct_members_of:
  "distinct (map fst (study_members d)) \<Longrightarrow> distinct (map fst (members_of d rid))"
  unfolding members_of_def by (rule distinct_rows_of_key)

lemma map_mv_user_member_views: "map mv_user (member_views d rid) = map fst (members_of d rid)"
  by (simp add: member_views_def case_prod_unfold)

lemma member_view_in:
  assumes "((rid, v), m) \<in> set (study_members d)"
  shows "\<lparr>mv_user = v, mv_session_id = m_session m,
          mv_session = (case m_session m of None \<Rightarrow> None | Some sid \<Rightarrow> study_sessions d sid)\<rparr>
         \<in> set (member_views d rid)"
  using assms by (force simp: member_views_def set_members_of)

lemma member_views_user:
  "x \<in> set (member_views d rid) \<Longrightarrow>
   \<exists>m. ((rid, mv_user x), m) \<in> set (study_members d) \<and> mv_session_id x = m_session m \<and>
        mv_session x = (case m_session m of None \<Rightarrow> None | Some sid \<Rightarrow> study_sessions d sid)"
  by (auto simp: member_views_def set_members_of)

lemma distinct_member_views:
  "distinct (map fst (study_members d)) \<Longrightarrow> distinct (map mv_user (member_views d rid))"
  by (simp add: map_mv_user_member_views distinct_members_of)

lemma presence_tick_frame [simp]:
  "rs_members (presence_tick me local rs) = rs_members rs"
  "rs_mount_elapsed (presence_tick me local rs) = rs_mount_elapsed rs"
  by (simp_all add: presence_tick_def)

lemma presence_tick_remote:
  assumes "distinct (map mv_user (rs_members rs))" and "x \<in> set (rs_members rs)"
    and "mv_session_id x \<noteq> None" and "rs_timers rs (mv_user x) = Some pt" and "me \<noteq> Some (mv_user x)"
  shows "rs_timers (presence_tick me local rs) (mv_user x) = Some (pt\<lparr>mt_elapsed := mt_elapsed pt + 1\<rparr>)"
proof -
  have "map_of (rev [(mv_user v, (let pt = the (rs_timers rs (mv_user v)) in
                      if Some (mv_user v) = me then pt\<lparr>mt_elapsed := int local\<rparr>
                      else pt\<lparr>mt_elapsed := mt_elapsed pt + 1\<rparr>)).
         v \<leftarrow> rs_members rs, mv_session_id v \<noteq> None \<and> rs_timers rs (mv_user v) \<noteq> None]) (mv_user x) =
      Some (let pt = the (rs_timers rs (mv_user x)) in
                      if Some (mv_user x) = me then pt\<lparr>mt_elapsed := int local\<rparr>
                      else pt\<lparr>mt_elapsed := mt_elapsed pt + 1\<rparr>)"
    by (rule map_of_rev_filter_Some) (use assms in auto)
  then show ?thesis using assms(4,5) by (simp add: presence_tick_def)
qed

lemma funpow_presence_members [simp]:
  "rs_members ((presence_tick me local ^^ k) rs) = rs_members rs"
  by (induction k) simp_all

lemma presence_ticks_remote:
  assumes "distinct (map mv_user (rs_members rs))" and "x \<in> set (rs_members rs)"
    and "mv_session_id x \<noteq> None" and "rs_timers rs (mv_user x) = Some pt" and "me \<noteq> Some (mv_user x)"
  shows "rs_timers ((presence_tick me local ^^ k) rs) (mv_user x) = Some (pt\<lparr>mt_elapsed := mt_elapsed pt + int k\<rparr>)"
proof (induction k)
  case 0
  then show ?case using assms(4) by simp
next
  case (Suc k)
  have "rs_timers (presence_tick me local ((presence_tick me local ^^ k) rs)) (mv_user x) =
      Some (pt\<lparr>mt_elapsed := mt_elapsed pt + int k\<rparr>\<lparr>mt_elapsed := mt_elapsed (pt\<lparr>mt_elapsed := mt_elapsed pt + int k\<rparr>) + 1\<rparr>)"
    by (rule presence_tick_remote) (use assms Suc.IH in \<open>simp_all add: funpow_presence_members\<close>)
  then show ?case by simp
qed

lemma fetch_members_online:
  "online d \<Longrightarrow> fetch_members me now local rid d rs =
     rs\<lparr>rs_members := member_views d rid, rs_timers := snapshot_timers me now local (member_views d rid)\<rparr>"
  by (simp add: fetch_members_def Let_def)

lemma room_timer_action_start:
  assumes "\<not> is_running t" and "online d"
  shows "room_timer_action (Some u) now rid (t, d) =
     (t\<lparr>is_running := True, is_paused := False, current_session := Some (next_id d)\<rparr>,
      update_session (Some u) rid (Some (next_id d))
        (snd (insert_session \<lparr>s_user = u, s_created = now, s_duration = 0, s_ended = None\<rparr> d)))"
  using assms by (simp add: room_timer_action_def start_and_publish_def start_timer_online resume_timer_def)

lemma room_timer_action_stop:
  assumes "is_running t" and "current_session t = Some sid"
  shows "room_timer_action (Some u) now rid (t, d) =
     (t\<lparr>is_running := False, is_paused := True\<rparr>, update_session (Some u) rid None (write_duration now t d))"
  using assms by (simp add: room_timer_action_def stop_timer_session)

section \<open>Presence properties\<close>

text \<open>
  C13. A re-fetch resets another member's counter to the fresh estimate: the
  whole seconds since their session row was created, whatever the counter
  showed before (a reset, not an interpolation).
\<close>

theorem fetch_resets_remote_counter:
  assumes "online d" and "distinct (map fst (study_members d))"
    and "map_of (study_members d) (rid, v) = Some m" and "m_session m = Some sid"
    and "study_sessions d sid = Some s" and "me \<noteq> Some v"
  shows "rs_timers (fetch_members me now local rid d rs) v =
           Some \<lparr>mt_start = s_created s, mt_elapsed = (now - s_created s) div 1000\<rparr>"
proof -
  let ?x = "\<lparr>mv_user = v, mv_session_id = Some sid, mv_session = Some s\<rparr>"
  have "((rid, v), m) \<in> set (study_members d)" using assms(3) by (rule map_of_SomeD)
  then have "?x \<in> set (member_views d rid)"
    using member_view_in assms(4,5) by fastforce
  then have "snapshot_timers me now local (member_views d rid) (mv_user ?x) =
      Some (snapshot_timer me now local ?x (the (mv_session ?x)))"
    unfolding snapshot_timers_def
    by (rule map_of_rev_filter_Some [OF distinct_member_views [OF assms(2)]]) simp
  then show ?thesis
    using assms(1,6) by (simp add: fetch_members_def snapshot_timer_def Let_def)
qed

lemma fetch_resets_remote_counter_witness:
  "rs_timers (fetch_members (Some 2) 61500 0 0 presence_demo_db presence_demo_screen) 1 =
     Some \<lparr>mt_start = 1000, mt_elapsed = 60\<rparr>"
  using fetch_resets_remote_counter [where d = presence_demo_db and rid = 0 and v = 1 and m = "\<lparr>m_joined = 0, m_session = Some 5\<rparr>"
      and sid = 5 and s = "\<lparr>s_user = 1, s_created = 1000, s_duration = 0, s_ended = None\<rparr>" and me = "Some 2"
      and now = 61500 and local = 0 and rs = presence_demo_screen]
  by (simp add: presence_demo_db_def empty_db_def)


text \<open>
  A member whose row has no session is waiting: after a fetch there is no
  running counter for them.
\<close>

theorem fetch_waiting_member_has_no_counter:
  assumes "online d" and "distinct (map fst (study_members d))"
    and "map_of (study_members d) (rid, v) = Some m" and "m_session m = None"
  shows "rs_timers (fetch_members me now local rid d rs) v = None"
proof -
  have "\<forall>x \<in> set (member_views d rid). mv_user x = v \<longrightarrow> mv_session_id x = None"
  proof
    fix x assume x: "x \<in> set (member_views d rid)"
    then obtain m' where m': "((rid, mv_user x), m') \<in> set (study_members d)" "mv_session_id x = m_session m'"
      using member_views_user by blast
    show "mv_user x = v \<longrightarrow> mv_session_id x = None"
    proof
      assume "mv_user x = v"
      with m'(1) assms(2) have "map_of (study_members d) (rid, v) = Some m'" by simp
      with assms(3,4) m'(2) show "mv_session_id x = None" by simp
    qed
  qed
  then have "snapshot_timers me now local (member_views d rid) v = None"
    unfolding snapshot_timers_def by (intro map_of_rev_filter_None) auto
  with assms(1) show ?thesis by (simp add: fetch_members_def Let_def)
qed

lemma fetch_waiting_member_has_no_counter_witness:
  "rs_timers (fetch_members (Some 1) 61500 0 0 presence_demo_db presence_demo_screen) 2 = None"
  using fetch_waiting_member_has_no_counter [where d = presence_demo_db and rid = 0 and v = 2 and m = "\<lparr>m_joined = 0, m_session = None\<rparr>"
      and me = "Some 1" and now = 61500 and local = 0 and rs = presence_demo_screen]
  by (simp add: presence_demo_db_def empty_db_def)


text \<open>
  C14. Between fetches the interval advances another member's counter by one per
  tick: after k ticks it equals what a re-fetch k seconds later would show, so
  with one-second ticks the local estimate tracks the abstract elapsed time.
\<close>

theorem remote_counter_tracks_refetch:
  assumes "online d" and "distinct (map fst (study_members d))"
    and "map_of (study_members d) (rid, v) = Some m" and "m_session m = Some sid"
    and "study_sessions d sid = Some s" and "me \<noteq> Some v"
  shows "rs_timers ((presence_tick me local ^^ k) (fetch_members me now local' rid d rs)) v =
         rs_timers (fetch_members me (now + 1000 * int k) local'' rid d rs') v"
proof -
  let ?x = "\<lparr>mv_user = v, mv_session_id = Some sid, mv_session = Some s\<rparr>"
  let ?rs = "fetch_members me now local' rid d rs"
  have "((rid, v), m) \<in> set (study_members d)" using assms(3) by (rule map_of_SomeD)
  then have x: "?x \<in> set (rs_members ?rs)"
    using member_view_in assms(1,4,5) by (fastforce simp: fetch_members_online)
  have dist: "distinct (map mv_user (rs_members ?rs))"
    using assms(1,2) by (simp add: fetch_members_online distinct_member_views)
  have snap: "rs_timers ?rs (mv_user ?x) = Some \<lparr>mt_start = s_created s, mt_elapsed = (now - s_created s) div 1000\<rparr>"
    using fetch_resets_remote_counter [OF assms] by simp
  have "rs_timers ((presence_tick me local ^^ k) ?rs) (mv_user ?x) =
      Some \<lparr>mt_start = s_created s, mt_elapsed = (now - s_created s) div 1000 + int k\<rparr>"
    using presence_ticks_remote [OF dist x _ snap] assms(6) by simp
  moreover have "(now + 1000 * int k - s_created s) div 1000 = (now - s_created s) div 1000 + int k"
    by (simp add: algebra_simps)
  ultimately show ?thesis
    using fetch_resets_remote_counter [OF assms, where now = "now + 1000 * int k" and local = local'' and rs = rs'] by simp
qed

lemma remote_counter_tracks_refetch_witness:
  "rs_timers ((presence_tick (Some 2) 0 ^^ 3) (fetch_members (Some 2) 61500 0 0 presence_demo_db presence_demo_screen)) 1 =
   Some \<lparr>mt_start = 1000, mt_elapsed = 63\<rparr>"
  using remote_counter_tracks_refetch [where d = presence_demo_db and rid = 0 and v = 1 and m = "\<lparr>m_joined = 0, m_session = Some 5\<rparr>"
      and sid = 5 and s = "\<lparr>s_user = 1, s_created = 1000, s_duration = 0, s_ended = None\<rparr>" and me = "Some 2"
      and now = 61500 and local = 0 and local' = 0 and local'' = 0 and k = 3 and rs = presence_demo_screen and rs' = presence_demo_screen]
  by (simp add: presence_demo_db_def empty_db_def fetch_members_def Let_def member_views_def members_of_def snapshot_timers_def snapshot_timer_def)


text \<open>A realtime refresh sets the user's own counter to the value the captured closure holds.\<close>

lemma on_member_change_own:
  assumes "online d" and "distinct (map fst (study_members d))"
    and "map_of (study_members d) (rid, u) = Some m" and "m_session m = Some sid"
    and "study_sessions d sid = Some s"
  shows "rs_timers (on_member_change (Some u) now rid d rs) u =
           Some \<lparr>mt_start = s_created s, mt_elapsed = int (rs_mount_elapsed rs)\<rparr>"
proof -
  let ?x = "\<lparr>mv_user = u, mv_session_id = Some sid, mv_session = Some s\<rparr>"
  have "((rid, u), m) \<in> set (study_members d)" using assms(3) by (rule map_of_SomeD)
  then have "?x \<in> set (member_views d rid)"
    using member_view_in assms(4,5) by fastforce
  then have "snapshot_timers (Some u) now (rs_mount_elapsed rs) (member_views d rid) (mv_user ?x) =
      Some (snapshot_timer (Some u) now (rs_mount_elapsed rs) ?x (the (mv_session ?x)))"
    unfolding snapshot_timers_def
    by (rule map_of_rev_filter_Some [OF distinct_member_views [OF assms(2)]]) simp
  then show ?thesis
    using assms(1) by (simp add: on_member_change_def fetch_members_online snapshot_timer_def)
qed

lemma room_step_mount_elapsed [simp]:
  "rs_mount_elapsed (snd (snd (room_step me rid st ev))) = rs_mount_elapsed (snd (snd st))"
  by (cases st; cases ev)
     (auto simp: on_member_change_def fetch_members_def Let_def split: prod.splits)

lemma room_run_mount_elapsed:
  "rs_mount_elapsed (snd (snd (room_run me rid st evs))) = rs_mount_elapsed (snd (snd st))"
  by (induction evs arbitrary: st) (simp_all add: room_run_def)

lemma room_mount_elapsed [simp]: "rs_mount_elapsed (room_mount me now rid t d) = elapsed t"
  by (simp add: room_mount_def fetch_members_def Let_def)

text \<open>
  C15. However the room screen is used after it mounts (timer presses,
  ticks, presence ticks, realtime events, other clients' writes), a
  realtime refresh sets the user's own counter to the timer's elapsed time
  at mount, which the subscriptions' fetchMembers closure captured, not to
  the current elapsedTime.
\<close>

theorem realtime_refresh_shows_mount_elapsed:
  assumes run: "room_run (Some u) rid (t0, d0, room_mount (Some u) now0 rid t0 d0) evs = (t, d, rs)"
    and "online d" and "distinct (map fst (study_members d))"
    and "map_of (study_members d) (rid, u) = Some m" and "m_session m = Some sid"
    and "study_sessions d sid = Some s"
  shows "rs_timers (snd (snd (room_step (Some u) rid (t, d, rs) (RoomChange now)))) u =
           Some \<lparr>mt_start = s_created s, mt_elapsed = int (elapsed t0)\<rparr>"
proof -
  have "rs_mount_elapsed rs = elapsed t0"
    using room_run_mount_elapsed[of "Some u" rid "(t0, d0, room_mount (Some u) now0 rid t0 d0)" evs] run by simp
  then show ?thesis
    using on_member_change_own[OF assms(2-6), of now rs] by simp
qed

lemma realtime_refresh_shows_mount_elapsed_witness:
  "elapsed (fst (room_run (Some 1) 0 (timer0, presence_demo_db, room_mount (Some 1) 0 0 timer0 presence_demo_db)
      [RoomAction 2000, RoomTick, RoomTick, RoomTick])) = 3 \<and>
   rs_timers (snd (snd (room_step (Some 1) 0 (room_run (Some 1) 0 (timer0, presence_demo_db, room_mount (Some 1) 0 0 timer0 presence_demo_db)
      [RoomAction 2000, RoomTick, RoomTick, RoomTick]) (RoomChange 5000)))) 1 =
     Some \<lparr>mt_start = 2000, mt_elapsed = 0\<rparr>"
proof -
  let ?r = "room_run (Some 1) 0 (timer0, presence_demo_db, room_mount (Some 1) 0 0 timer0 presence_demo_db)
      [RoomAction 2000, RoomTick, RoomTick, RoomTick]"
  have d: "fst (snd ?r) = presence_demo_db\<lparr>
     study_members := [((0, 1), \<lparr>m_joined = 0, m_session = Some 6\<rparr>), ((0, 2), \<lparr>m_joined = 0, m_session = None\<rparr>)],
     study_sessions := [5 \<mapsto> \<lparr>s_user = 1, s_created = 1000, s_duration = 0, s_ended = None\<rparr>,
                        6 \<mapsto> \<lparr>s_user = 1, s_created = 2000, s_duration = 0, s_ended = None\<rparr>],
     next_id := 7\<rparr>"
    by (simp add: room_run_def room_timer_action_def start_and_publish_def start_timer_def insert_session_def
        update_session_def tick_def timer0_def presence_demo_db_def empty_db_def tbl_update_def)
  have t: "elapsed (fst ?r) = 3"
    by (simp add: room_run_def room_timer_action_def start_and_publish_def start_timer_def insert_session_def
        update_session_def tick_def timer0_def presence_demo_db_def empty_db_def)
  have run: "room_run (Some 1) 0 (timer0, presence_demo_db, room_mount (Some 1) 0 0 timer0 presence_demo_db)
      [RoomAction 2000, RoomTick, RoomTick, RoomTick] = (fst ?r, fst (snd ?r), snd (snd ?r))"
    by simp
  have on: "online (fst (snd ?r))" and dist: "distinct (map fst (study_members (fst (snd ?r))))"
    and mo: "map_of (study_members (fst (snd ?r))) (0, 1) = Some \<lparr>m_joined = 0, m_session = Some 6\<rparr>"
    and ss: "study_sessions (fst (snd ?r)) 6 = Some \<lparr>s_user = 1, s_created = 2000, s_duration = 0, s_ended = None\<rparr>"
    unfolding d by (simp_all add: presence_demo_db_def empty_db_def)
  have "rs_timers (snd (snd (room_step (Some 1) 0 (fst ?r, fst (snd ?r), snd (snd ?r)) (RoomChange 5000)))) 1 =
     Some \<lparr>mt_start = 2000, mt_elapsed = int (elapsed timer0)\<rparr>"
    using realtime_refresh_shows_mount_elapsed[OF run on dist mo _ ss] by simp
  then show ?thesis
    using t by (simp add: timer0_def)
qed


text \<open>
  C16. In a study room, pressing the button on a paused timer resumes it and
  starts a new session while elapsedTime keeps its value: after n seconds,
  a stop, a restart and m more seconds, the second session is stored with
  duration n + m, so the first n seconds are counted twice.
\<close>

theorem room_resume_double_counts:
  assumes "online d" and "elapsed t = 0" and "\<not> is_running t"
  shows "case room_timer_action (Some u) first_stop rid (timer_run u (room_timer_action (Some u) start rid (t, d)) (replicate n Tick)) of
           (t1, d1) \<Rightarrow>
         case room_timer_action (Some u) second_stop rid (timer_run u (room_timer_action (Some u) restart rid (t1, d1)) (replicate m Tick)) of
           (t2, d2) \<Rightarrow>
           study_sessions d2 (next_id d) = Some \<lparr>s_user = u, s_created = start, s_duration = n, s_ended = Some first_stop\<rparr> \<and>
           study_sessions d2 (Suc (next_id d)) = Some \<lparr>s_user = u, s_created = restart, s_duration = n + m, s_ended = Some second_stop\<rparr>"
proof -
  let ?sid = "next_id d"
  let ?ta = "t\<lparr>is_running := True, is_paused := False, current_session := Some ?sid\<rparr>"
  let ?d1 = "update_session (Some u) rid (Some ?sid)
        (snd (insert_session \<lparr>s_user = u, s_created = start, s_duration = 0, s_ended = None\<rparr> d))"
  have s1: "room_timer_action (Some u) start rid (t, d) = (?ta, ?d1)"
    using assms by (simp add: room_timer_action_start)
  have s2: "timer_run u (?ta, ?d1) (replicate n Tick) = (?ta\<lparr>elapsed := n\<rparr>, ?d1)"
    using assms by (simp add: timer_run_ticks)
  let ?d3 = "update_session (Some u) rid None (write_duration first_stop (?ta\<lparr>elapsed := n\<rparr>) ?d1)"
  let ?tp = "?ta\<lparr>elapsed := n, is_running := False, is_paused := True\<rparr>"
  have s3: "room_timer_action (Some u) first_stop rid (?ta\<lparr>elapsed := n\<rparr>, ?d1) = (?tp, ?d3)"
    by (simp add: room_timer_action_stop)
  have on3: "online ?d3" and id3: "next_id ?d3 = Suc ?sid"
    using assms by (simp_all add: insert_session_def)
  have row3: "study_sessions ?d3 ?sid = Some \<lparr>s_user = u, s_created = start, s_duration = n, s_ended = Some first_stop\<rparr>"
    using assms by (simp add: write_duration_online insert_session_row)
  let ?tb = "?tp\<lparr>is_running := True, is_paused := False, current_session := Some (Suc ?sid)\<rparr>"
  let ?d4 = "update_session (Some u) rid (Some (Suc ?sid))
        (snd (insert_session \<lparr>s_user = u, s_created = restart, s_duration = 0, s_ended = None\<rparr> ?d3))"
  have s4: "room_timer_action (Some u) restart rid (?tp, ?d3) = (?tb, ?d4)"
    using on3 id3 by (simp add: room_timer_action_def start_and_publish_def start_timer_online resume_timer_def)
  have s5: "timer_run u (?tb, ?d4) (replicate m Tick) = (?tb\<lparr>elapsed := n + m\<rparr>, ?d4)"
    by (simp add: timer_run_ticks)
  have s6: "room_timer_action (Some u) second_stop rid (?tb\<lparr>elapsed := n + m\<rparr>, ?d4) =
      (?tb\<lparr>elapsed := n + m, is_running := False, is_paused := True\<rparr>,
       update_session (Some u) rid None (write_duration second_stop (?tb\<lparr>elapsed := n + m\<rparr>) ?d4))"
    by (simp add: room_timer_action_stop)
  have rows: "study_sessions (update_session (Some u) rid None (write_duration second_stop (?tb\<lparr>elapsed := n + m\<rparr>) ?d4)) ?sid =
        Some \<lparr>s_user = u, s_created = start, s_duration = n, s_ended = Some first_stop\<rparr> \<and>
      study_sessions (update_session (Some u) rid None (write_duration second_stop (?tb\<lparr>elapsed := n + m\<rparr>) ?d4)) (Suc ?sid) =
        Some \<lparr>s_user = u, s_created = restart, s_duration = n + m, s_ended = Some second_stop\<rparr>"
    using assms(1) on3 id3 row3 by (simp add: write_duration_def insert_session_row)
  show ?thesis
    using rows by (simp only: s1 s2 s3 s4 s5 s6 prod.case)
qed

lemma room_resume_double_counts_witness:
  "case room_timer_action (Some 7) 10000 0 (timer_run 7 (room_timer_action (Some 7) 0 0 (timer0, empty_db)) (replicate 10 Tick)) of
     (t1, d1) \<Rightarrow>
   case room_timer_action (Some 7) 25000 0 (timer_run 7 (room_timer_action (Some 7) 20000 0 (t1, d1)) (replicate 5 Tick)) of
     (t2, d2) \<Rightarrow>
     study_sessions d2 0 = Some \<lparr>s_user = 7, s_created = 0, s_duration = 10, s_ended = Some 10000\<rparr> \<and>
     study_sessions d2 1 = Some \<lparr>s_user = 7, s_created = 20000, s_duration = 15, s_ended = Some 25000\<rparr>"
  using room_resume_double_counts [where d = empty_db and t = timer0 and u = 7 and rid = 0 and start = 0
      and n = 10 and first_stop = 10000 and restart = 20000 and m = 5 and second_stop = 25000]
  by (simp add: empty_db_def timer0_def)


end
