(* ===== verification/StoreWF.thy ===== *)
theory StoreWF
  imports StudyTimer StudyRooms
begin

text \<open>
  The study tables as an instance of their schema (\<open>supabase/migrations\<close>,
  spec section 3): room ids and member keys \<open>(room_id, user_id)\<close> are
  primary keys, every member row's room exists (the foreign key with its
  cascade), and every identifier in use is below the id counter.  Every
  operation of \<open>useStudyRooms\<close> and every callback of \<open>useStudyTimer\<close>
  keeps the store an instance of the schema.
\<close>

definition db_wf :: "db \<Rightarrow> bool" where
  "db_wf d \<longleftrightarrow>
     ids_fresh d \<and> distinct (map fst (study_rooms d)) \<and> distinct (map fst (study_members d)) \<and>
     (\<forall>k \<in> fst ` set (study_members d). fst k \<in> fst ` set (study_rooms d))"

text \<open>The writes of the two hooks, each with the arguments its call takes.\<close>

datatype store_op =
    OpJoin "user_id option" time_ms room_id "string option"
  | OpCreate "user_id option" time_ms string string bool "string option"
  | OpLeave "user_id option" room_id
  | OpDelete "user_id option" room_id
  | OpRoomSession "user_id option" room_id "session_id option"
  | OpTimer user_id timer timer_event

fun store_step :: "db \<Rightarrow> store_op \<Rightarrow> db" where
  "store_step d (OpJoin me now rid pw) = snd (join_room me now rid pw d)"
| "store_step d (OpCreate me now n desc priv pw) = snd (create_room me now n desc priv pw d)"
| "store_step d (OpLeave me rid) = snd (leave_room me rid d)"
| "store_step d (OpDelete me rid) = snd (delete_room me rid d)"
| "store_step d (OpRoomSession me rid sid) = snd (rooms_update_session me rid sid d)"
| "store_step d (OpTimer u t e) = snd (timer_step u (t, d) e)"

text \<open>The user on whose behalf an operation runs (\<open>supabase.auth.getUser()\<close>).\<close>

fun store_op_user :: "store_op \<Rightarrow> user_id option" where
  "store_op_user (OpJoin me now rid pw) = me"
| "store_op_user (OpCreate me now n desc priv pw) = me"
| "store_op_user (OpLeave me rid) = me"
| "store_op_user (OpDelete me rid) = me"
| "store_op_user (OpRoomSession me rid sid) = me"
| "store_op_user (OpTimer u t e) = Some u"

section \<open>Lemmas\<close>

lemma distinct_tbl_upsert:
  "distinct (map fst t) \<Longrightarrow> distinct (map fst (tbl_upsert t k v f))"
  by (simp add: tbl_upsert_def AList.distinct_map_default)

lemma distinct_tbl_update:
  "distinct (map fst t) \<Longrightarrow> distinct (map fst (tbl_update t k f))"
  by (simp add: tbl_update_def AList.distinct_map_entry)

lemma distinct_tbl_delete:
  "distinct (map fst t) \<Longrightarrow> distinct (map fst (tbl_delete k t))"
  by (simp add: tbl_delete_def AList.distinct_delete)

lemma set_tbl_delete_sub: "set (tbl_delete k t) \<subseteq> set t"
  by (auto simp: tbl_delete_def AList.delete_eq)

lemma keys_tbl_delete: "fst ` set (tbl_delete k t) = fst ` set t - {k}"
  by (induction t) (auto simp: tbl_delete_def)

lemma keys_map_tbl_update [simp]: "map fst (tbl_update t k f) = map fst t"
  by (induction t) (auto simp: tbl_update_def)

lemma db_wf_update_session_rows [simp]:
  "db_wf (d\<lparr>study_members := tbl_update (study_members d) k g\<rparr>) = db_wf d"
  "db_wf (d\<lparr>study_sessions := update_row (study_sessions d) j f\<rparr>) = db_wf d"
  by (simp_all add: db_wf_def ids_fresh_def flip: image_set)

lemma db_wf_insert_session: "db_wf d \<Longrightarrow> db_wf (snd (insert_session r d))"
  using ids_fresh_insert_session[of d r] by (simp add: db_wf_def)

lemma db_wf_insert_room: "db_wf d \<Longrightarrow> db_wf (snd (insert_room r d))"
  using ids_fresh_insert_room[of d r] ids_fresh_new_room[of d]
  by (auto simp: db_wf_def tbl_insert_def map_of_eq_None_iff)

lemma db_wf_members_upsert:
  "db_wf d \<Longrightarrow> rid \<in> fst ` set (study_rooms d) \<Longrightarrow>
   db_wf (d\<lparr>study_members := tbl_upsert (study_members d) (rid, u) v f\<rparr>)"
  by (auto simp: db_wf_def ids_fresh_def distinct_tbl_upsert)

lemma db_wf_join: "db_wf d \<Longrightarrow> db_wf (snd (join_room me now rid pw d))"
proof -
  assume wf: "db_wf d"
  have room: "map_of (study_rooms d) rid = Some r \<Longrightarrow> rid \<in> fst ` set (study_rooms d)" for r
    by (force dest: map_of_SomeD)
  show ?thesis
    using wf room db_wf_members_upsert[OF wf]
    by (simp add: join_room_def split: option.splits)
qed

lemma create_room_store:
  "snd (create_room me now n desc priv pw d) =
     (if me = None \<or> \<not> online d then d
      else (let ir = insert_room \<lparr>r_name = n, r_description = desc, r_private = priv, r_password = pw,
                                  r_creator = the me\<rparr> d
            in snd (join_room me now (fst ir) pw (snd ir))))"
  by (cases me) (simp_all add: create_room_def insert_room_def split: sum.splits prod.splits)

lemma db_wf_create: "db_wf d \<Longrightarrow> db_wf (snd (create_room me now n desc priv pw d))"
  by (simp add: create_room_store Let_def db_wf_join db_wf_insert_room)

lemma db_wf_members_delete:
  "db_wf d \<Longrightarrow> db_wf (d\<lparr>study_members := tbl_delete k (study_members d)\<rparr>)"
  using keys_tbl_delete[of k "study_members d"] distinct_tbl_delete[of "study_members d" k]
  by (simp add: db_wf_def ids_fresh_def) blast

lemma db_wf_room_delete:
  "db_wf d \<Longrightarrow>
   db_wf (d\<lparr>study_rooms := tbl_delete rid (study_rooms d),
            study_members := filter (\<lambda>(k, m). fst k \<noteq> rid) (study_members d)\<rparr>)"
  using distinct_tbl_delete[of "study_rooms d" rid] keys_tbl_delete[of rid "study_rooms d"]
  by (auto simp: db_wf_def ids_fresh_def distinct_map_filter)

lemma db_wf_leave: "db_wf d \<Longrightarrow> db_wf (snd (leave_room me rid d))"
  by (simp add: leave_room_def db_wf_members_delete split: option.splits)

lemma db_wf_delete: "db_wf d \<Longrightarrow> db_wf (snd (delete_room me rid d))"
  by (simp add: delete_room_def db_wf_room_delete split: option.splits)

lemma start_timer_store:
  "snd (snd (start_timer me now t d)) =
     (if me = None \<or> \<not> online d then d
      else snd (insert_session \<lparr>s_user = the me, s_created = now, s_duration = 0, s_ended = None\<rparr> d))"
  by (cases me) (simp_all add: start_timer_def Let_def split: prod.splits)

lemma db_wf_timer_step: "db_wf d \<Longrightarrow> db_wf (snd (timer_step u (t, d) e))"
  by (cases e) (auto simp: start_timer_store stop_timer_def save_session_def write_duration_def update_session_def
                           db_wf_insert_session split: option.splits prod.splits)

text \<open>Every sequence of the study hooks' writes keeps the study tables an instance of their schema: unique keys, member rows of existing rooms, fresh identifiers.\<close>

theorem store_ops_keep_schema:
  assumes "db_wf d"
  shows "db_wf (foldl store_step d ops)"
  using assms
proof (induction ops arbitrary: d)
  case Nil
  then show ?case by simp
next
  case (Cons op ops)
  have "db_wf (store_step d op)"
    using Cons.prems
    by (cases op) (simp_all add: db_wf_join db_wf_create db_wf_leave db_wf_delete db_wf_timer_step rooms_update_session_def
                                split: option.splits)
  then show ?case using Cons.IH by simp
qed

theorem store_ops_keep_schema_witness:
  "db_wf empty_db \<and>
   db_wf (foldl store_step empty_db
     [OpCreate (Some 1) 0 ''Fizik'' [] False None, OpJoin (Some 2) 5 0 None,
      OpTimer 2 timer0 (Start 6), OpRoomSession (Some 2) 0 (Some 1), OpDelete (Some 1) 0])"
proof
  show wf0: "db_wf empty_db"
    by (simp add: db_wf_def empty_db_def ids_fresh_def)
  show "db_wf (foldl store_step empty_db
     [OpCreate (Some 1) 0 ''Fizik'' [] False None, OpJoin (Some 2) 5 0 None,
      OpTimer 2 timer0 (Start 6), OpRoomSession (Some 2) 0 (Some 1), OpDelete (Some 1) 0])"
    using store_ops_keep_schema[OF wf0] .
qed

lemma map_of_filter_key:
  "\<forall>x \<in> set t. fst x = k \<longrightarrow> P x \<Longrightarrow> map_of (filter P t) k = map_of t k"
  by (induction t) auto

lemma room_id_below: "db_wf d \<Longrightarrow> map_of (study_rooms d) rid = Some r \<Longrightarrow> rid < next_id d"
  by (force simp: db_wf_def ids_fresh_def dest: map_of_SomeD)

text \<open>
  C12. One user's operations never change another user's membership: over
  every sequence of writes of the study hooks made for a user u (joins,
  creates, leaves, deletes, updateSession and every timer callback), the
  member row of any other user in a room u did not create is unchanged,
  and the room stays.
\<close>

theorem others_membership_untouched:
  assumes "db_wf d" and "v \<noteq> u" and "\<forall>op \<in> set ops. store_op_user op = Some u"
    and "map_of (study_rooms d) rid = Some r" and "r_creator r \<noteq> u"
  shows "map_of (study_members (foldl store_step d ops)) (rid, v) = map_of (study_members d) (rid, v)"
  using assms
proof (induction ops arbitrary: d)
  case (Cons op ops)
  note wf = Cons.prems(1) and uv = Cons.prems(2) and room = Cons.prems(4) and cr = Cons.prems(5)
  have op: "store_op_user op = Some u" using Cons.prems(3) by simp
  have step: "map_of (study_rooms (store_step d op)) rid = Some r \<and>
      map_of (study_members (store_step d op)) (rid, v) = map_of (study_members d) (rid, v)"
  proof (cases op)
    case (OpCreate me now n desc priv pw)
    have "rid \<noteq> next_id d" using room_id_below[OF wf room] by simp
    then show ?thesis
      using OpCreate op room uv
      by (auto simp: create_room_def insert_room_def join_room_def Let_def upsert_row_def split: option.splits)
  next
    case (OpDelete me rid')
    show ?thesis
    proof (cases "rid' = rid")
      case True
      then show ?thesis using OpDelete op room cr by (simp add: delete_room_def)
    next
      case False
      then have "map_of (filter (\<lambda>(k, m). fst k \<noteq> rid') (study_members d)) (rid, v) = map_of (study_members d) (rid, v)"
        by (intro map_of_filter_key) auto
      then show ?thesis
        using False OpDelete op room by (auto simp: delete_room_def split: option.splits)
    qed
  next
    case (OpTimer u' t e)
    then show ?thesis
      using op uv room by (cases e) (auto simp: start_timer_store stop_timer_def save_session_def write_duration_def
                                               update_session_def update_row_def split: option.splits prod.splits)
  qed (use op uv room in \<open>auto simp: join_room_def leave_room_def rooms_update_session_def upsert_row_def update_row_def
                         split: option.splits\<close>)
  have "db_wf (store_step d op)"
    using store_ops_keep_schema[OF Cons.prems(1), of "[op]"] by simp
  then show ?case
    using Cons.IH[of "store_step d op"] Cons.prems step by simp
qed simp

theorem others_membership_untouched_witness:
  "map_of (study_members (foldl store_step
      (foldl store_step empty_db [OpCreate (Some 1) 0 ''Fizik'' [] False None, OpJoin (Some 2) 5 0 None])
      [OpJoin (Some 3) 6 0 None, OpRoomSession (Some 3) 0 (Some 4), OpLeave (Some 3) 0, OpDelete (Some 3) 0,
       OpTimer 3 timer0 (SetSession 0 (Some 4))])) (0, 2) =
   Some \<lparr>m_joined = 5, m_session = None\<rparr>"
proof -
  let ?d = "foldl store_step empty_db [OpCreate (Some 1) 0 ''Fizik'' [] False None, OpJoin (Some 2) 5 0 None]"
  have d: "?d = empty_db\<lparr>study_rooms := [(0, \<lparr>r_name = ''Fizik'', r_description = [], r_private = False,
                                             r_password = None, r_creator = 1\<rparr>)],
                          study_members := [((0, 1), new_member 0), ((0, 2), new_member 5)], next_id := 1\<rparr>"
    by (simp add: create_room_def insert_room_def join_room_def empty_db_def tbl_insert_def tbl_upsert_def new_member_def)
  have wf: "db_wf ?d" unfolding d by (simp add: db_wf_def ids_fresh_def empty_db_def)
  show ?thesis
    using others_membership_untouched[OF wf, where v = 2 and u = 3 and rid = 0
        and r = "\<lparr>r_name = ''Fizik'', r_description = [], r_private = False, r_password = None, r_creator = 1\<rparr>"
        and ops = "[OpJoin (Some 3) 6 0 None, OpRoomSession (Some 3) 0 (Some 4), OpLeave (Some 3) 0, OpDelete (Some 3) 0,
                    OpTimer 3 timer0 (SetSession 0 (Some 4))]"]
    unfolding d by (simp add: new_member_def)
qed

end
