(* ===== verification/WatchSync.thy ===== *)
theory WatchSync
  imports WatchRooms
begin

text \<open>
  Synchronised playback of a watch room
  (\<open>src/proje/components/Watch/WatchRoom.tsx\<close>).  Each open room screen is
  a client: its \<open>isCreator\<close> flag, its local \<open>videoState\<close> and its error
  line.  \<open>fetchVideoState\<close> reads (or creates) the room's
  \<open>video_states\<close> row; \<open>updateVideoState\<close> is the creator's write;
  the \<open>video_states\<close> subscription applies each \<open>UPDATE\<close> payload to a
  non-creator's screen; \<open>VideoPlayer.handleMessage\<close> turns the creator's
  player events into writes, and the header's play button toggles the
  playing flag.  The realtime layer is a FIFO queue of payloads per
  subscribed client; \<open>sync_step\<close> interleaves writes, deliveries and
  connectivity changes.
\<close>

record vstate =
  vs_playing :: bool
  vs_time :: real

definition video0 :: vstate where
  "video0 = \<lparr>vs_playing = False, vs_time = 0\<rparr>"

definition vstate_of :: "video_row \<Rightarrow> vstate" where
  "vstate_of r = \<lparr>vs_playing = v_playing r, vs_time = v_time r\<rparr>"

record watch_client =
  wc_creator :: bool
  wc_video :: vstate
  wc_error :: "string option"

text \<open>A screen as mounted: \<open>isCreator = user?.id === room.created_by\<close>.\<close>

definition new_client :: "user_id option \<Rightarrow> watch_room_row \<Rightarrow> watch_client" where
  "new_client me r = \<lparr>wc_creator = (me = Some (w_creator r)), wc_video = video0, wc_error = None\<rparr>"

text \<open>
  \<open>fetchVideoState\<close>: \<open>maybeSingle()\<close> on the room's row; a row found is
  shown, a missing row is created as paused at 0 (the screen keeps its
  initial state, which is the same); a failed call sets the error line.
\<close>

definition fetch_video_state :: "room_id \<Rightarrow> time_ms \<Rightarrow> watch_client \<Rightarrow> wdb \<Rightarrow> watch_client \<times> wdb" where
  "fetch_video_state rid now c w =
     (if \<not> w_online w then (c\<lparr>wc_error := Some ''Video durumu alinamadi''\<rparr>, w)
      else case video_states w rid of
        Some r \<Rightarrow> (c\<lparr>wc_video := vstate_of r\<rparr>, w)
      | None \<Rightarrow> (c, w\<lparr>video_states := (video_states w)(rid \<mapsto> \<lparr>v_playing = False, v_time = 0, v_updated = now\<rparr>)\<rparr>))"

text \<open>
  \<open>updateVideoState\<close>: a non-creator returns at once; the creator's
  \<open>update(...).eq('room_id', roomId)\<close> overwrites the row and stamps
  \<open>updated_at\<close>, which the change feed publishes as one \<open>UPDATE\<close> payload; an
  update that matches no row is not an error.  On success the screen shows
  the new state; on failure it shows the error line.  The result is the
  screen, the store and the payloads published.
\<close>

definition update_video_state ::
  "room_id \<Rightarrow> time_ms \<Rightarrow> vstate \<Rightarrow> watch_client \<Rightarrow> wdb \<Rightarrow> watch_client \<times> wdb \<times> video_row list" where
  "update_video_state rid now v c w =
     (if \<not> wc_creator c then (c, w, [])
      else if \<not> w_online w then (c\<lparr>wc_error := Some ''Video durumu guncellenemedi''\<rparr>, w, [])
      else case video_states w rid of
        None \<Rightarrow> (c\<lparr>wc_video := v\<rparr>, w, [])
      | Some _ \<Rightarrow>
          (let r = \<lparr>v_playing = vs_playing v, v_time = vs_time v, v_updated = now\<rparr>
           in (c\<lparr>wc_video := v\<rparr>, w\<lparr>video_states := (video_states w)(rid \<mapsto> r)\<rparr>, [r])))"

text \<open>The \<open>video_states\<close> subscription callback: \<open>payload.new && !isCreator\<close>.\<close>

definition on_video_update :: "watch_client \<Rightarrow> video_row \<Rightarrow> watch_client" where
  "on_video_update c r = (if wc_creator c then c else c\<lparr>wc_video := vstate_of r\<rparr>)"

text \<open>
  \<open>VideoPlayer.handleMessage\<close>: a \<open>stateChange\<close> message of the embedded
  player is forwarded only by the creator, playing iff the player state is 1.
\<close>

definition player_message :: "bool \<Rightarrow> int \<Rightarrow> real \<Rightarrow> vstate option" where
  "player_message creator st t = (if creator then Some \<lparr>vs_playing = (st = 1), vs_time = t\<rparr> else None)"

text \<open>The play button: \<open>{...videoState, is_playing: !videoState.is_playing}\<close>.\<close>

definition play_button :: "vstate \<Rightarrow> vstate" where
  "play_button v = v\<lparr>vs_playing := \<not> vs_playing v\<rparr>"

section \<open>The room's clients and the change feed\<close>

record sync_sys =
  ss_store :: wdb
  ss_clients :: "watch_client list"
  ss_queues :: "video_row list list"

datatype sync_event =
    PlayerEvent nat int real time_ms  \<comment> \<open>client, player state, position, time\<close>
  | PlayPress nat time_ms
  | Deliver nat
  | Connectivity bool

definition sync_write :: "room_id \<Rightarrow> nat \<Rightarrow> time_ms \<Rightarrow> vstate \<Rightarrow> sync_sys \<Rightarrow> sync_sys" where
  "sync_write rid i now v s =
     (case update_video_state rid now v (ss_clients s ! i) (ss_store s) of
        (c, w, evs) \<Rightarrow> s\<lparr>ss_store := w, ss_clients := (ss_clients s)[i := c],
                           ss_queues := map (\<lambda>q. q @ evs) (ss_queues s)\<rparr>)"

definition deliver :: "nat \<Rightarrow> sync_sys \<Rightarrow> sync_sys" where
  "deliver i s =
     (if i < length (ss_clients s) \<and> i < length (ss_queues s) \<and> ss_queues s ! i \<noteq> []
      then s\<lparr>ss_clients := (ss_clients s)[i := on_video_update (ss_clients s ! i) (hd (ss_queues s ! i))],
             ss_queues := (ss_queues s)[i := tl (ss_queues s ! i)]\<rparr>
      else s)"

fun sync_step :: "room_id \<Rightarrow> sync_sys \<Rightarrow> sync_event \<Rightarrow> sync_sys" where
  "sync_step rid s (PlayerEvent i st t now) =
     (if i < length (ss_clients s)
      then (case player_message (wc_creator (ss_clients s ! i)) st t of
              None \<Rightarrow> s
            | Some v \<Rightarrow> sync_write rid i now v s)
      else s)"
| "sync_step rid s (PlayPress i now) =
     (if i < length (ss_clients s) \<and> wc_creator (ss_clients s ! i)
      then sync_write rid i now (play_button (wc_video (ss_clients s ! i))) s else s)"
| "sync_step rid s (Deliver i) = deliver i s"
| "sync_step rid s (Connectivity b) = s\<lparr>ss_store := (ss_store s)\<lparr>w_online := b\<rparr>\<rparr>"

definition sync_run :: "room_id \<Rightarrow> sync_sys \<Rightarrow> sync_event list \<Rightarrow> sync_sys" where
  "sync_run rid = foldl (sync_step rid)"

text \<open>The screen whose own player or button an event comes from.\<close>

fun sync_event_screen :: "sync_event \<Rightarrow> nat option" where
  "sync_event_screen (PlayerEvent i st t now) = Some i"
| "sync_event_screen (PlayPress i now) = Some i"
| "sync_event_screen (Deliver i) = None"
| "sync_event_screen (Connectivity b) = None"

text \<open>
  Mounting a screen: \<open>fetchVideoState\<close>, then a subscription with an empty
  queue.
\<close>

definition mount_client :: "room_id \<Rightarrow> watch_room_row \<Rightarrow> time_ms \<Rightarrow> sync_sys \<Rightarrow> user_id option \<Rightarrow> sync_sys" where
  "mount_client rid room now s me =
     (case fetch_video_state rid now (new_client me room) (ss_store s) of
        (c, w) \<Rightarrow> s\<lparr>ss_store := w, ss_clients := ss_clients s @ [c], ss_queues := ss_queues s @ [[]]\<rparr>)"

definition sync_mount :: "room_id \<Rightarrow> watch_room_row \<Rightarrow> time_ms \<Rightarrow> wdb \<Rightarrow> user_id option list \<Rightarrow> sync_sys" where
  "sync_mount rid room now w users =
     foldl (mount_client rid room now) \<lparr>ss_store = w, ss_clients = [], ss_queues = []\<rparr> users"

text \<open>
  What a client will show once its queue is delivered: its own state for
  the creator, who ignores payloads, and for an empty queue; otherwise the
  last payload queued.
\<close>

definition effective :: "watch_client \<Rightarrow> video_row list \<Rightarrow> vstate" where
  "effective c q = (if wc_creator c \<or> q = [] then wc_video c else vstate_of (last q))"

definition single_creator :: "bool list \<Rightarrow> bool" where
  "single_creator bs \<longleftrightarrow> length (filter id bs) \<le> 1"

text \<open>
  The synchronisation invariant: the room has its row, at most one open
  screen is the creator's, and every screen will show the stored state once
  its queue is delivered.
\<close>

definition sync_inv :: "room_id \<Rightarrow> sync_sys \<Rightarrow> bool" where
  "sync_inv rid s \<longleftrightarrow>
     single_creator (map wc_creator (ss_clients s)) \<and>
     (case video_states (ss_store s) rid of
        None \<Rightarrow> False
      | Some r \<Rightarrow> list_all2 (\<lambda>c q. effective c q = vstate_of r) (ss_clients s) (ss_queues s))"


text \<open>A room used by the concrete runs below.\<close>

definition demo_room :: watch_room_row where
  "demo_room = \<lparr>w_name = ''Film'', w_description = [], w_video_url = ''https://youtu.be/abc'',
     w_private = False, w_password = None, w_creator = 1\<rparr>"

section \<open>Lemmas\<close>

lemma vstate_of_row [simp]:
  "vstate_of \<lparr>v_playing = vs_playing v, v_time = vs_time v, v_updated = t\<rparr> = v"
  by (simp add: vstate_of_def)

lemma update_video_state_non_creator:
  "\<not> wc_creator c \<Longrightarrow> update_video_state rid now v c w = (c, w, [])"
  by (simp add: update_video_state_def)

lemma update_video_state_offline:
  "wc_creator c \<Longrightarrow> \<not> w_online w \<Longrightarrow>
   update_video_state rid now v c w = (c\<lparr>wc_error := Some ''Video durumu guncellenemedi''\<rparr>, w, [])"
  by (simp add: update_video_state_def)

lemma update_video_state_online:
  "wc_creator c \<Longrightarrow> w_online w \<Longrightarrow> video_states w rid = Some r0 \<Longrightarrow>
   update_video_state rid now v c w =
     (c\<lparr>wc_video := v\<rparr>,
      w\<lparr>video_states := (video_states w)(rid \<mapsto> \<lparr>v_playing = vs_playing v, v_time = vs_time v, v_updated = now\<rparr>)\<rparr>,
      [\<lparr>v_playing = vs_playing v, v_time = vs_time v, v_updated = now\<rparr>])"
  by (simp add: update_video_state_def Let_def)

lemma single_creator_unique:
  "single_creator bs \<Longrightarrow> i < length bs \<Longrightarrow> j < length bs \<Longrightarrow> bs ! i \<Longrightarrow> bs ! j \<Longrightarrow> i = j"
proof (induction bs arbitrary: i j)
  case Nil
  then show ?case by simp
next
  case (Cons b bs)
  have none: "\<not> bs ! k" if "b" "k < length bs" for k
    using Cons.prems(1) that by (auto simp: single_creator_def filter_empty_conv dest: nth_mem)
  have rest: "single_creator bs"
    using Cons.prems(1) by (simp add: single_creator_def split: if_splits)
  show ?case
    using Cons.prems(2-5) Cons.IH[OF rest] none
    by (cases i; cases j) auto
qed

lemma map_update_same_flag:
  "i < length xs \<Longrightarrow> f y = f (xs ! i) \<Longrightarrow> map f (xs[i := y]) = map f xs"
  by (simp add: map_update) (metis list_update_id nth_map)

lemma effective_creator [simp]: "wc_creator c \<Longrightarrow> effective c q = wc_video c"
  by (simp add: effective_def)

lemma effective_snoc [simp]: "\<not> wc_creator c \<Longrightarrow> effective c (q @ [r]) = vstate_of r"
  by (simp add: effective_def)

lemma effective_error [simp]: "effective (c\<lparr>wc_error := e\<rparr>) q = effective c q"
  by (simp add: effective_def)

lemma sync_invD:
  assumes "sync_inv rid s"
  obtains r where "video_states (ss_store s) rid = Some r"
    "single_creator (map wc_creator (ss_clients s))"
    "length (ss_queues s) = length (ss_clients s)"
    "\<And>j. j < length (ss_clients s) \<Longrightarrow> effective (ss_clients s ! j) (ss_queues s ! j) = vstate_of r"
proof (cases "video_states (ss_store s) rid")
  case None
  then show ?thesis using assms by (simp add: sync_inv_def)
next
  case (Some r)
  show ?thesis
    using assms Some by (intro that[of r]) (auto simp: sync_inv_def list_all2_conv_all_nth)
qed

lemma sync_invI:
  "video_states (ss_store s) rid = Some r \<Longrightarrow> single_creator (map wc_creator (ss_clients s)) \<Longrightarrow>
   length (ss_queues s) = length (ss_clients s) \<Longrightarrow>
   (\<And>j. j < length (ss_clients s) \<Longrightarrow> effective (ss_clients s ! j) (ss_queues s ! j) = vstate_of r) \<Longrightarrow>
   sync_inv rid s"
  by (simp add: sync_inv_def list_all2_conv_all_nth)

lemma sync_write_inv:
  assumes inv: "sync_inv rid s" and i: "i < length (ss_clients s)" and cr: "wc_creator (ss_clients s ! i)"
  shows "sync_inv rid (sync_write rid i now v s)"
proof -
  obtain r0 where row: "video_states (ss_store s) rid = Some r0"
    and one: "single_creator (map wc_creator (ss_clients s))"
    and len: "length (ss_queues s) = length (ss_clients s)"
    and eff: "\<And>j. j < length (ss_clients s) \<Longrightarrow> effective (ss_clients s ! j) (ss_queues s ! j) = vstate_of r0"
    using inv by (elim sync_invD) blast
  show ?thesis
  proof (cases "w_online (ss_store s)")
    case False
    then have "sync_write rid i now v s =
        s\<lparr>ss_clients := (ss_clients s)[i := (ss_clients s ! i)\<lparr>wc_error := Some ''Video durumu guncellenemedi''\<rparr>]\<rparr>"
      using cr by (simp add: sync_write_def update_video_state_offline)
    then show ?thesis
      using i row one len
      by (intro sync_invI[where r = r0]) (auto simp: map_update_same_flag nth_list_update eff)
  next
    case True
    have other: "\<not> wc_creator (ss_clients s ! j)" if "j < length (ss_clients s)" "j \<noteq> i" for j
      using single_creator_unique[OF one, of i j] that i cr by auto
    show ?thesis
      using True i cr row one len other
      by (intro sync_invI[where r = "\<lparr>v_playing = vs_playing v, v_time = vs_time v, v_updated = now\<rparr>"])
         (auto simp: sync_write_def update_video_state_online map_update_same_flag nth_list_update)
  qed
qed

lemma deliver_frame [simp]:
  "ss_store (deliver i s) = ss_store s"
  "length (ss_clients (deliver i s)) = length (ss_clients s)"
  "length (ss_queues (deliver i s)) = length (ss_queues s)"
  by (simp_all add: deliver_def)

lemma deliver_creators [simp]: "map wc_creator (ss_clients (deliver i s)) = map wc_creator (ss_clients s)"
  by (simp add: deliver_def on_video_update_def map_update_same_flag)

lemma deliver_queue:
  "i < length (ss_clients s) \<Longrightarrow> i < length (ss_queues s) \<Longrightarrow>
   ss_queues (deliver i s) ! i = tl (ss_queues s ! i)"
  by (simp add: deliver_def)

lemma effective_deliver:
  "q \<noteq> [] \<Longrightarrow> effective (on_video_update c (hd q)) (tl q) = effective c q"
  by (cases q) (auto simp: effective_def on_video_update_def last_ConsR)

lemma deliver_inv:
  assumes inv: "sync_inv rid s"
  shows "sync_inv rid (deliver i s)"
proof -
  obtain r0 where row: "video_states (ss_store s) rid = Some r0"
    and one: "single_creator (map wc_creator (ss_clients s))"
    and len: "length (ss_queues s) = length (ss_clients s)"
    and eff: "\<And>j. j < length (ss_clients s) \<Longrightarrow> effective (ss_clients s ! j) (ss_queues s ! j) = vstate_of r0"
    using inv by (elim sync_invD) blast
  have "effective (ss_clients (deliver i s) ! j) (ss_queues (deliver i s) ! j) = vstate_of r0"
    if "j < length (ss_clients s)" for j
    using that len eff by (auto simp: deliver_def nth_list_update effective_deliver)
  then show ?thesis
    using row one len by (intro sync_invI[where r = r0]) simp_all
qed

lemma sync_step_inv:
  assumes inv: "sync_inv rid s"
  shows "sync_inv rid (sync_step rid s ev)"
proof (cases ev)
  case (PlayerEvent i st t now)
  then show ?thesis
    using inv by (auto simp: player_message_def intro: sync_write_inv)
next
  case (PlayPress i now)
  then show ?thesis using inv by (auto intro: sync_write_inv)
next
  case (Deliver i)
  then show ?thesis using inv by (simp add: deliver_inv)
next
  case (Connectivity b)
  then show ?thesis using inv by (simp add: sync_inv_def split: option.splits)
qed

lemma sync_run_Cons [simp]: "sync_run rid s (ev # evs) = sync_run rid (sync_step rid s ev) evs"
  by (simp add: sync_run_def)

lemma sync_run_Nil [simp]: "sync_run rid s [] = s"
  by (simp add: sync_run_def)

lemma sync_run_inv: "sync_inv rid s \<Longrightarrow> sync_inv rid (sync_run rid s evs)"
  by (induction evs arbitrary: s) (simp_all add: sync_step_inv)

lemma run_deliver:
  "sync_inv rid s \<Longrightarrow> i < length (ss_clients s) \<Longrightarrow>
   sync_inv rid (sync_run rid s (replicate k (Deliver i))) \<and>
   ss_queues (sync_run rid s (replicate k (Deliver i))) ! i = drop k (ss_queues s ! i) \<and>
   ss_store (sync_run rid s (replicate k (Deliver i))) = ss_store s \<and>
   length (ss_clients (sync_run rid s (replicate k (Deliver i)))) = length (ss_clients s)"
proof (induction k arbitrary: s)
  case 0
  then show ?case by simp
next
  case (Suc k)
  have len: "length (ss_queues s) = length (ss_clients s)"
    using Suc.prems(1) by (elim sync_invD) blast
  have "sync_inv rid (deliver i s)" using Suc.prems(1) by (rule deliver_inv)
  then show ?case
    using Suc.IH[of "deliver i s"] Suc.prems(2) len
    by (simp add: deliver_queue drop_Suc)
qed

lemma fetch_video_state_frame [simp]:
  "w_online (snd (fetch_video_state rid now c w)) = w_online w"
  "wc_creator (fst (fetch_video_state rid now c w)) = wc_creator c"
  by (simp_all add: fetch_video_state_def split: option.splits)

lemma fetch_video_state_found:
  "w_online w \<Longrightarrow> video_states w rid = Some r \<Longrightarrow>
   fetch_video_state rid now c w = (c\<lparr>wc_video := vstate_of r\<rparr>, w)"
  by (simp add: fetch_video_state_def)

lemma fetch_video_state_created:
  "w_online w \<Longrightarrow> video_states w rid = None \<Longrightarrow>
   fetch_video_state rid now c w =
     (c, w\<lparr>video_states := (video_states w)(rid \<mapsto> \<lparr>v_playing = False, v_time = 0, v_updated = now\<rparr>)\<rparr>)"
  by (simp add: fetch_video_state_def)

lemma mount_client_eq:
  "mount_client rid room now s me =
     s\<lparr>ss_store := snd (fetch_video_state rid now (new_client me room) (ss_store s)),
       ss_clients := ss_clients s @ [fst (fetch_video_state rid now (new_client me room) (ss_store s))],
       ss_queues := ss_queues s @ [[]]\<rparr>"
  by (simp add: mount_client_def split: prod.splits)

lemma effective_Nil [simp]: "effective c [] = wc_video c"
  by (simp add: effective_def)

lemma single_creator_prefix: "single_creator (xs @ [x]) \<Longrightarrow> single_creator xs"
  by (simp add: single_creator_def split: if_splits)

lemma mount_client_inv:
  assumes on: "w_online (ss_store s)"
    and pre: "sync_inv rid s \<or> (ss_clients s = [] \<and> ss_queues s = [])"
    and one: "single_creator (map wc_creator (ss_clients s) @ [me = Some (w_creator room)])"
  shows "sync_inv rid (mount_client rid room now s me)"
proof (cases "video_states (ss_store s) rid")
  case None
  then have empty: "ss_clients s = []" "ss_queues s = []"
    using pre by (auto simp: sync_inv_def)
  show ?thesis
    using on None empty one
    by (intro sync_invI[where r = "\<lparr>v_playing = False, v_time = 0, v_updated = now\<rparr>"])
       (simp_all add: mount_client_def fetch_video_state_created new_client_def effective_def video0_def vstate_of_def)
next
  case (Some r0)
  have old: "effective (ss_clients s ! j) (ss_queues s ! j) = vstate_of r0" "length (ss_queues s) = length (ss_clients s)"
    if "j < length (ss_clients s)" for j
    using pre that Some by (auto elim!: sync_invD)
  have len: "length (ss_queues s) = length (ss_clients s)"
    using pre Some by (auto elim!: sync_invD)
  show ?thesis
    using on Some one len old
    by (intro sync_invI[where r = r0])
       (auto simp: mount_client_eq fetch_video_state_found new_client_def nth_append)
qed

lemma sync_mount_facts:
  "map wc_creator (ss_clients (sync_mount rid room now w users)) = map (\<lambda>me. me = Some (w_creator room)) users \<and>
   w_online (ss_store (sync_mount rid room now w users)) = w_online w \<and>
   length (ss_queues (sync_mount rid room now w users)) = length users"
  by (induction users rule: rev_induct)
     (simp_all add: sync_mount_def mount_client_eq new_client_def)

theorem sync_mount_inv:
  "w_online w \<Longrightarrow> users \<noteq> [] \<Longrightarrow> single_creator (map (\<lambda>me. me = Some (w_creator room)) users) \<Longrightarrow>
   sync_inv rid (sync_mount rid room now w users)"
proof (induction users rule: rev_induct)
  case Nil
  then show ?case by simp
next
  case (snoc me users)
  let ?s = "sync_mount rid room now w users"
  have pre: "sync_inv rid ?s \<or> (ss_clients ?s = [] \<and> ss_queues ?s = [])"
  proof (cases "users = []")
    case True
    then show ?thesis by (simp add: sync_mount_def)
  next
    case False
    then show ?thesis
      using snoc.IH snoc.prems(1,3) single_creator_prefix by simp
  qed
  have "sync_inv rid (mount_client rid room now ?s me)"
    using snoc.prems(1,3) sync_mount_facts[of rid room now w users]
    by (intro mount_client_inv[OF _ pre]) simp_all
  then show ?case by (simp add: sync_mount_def)
qed

lemma on_video_update_creator [simp]: "wc_creator (on_video_update c r) = wc_creator c"
  by (simp add: on_video_update_def)

lemma on_video_update_follower: "\<not> wc_creator c \<Longrightarrow> wc_video (on_video_update c r) = vstate_of r"
  by (simp add: on_video_update_def)

text \<open>
  C17. A screen that is not the creator's never writes the playback state:
  its \<open>updateVideoState\<close> changes neither the store nor the screen and
  publishes nothing, and its player events and presses leave the whole
  system unchanged.
\<close>

theorem non_creator_writes_nothing:
  "\<not> wc_creator (ss_clients s ! i) \<Longrightarrow>
   update_video_state rid now v (ss_clients s ! i) w = (ss_clients s ! i, w, []) \<and>
   sync_step rid s (PlayerEvent i st t now) = s \<and> sync_step rid s (PlayPress i now) = s"
  by (simp add: player_message_def update_video_state_def)

theorem non_creator_writes_nothing_witness:
  "update_video_state 0 50 video0 (ss_clients (sync_mount 0 demo_room 0 empty_wdb [Some 1, Some 2]) ! 1)
     (ss_store (sync_mount 0 demo_room 0 empty_wdb [Some 1, Some 2])) =
     (ss_clients (sync_mount 0 demo_room 0 empty_wdb [Some 1, Some 2]) ! 1,
      ss_store (sync_mount 0 demo_room 0 empty_wdb [Some 1, Some 2]), []) \<and>
   sync_step 0 (sync_mount 0 demo_room 0 empty_wdb [Some 1, Some 2]) (PlayerEvent 1 2 7 50) =
     sync_mount 0 demo_room 0 empty_wdb [Some 1, Some 2] \<and>
   sync_step 0 (sync_mount 0 demo_room 0 empty_wdb [Some 1, Some 2]) (PlayPress 1 50) =
     sync_mount 0 demo_room 0 empty_wdb [Some 1, Some 2]"
  using non_creator_writes_nothing[where s = "sync_mount 0 demo_room 0 empty_wdb [Some 1, Some 2]" and i = 1
      and rid = 0 and st = 2 and t = 7 and now = 50 and v = video0
      and w = "ss_store (sync_mount 0 demo_room 0 empty_wdb [Some 1, Some 2])"]
  by (simp add: sync_mount_def mount_client_eq fetch_video_state_def new_client_def demo_room_def empty_wdb_def)

text \<open>Scenario: A sets playing at 42 at time 100; B's pause is not written; B then shows A's state.\<close>

theorem playback_scenario:
  "video_states (ss_store (sync_run 0 (sync_mount 0 demo_room 0 empty_wdb [Some 1, Some 2])
       [PlayerEvent 0 1 42 100, PlayerEvent 1 2 42 105])) 0 =
     Some \<lparr>v_playing = True, v_time = 42, v_updated = 100\<rparr> \<and>
   wc_video (ss_clients (sync_run 0 (sync_mount 0 demo_room 0 empty_wdb [Some 1, Some 2])
       [PlayerEvent 0 1 42 100, PlayerEvent 1 2 42 105, Deliver 1]) ! 1) =
     \<lparr>vs_playing = True, vs_time = 42\<rparr>"
  by (simp add: sync_mount_def mount_client_eq fetch_video_state_def new_client_def demo_room_def empty_wdb_def
      sync_write_def update_video_state_def player_message_def deliver_def on_video_update_def vstate_of_def Let_def)

text \<open>C18. Every state reached from mounted screens keeps the synchronisation invariant.\<close>

theorem sync_reachable_inv:
  "w_online w \<Longrightarrow> users \<noteq> [] \<Longrightarrow> single_creator (map (\<lambda>me. me = Some (w_creator room)) users) \<Longrightarrow>
   sync_inv rid (sync_run rid (sync_mount rid room now w users) evs)"
  by (intro sync_run_inv sync_mount_inv)

theorem sync_reachable_inv_witness:
  "sync_inv 0 (sync_run 0 (sync_mount 0 demo_room 0 empty_wdb [Some 1, Some 2, None])
     [PlayerEvent 0 1 42 100, Connectivity False, PlayPress 0 110, Deliver 1])"
  using sync_reachable_inv[where w = empty_wdb and users = "[Some 1, Some 2, None]" and room = demo_room
      and rid = 0 and now = 0 and evs = "[PlayerEvent 0 1 42 100, Connectivity False, PlayPress 0 110, Deliver 1]"]
  by (simp add: empty_wdb_def demo_room_def single_creator_def)

text \<open>C19. Delivering a follower's queue makes it show the stored playback state.\<close>

theorem follower_catches_up:
  assumes inv: "sync_inv rid s" and i: "i < length (ss_clients s)"
    and row: "video_states (ss_store s) rid = Some r"
  shows "wc_video (ss_clients (sync_run rid s (replicate (length (ss_queues s ! i)) (Deliver i))) ! i) = vstate_of r"
proof -
  let ?s = "sync_run rid s (replicate (length (ss_queues s ! i)) (Deliver i))"
  have facts: "sync_inv rid ?s" "ss_queues ?s ! i = []" "ss_store ?s = ss_store s"
      "length (ss_clients ?s) = length (ss_clients s)"
    using run_deliver[OF inv i, of "length (ss_queues s ! i)"] by simp_all
  obtain r' where "video_states (ss_store ?s) rid = Some r'"
      "\<And>j. j < length (ss_clients ?s) \<Longrightarrow> effective (ss_clients ?s ! j) (ss_queues ?s ! j) = vstate_of r'"
    using facts(1) by (elim sync_invD) blast
  then have "effective (ss_clients ?s ! i) [] = vstate_of r'"
    using facts(2,4) i by metis
  then show ?thesis
    using facts(3) row \<open>video_states (ss_store ?s) rid = Some r'\<close> by (simp add: effective_def)
qed

theorem follower_catches_up_witness:
  "wc_video (ss_clients (sync_run 0 (sync_run 0 (sync_mount 0 demo_room 0 empty_wdb [Some 1, Some 2]) [PlayerEvent 0 1 42 100])
      (replicate (length (ss_queues (sync_run 0 (sync_mount 0 demo_room 0 empty_wdb [Some 1, Some 2]) [PlayerEvent 0 1 42 100]) ! 1))
        (Deliver 1))) ! 1) = \<lparr>vs_playing = True, vs_time = 42\<rparr>"
  using follower_catches_up[where s = "sync_run 0 (sync_mount 0 demo_room 0 empty_wdb [Some 1, Some 2]) [PlayerEvent 0 1 42 100]"
      and i = 1 and rid = 0 and r = "\<lparr>v_playing = True, v_time = 42, v_updated = 100\<rparr>"]
  by (simp add: sync_mount_def mount_client_eq fetch_video_state_def new_client_def demo_room_def empty_wdb_def
      sync_write_def update_video_state_def player_message_def vstate_of_def Let_def sync_inv_def effective_def
      single_creator_def)

text \<open>A follower applies the payloads in the order they arrive, whatever their timestamps.\<close>

theorem follower_applies_arrival_order:
  "\<not> wc_creator c \<Longrightarrow> rs \<noteq> [] \<Longrightarrow> wc_video (foldl on_video_update c rs) = vstate_of (last rs)"
proof (induction rs arbitrary: c rule: rev_induct)
  case Nil
  then show ?case by simp
next
  case (snoc r rs)
  have "wc_creator (foldl on_video_update c rs) = wc_creator c"
    by (induction rs arbitrary: c) (simp_all add: on_video_update_creator)
  then show ?case using snoc.prems by (simp add: on_video_update_follower)
qed

theorem follower_applies_arrival_order_witness:
  "v_updated \<lparr>v_playing = False, v_time = 10, v_updated = 100\<rparr> < v_updated \<lparr>v_playing = True, v_time = 42, v_updated = 200\<rparr> \<and>
   wc_video (foldl on_video_update (new_client (Some 2) demo_room)
      [\<lparr>v_playing = True, v_time = 42, v_updated = 200\<rparr>, \<lparr>v_playing = False, v_time = 10, v_updated = 100\<rparr>]) =
     \<lparr>vs_playing = False, vs_time = 10\<rparr>"
  using follower_applies_arrival_order[where c = "new_client (Some 2) demo_room"
      and rs = "[\<lparr>v_playing = True, v_time = 42, v_updated = 200\<rparr>, \<lparr>v_playing = False, v_time = 10, v_updated = 100\<rparr>]"]
  by (simp add: new_client_def demo_room_def vstate_of_def)

lemma sync_write_other [simp]:
  "i \<noteq> j \<Longrightarrow> ss_clients (sync_write rid i now v s) ! j = ss_clients s ! j"
  by (simp add: sync_write_def split: prod.splits)

lemma on_video_update_creator_same: "wc_creator c \<Longrightarrow> on_video_update c r = c"
  by (simp add: on_video_update_def)

lemma sync_step_other_screen:
  assumes "wc_creator (ss_clients s ! j)" and "sync_event_screen ev \<noteq> Some j"
  shows "ss_clients (sync_step rid s ev) ! j = ss_clients s ! j"
proof (cases ev)
  case (Deliver i)
  then show ?thesis
    using assms(1) by (cases "i = j") (auto simp: deliver_def on_video_update_creator_same)
qed (use assms(2) in \<open>auto split: option.splits\<close>)

text \<open>
  C20. A screen of the room's creator never follows the change feed: over
  every run in which it makes no write of its own (any writes of other
  screens, deliveries, connectivity changes), it shows the same playback
  state, even when another screen of the same creator writes and the
  payloads are delivered to it.  Two screens of the creator diverge.
\<close>

theorem creator_second_screen_diverges:
  assumes "wc_creator (ss_clients s ! j)" and "\<forall>ev \<in> set evs. sync_event_screen ev \<noteq> Some j"
  shows "ss_clients (sync_run rid s evs) ! j = ss_clients s ! j"
  using assms
proof (induction evs arbitrary: s)
  case (Cons ev evs)
  have "ss_clients (sync_step rid s ev) ! j = ss_clients s ! j"
    using Cons.prems by (intro sync_step_other_screen) simp_all
  then show ?case
    using Cons.IH[of "sync_step rid s ev"] Cons.prems by simp
qed simp

theorem creator_second_screen_diverges_witness:
  "video_states (ss_store (sync_run 0 (sync_mount 0 demo_room 0 empty_wdb [Some 1, Some 1])
       [PlayerEvent 0 1 42 100, Deliver 1])) 0 = Some \<lparr>v_playing = True, v_time = 42, v_updated = 100\<rparr> \<and>
   wc_video (ss_clients (sync_run 0 (sync_mount 0 demo_room 0 empty_wdb [Some 1, Some 1])
       [PlayerEvent 0 1 42 100, Deliver 1]) ! 1) = \<lparr>vs_playing = False, vs_time = 0\<rparr>"
proof -
  let ?s = "sync_mount 0 demo_room 0 empty_wdb [Some 1, Some 1]"
  have c: "ss_clients ?s ! 1 = \<lparr>wc_creator = True, wc_video = video0, wc_error = None\<rparr>"
    by (simp add: sync_mount_def mount_client_eq fetch_video_state_def new_client_def demo_room_def empty_wdb_def
        vstate_of_def video0_def)
  have "ss_clients (sync_run 0 ?s [PlayerEvent 0 1 42 100, Deliver 1]) ! 1 = ss_clients ?s ! 1"
    using creator_second_screen_diverges[of ?s 1 "[PlayerEvent 0 1 42 100, Deliver 1]" 0] c by simp
  moreover have "video_states (ss_store (sync_run 0 ?s [PlayerEvent 0 1 42 100, Deliver 1])) 0 =
      Some \<lparr>v_playing = True, v_time = 42, v_updated = 100\<rparr>"
    by (simp add: sync_mount_def mount_client_eq fetch_video_state_def new_client_def demo_room_def empty_wdb_def
        sync_write_def update_video_state_def player_message_def deliver_def on_video_update_def Let_def)
  ultimately show ?thesis
    using c by (simp add: video0_def)
qed

end
