(* ===== verification/WatchPlayer.thy ===== *)
theory WatchPlayer
  imports WatchSync
begin

text \<open>
  The video player of \<open>src/proje/components/Watch/WatchRoom.tsx\<close>:
  \<open>getEmbedUrl\<close>, which turns the room's video link into the address the
  player loads, and the effect that drives the embedded player from the
  synchronised state.  \<open>split\<close>, \<open>includes\<close> and \<open>arr[1]?.\<close> are modelled
  as in JavaScript: an index past the end is \<open>undefined\<close>, and \<open>undefined\<close>
  printed in a template is the text \<open>undefined\<close>.
\<close>

text \<open>\<open>s.split(sep)\<close> for a non-empty separator: the pieces between the occurrences, left to right.\<close>

fun js_split_acc :: "'a list \<Rightarrow> 'a list \<Rightarrow> 'a list \<Rightarrow> 'a list list" where
  "js_split_acc sep cur [] = [cur]"
| "js_split_acc sep cur (c # cs) =
     (if sep \<noteq> [] \<and> prefix sep (c # cs) then cur # js_split_acc sep [] (drop (length sep - 1) cs)
      else js_split_acc sep (cur @ [c]) cs)"

definition js_split :: "'a list \<Rightarrow> 'a list \<Rightarrow> 'a list list" where
  "js_split sep s = js_split_acc sep [] s"

text \<open>\<open>arr[i]\<close>, \<open>None\<close> for \<open>undefined\<close>.\<close>

definition js_index :: "'a list \<Rightarrow> nat \<Rightarrow> 'a option" where
  "js_index xs i = (if i < length xs then Some (xs ! i) else None)"

definition embed_params :: string where
  "embed_params = ''?enablejsapi=1&playsinline=1&modestbranding=1&rel=0&fs=1''"

text \<open>The video id: \<open>url.split(marker)[1]?.split(stop)[0] || ''\<close>.\<close>

definition id_after :: "string \<Rightarrow> string \<Rightarrow> string \<Rightarrow> string" where
  "id_after marker stop url =
     (case js_index (js_split marker url) 1 of None \<Rightarrow> [] | Some p \<Rightarrow> hd (js_split stop p))"

definition get_embed_url :: "string \<Rightarrow> string" where
  "get_embed_url url =
     (let vid = (if sublist ''youtube.com/watch?v='' url then id_after ''watch?v='' ''&'' url
                 else if sublist ''youtu.be/'' url then id_after ''youtu.be/'' ''?'' url
                 else [])
      in if vid \<noteq> [] then ''https://www.youtube.com/embed/'' @ vid @ embed_params
         else if sublist ''vimeo.com'' url
         then ''https://player.vimeo.com/video/'' @
                (case js_index (js_split ''vimeo.com/'' url) 1 of None \<Rightarrow> ''undefined'' | Some p \<Rightarrow> hd (js_split ''?'' p)) @
                ''?playsinline=1''
         else url)"

datatype player_command = PlayVideo | PauseVideo

text \<open>
  The effect on \<open>[videoState]\<close>: \<open>player.playVideo()\<close> or
  \<open>player.pauseVideo()\<close>, then \<open>player.seekTo(playback_time, true)\<close>.
\<close>

definition player_effect :: "vstate \<Rightarrow> player_command \<times> real" where
  "player_effect v = (if vs_playing v then PlayVideo else PauseVideo, vs_time v)"

section \<open>The player's page script and the platform\<close>

text \<open>
  The injected page script: on every \<open>onStateChange\<close> of the YouTube
  player it posts \<open>{type: 'stateChange', data: {state, time}}\<close> to the app.
  \<open>handleMessage\<close> parses it and forwards \<open>player_message\<close> for a
  \<open>stateChange\<close> message; any other message is ignored.
\<close>

record page_message =
  pm_type :: string
  pm_state :: int
  pm_time :: real

definition on_player_state_change :: "int \<Rightarrow> real \<Rightarrow> page_message" where
  "on_player_state_change st t = \<lparr>pm_type = ''stateChange'', pm_state = st, pm_time = t\<rparr>"

definition handle_message :: "bool \<Rightarrow> page_message \<Rightarrow> vstate option" where
  "handle_message creator m =
     (if pm_type m = ''stateChange'' then player_message creator (pm_state m) (pm_time m) else None)"

datatype platform = Web | Native

text \<open>
  What \<open>VideoPlayer\<close> renders: on the web an \<open>iframe\<close> of the embed address,
  with no message handler and no ref; elsewhere a \<open>WebView\<close> with the ref,
  the injected script and \<open>onMessage={handleMessage}\<close>.
\<close>

datatype player_element = PIframe string | PWebView string

definition video_player :: "platform \<Rightarrow> string \<Rightarrow> player_element" where
  "video_player pf url = (case pf of Web \<Rightarrow> PIframe (get_embed_url url) | Native \<Rightarrow> PWebView (get_embed_url url))"

text \<open>
  A player state change reaches \<open>onStateChange\<close> only through the WebView's
  \<open>onMessage\<close>; the \<open>[videoState]\<close> effect injects its commands only when
  \<open>webViewRef.current\<close> is set, which is the WebView's ref.
\<close>

definition player_report :: "platform \<Rightarrow> bool \<Rightarrow> int \<Rightarrow> real \<Rightarrow> vstate option" where
  "player_report pf creator st t =
     (case pf of Web \<Rightarrow> None | Native \<Rightarrow> handle_message creator (on_player_state_change st t))"

definition player_drive :: "platform \<Rightarrow> vstate \<Rightarrow> (player_command \<times> real) option" where
  "player_drive pf v = (case pf of Web \<Rightarrow> None | Native \<Rightarrow> Some (player_effect v))"

section \<open>Lemmas\<close>

lemma js_split_Nil [simp]: "js_split sep [] = [[]]"
  by (simp add: js_split_def)

lemma js_split_acc_ne: "js_split_acc sep cur s \<noteq> []"
  by (induction sep cur s rule: js_split_acc.induct) auto

text \<open>A watch link: the id is the text after \<open>watch?v=\<close> up to the next \<open>&\<close>.\<close>

lemma embed_youtube_watch:
  "get_embed_url ''https://www.youtube.com/watch?v=abc&t=5'' = ''https://www.youtube.com/embed/abc'' @ embed_params"
  by (simp add: get_embed_url_def id_after_def js_split_def js_index_def sublist_code)

text \<open>A short link: the id is the text after \<open>youtu.be/\<close> up to the next \<open>?\<close>.\<close>

lemma embed_youtu_be:
  "get_embed_url ''https://youtu.be/xyz?t=3'' = ''https://www.youtube.com/embed/xyz'' @ embed_params"
  by (simp add: get_embed_url_def id_after_def js_split_def js_index_def sublist_code)

text \<open>A Vimeo address without a path prints \<open>undefined\<close> as the video id.\<close>

lemma embed_vimeo_undefined:
  "get_embed_url ''https://vimeo.com'' = ''https://player.vimeo.com/video/undefined?playsinline=1''"
  by (simp add: get_embed_url_def id_after_def js_split_def js_index_def sublist_code)

text \<open>Any other link, such as a YouTube Shorts address, is loaded unchanged.\<close>

lemma embed_shorts_unchanged:
  "get_embed_url ''https://youtube.com/shorts/abc'' = ''https://youtube.com/shorts/abc''"
  by (simp add: get_embed_url_def id_after_def js_split_def js_index_def sublist_code)

text \<open>On a native device the creator's player reports what the page script posts: playing iff the YouTube state is 1.\<close>

lemma native_creator_reports:
  "player_report Native True st t = Some \<lparr>vs_playing = (st = 1), vs_time = t\<rparr>"
  by (simp add: player_report_def handle_message_def on_player_state_change_def player_message_def)

text \<open>
  On the web the room's playback is inert: the creator's player changes
  never reach \<open>updateVideoState\<close>, and the stored state never drives the
  player.
\<close>

lemma web_player_inert:
  "player_report Web creator st t = None \<and> player_drive Web v = None"
  by (simp add: player_report_def player_drive_def)

end
