(* ===== verification/AIService.thy ===== *)
theory AIService
  imports Prelude
begin

text \<open>
  The AI coach's services: the row store calls of
  \<open>src/proje/lib/aiChatService.ts\<close> (the tables \<open>users\<close>,
  \<open>user_assignments\<close> and \<open>ai_chat_history\<close>) and the request building of
  \<open>src/proje/lib/gemini.ts\<close>.  The generative model itself is an input:
  one call of \<open>generateContent\<close> either fails or returns a result whose
  \<open>text\<close> may be undefined.  Turkish letters of the prompt text are written
  as their ASCII base letters, one character for one UTF-16 unit, so the
  lengths the code compares are those of the source.
\<close>

datatype chat_role = RoleUser | RoleAssistant

definition role_name :: "chat_role \<Rightarrow> string" where
  "role_name r = (case r of RoleUser \<Rightarrow> ''user'' | RoleAssistant \<Rightarrow> ''assistant'')"

text \<open>A message's key: a row id of the store or an id made by the client.\<close>

datatype msg_key = DbKey nat | ClientKey string

record chat_message =
  cm_id :: msg_key
  cm_role :: chat_role
  cm_content :: string
  cm_time :: time_ms

record ai_row =
  ar_id :: nat
  ar_user :: user_id
  ar_role :: string
  ar_content :: string
  ar_created :: time_ms

record assignment =
  asg_id :: nat
  asg_user :: user_id
  asg_description :: string
  asg_subject :: string
  asg_due :: time_ms
  asg_completed :: bool
  asg_created :: time_ms

record user_row =
  ur_name :: "string option"
  ur_grade :: "string option"
  ur_target :: "string option"
  ur_score :: "int option"
  ur_strong :: "string list option"
  ur_weak :: "string list option"

record aidb =
  ai_online :: bool
  ai_rows :: "ai_row list"
  ai_users :: "user_id \<rightharpoonup> user_row"
  ai_assignments :: "assignment list"
  ai_next :: nat

record user_info =
  ui_id :: user_id
  ui_name :: "string option"
  ui_grade :: "string option"
  ui_target :: "string option"
  ui_score :: "int option"
  ui_strong :: "string list option"
  ui_weak :: "string list option"
  ui_assignments :: "assignment list"

section \<open>aiChatService.ts\<close>

text \<open>
  \<open>getUserInfo\<close>: the user's row (\<open>.single()\<close>) and the assignments by
  descending due date; any failure is caught and gives \<open>null\<close>.
\<close>

definition get_user_info :: "user_id \<Rightarrow> aidb \<Rightarrow> user_info option" where
  "get_user_info u d =
     (if \<not> ai_online d then None
      else case ai_users d u of
        None \<Rightarrow> None
      | Some r \<Rightarrow> Some \<lparr>ui_id = u, ui_name = ur_name r, ui_grade = ur_grade r, ui_target = ur_target r,
                       ui_score = ur_score r, ui_strong = ur_strong r, ui_weak = ur_weak r,
                       ui_assignments = sort_key (\<lambda>a. - asg_due a) (filter (\<lambda>a. asg_user a = u) (ai_assignments d))\<rparr>)"

text \<open>
  \<open>updateUserInfo\<close>: a field left \<open>undefined\<close> in the partial record is
  dropped by the JSON encoding and keeps its value; \<open>Some v\<close> writes
  \<open>v\<close> (possibly \<open>null\<close>).  An update that matches no row succeeds.
\<close>

record user_patch =
  up_name :: "string option option"
  up_grade :: "string option option"
  up_target :: "string option option"
  up_score :: "int option option"
  up_strong :: "string list option option"
  up_weak :: "string list option option"

definition patch_field :: "'a option \<Rightarrow> 'a \<Rightarrow> 'a" where
  "patch_field p v = (case p of None \<Rightarrow> v | Some x \<Rightarrow> x)"

definition apply_patch :: "user_patch \<Rightarrow> user_row \<Rightarrow> user_row" where
  "apply_patch p r =
     \<lparr>ur_name = patch_field (up_name p) (ur_name r), ur_grade = patch_field (up_grade p) (ur_grade r),
      ur_target = patch_field (up_target p) (ur_target r), ur_score = patch_field (up_score p) (ur_score r),
      ur_strong = patch_field (up_strong p) (ur_strong r), ur_weak = patch_field (up_weak p) (ur_weak r)\<rparr>"

definition update_user_info :: "user_id \<Rightarrow> user_patch \<Rightarrow> aidb \<Rightarrow> bool \<times> aidb" where
  "update_user_info u p d =
     (if \<not> ai_online d then (False, d)
      else (True, d\<lparr>ai_users := update_row (ai_users d) u (apply_patch p)\<rparr>))"

definition create_assignment ::
  "user_id \<Rightarrow> string \<Rightarrow> string \<Rightarrow> time_ms \<Rightarrow> bool \<Rightarrow> time_ms \<Rightarrow> aidb \<Rightarrow> nat option \<times> aidb" where
  "create_assignment u desc subj due done now d =
     (if \<not> ai_online d then (None, d)
      else (Some (ai_next d),
            d\<lparr>ai_assignments := ai_assignments d @
                 [\<lparr>asg_id = ai_next d, asg_user = u, asg_description = desc, asg_subject = subj, asg_due = due,
                   asg_completed = done, asg_created = now\<rparr>],
              ai_next := Suc (ai_next d)\<rparr>))"

definition update_assignment_status :: "nat \<Rightarrow> bool \<Rightarrow> aidb \<Rightarrow> bool \<times> aidb" where
  "update_assignment_status aid done d =
     (if \<not> ai_online d then (False, d)
      else (True, d\<lparr>ai_assignments := map (\<lambda>a. if asg_id a = aid then a\<lparr>asg_completed := done\<rparr> else a)
                                         (ai_assignments d)\<rparr>))"

text \<open>
  \<open>getChatHistory(userId, limit = 50)\<close>: the user's rows in ascending
  \<open>created_at\<close> order, at most \<open>limit\<close> of them, taken from the front; a
  failure gives the empty list.  The role is cast, not checked.
\<close>

definition row_message :: "ai_row \<Rightarrow> chat_message" where
  "row_message r = \<lparr>cm_id = DbKey (ar_id r), cm_role = (if ar_role r = ''user'' then RoleUser else RoleAssistant),
                    cm_content = ar_content r, cm_time = ar_created r\<rparr>"

definition user_rows :: "user_id \<Rightarrow> aidb \<Rightarrow> ai_row list" where
  "user_rows u d = sort_key ar_created (filter (\<lambda>r. ar_user r = u) (ai_rows d))"

definition get_chat_history :: "user_id \<Rightarrow> nat \<Rightarrow> aidb \<Rightarrow> chat_message list" where
  "get_chat_history u lim d = (if \<not> ai_online d then [] else map row_message (take lim (user_rows u d)))"

definition add_chat_message :: "user_id \<Rightarrow> chat_role \<Rightarrow> string \<Rightarrow> time_ms \<Rightarrow> aidb \<Rightarrow> nat option \<times> aidb" where
  "add_chat_message u role content t d =
     (if \<not> ai_online d then (None, d)
      else (Some (ai_next d),
            d\<lparr>ai_rows := ai_rows d @ [\<lparr>ar_id = ai_next d, ar_user = u, ar_role = role_name role,
                                        ar_content = content, ar_created = t\<rparr>],
              ai_next := Suc (ai_next d)\<rparr>))"

definition greeting_text :: string where
  "greeting_text = ''Merhaba! Ben senin yapay zeka destekli egitim kocunum. Ders calisma, sinavlara hazirlanma veya herhangi bir konuda sana yardimci olabilirim. Seni daha iyi taniyabilir miyim?''"

text \<open>
  \<open>clearChatHistory\<close>: deletes the user's rows whose role is not
  \<open>'greeting'\<close>, then adds a greeting (its result is not checked).
\<close>

definition clear_chat_history :: "user_id \<Rightarrow> time_ms \<Rightarrow> aidb \<Rightarrow> bool \<times> aidb" where
  "clear_chat_history u now d =
     (if \<not> ai_online d then (False, d)
      else (True, snd (add_chat_message u RoleAssistant greeting_text now
                         (d\<lparr>ai_rows := filter (\<lambda>r. \<not> (ar_user r = u \<and> ar_role r \<noteq> ''greeting'')) (ai_rows d)\<rparr>))))"

section \<open>gemini.ts\<close>

text \<open>One call of the model: it fails, or it returns a result with an optional \<open>text\<close>.\<close>

datatype gen_result = GenText "string option" | GenFail

definition apology_text :: string where
  "apology_text = ''Uzgunum, su anda yanit veremiyorum. Lutfen daha sonra tekrar deneyin.''"

text \<open>\<open>getGeminiResponse\<close> and \<open>getSimpleCoachResponse\<close>: the result's text, or the apology on failure.\<close>

definition get_gemini_response :: "gen_result \<Rightarrow> string option" where
  "get_gemini_response g = (case g of GenText t \<Rightarrow> t | GenFail \<Rightarrow> Some apology_text)"

definition get_simple_coach_response :: "gen_result \<Rightarrow> string option" where
  "get_simple_coach_response g = (case g of GenText t \<Rightarrow> t | GenFail \<Rightarrow> Some apology_text)"

definition nl :: string where
  "nl = [CHR 0x0A]"

definition js_lines :: "string list \<Rightarrow> string" where
  "js_lines ls = concat (map (\<lambda>l. l @ nl) ls)"

definition or_unknown :: "string option \<Rightarrow> string" where
  "or_unknown s = (if js_falsy s then ''Bilinmiyor'' else the s)"

definition join_comma :: "string list \<Rightarrow> string" where
  "join_comma xs = (case xs of [] \<Rightarrow> [] | x # ys \<Rightarrow> x @ concat (map (\<lambda>y. '', '' @ y) ys))"

text \<open>The user context block of \<open>createEducationalCoachInstructions\<close>; \<open>0\<close> is falsy like \<open>null\<close>.\<close>

definition user_context :: "user_info option \<Rightarrow> string" where
  "user_context info =
     (case info of None \<Rightarrow> []
      | Some i \<Rightarrow> nl @ js_lines
          [''    Kullanici Bilgileri:'',
           ''    - Adi: '' @ or_unknown (ui_name i),
           ''    - Sinif: '' @ or_unknown (ui_grade i),
           ''    - Hedef Meslek: '' @ or_unknown (ui_target i),
           ''    - Guclu Dersler: '' @ or_unknown (map_option join_comma (ui_strong i)),
           ''    - Zayif Dersler: '' @ or_unknown (map_option join_comma (ui_weak i)),
           ''    - Sinav Puani: '' @ (case ui_score i of Some s \<Rightarrow> if s = 0 then ''Bilinmiyor'' else show_int s
                                        | None \<Rightarrow> ''Bilinmiyor'')] @ ''    '')"

definition coach_head :: "string list" where
  "coach_head = [''Sen bir egitim kocusun. Adin AI Koc. Tum ogrencilere derslerinde yardimci olmak, '',
      ''basarilarini arttirmak icin varsin. Disiplinli bir ogretmen gibi davranmalisin. '',
      [],
      ''ROL VE AMAC:'',
      ''- Ogrencilere basariya ulasmalarini saglamak temel gorevindir.'',
      ''- Disiplinli, motive edici ve ciddi ol.'',
      ''- Ogrencilere odevler ver ve takip et. Ornegin, 'Bu hafta Matematik Temel Sayilar konusundan 300 soru coz' gibi.'',
      ''- Her ogrencinin seviyesine gore ozel yaklasim sergile.'',
      ''- Ilkokul ogrencilerine daha basit ve eglenceli anlatim yap.'',
      ''- Ortaokul ogrencilerine temel kavramlari pekistirmeye odaklan.'',
      ''- Lise ogrencilerine sinav odakli calisma teknikleri oner.'',
      ''- Universite ogrencilerine akademik yaklasimla destek ol.'',
      [],
      ''KIMLIK:'',
      ''- 'Seni kim yaratti?' gibi sorulara 'Yaratmak ancak ve ancak Allah'a mahsustur. Ben sadece Ibrahim Akdemir tarafindan olusturuldum' gibi cevaplar ver.'',
      ''- Dini ve ahlaki degerlere saygili ol.'',
      ''- Ogrencilerin kisisel gelisimini destekle.'',
      []]"

definition coach_tail :: "string list" where
  "coach_tail = [[],
      ''KONUSMA TARZI:'',
      ''- Her zaman Turkce konus.'',
      ''- Oldukca kisa ve oz aciklamalar yap.'',
      ''- Cumle ve soru tekrarindan kacin.'',
      ''- Bazen ufak sakalar yap ancak dozunda olsun.'',
      ''- Motivasyon verici cumleler kullan.'',
      ''- Basarisizlik durumunda yapici geri bildirim ver.'',
      [],
      ''ODEV VE TAKIP:'',
      ''- Her konusmada ogrencinin ilerlemesini kontrol et.'',
      ''- Odevleri haftalik olarak planla ve takip et.'',
      ''- Basarilari kutla ve tesvik et.'',
      ''- Eksikleri nazikce belirt ve cozum oner.'',
      [],
      ''Simdi ogrencinin mesajina yanit ver:'']"

definition coach_instructions :: "user_info option \<Rightarrow> string" where
  "coach_instructions info = nl @ js_lines coach_head @ user_context info @ nl @ js_lines coach_tail @ ''  ''"

text \<open>
  \<open>getGeminiStreamResponse\<close>, the prompt: instructions, a blank line, the
  question; with a history, its last two messages, each cut to 100
  characters; over 4000 characters, the first 500 characters of the
  instructions and the question only.
\<close>

definition history_line :: "chat_role \<times> string \<Rightarrow> string" where
  "history_line m = (if fst m = RoleUser then ''Kullanici'' else ''AI Koc'') @ '': '' @ take 100 (snd m) @ ''...'' @ nl"

definition stream_prompt :: "string \<Rightarrow> string \<Rightarrow> (chat_role \<times> string) list \<Rightarrow> string" where
  "stream_prompt sys prompt hist =
     (let ext = sys @ nl @ nl @ prompt @
                (if hist = [] then [] else nl @ nl @ ''Onceki Konusma:'' @ nl @ concat (map history_line (slice_last 2 hist)))
      in if length ext > 4000 then take 500 sys @ nl @ nl @ prompt else ext)"

text \<open>
  The objects \<open>processStreamResponse\<close> inspects: a chunk of an async
  iterator (a string, or an object with optional \<open>text\<close>,
  \<open>response.text\<close> and \<open>content\<close>, and its \<open>JSON.stringify\<close>), and the
  stream object (its \<open>text\<close>, \<open>response.text\<close> and, when it has
  \<open>Symbol.asyncIterator\<close>, the chunks it yields).
\<close>

datatype chunk = ChunkNull | ChunkStr string | ChunkObj "string option" "string option" "string option" string

record js_stream =
  st_text :: "string option"
  st_response_text :: "string option"
  st_chunks :: "chunk list option"

text \<open>\<open>JSON.stringify\<close> of a string: quotes, backslash and control characters escaped.\<close>

text \<open>\<open>n.toString(16)\<close> for \<open>n < 16\<close>.\<close>

definition hex_digit :: "nat \<Rightarrow> char" where
  "hex_digit n = ''0123456789abcdef'' ! n"

definition json_char :: "char \<Rightarrow> string" where
  "json_char c =
     (if c = CHR 0x22 then [CHR 0x5C, CHR 0x22]
      else if c = CHR 0x5C then [CHR 0x5C, CHR 0x5C]
      else if c = CHR 0x0A then [CHR 0x5C, CHR ''n'']
      else if c = CHR 0x0D then [CHR 0x5C, CHR ''r'']
      else if c = CHR 0x09 then [CHR 0x5C, CHR ''t'']
      else if c = CHR 0x08 then [CHR 0x5C, CHR ''b'']
      else if c = CHR 0x0C then [CHR 0x5C, CHR ''f'']
      else if of_char c < (32::nat) then [CHR 0x5C, CHR ''u'', CHR ''0'', CHR ''0'',
                                     hex_digit (of_char c div 16), hex_digit (of_char c mod 16)]
      else [c])"

definition json_string :: "string \<Rightarrow> string" where
  "json_string s = [CHR 0x22] @ concat (map json_char s) @ [CHR 0x22]"

text \<open>\<open>JSON.stringify({ text: t })\<close>: an undefined field is omitted.\<close>

definition json_text_obj :: "string option \<Rightarrow> string" where
  "json_text_obj t = (case t of None \<Rightarrow> ''{}'' | Some s \<Rightarrow> ''{'' @ json_string ''text'' @ '':'' @ json_string s @ ''}'')"

text \<open>
  The object \<open>getGeminiStreamResponse\<close> returns: \<open>text\<close> is the
  response and its iterator yields \<open>{ text }\<close> once.
\<close>

definition gemini_stream :: "string option \<Rightarrow> js_stream" where
  "gemini_stream t = \<lparr>st_text = t, st_response_text = None, st_chunks = Some [ChunkObj t None None (json_text_obj t)]\<rparr>"

text \<open>
  \<open>getGeminiStreamResponse\<close>: the prompt sent and the stream returned.
  \<open>getGeminiResponse\<close> catches every failure, so the fallback to
  \<open>getSimpleCoachResponse\<close> and the outer fallback message are never used.
\<close>

definition get_gemini_stream_response ::
  "string \<Rightarrow> (chat_role \<times> string) list \<Rightarrow> user_info option \<Rightarrow> gen_result \<Rightarrow> string \<times> js_stream" where
  "get_gemini_stream_response prompt hist info g =
     (stream_prompt (coach_instructions info) prompt hist, gemini_stream (get_gemini_response g))"

text \<open>
  \<open>getGeminiResponse\<close>'s request: the history as \<open>contents\<close>, then the new
  message with role \<open>user\<close>.
\<close>

definition gemini_contents :: "(chat_role \<times> string) list \<Rightarrow> string \<Rightarrow> (chat_role \<times> string) list" where
  "gemini_contents hist p = hist @ [(RoleUser, p)]"

text \<open>The template of \<open>getEducationalResponse\<close> around the question (Turkish letters transliterated).\<close>

definition educational_prompt :: "string \<Rightarrow> string" where
  "educational_prompt q =
     nl @ ''Sen bir egitim kocusun. Ogrencilere matematik, fizik, kimya ve diger konularda yardimci oluyorsun.'' @ nl @
     ''Cevaplarin kisa, anlasilir ve egitici olmali. '' @ nl @ nl @
     ''Ogrencinin sorusu: '' @ q @ nl @ ''  ''"

text \<open>
  \<open>getEducationalResponse\<close>: the request sent and the answer.  Its \<open>catch\<close>
  (the educational apology) is unreachable: \<open>getGeminiResponse\<close> catches
  every failure itself and returns its own apology.
\<close>

definition get_educational_response ::
  "string \<Rightarrow> (chat_role \<times> string) list \<Rightarrow> gen_result \<Rightarrow> (chat_role \<times> string) list \<times> string option" where
  "get_educational_response q hist g = (gemini_contents hist (educational_prompt q), get_gemini_response g)"

text \<open>
  \<open>safeLog(message, data)\<close> with \<open>DEBUG\<close> set: the arguments passed to
  \<open>console.log\<close>.  \<open>data\<close> is given by its \<open>JSON.stringify\<close> text when it is
  truthy; only its first 500 units are logged, followed by \<open>...\<close>.
\<close>

definition safe_log :: "string \<Rightarrow> string option \<Rightarrow> string list" where
  "safe_log msg data = (case data of None \<Rightarrow> [msg] | Some j \<Rightarrow> [msg, take 500 j @ ''...''])"

section \<open>Lemmas\<close>

text \<open>A failed educational request answers with the general apology, never the educational one.\<close>

lemma educational_failure_general_apology:
  "get_educational_response q hist GenFail = (hist @ [(RoleUser, educational_prompt q)], Some apology_text)"
  by (simp add: get_educational_response_def gemini_contents_def get_gemini_response_def)

text \<open>Whatever is logged, a logged payload is at most 503 characters long.\<close>

lemma safe_log_bounded: "\<forall>a \<in> set (tl (safe_log msg data)). length a \<le> 503"
  by (simp add: safe_log_def split: option.splits)

end
