(* ===== verification/AIChat.thy ===== *)
theory AIChat
  imports "HOL-Library.Multiset" AIService
begin

text \<open>
  The AI coach screen, \<open>src/proje/app/ai-chat.tsx\<close>: \<open>generateUUID\<close>,
  loading and clearing the history, \<open>getChatHistory\<close> (the context sent
  with a question), \<open>processStreamResponse\<close> and \<open>handleSend\<close> with its
  retry loop.  The model's answers are an input: \<open>gens k\<close> is the outcome
  of the \<open>k\<close>-th model call of one send, \<open>ids k\<close> the \<open>k\<close>-th message id
  the handler makes.  \<open>processAIResponseForUserInfo\<close>, which
  \<open>processStreamResponse\<close> awaits last, is the theory \<open>AIUserInfo\<close>; the
  render is \<open>AICoachView\<close>.
\<close>

unbundle bit_operations_syntax

section \<open>generateUUID\<close>

text \<open>
  Each \<open>x\<close> or \<open>y\<close> of the template takes
  \<open>r = (dt + Math.random() * 16) % 16 | 0\<close>, which for an integer \<open>dt\<close> is
  \<open>(dt + k) mod 16\<close> with \<open>k = floor (Math.random() * 16)\<close>, here \<open>rnd i\<close>
  for the \<open>i\<close>-th call; then \<open>dt := floor (dt / 16)\<close>.  An \<open>x\<close> becomes
  \<open>r\<close>, a \<open>y\<close> becomes \<open>r & 0x3 | 0x8\<close>, in lower-case hexadecimal.
\<close>

definition uuid_template :: string where
  "uuid_template = ''xxxxxxxx-xxxx-4xxx-yxxx-xxxxxxxxxxxx''"

fun uuid_fill :: "nat \<Rightarrow> (nat \<Rightarrow> nat) \<Rightarrow> nat \<Rightarrow> string \<Rightarrow> string" where
  "uuid_fill dt rnd i [] = []"
| "uuid_fill dt rnd i (c # cs) =
     (if c = CHR ''x'' \<or> c = CHR ''y'' then
        (let r = (dt + rnd i) mod 16
         in hex_digit (if c = CHR ''x'' then r else r AND 3 OR 8) # uuid_fill (dt div 16) rnd (Suc i) cs)
      else c # uuid_fill dt rnd i cs)"

definition generate_uuid :: "nat \<Rightarrow> (nat \<Rightarrow> nat) \<Rightarrow> string" where
  "generate_uuid dt rnd = uuid_fill dt rnd 0 uuid_template"

text \<open>What a position of the template admits: a hex digit, a variant digit, or itself.\<close>

definition uuid_char_ok :: "char \<Rightarrow> char \<Rightarrow> bool" where
  "uuid_char_ok t c =
     (if t = CHR ''x'' then c \<in> set ''0123456789abcdef''
      else if t = CHR ''y'' then c \<in> set ''89ab''
      else c = t)"

section \<open>The screen\<close>

record ai_screen =
  sc_messages :: "chat_message list"
  sc_new :: string
  sc_loading :: bool
  sc_streaming :: string
  sc_info :: "user_info option"

definition greeting_message :: "time_ms \<Rightarrow> chat_message" where
  "greeting_message now = \<lparr>cm_id = ClientKey (show_int now), cm_role = RoleAssistant, cm_content = greeting_text,
                           cm_time = now\<rparr>"

text \<open>
  \<open>loadChatHistory\<close>: a non-empty history is shown; otherwise the greeting
  is shown and stored.
\<close>

definition load_chat_history :: "user_id option \<Rightarrow> time_ms \<Rightarrow> ai_screen \<Rightarrow> aidb \<Rightarrow> ai_screen \<times> aidb" where
  "load_chat_history me now sc d =
     (case me of None \<Rightarrow> (sc, d)
      | Some u \<Rightarrow>
          (let h = get_chat_history u 50 d
           in if h \<noteq> [] then (sc\<lparr>sc_messages := h\<rparr>, d)
              else (sc\<lparr>sc_messages := [greeting_message now]\<rparr>,
                    snd (add_chat_message u RoleAssistant greeting_text now d))))"

text \<open>
  \<open>handleClearChat\<close>: \<open>clearChatHistory\<close> (which stores a greeting), then
  the screen shows a greeting and stores one more.
\<close>

definition handle_clear_chat :: "user_id option \<Rightarrow> time_ms \<Rightarrow> ai_screen \<Rightarrow> aidb \<Rightarrow> ai_screen \<times> aidb" where
  "handle_clear_chat me now sc d =
     (case me of None \<Rightarrow> (sc, d)
      | Some u \<Rightarrow>
          (sc\<lparr>sc_messages := [greeting_message now]\<rparr>,
           snd (add_chat_message u RoleAssistant greeting_text now (snd (clear_chat_history u now d)))))"

text \<open>\<open>getChatHistory\<close> of the screen: the last ten messages as role and content.\<close>

definition chat_context :: "chat_message list \<Rightarrow> (chat_role \<times> string) list" where
  "chat_context ms = map (\<lambda>m. (cm_role m, cm_content m)) (slice_last 10 ms)"

definition truncate_prompt :: "string \<Rightarrow> string" where
  "truncate_prompt s = (if length s > 500 then take 500 s @ ''...'' else s)"

section \<open>processStreamResponse\<close>

text \<open>One chunk of the async iterator added to the response: falsy chunks are skipped.\<close>

fun add_chunk :: "string \<Rightarrow> chunk \<Rightarrow> string" where
  "add_chunk acc ChunkNull = acc"
| "add_chunk acc (ChunkStr s) = acc @ s"
| "add_chunk acc (ChunkObj t r c j) =
     (if \<not> js_falsy t then acc @ the t
      else if \<not> js_falsy r then acc @ the r
      else if \<not> js_falsy c then acc @ the c
      else acc @ take 100 j)"

text \<open>
  The response text of a stream object: its \<open>text\<close>, its
  \<open>response.text\<close>, the concatenated chunks of its iterator, or the fixed
  message of the last branch.  (The promise branch and a failing iterator
  are not reached by the objects \<open>getGeminiStreamResponse\<close> returns.)
\<close>

definition stream_text :: "js_stream \<Rightarrow> string" where
  "stream_text s =
     (if \<not> js_falsy (st_text s) then the (st_text s)
      else if \<not> js_falsy (st_response_text s) then the (st_response_text s)
      else case st_chunks s of
        Some cs \<Rightarrow> foldl add_chunk [] cs
      | None \<Rightarrow> ''Yanit alindi ancak gosterilemiyor. Lutfen tekrar deneyin.'')"

definition response_error_text :: string where
  "response_error_text = ''Uzgunum, yanit alirken bir sorun olustu. Lutfen tekrar deneyin.''"

definition all_failed_text :: string where
  "all_failed_text = ''Uzgunum, su anda yanit alamiyorum. Lutfen internet baglantinizi kontrol edip tekrar deneyin.''"

text \<open>
  \<open>processStreamResponse\<close>: a missing stream or a response shorter than
  five characters is thrown and caught: an error message is appended and
  the result is \<open>false\<close>.  Otherwise the answer is appended and stored (a
  store failure is ignored), \<open>processAIResponseForUserInfo(fullResponse,
  newMessage)\<close> runs (its failures are caught), and the result is
  \<open>true\<close>.  That call is the parameter \<open>prof\<close>, applied to the answer and to
  the screen and store it finds; it is modelled in \<open>AIUserInfo\<close>, which
  instantiates it.
\<close>

definition process_stream_response ::
  "user_id \<Rightarrow> time_ms \<Rightarrow> msg_key \<Rightarrow> (string \<Rightarrow> ai_screen \<times> aidb \<Rightarrow> ai_screen \<times> aidb) \<Rightarrow>
   js_stream option \<Rightarrow> ai_screen \<Rightarrow> aidb \<Rightarrow> bool \<times> ai_screen \<times> aidb" where
  "process_stream_response u now key prof st sc d =
     (let full = (case st of None \<Rightarrow> [] | Some s \<Rightarrow> stream_text s)
      in if full = [] \<or> length full < 5
         then (False, sc\<lparr>sc_messages := sc_messages sc @
                         [\<lparr>cm_id = key, cm_role = RoleAssistant, cm_content = response_error_text, cm_time = now\<rparr>],
                         sc_streaming := []\<rparr>, d)
         else (True, prof full
                 (sc\<lparr>sc_messages := sc_messages sc @
                        [\<lparr>cm_id = key, cm_role = RoleAssistant, cm_content = full, cm_time = now\<rparr>],
                        sc_streaming := []\<rparr>,
                  snd (add_chat_message u RoleAssistant full now d))))"

section \<open>handleSend\<close>

text \<open>
  \<open>attemptGetResponse\<close>: builds the context and the truncated question,
  calls \<open>getGeminiStreamResponse\<close> and awaits
  \<open>processStreamResponse\<close>, then returns \<open>true\<close>; neither call throws, so
  the \<open>catch\<close> returning \<open>false\<close> is never reached.
\<close>

definition attempt_get_response ::
  "user_id \<Rightarrow> time_ms \<Rightarrow> msg_key \<Rightarrow> string \<Rightarrow> user_info option \<Rightarrow> (chat_role \<times> string) list \<Rightarrow>
   (string \<Rightarrow> ai_screen \<times> aidb \<Rightarrow> ai_screen \<times> aidb) \<Rightarrow> gen_result \<Rightarrow>
   ai_screen \<times> aidb \<Rightarrow> bool \<times> ai_screen \<times> aidb" where
  "attempt_get_response u now key question info hist prof g st =
     (case get_gemini_stream_response (truncate_prompt question) hist info g of
        (prompt, stream) \<Rightarrow>
          (case process_stream_response u now key prof (Some stream) (fst st) (snd st) of
             (ok, sc', d') \<Rightarrow> (True, sc', d')))"

text \<open>
  The retry loop \<open>while (!success && retryCount < maxRetries)\<close> with
  \<open>maxRetries = 2\<close>: the first argument is the number of retries left,
  the third the number of attempts made, which is also the next attempt's
  index.
\<close>

fun send_retries ::
  "nat \<Rightarrow> (nat \<Rightarrow> ai_screen \<times> aidb \<Rightarrow> bool \<times> ai_screen \<times> aidb) \<Rightarrow> nat \<Rightarrow> bool \<Rightarrow> ai_screen \<times> aidb \<Rightarrow>
   nat \<times> bool \<times> ai_screen \<times> aidb" where
  "send_retries 0 att n ok st = (n, ok, st)"
| "send_retries (Suc m) att n ok st =
     (if ok then (n, ok, st)
      else (case att n st of (ok', sc', d') \<Rightarrow> send_retries m att (Suc n) ok' (sc', d')))"

text \<open>
  \<open>handleSend\<close>: nothing for a blank draft, a send in flight or no user.
  The trimmed question is appended, the draft cleared and the question
  stored; the context is the screen's messages of the render that made the
  handler, without the question.  After the attempts, the fallback message
  is appended if none succeeded.  The result starts with the number of
  model calls made.  \<open>prof\<close> is \<open>processAIResponseForUserInfo\<close>, given the
  answer and the draft \<open>newMessage\<close> of the render that made the handler.
\<close>

definition handle_send ::
  "user_id option \<Rightarrow> time_ms \<Rightarrow> (nat \<Rightarrow> msg_key) \<Rightarrow> (nat \<Rightarrow> gen_result) \<Rightarrow>
   (string \<Rightarrow> string \<Rightarrow> ai_screen \<times> aidb \<Rightarrow> ai_screen \<times> aidb) \<Rightarrow> ai_screen \<Rightarrow> aidb \<Rightarrow>
   nat \<times> ai_screen \<times> aidb" where
  "handle_send me now ids gens prof sc d =
     (case me of None \<Rightarrow> (0, sc, d)
      | Some u \<Rightarrow>
          if js_trim (sc_new sc) = [] \<or> sc_loading sc then (0, sc, d)
          else
            (let q = js_trim (sc_new sc);
                 sc1 = sc\<lparr>sc_messages := sc_messages sc @
                           [\<lparr>cm_id = ids 0, cm_role = RoleUser, cm_content = q, cm_time = now\<rparr>],
                           sc_new := [], sc_loading := True\<rparr>;
                 d1 = snd (add_chat_message u RoleUser q now d);
                 att = (\<lambda>k st. attempt_get_response u now (ids (Suc k)) q (sc_info sc) (chat_context (sc_messages sc))
                                 (\<lambda>r. prof r (sc_new sc)) (gens k) st)
             in case att 0 (sc1, d1) of
                  (ok1, sc2, d2) \<Rightarrow>
                    (case send_retries 2 att 1 ok1 (sc2, d2) of
                       (n, ok, sc3, d3) \<Rightarrow>
                         (n, (if ok then sc3
                              else sc3\<lparr>sc_messages := sc_messages sc3 @
                                     [\<lparr>cm_id = ids (Suc n), cm_role = RoleAssistant, cm_content = all_failed_text,
                                       cm_time = now\<rparr>]\<rparr>)\<lparr>sc_loading := False\<rparr>, d3))))"


text \<open>A store holding 51 questions of user 1, asked at times 0 to 50.\<close>

definition demo_history_db :: aidb where
  "demo_history_db =
     \<lparr>ai_online = True,
      ai_rows = map (\<lambda>i. \<lparr>ar_id = i, ar_user = 1, ar_role = ''user'', ar_content = [], ar_created = int i\<rparr>) [0..<51],
      ai_users = Map.empty, ai_assignments = [], ai_next = 51\<rparr>"


definition demo_screen :: ai_screen where
  "demo_screen = \<lparr>sc_messages = [], sc_new = '' Merhaba '', sc_loading = False, sc_streaming = [], sc_info = None\<rparr>"

definition empty_aidb :: aidb where
  "empty_aidb = \<lparr>ai_online = True, ai_rows = [], ai_users = Map.empty, ai_assignments = [], ai_next = 0\<rparr>"

section \<open>Lemmas\<close>

lemma hex_digit_hex: "n < 16 \<Longrightarrow> hex_digit n \<in> set ''0123456789abcdef''"
  unfolding hex_digit_def by (rule nth_mem) simp

lemma and_3_nat: "(r::nat) AND 3 = r mod 4"
proof -
  have m: "mask 2 = (3::nat)" by (simp add: mask_eq_exp_minus_1)
  show ?thesis using take_bit_eq_mask[of 2 r] by (simp add: take_bit_eq_mod m)
qed

lemma uuid_variant: "hex_digit ((r::nat) AND 3 OR 8) \<in> set ''89ab''"
proof -
  have "r mod 4 = 0 \<or> r mod 4 = 1 \<or> r mod 4 = 2 \<or> r mod 4 = 3" by arith
  then show ?thesis by (elim disjE) (simp_all add: and_3_nat hex_digit_def)
qed

lemma uuid_char_ok_fill:
  "c = CHR ''x'' \<or> c = CHR ''y'' \<Longrightarrow> r < 16 \<Longrightarrow>
   uuid_char_ok c (hex_digit (if c = CHR ''x'' then r else r AND 3 OR 8))"
  using hex_digit_hex[of r] uuid_variant[of r] unfolding uuid_char_ok_def by (cases "c = CHR ''x''") simp_all

lemma uuid_char_ok_same: "c \<noteq> CHR ''x'' \<Longrightarrow> c \<noteq> CHR ''y'' \<Longrightarrow> uuid_char_ok c c"
  by (simp add: uuid_char_ok_def)

lemma uuid_fill_ok: "list_all2 uuid_char_ok cs (uuid_fill dt rnd i cs)"
proof (induction cs arbitrary: dt i)
  case Nil
  then show ?case by simp
next
  case (Cons c cs)
  show ?case
  proof (cases "c = CHR ''x'' \<or> c = CHR ''y''")
    case True
    then show ?thesis
      using uuid_char_ok_fill[OF True, of "(dt + rnd i) mod 16"] Cons.IH[of "dt div 16" "Suc i"]
      by (simp add: Let_def)
  next
    case False
    then show ?thesis
      using uuid_char_ok_same[of c] Cons.IH[of dt i] by simp
  qed
qed

lemma attempt_get_response_eq:
  "attempt_get_response u now key q info hist prof g st =
     (True, snd (process_stream_response u now key prof (Some (gemini_stream (get_gemini_response g))) (fst st) (snd st)))"
  by (simp add: attempt_get_response_def get_gemini_stream_response_def split: prod.splits)

lemma process_stream_response_messages:
  assumes "\<And>r st. sc_messages (fst (prof r st)) = sc_messages (fst st)"
  shows "sc_messages (fst (snd (process_stream_response u now key prof st sc d))) =
         sc_messages sc @ [\<lparr>cm_id = key, cm_role = RoleAssistant,
            cm_content = (let full = (case st of None \<Rightarrow> [] | Some s \<Rightarrow> stream_text s)
                          in if full = [] \<or> length full < 5 then response_error_text else full), cm_time = now\<rparr>]"
  using assms by (simp add: process_stream_response_def Let_def)

lemma send_retries_done [simp]: "send_retries m att n True st = (n, True, st)"
  by (cases m) simp_all

lemma stream_text_gemini:
  "stream_text (gemini_stream t) = (if js_falsy t then json_text_obj t else the t)"
  by (auto simp: stream_text_def gemini_stream_def js_falsy_def json_text_obj_def json_string_def json_char_def)

lemma truncate_prompt_length: "length (truncate_prompt s) \<le> 503"
  by (simp add: truncate_prompt_def)

lemma user_rows_add_own:
  "ai_online d \<Longrightarrow> filter (\<lambda>r. ar_user r = u) (ai_rows d) = [] \<Longrightarrow>
   user_rows u (snd (add_chat_message u role c t d)) =
     [\<lparr>ar_id = ai_next d, ar_user = u, ar_role = role_name role, ar_content = c, ar_created = t\<rparr>]"
  by (simp add: user_rows_def add_chat_message_def)

lemma user_rows_Nil: "user_rows u d = [] \<longleftrightarrow> filter (\<lambda>r. ar_user r = u) (ai_rows d) = []"
  unfolding user_rows_def by (metis length_0_conv length_sort)

section \<open>Properties\<close>

text \<open>C23. One send makes exactly one model call, whatever the model answers: the retry loop never runs.\<close>

theorem handle_send_one_call:
  "js_trim (sc_new sc) \<noteq> [] \<Longrightarrow> \<not> sc_loading sc \<Longrightarrow> fst (handle_send (Some u) now ids gens prof sc d) = 1"
  by (simp add: handle_send_def Let_def attempt_get_response_eq split: prod.splits)

theorem handle_send_one_call_witness:
  "fst (handle_send (Some 1) 0 DbKey (\<lambda>_. GenText None) (\<lambda>_ _ st. st) demo_screen empty_aidb) = 1"
  using handle_send_one_call[where u = 1 and now = 0 and ids = DbKey
      and gens = "\<lambda>_. GenText None" and prof = "\<lambda>_ _ st. st" and sc = demo_screen and d = empty_aidb]
  by (simp add: demo_screen_def js_trim_def js_space_def)

text \<open>C24. A send appends the trimmed question and one reply: the answer, the error message for an undefined or too short answer, or the JSON text of the chunk for an empty answer.\<close>

theorem handle_send_messages:
  "js_trim (sc_new sc) \<noteq> [] \<Longrightarrow> \<not> sc_loading sc \<Longrightarrow>
   (\<And>r q st. sc_messages (fst (prof r q st)) = sc_messages (fst st)) \<Longrightarrow>
   sc_messages (fst (snd (handle_send (Some u) now ids gens prof sc d))) =
     sc_messages sc @
     [\<lparr>cm_id = ids 0, cm_role = RoleUser, cm_content = js_trim (sc_new sc), cm_time = now\<rparr>,
      \<lparr>cm_id = ids 1, cm_role = RoleAssistant,
       cm_content = (case get_gemini_response (gens 0) of
                       None \<Rightarrow> response_error_text
                     | Some s \<Rightarrow> if s = [] then json_text_obj (Some []) else if length s < 5 then response_error_text else s),
       cm_time = now\<rparr>]"
  by (auto simp: handle_send_def Let_def split_def attempt_get_response_eq process_stream_response_messages
      stream_text_gemini json_text_obj_def json_string_def js_falsy_def split: option.splits)

theorem handle_send_messages_witness:
  \<open>sc_messages (fst (snd (handle_send (Some 1) 0 DbKey (\<lambda>_. GenText (Some [])) (\<lambda>_ _ st. st) demo_screen empty_aidb))) =
     [\<lparr>cm_id = DbKey 0, cm_role = RoleUser, cm_content = ''Merhaba'', cm_time = 0\<rparr>,
      \<lparr>cm_id = DbKey 1, cm_role = RoleAssistant, cm_content = ''{"text":""}'', cm_time = 0\<rparr>]\<close>
  using handle_send_messages[where u = 1 and now = 0 and ids = DbKey
      and gens = "\<lambda>_. GenText (Some [])" and prof = "\<lambda>_ _ st. st" and sc = demo_screen and d = empty_aidb]
  by (simp add: demo_screen_def js_trim_def js_space_def get_gemini_response_def json_text_obj_def json_string_def
      json_char_def)

text \<open>C25. The prompt sent to the model for a question of the screen is never longer than 4000 characters.\<close>

theorem prompt_within_limit:
  "length (fst (get_gemini_stream_response (truncate_prompt q) hist info g)) \<le> 4000"
  using truncate_prompt_length[of q]
  by (auto simp: get_gemini_stream_response_def stream_prompt_def Let_def nl_def min_def)

text \<open>generateUUID returns 36 characters matching the version-4 template: hex digits, the version 4, a variant digit 8, 9, a or b, and the hyphens.\<close>

theorem uuid_shape:
  "length (generate_uuid dt rnd) = 36 \<and> list_all2 uuid_char_ok uuid_template (generate_uuid dt rnd)"
proof -
  have ok: "list_all2 uuid_char_ok uuid_template (generate_uuid dt rnd)"
    unfolding generate_uuid_def by (rule uuid_fill_ok)
  have "length uuid_template = 36" by (simp add: uuid_template_def)
  with ok show ?thesis by (simp add: list_all2_lengthD[symmetric])
qed

text \<open>With more than 50 stored messages, the loaded history does not contain the newest one.\<close>

theorem history_misses_newest:
  assumes on: "ai_online d" and many: "50 < length (user_rows u d)"
    and ids: "distinct (map ar_id (ai_rows d))"
  shows "row_message (last (user_rows u d)) \<notin> set (get_chat_history u 50 d)"
proof
  let ?xs = "user_rows u d"
  have "mset (map ar_id ?xs) = mset (map ar_id (filter (\<lambda>r. ar_user r = u) (ai_rows d)))"
    by (simp add: user_rows_def)
  moreover have "distinct (map ar_id (filter (\<lambda>r. ar_user r = u) (ai_rows d)))"
    using ids by (simp add: distinct_map_filter)
  ultimately have dist: "distinct (map ar_id ?xs)"
    using mset_eq_imp_distinct_iff by blast
  assume "row_message (last ?xs) \<in> set (get_chat_history u 50 d)"
  then obtain j where j: "j < 50" "j < length ?xs" "row_message (?xs ! j) = row_message (last ?xs)"
    using on by (auto simp: get_chat_history_def in_set_conv_nth)
  moreover have "?xs \<noteq> []" using many by auto
  ultimately have "map ar_id ?xs ! j = map ar_id ?xs ! (length ?xs - 1)"
    using many by (simp add: row_message_def last_conv_nth)
  then have "j = length ?xs - 1"
    using nth_eq_iff_index_eq[OF dist, of j "length ?xs - 1"] j(2) many by simp
  then show False using j many by simp
qed

theorem history_misses_newest_witness:
  "row_message (last (user_rows 1 demo_history_db)) \<notin> set (get_chat_history 1 50 demo_history_db)"
  using history_misses_newest[where d = demo_history_db and u = 1]
  by (simp add: demo_history_db_def user_rows_def distinct_map inj_on_def)

text \<open>Clearing the chat leaves exactly two greetings in the user's stored history.\<close>

theorem clear_chat_stores_two_greetings:
  assumes on: "ai_online d" and roles: "\<forall>r\<in>set (ai_rows d). ar_role r \<noteq> ''greeting''"
  shows "map ar_content (user_rows u (snd (handle_clear_chat (Some u) now sc d))) = [greeting_text, greeting_text]"
proof -
  have "filter (\<lambda>r. ar_user r = u) (filter (\<lambda>r. \<not> (ar_user r = u \<and> ar_role r \<noteq> ''greeting'')) (ai_rows d)) = []"
    using roles by (auto simp: filter_empty_conv)
  then show ?thesis
    using on by (simp add: handle_clear_chat_def clear_chat_history_def add_chat_message_def user_rows_def)
qed

theorem clear_chat_stores_two_greetings_witness:
  "map ar_content (user_rows 1 (snd (handle_clear_chat (Some 1) 9 demo_screen demo_history_db))) =
     [greeting_text, greeting_text]"
  using clear_chat_stores_two_greetings[where d = demo_history_db and u = 1 and now = 9 and sc = demo_screen]
  by (simp add: demo_history_db_def)

text \<open>Loading an empty history shows the greeting and stores it once.\<close>

theorem load_empty_history_greets:
  "ai_online d \<Longrightarrow> user_rows u d = [] \<Longrightarrow>
   sc_messages (fst (load_chat_history (Some u) now sc d)) = [greeting_message now] \<and>
   map ar_content (user_rows u (snd (load_chat_history (Some u) now sc d))) = [greeting_text]"
  by (simp add: load_chat_history_def get_chat_history_def user_rows_add_own user_rows_Nil)

theorem load_empty_history_greets_witness:
  "sc_messages (fst (load_chat_history (Some 1) 5 demo_screen empty_aidb)) = [greeting_message 5] \<and>
   map ar_content (user_rows 1 (snd (load_chat_history (Some 1) 5 demo_screen empty_aidb))) = [greeting_text]"
  using load_empty_history_greets[where d = empty_aidb and u = 1 and now = 5 and sc = demo_screen]
  by (simp add: empty_aidb_def user_rows_def)

end
