(* ===== verification/AITyping.thy ===== *)
theory AITyping
  imports Complex_Main AIChat
begin

text \<open>
  The coach screen's typing animation and focus effects
  (\<open>src/proje/app/ai-chat.tsx\<close>).  While a reply streams in, the screen shows
  \<open>animatedContent\<close>, which \<open>animateTyping\<close> grows one letter per timeout;
  the effect on \<open>[streamingContent]\<close> clears the pending timeout and starts
  the animation again whenever the streamed text changes.  The random
  delay of each letter is an input in \<open>[0, 1)\<close>.
\<close>

record typing =
  ty_content :: string   \<comment> \<open>\<open>streamingContent\<close>\<close>
  ty_index :: nat        \<comment> \<open>\<open>index\<close> of the running \<open>animateTyping\<close> closure\<close>
  ty_shown :: string     \<comment> \<open>\<open>animatedContent\<close>\<close>
  ty_pending :: bool     \<comment> \<open>a live timeout in \<open>animationTimeoutRef\<close>\<close>

definition typing0 :: typing where
  "typing0 = \<lparr>ty_content = [], ty_index = 0, ty_shown = [], ty_pending = False\<rparr>"

text \<open>One call of \<open>type()\<close>: show \<open>text.substring(0, index)\<close> and schedule the next letter while \<open>index <= text.length\<close>.\<close>

definition type_step :: "typing \<Rightarrow> typing" where
  "type_step t =
     (if ty_index t \<le> length (ty_content t)
      then t\<lparr>ty_shown := take (ty_index t) (ty_content t), ty_index := Suc (ty_index t), ty_pending := True\<rparr>
      else t\<lparr>ty_pending := False\<rparr>)"

text \<open>
  \<open>setStreamingContent(s)\<close>: an equal string does not re-render; otherwise
  the effect's cleanup clears the timeout and, for a non-empty text,
  \<open>animateTyping\<close> starts at index 0 and runs \<open>type()\<close> at once.
\<close>

definition set_streaming :: "string \<Rightarrow> typing \<Rightarrow> typing" where
  "set_streaming s t =
     (if s = ty_content t then t
      else if s = [] then t\<lparr>ty_content := s, ty_pending := False\<rparr>
      else type_step (t\<lparr>ty_content := s, ty_index := 0, ty_pending := False\<rparr>))"

text \<open>The pending timeout fires.\<close>

definition typing_fire :: "typing \<Rightarrow> typing" where
  "typing_fire t = (if ty_pending t then type_step t else t)"

text \<open>\<open>Math.max(MIN_DELAY, LETTER_DELAY * (Math.random() + 0.5))\<close> for a random value \<open>r\<close>.\<close>

definition typing_delay :: "real \<Rightarrow> real" where
  "typing_delay r = max 5 (10 * (r + 1 / 2))"

text \<open>The bubble of the streamed reply: shown while \<open>streamingContent\<close> is non-empty.\<close>

definition typing_bubble :: "typing \<Rightarrow> string option" where
  "typing_bubble t = (if ty_content t \<noteq> [] then Some (ty_shown t) else None)"

text \<open>\<open>loadUserInfo\<close>: keeps the previous information when there is none.\<close>

definition load_user_info :: "user_id option \<Rightarrow> aidb \<Rightarrow> ai_screen \<Rightarrow> ai_screen" where
  "load_user_info me d sc =
     (case me of None \<Rightarrow> sc
      | Some u \<Rightarrow> (case get_user_info u d of None \<Rightarrow> sc | Some i \<Rightarrow> sc\<lparr>sc_info := Some i\<rparr>))"

text \<open>The focus effect: \<open>loadChatHistory()\<close> and \<open>loadUserInfo()\<close> for a signed-in user.\<close>

definition ai_focus :: "user_id option \<Rightarrow> time_ms \<Rightarrow> ai_screen \<Rightarrow> aidb \<Rightarrow> ai_screen \<times> aidb" where
  "ai_focus me now sc d =
     (case me of None \<Rightarrow> (sc, d)
      | Some u \<Rightarrow> (let (sc1, d1) = load_chat_history me now sc d in (load_user_info me d sc1, d1)))"

text \<open>The redirect effect: once ready, a screen without a user goes to sign-in.\<close>

definition ai_redirects :: "bool \<Rightarrow> user_id option \<Rightarrow> bool" where
  "ai_redirects ready me \<longleftrightarrow> ready \<and> me = None"

section \<open>Lemmas\<close>

lemma set_streaming_start:
  "s \<noteq> [] \<Longrightarrow> s \<noteq> ty_content t \<Longrightarrow>
   set_streaming s t = t\<lparr>ty_content := s, ty_index := 1, ty_shown := [], ty_pending := True\<rparr>"
  by (simp add: set_streaming_def type_step_def)

lemma typing_fires_prefix:
  assumes "k \<le> length s"
  shows "(typing_fire ^^ k) (t\<lparr>ty_content := s, ty_index := 1, ty_shown := [], ty_pending := True\<rparr>) =
           t\<lparr>ty_content := s, ty_index := Suc k, ty_shown := take k s, ty_pending := True\<rparr>"
  using assms
proof (induction k)
  case 0
  then show ?case by simp
next
  case (Suc k)
  then show ?case by (simp add: typing_fire_def type_step_def)
qed

lemma typing_delay_bounds: "0 \<le> r \<Longrightarrow> r < 1 \<Longrightarrow> 5 \<le> typing_delay r \<and> typing_delay r < 15"
  by (simp add: typing_delay_def)

lemma typing_time_bounds:
  assumes "list_all (\<lambda>r. 0 \<le> r \<and> r < 1) rs"
  shows "5 * length rs \<le> sum_list (map typing_delay rs) \<and>
         (rs \<noteq> [] \<longrightarrow> sum_list (map typing_delay rs) < 15 * length rs)"
  using assms
proof (induction rs)
  case Nil
  then show ?case by simp
next
  case (Cons r rs)
  then have "5 \<le> typing_delay r" "typing_delay r < 15"
    using typing_delay_bounds by auto
  with Cons show ?case by (cases "rs = []") auto
qed

text \<open>A new streamed text restarts the animation from the empty text.\<close>

lemma typing_restarts:
  "s \<noteq> [] \<Longrightarrow> s \<noteq> ty_content t \<Longrightarrow> ty_shown (set_streaming s t) = []"
  by (simp add: set_streaming_start)

theorem typing_completes:
  assumes "s \<noteq> []" and "s \<noteq> ty_content t"
  shows "(\<forall>k\<le>length s. ty_shown ((typing_fire ^^ k) (set_streaming s t)) = take k s) \<and>
         ty_shown ((typing_fire ^^ Suc (length s)) (set_streaming s t)) = s \<and>
         \<not> ty_pending ((typing_fire ^^ Suc (length s)) (set_streaming s t))"
proof -
  have all: "ty_shown ((typing_fire ^^ k) (set_streaming s t)) = take k s" if "k \<le> length s" for k
    using typing_fires_prefix[OF that, of t] assms by (simp add: set_streaming_start)
  have "(typing_fire ^^ Suc (length s)) (set_streaming s t) =
          typing_fire (t\<lparr>ty_content := s, ty_index := Suc (length s), ty_shown := s, ty_pending := True\<rparr>)"
    using typing_fires_prefix[of "length s" s t] assms by (simp add: set_streaming_start)
  then show ?thesis
    using all by (simp add: typing_fire_def type_step_def)
qed

end
