(* ===== verification/ChatRooms.thy ===== *)
theory ChatRooms
  imports Store
begin

text \<open>
  Chat rooms: the hook \<open>src/proje/hooks/useChat.ts\<close> (room list, create,
  delete, join, send, fetch of messages) over the tables \<open>chat_rooms\<close>,
  \<open>chat_room_members\<close> and \<open>chat_messages\<close>; the chat tab
  \<open>src/proje/app/(tabs)/chat.tsx\<close> (search, the sections by privacy, the
  pro room and the handlers); and the room screen
  \<open>src/proje/components/Chat/ChatRoom.tsx\<close> (loading, the realtime
  \<open>INSERT\<close> feed and sending).  Lower-casing is modelled for ASCII letters;
  the pro room's name \<open>Egitim Kocum\<close> is written with ASCII base letters.
\<close>

record chat_room_row =
  cr_name :: string
  cr_description :: "string option"
  cr_private :: bool
  cr_password :: "string option"
  cr_creator :: user_id
  cr_created :: time_ms

record chat_msg =
  chm_id :: nat
  chm_room :: room_id
  chm_user :: user_id
  chm_content :: string
  chm_created :: time_ms

text \<open>The tables: \<open>users\<close> and \<open>profile_photos\<close> rows are read by the room screen.\<close>

record cdb =
  c_online :: bool
  chat_rooms :: "(room_id, chat_room_row) table"
  chat_members :: "(room_id \<times> user_id) list"
  chat_messages :: "chat_msg list"
  c_next :: nat
  c_user_rows :: "(user_id \<times> string option) list"
  c_photo_rows :: "(user_id \<times> string option) list"

section \<open>useChat\<close>

text \<open>\<open>fetchRooms\<close>: all rooms, newest first.\<close>

definition chat_fetch_rooms :: "cdb \<Rightarrow> error + (room_id \<times> chat_room_row) list" where
  "chat_fetch_rooms d =
     (if \<not> c_online d then Inl StoreUnavailable
      else Inr (rev (sort_key (\<lambda>(_, r). cr_created r) (chat_rooms d))))"

text \<open>
  \<open>joinRoom(roomId, password?)\<close>: the room by \<open>.single()\<close>; a private room
  needs a truthy password equal to \<open>password_hash\<close>; then the member row is
  upserted on its primary key.
\<close>

definition chat_join_room :: "user_id option \<Rightarrow> room_id \<Rightarrow> string option \<Rightarrow> cdb \<Rightarrow> (error + unit) \<times> cdb" where
  "chat_join_room me rid pw d =
     (case me of None \<Rightarrow> (Inl NotAuthenticated, d)
      | Some u \<Rightarrow>
          if \<not> c_online d then (Inl StoreUnavailable, d)
          else (case map_of (chat_rooms d) rid of
            None \<Rightarrow> (Inl NotFound, d)
          | Some r \<Rightarrow>
              if cr_private r \<and> js_falsy pw then (Inl PasswordRequired, d)
              else if cr_private r \<and> pw \<noteq> cr_password r then (Inl WrongPassword, d)
              else (Inr (), d\<lparr>chat_members := (if (rid, u) \<in> set (chat_members d) then chat_members d
                                                else chat_members d @ [(rid, u)])\<rparr>)))"

text \<open>
  \<open>createRoom(name, description, isPrivate, password?)\<close>: inserts the room
  with \<open>password_hash = password\<close>, then joins it with the same password;
  an error of the join is thrown after the insert.
\<close>

definition chat_create_room ::
  "user_id option \<Rightarrow> time_ms \<Rightarrow> string \<Rightarrow> string option \<Rightarrow> bool \<Rightarrow> string option \<Rightarrow> cdb \<Rightarrow> (error + room_id) \<times> cdb" where
  "chat_create_room me now name desc priv pw d =
     (case me of None \<Rightarrow> (Inl NotAuthenticated, d)
      | Some u \<Rightarrow>
          if \<not> c_online d then (Inl StoreUnavailable, d)
          else
            (let rid = c_next d;
                 d1 = d\<lparr>chat_rooms := tbl_insert rid \<lparr>cr_name = name, cr_description = desc, cr_private = priv,
                          cr_password = pw, cr_creator = u, cr_created = now\<rparr> (chat_rooms d),
                        c_next := Suc rid\<rparr>
             in case chat_join_room me rid pw d1 of
                  (Inl e, d2) \<Rightarrow> (Inl e, d2)
                | (Inr _, d2) \<Rightarrow> (Inr rid, d2)))"

text \<open>\<open>deleteRoom\<close>: \<open>.eq('id', roomId).eq('created_by', user.id)\<close>; no match is no error.\<close>

definition chat_delete_room :: "user_id option \<Rightarrow> room_id \<Rightarrow> cdb \<Rightarrow> (error + unit) \<times> cdb" where
  "chat_delete_room me rid d =
     (case me of None \<Rightarrow> (Inl NotAuthenticated, d)
      | Some u \<Rightarrow>
          if \<not> c_online d then (Inl StoreUnavailable, d)
          else (Inr (), d\<lparr>chat_rooms := filter (\<lambda>(k, r). \<not> (k = rid \<and> cr_creator r = u)) (chat_rooms d)\<rparr>))"

definition chat_send_message :: "user_id option \<Rightarrow> room_id \<Rightarrow> string \<Rightarrow> time_ms \<Rightarrow> cdb \<Rightarrow> (error + chat_msg) \<times> cdb" where
  "chat_send_message me rid content now d =
     (case me of None \<Rightarrow> (Inl NotAuthenticated, d)
      | Some u \<Rightarrow>
          if \<not> c_online d then (Inl StoreUnavailable, d)
          else (let m = \<lparr>chm_id = c_next d, chm_room = rid, chm_user = u, chm_content = content, chm_created = now\<rparr>
                in (Inr m, d\<lparr>chat_messages := chat_messages d @ [m], c_next := Suc (c_next d)\<rparr>)))"

text \<open>\<open>fetchMessages\<close>: the room's messages in ascending \<open>created_at\<close> order.\<close>

definition chat_fetch_messages :: "room_id \<Rightarrow> cdb \<Rightarrow> error + chat_msg list" where
  "chat_fetch_messages rid d =
     (if \<not> c_online d then Inl StoreUnavailable
      else Inr (sort_key chm_created (filter (\<lambda>m. chm_room m = rid) (chat_messages d))))"

section \<open>The chat tab\<close>

definition js_lower_char :: "char \<Rightarrow> char" where
  "js_lower_char c = (if 65 \<le> (of_char c :: nat) \<and> (of_char c :: nat) \<le> 90 then char_of (of_char c + (32::nat)) else c)"

definition js_lower :: "string \<Rightarrow> string" where
  "js_lower s = map js_lower_char s"

text \<open>\<open>s.includes(t)\<close>: \<open>t\<close> occurs contiguously in \<open>s\<close>.\<close>

definition js_includes :: "string \<Rightarrow> string \<Rightarrow> bool" where
  "js_includes s t = sublist t s"

text \<open>
  The search: the lower-cased name contains the lower-cased query, or the
  description (when there is one) does.
\<close>

definition room_matches :: "string \<Rightarrow> chat_room_row \<Rightarrow> bool" where
  "room_matches q r =
     (js_includes (js_lower (cr_name r)) (js_lower q) \<or>
      (case cr_description r of None \<Rightarrow> False | Some ds \<Rightarrow> js_includes (js_lower ds) (js_lower q)))"

definition filtered_rooms :: "string \<Rightarrow> bool \<Rightarrow> chat_room_row list \<Rightarrow> chat_room_row list" where
  "filtered_rooms q priv rooms = filter (room_matches q) (filter (\<lambda>r. cr_private r = priv) rooms)"

definition pro_room_name :: string where
  "pro_room_name = ''Egitim Kocum''"

datatype chat_nav = ChatList | ChatOpen room_id | ChatJoinPrompt room_id | ChatGoPro

text \<open>
  \<open>handleJoinRoom\<close>: the pro room sends a user who is not pro
  (\<open>userData?.is_pro\<close> falsy) to the upgrade screen and opens it for a pro
  user without the password modal; another private room opens the modal,
  a public room opens directly (no member row is written).
\<close>

definition chat_open_room :: "bool \<Rightarrow> room_id \<Rightarrow> bool \<Rightarrow> string \<Rightarrow> chat_nav" where
  "chat_open_room pro rid priv name =
     (if name = pro_room_name then (if \<not> pro then ChatGoPro else ChatOpen rid)
      else if priv then ChatJoinPrompt rid else ChatOpen rid)"

text \<open>\<open>handleDeleteRoom\<close>: the hook's delete; an error is only logged.\<close>

definition chat_tab_delete :: "user_id option \<Rightarrow> room_id \<Rightarrow> cdb \<Rightarrow> cdb" where
  "chat_tab_delete me rid d = snd (chat_delete_room me rid d)"

section \<open>The room screen\<close>

record chat_user_info =
  cu_name :: string
  cu_photo :: "string option"

record chat_screen =
  cs_messages :: "chat_msg list"
  cs_draft :: string
  cs_loading :: bool
  cs_room :: "chat_room_row option"
  cs_member_count :: nat
  cs_users :: "user_id \<rightharpoonup> chat_user_info"

text \<open>\<open>loadRoomDetails\<close>: the room, then the count of member rows; a failure is only logged.\<close>

definition load_room_details :: "room_id \<Rightarrow> cdb \<Rightarrow> chat_screen \<Rightarrow> chat_screen" where
  "load_room_details rid d cs =
     (if \<not> c_online d then cs
      else case map_of (chat_rooms d) rid of
        None \<Rightarrow> cs
      | Some r \<Rightarrow> cs\<lparr>cs_room := Some r, cs_member_count := length (filter (\<lambda>k. fst k = rid) (chat_members d))\<rparr>)"

text \<open>
  \<open>loadUsers\<close>: every user row with \<open>name || 'Anonim Kullanici'\<close> and the
  first photo row of the user (\<open>photo_url || null\<close>), folded into a map;
  a failure is only logged and keeps the previous map.
\<close>

definition user_info_of :: "(user_id \<times> string option) list \<Rightarrow> user_id \<times> string option \<Rightarrow> chat_user_info" where
  "user_info_of photos ur =
     \<lparr>cu_name = (if js_falsy (snd ur) then ''Anonim Kullanici'' else the (snd ur)),
      cu_photo = (case find (\<lambda>p. fst p = fst ur) photos of
                    None \<Rightarrow> None | Some p \<Rightarrow> if js_falsy (snd p) then None else snd p)\<rparr>"

definition load_users :: "cdb \<Rightarrow> chat_screen \<Rightarrow> chat_screen" where
  "load_users d cs =
     (if \<not> c_online d then cs
      else cs\<lparr>cs_users := foldl (\<lambda>acc ur. acc(fst ur \<mapsto> user_info_of (c_photo_rows d) ur)) Map.empty (c_user_rows d)\<rparr>)"

text \<open>
  The screen's mount effect starts \<open>loadMessages\<close> and subscribes to the
  room's \<open>INSERT\<close> feed at the same time; their results reach the screen as
  events in some order.  A fetch result replaces the list (a failed fetch
  is only logged); an \<open>INSERT\<close> payload is appended.
\<close>

datatype chat_event =
    FetchResult "error + chat_msg list"
  | InsertPayload chat_msg
  | PhotosChanged cdb          \<comment> \<open>\<open>profile_photos\<close> feed: \<open>loadUsers()\<close> on the store it reads\<close>
  | MembersChanged room_id cdb \<comment> \<open>\<open>chat_room_members\<close> feed: \<open>loadRoomDetails()\<close>\<close>

fun chat_screen_step :: "chat_screen \<Rightarrow> chat_event \<Rightarrow> chat_screen" where
  "chat_screen_step cs (FetchResult (Inl e)) = cs"
| "chat_screen_step cs (FetchResult (Inr ms)) = cs\<lparr>cs_messages := ms\<rparr>"
| "chat_screen_step cs (InsertPayload m) = cs\<lparr>cs_messages := cs_messages cs @ [m]\<rparr>"
| "chat_screen_step cs (PhotosChanged d) = load_users d cs"
| "chat_screen_step cs (MembersChanged rid d) = load_room_details rid d cs"

definition chat_screen_run :: "chat_screen \<Rightarrow> chat_event list \<Rightarrow> chat_screen" where
  "chat_screen_run = foldl chat_screen_step"

text \<open>The events that carry a fetch result, and the messages an event appends.\<close>

fun chat_is_fetch :: "chat_event \<Rightarrow> bool" where
  "chat_is_fetch (FetchResult r) = True"
| "chat_is_fetch _ = False"

fun chat_payload :: "chat_event \<Rightarrow> chat_msg list" where
  "chat_payload (InsertPayload m) = [m]"
| "chat_payload _ = []"

text \<open>
  The mount effect: \<open>loadRoomDetails\<close> and \<open>loadUsers\<close> on the store at
  mount; the message fetch arrives later as a \<open>FetchResult\<close> event.
\<close>

definition chat_room_mount :: "room_id \<Rightarrow> cdb \<Rightarrow> chat_screen \<Rightarrow> chat_screen" where
  "chat_room_mount rid d cs = load_users d (load_room_details rid d cs)"

text \<open>
  \<open>handleSend\<close>: a blank draft does nothing; the trimmed text is sent; the
  draft is cleared on success and kept on failure.
\<close>

definition chat_handle_send :: "user_id option \<Rightarrow> room_id \<Rightarrow> time_ms \<Rightarrow> chat_screen \<Rightarrow> cdb \<Rightarrow> chat_screen \<times> cdb" where
  "chat_handle_send me rid now cs d =
     (if js_trim (cs_draft cs) = [] then (cs, d)
      else case chat_send_message me rid (js_trim (cs_draft cs)) now d of
        (Inl e, d') \<Rightarrow> (cs\<lparr>cs_loading := False\<rparr>, d')
      | (Inr m, d') \<Rightarrow> (cs\<lparr>cs_draft := [], cs_loading := False\<rparr>, d'))"


text \<open>The input: \<open>maxLength={500}\<close> keeps at most 500 characters of what is typed.\<close>

definition chat_type_draft :: "string \<Rightarrow> chat_screen \<Rightarrow> chat_screen" where
  "chat_type_draft t cs = cs\<lparr>cs_draft := take 500 t\<rparr>"

text \<open>The send button: disabled while the trimmed draft is empty or a send is running.\<close>

definition chat_send_enabled :: "chat_screen \<Rightarrow> bool" where
  "chat_send_enabled cs \<longleftrightarrow> js_trim (cs_draft cs) \<noteq> [] \<and> \<not> cs_loading cs"

text \<open>The header: \<open>room?.name || 'Yukleniyor...'\<close> and \<open>`${memberCount} uye`\<close>.\<close>

definition chat_header :: "chat_screen \<Rightarrow> string \<times> string" where
  "chat_header cs =
     ((case cs_room cs of None \<Rightarrow> ''Yukleniyor...'' | Some r \<Rightarrow> if cr_name r = [] then ''Yukleniyor...'' else cr_name r),
      digits_nat (cs_member_count cs) @ '' uye'')"

text \<open>
  One rendered message: whether it is the user's own, the avatar shown
  (\<open>photoUrl\<close> or the default picture) and the sender line
  (\<open>userInfo?.name\<close>, empty for a user missing from the map), both only on
  the first of consecutive messages of another user.
\<close>

record chat_msg_view =
  mv_own :: bool
  mv_avatar :: "string option"
  mv_sender :: "string option"
  mv_content :: string

definition default_avatar :: string where
  "default_avatar = ''https://images.pexels.com/photos/771742/pexels-photo-771742.jpeg?auto=compress&cs=tinysrgb&w=1260&h=750&dpr=1''"

definition chat_msg_view_of :: "user_id option \<Rightarrow> (user_id \<rightharpoonup> chat_user_info) \<Rightarrow> user_id option \<Rightarrow> chat_msg \<Rightarrow> chat_msg_view" where
  "chat_msg_view_of me users prev m =
     (let own = (Some (chm_user m) = me); shown = (\<not> own \<and> prev \<noteq> Some (chm_user m))
      in \<lparr>mv_own = own,
          mv_avatar = (if shown then Some (case users (chm_user m) of None \<Rightarrow> default_avatar
                                            | Some i \<Rightarrow> (case cu_photo i of None \<Rightarrow> default_avatar | Some u \<Rightarrow> u))
                       else None),
          mv_sender = (if shown then Some (case users (chm_user m) of None \<Rightarrow> [] | Some i \<Rightarrow> cu_name i) else None),
          mv_content = chm_content m\<rparr>)"

fun chat_views :: "user_id option \<Rightarrow> (user_id \<rightharpoonup> chat_user_info) \<Rightarrow> user_id option \<Rightarrow> chat_msg list \<Rightarrow> chat_msg_view list" where
  "chat_views me users prev [] = []"
| "chat_views me users prev (m # ms) = chat_msg_view_of me users prev m # chat_views me users (Some (chm_user m)) ms"

definition chat_room_view :: "user_id option \<Rightarrow> chat_screen \<Rightarrow> chat_msg_view list" where
  "chat_room_view me cs = chat_views me (cs_users cs) None (cs_messages cs)"


text \<open>A store with one public room and an empty screen, for the concrete runs below.\<close>

definition demo_cdb :: cdb where
  "demo_cdb = \<lparr>c_online = True,
     chat_rooms = [(0, \<lparr>cr_name = ''Genel'', cr_description = None, cr_private = False, cr_password = None,
                       cr_creator = 1, cr_created = 0\<rparr>)],
     chat_members = [], chat_messages = [], c_next = 1, c_user_rows = [], c_photo_rows = []\<rparr>"

definition chat_screen0 :: chat_screen where
  "chat_screen0 = \<lparr>cs_messages = [], cs_draft = [], cs_loading = False, cs_room = None, cs_member_count = 0,
     cs_users = Map.empty\<rparr>"

section \<open>Lemmas\<close>

lemma chat_screen_run_simps [simp]:
  "chat_screen_run cs [] = cs"
  "chat_screen_run cs (e # es) = chat_screen_run (chat_screen_step cs e) es"
  by (simp_all add: chat_screen_run_def)

lemma chat_views_length [simp]: "length (chat_views me us prev ms) = length ms"
  by (induction ms arbitrary: prev) simp_all

lemma chat_views_sender:
  "i < length ms \<Longrightarrow>
   mv_sender (chat_views me us prev ms ! i) \<noteq> None \<longleftrightarrow>
   Some (chm_user (ms ! i)) \<noteq> me \<and> (if i = 0 then prev else Some (chm_user (ms ! (i - 1)))) \<noteq> Some (chm_user (ms ! i))"
proof (induction ms arbitrary: prev i)
  case Nil
  then show ?case by simp
next
  case (Cons m ms)
  then show ?case
    by (cases i) (auto simp: chat_msg_view_of_def Let_def)
qed

lemma dom_foldl_upd:
  "dom (foldl (\<lambda>acc ur. acc(fst ur \<mapsto> f ur)) m xs) = dom m \<union> fst ` set xs"
  by (induction xs arbitrary: m) auto

lemma load_users_dom:
  "c_online d \<Longrightarrow> dom (cs_users (load_users d cs)) = fst ` set (c_user_rows d)"
  by (simp add: load_users_def dom_foldl_upd)

text \<open>A message of a user the map does not know, such as one who signed up after the screen loaded, has an empty sender line and the default picture.\<close>

lemma chat_view_unknown_user:
  "us (chm_user m) = None \<Longrightarrow> Some (chm_user m) \<noteq> me \<Longrightarrow> prev \<noteq> Some (chm_user m) \<Longrightarrow>
   mv_sender (chat_msg_view_of me us prev m) = Some [] \<and> mv_avatar (chat_msg_view_of me us prev m) = Some default_avatar"
  by (simp add: chat_msg_view_of_def Let_def)

lemma chat_type_draft_length: "length (cs_draft (chat_type_draft t cs)) \<le> 500"
  by (simp add: chat_type_draft_def)

section \<open>Properties\<close>

lemma chat_screen_run_append: "chat_screen_run cs (xs @ ys) = chat_screen_run (chat_screen_run cs xs) ys"
  by (simp add: chat_screen_run_def)

lemma chat_screen_run_no_fetch:
  "\<forall>ev \<in> set evs. \<not> chat_is_fetch ev \<Longrightarrow>
   cs_messages (chat_screen_run cs evs) = cs_messages cs @ concat (map chat_payload evs)"
proof (induction evs arbitrary: cs)
  case (Cons ev evs)
  then show ?case
    by (cases ev) (simp_all add: chat_screen_run_def load_users_def load_room_details_def split: option.splits)
qed (simp add: chat_screen_run_def)

lemma chat_payload_other:
  "\<forall>ev \<in> set evs. ev \<noteq> InsertPayload m \<Longrightarrow> m \<notin> set (concat (map chat_payload evs))"
proof (induction evs)
  case (Cons ev evs)
  then show ?case by (cases ev) auto
qed simp

lemma chat_send_message_Inr:
  "chat_send_message (Some u) rid txt now d = (Inr m, d') \<Longrightarrow>
   c_online d \<and> m = \<lparr>chm_id = c_next d, chm_room = rid, chm_user = u, chm_content = txt, chm_created = now\<rparr> \<and>
   chat_messages d' = chat_messages d @ [m]"
  by (auto simp: chat_send_message_def Let_def split: if_splits)

text \<open>
  C33. The room screen loads the history and subscribes to inserts at the
  same time, and never fetches again.  A message sent after the fetch's
  snapshot whose payload arrives before the fetch result is overwritten by
  it and never shown, whatever else happens later; a message already in the
  snapshot whose payload arrives after the fetch result is shown twice.
\<close>

theorem chat_feed_race:
  assumes fresh: "\<forall>x \<in> set (chat_messages d). chm_id x < c_next d"
    and send: "chat_send_message (Some u) rid txt now d = (Inr m, d')"
    and quiet: "\<forall>ev \<in> set evs. \<not> chat_is_fetch ev \<and> ev \<noteq> InsertPayload m"
  shows "m \<notin> set (cs_messages (chat_screen_run cs (pre @ InsertPayload m # mid @ FetchResult (chat_fetch_messages rid d) # evs))) \<and>
         2 \<le> count_list (cs_messages (chat_screen_run cs (pre @ FetchResult (chat_fetch_messages rid d') # evs @ InsertPayload m # evs))) m"
proof
  have on: "c_online d" and m: "m = \<lparr>chm_id = c_next d, chm_room = rid, chm_user = u, chm_content = txt, chm_created = now\<rparr>"
    and d': "chat_messages d' = chat_messages d @ [m]"
    using chat_send_message_Inr[OF send] by simp_all
  have on': "c_online d'" using send on by (auto simp: chat_send_message_def Let_def)
  have nq: "\<forall>ev \<in> set evs. \<not> chat_is_fetch ev" and np: "m \<notin> set (concat (map chat_payload evs))"
    using quiet chat_payload_other[of evs m] by auto
  have "m \<notin> set (chat_messages d)" using fresh m by auto
  then show "m \<notin> set (cs_messages (chat_screen_run cs (pre @ InsertPayload m # mid @ FetchResult (chat_fetch_messages rid d) # evs)))"
    using on nq np
    by (simp add: chat_screen_run_append chat_screen_run_no_fetch chat_fetch_messages_def)
  have "m \<in> set (sort_key chm_created (filter (\<lambda>x. chm_room x = rid) (chat_messages d')))"
    using d' m by simp
  then have "0 < count_list (sort_key chm_created (filter (\<lambda>x. chm_room x = rid) (chat_messages d'))) m"
    by (metis count_list_0_iff neq0_conv)
  then show "2 \<le> count_list (cs_messages (chat_screen_run cs (pre @ FetchResult (chat_fetch_messages rid d') # evs @ InsertPayload m # evs))) m"
    using on' nq
    by (simp add: chat_screen_run_append chat_screen_run_no_fetch chat_fetch_messages_def)
qed

theorem chat_feed_race_witness:
  "\<lparr>chm_id = 1, chm_room = 0, chm_user = 2, chm_content = ''selam'', chm_created = 5\<rparr> \<notin> set (cs_messages (chat_screen_run chat_screen0
     [InsertPayload \<lparr>chm_id = 1, chm_room = 0, chm_user = 2, chm_content = ''selam'', chm_created = 5\<rparr>, FetchResult (chat_fetch_messages 0 demo_cdb)])) \<and>
   2 \<le> count_list (cs_messages (chat_screen_run chat_screen0
     [FetchResult (chat_fetch_messages 0 (snd (chat_send_message (Some 2) 0 ''selam'' 5 demo_cdb))),
      InsertPayload \<lparr>chm_id = 1, chm_room = 0, chm_user = 2, chm_content = ''selam'', chm_created = 5\<rparr>])) \<lparr>chm_id = 1, chm_room = 0, chm_user = 2, chm_content = ''selam'', chm_created = 5\<rparr>"
proof -
  have send: "chat_send_message (Some 2) 0 ''selam'' 5 demo_cdb = (Inr \<lparr>chm_id = 1, chm_room = 0, chm_user = 2, chm_content = ''selam'', chm_created = 5\<rparr>, snd (chat_send_message (Some 2) 0 ''selam'' 5 demo_cdb))"
    by (simp add: chat_send_message_def demo_cdb_def Let_def)
  show ?thesis
    using chat_feed_race[OF _ send, where evs = "[]" and pre = "[]" and mid = "[]" and cs = chat_screen0]
    by (simp add: demo_cdb_def)
qed

end
