(* ===== verification/ProUpgrade.thy ===== *)
theory ProUpgrade
  imports ChatRooms
begin

text \<open>
  Pro membership: the upgrade screen \<open>src/proje/app/pro-upgrade.tsx\<close>
  (\<open>handleUpgrade\<close>, \<open>handlePromoCode\<close>, \<open>refreshUserDataAndNavigate\<close>),
  the global emitter \<open>src/proje/lib/eventEmitter.ts\<close>, and the two
  listeners of its \<open>USER_DATA_UPDATED\<close> event: the home tab
  (\<open>src/proje/app/(tabs)/index.tsx\<close>, whose AI card opens the coach or the
  upgrade screen) and the chat tab (whose pro room needs \<open>is_pro\<close>).
  The promotion code is compared after \<open>toUpperCase\<close>, so it is modelled
  on UTF-16 code units (\<open>nat list\<close>): ASCII, Latin-1 and the Turkish
  letters \<open>i\<close>, dotless \<open>i\<close>, \<open>g\<close> with breve and \<open>s\<close> with cedilla are
  upper-cased as JavaScript does; other units are left unchanged.
\<close>

type_synonym js_units = "nat list"

definition to_upper_unit :: "nat \<Rightarrow> nat" where
  "to_upper_unit c =
     (if 97 \<le> c \<and> c \<le> 122 then c - 32
      else if c = 0xB5 then 0x39C
      else if 0xE0 \<le> c \<and> c \<le> 0xFE \<and> c \<noteq> 0xF7 then c - 32
      else if c = 0xFF then 0x178
      else if c = 0x131 then 0x49
      else if c = 0x11F then 0x11E
      else if c = 0x15F then 0x15E
      else c)"

definition js_upper :: "js_units \<Rightarrow> js_units" where
  "js_upper s = map to_upper_unit s"

text \<open>The source's code \<open>IBRAHIM100\<close> with both capitals I dotted, U+0130.\<close>

definition promo_target :: js_units where
  "promo_target = [0x130, 66, 82, 65, 72, 0x130, 77, 49, 48, 48]"

definition promo_valid :: "js_units \<Rightarrow> bool" where
  "promo_valid code = (js_upper code = promo_target)"

text \<open>The \<open>users\<close> rows the screens read: the \<open>is_pro\<close> flag of each user.\<close>

record udb =
  u_online :: bool
  u_pro :: "user_id \<rightharpoonup> bool"

datatype listener = HomeListener | ChatListener

datatype route = RouteHome | RouteAiChat | RouteProUpgrade | RouteStay

record app_state =
  st_store :: udb
  st_home_pro :: "bool option"
  st_chat_pro :: "bool option"
  st_listeners :: "listener list"
  st_route :: route
  st_error :: "string option"

text \<open>
  \<open>fetchUserData\<close> of the home and chat tabs: the user's row by
  \<open>.single()\<close>; a failure is only logged and keeps the previous data.
\<close>

definition fetch_user_pro :: "user_id option \<Rightarrow> udb \<Rightarrow> bool option \<Rightarrow> bool option" where
  "fetch_user_pro me d old =
     (case me of None \<Rightarrow> old
      | Some u \<Rightarrow> if \<not> u_online d then old else (case u_pro d u of None \<Rightarrow> old | Some p \<Rightarrow> Some p))"

text \<open>\<open>eventEmitter.emit(USER_DATA_UPDATED)\<close>: each listener, in registration order, re-fetches.\<close>

definition run_listener :: "user_id option \<Rightarrow> app_state \<Rightarrow> listener \<Rightarrow> app_state" where
  "run_listener me s l =
     (case l of
        HomeListener \<Rightarrow> s\<lparr>st_home_pro := fetch_user_pro me (st_store s) (st_home_pro s)\<rparr>
      | ChatListener \<Rightarrow> s\<lparr>st_chat_pro := fetch_user_pro me (st_store s) (st_chat_pro s)\<rparr>)"

definition emit_user_data_updated :: "user_id option \<Rightarrow> app_state \<Rightarrow> app_state" where
  "emit_user_data_updated me s = foldl (run_listener me) s (st_listeners s)"

text \<open>
  The mount effects of the home and chat tabs: fetch, then
  \<open>eventEmitter.on\<close>; the cleanup is \<open>eventEmitter.off\<close>.
\<close>

definition mount_listener :: "user_id option \<Rightarrow> listener \<Rightarrow> app_state \<Rightarrow> app_state" where
  "mount_listener me l s = (run_listener me s l)\<lparr>st_listeners := st_listeners s @ [l]\<rparr>"

definition unmount_listener :: "listener \<Rightarrow> app_state \<Rightarrow> app_state" where
  "unmount_listener l s = s\<lparr>st_listeners := remove1 l (st_listeners s)\<rparr>"

text \<open>
  \<open>handleUpgrade\<close>: sets \<open>is_pro\<close> on the user's row, then emits the event and
  returns to the tabs; a failed update shows an error.  No payment is
  made.
\<close>

definition set_pro :: "user_id \<Rightarrow> udb \<Rightarrow> udb" where
  "set_pro u d = d\<lparr>u_pro := update_row (u_pro d) u (\<lambda>_. True)\<rparr>"

definition handle_upgrade :: "user_id option \<Rightarrow> app_state \<Rightarrow> app_state" where
  "handle_upgrade me s =
     (case me of None \<Rightarrow> s
      | Some u \<Rightarrow>
          if \<not> u_online (st_store s)
          then s\<lparr>st_error := Some ''Pro uyelik yukseltme basarisiz oldu. Lutfen tekrar deneyin.''\<rparr>
          else (emit_user_data_updated me (s\<lparr>st_store := set_pro u (st_store s), st_error := None\<rparr>))\<lparr>st_route := RouteHome\<rparr>)"

text \<open>\<open>handlePromoCode\<close>: the same update when the upper-cased code is the target, else an error.\<close>

definition handle_promo_code :: "user_id option \<Rightarrow> js_units \<Rightarrow> app_state \<Rightarrow> app_state" where
  "handle_promo_code me code s =
     (case me of None \<Rightarrow> s
      | Some u \<Rightarrow>
          if \<not> promo_valid code then s\<lparr>st_error := Some ''Gecersiz promosyon kodu''\<rparr>
          else if \<not> u_online (st_store s)
          then s\<lparr>st_error := Some ''Promosyon kodu kullanilamadi. Lutfen tekrar deneyin.''\<rparr>
          else (emit_user_data_updated me (s\<lparr>st_store := set_pro u (st_store s), st_error := None\<rparr>))\<lparr>st_route := RouteHome\<rparr>)"

text \<open>The home tab's AI card: \<open>userData?.is_pro\<close> opens the coach, otherwise the upgrade screen.\<close>

definition home_ai_route :: "bool option \<Rightarrow> route" where
  "home_ai_route p = (if p = Some True then RouteAiChat else RouteProUpgrade)"

definition chat_is_pro :: "bool option \<Rightarrow> bool" where
  "chat_is_pro p = (p = Some True)"


section \<open>Lemmas\<close>

lemma to_upper_unit_ascii: "c < 128 \<Longrightarrow> to_upper_unit c < 128"
  by (simp add: to_upper_unit_def less_imp_diff_less)

lemma emit_sets_pro:
  "u_pro (st_store s) u = Some True \<Longrightarrow> u_online (st_store s) \<Longrightarrow>
   st_home_pro (foldl (run_listener (Some u)) s ls) = (if HomeListener \<in> set ls then Some True else st_home_pro s) \<and>
   st_chat_pro (foldl (run_listener (Some u)) s ls) = (if ChatListener \<in> set ls then Some True else st_chat_pro s) \<and>
   st_store (foldl (run_listener (Some u)) s ls) = st_store s"
proof (induction ls arbitrary: s)
  case Nil
  then show ?case by simp
next
  case (Cons l ls)
  then show ?case
    by (cases l) (auto simp: run_listener_def fetch_user_pro_def)
qed

lemma set_pro_row: "u_pro d u \<noteq> None \<Longrightarrow> u_pro (set_pro u d) u = Some True"
  by (auto simp: set_pro_def update_row_def)

section \<open>Properties\<close>

text \<open>C34. No promotion code typed in ASCII is accepted: the upper-cased target contains the dotted capital I, U+0130, which no ASCII letter upper-cases to.\<close>

theorem promo_ascii_rejected:
  "list_all (\<lambda>c. c < 128) code \<Longrightarrow> \<not> promo_valid code"
proof
  assume ascii: "list_all (\<lambda>c. c < 128) code" and ok: "promo_valid code"
  have "list_all (\<lambda>c. c < 128) (js_upper code)"
    using ascii by (simp add: js_upper_def list_all_iff to_upper_unit_ascii)
  then show False
    using ok by (simp add: promo_valid_def promo_target_def)
qed

theorem promo_ascii_rejected_witness:
  "\<not> promo_valid [73, 66, 82, 65, 72, 73, 77, 49, 48, 48] \<and> \<not> promo_valid [105, 98, 114, 97, 104, 105, 109, 49, 48, 48] \<and>
   promo_valid [0x130, 98, 114, 97, 104, 0x130, 109, 49, 48, 48]"
  using promo_ascii_rejected[of "[73, 66, 82, 65, 72, 73, 77, 49, 48, 48]"]
    promo_ascii_rejected[of "[105, 98, 114, 97, 104, 105, 109, 49, 48, 48]"]
  by (simp_all add: promo_valid_def js_upper_def to_upper_unit_def promo_target_def)

end
