(* ===== verification/AIUserInfo.thy ===== *)
theory AIUserInfo
  imports ProUpgrade WatchPlayer AITyping
begin

text \<open>
  \<open>processAIResponseForUserInfo\<close> of the coach screen
  (\<open>src/proje/app/ai-chat.tsx\<close>): after an answer is shown it looks for a
  name and a grade in the question and for an assignment in the answer, and
  writes them through \<open>updateUserInfo\<close> and \<open>createAssignment\<close> of
  \<open>src/proje/lib/aiChatService.ts\<close>.  Its tests depend on \<open>toLowerCase\<close>
  and on case-insensitive regular expressions over Turkish letters, so the
  question and the answer are UTF-16 code units (\<open>js_units\<close>).  The case
  tables are JavaScript's for Basic Latin, Latin-1 and Latin Extended-A
  (U+0000 to U+017F, which hold every Turkish letter); units from U+0180 on
  are taken as uncased.  Texts written to the store follow the model's
  convention for Turkish strings: one ASCII character per unit.
\<close>

section \<open>Code units\<close>

definition asc :: "string \<Rightarrow> js_units" where
  "asc s = map of_char s"

text \<open>\<open>String.prototype.toLowerCase\<close> on one unit: U+0130 becomes two units.\<close>

definition lower_unit :: "nat \<Rightarrow> nat list" where
  "lower_unit c =
     (if 65 \<le> c \<and> c \<le> 90 then [c + 32]
      else if 0xC0 \<le> c \<and> c \<le> 0xDE \<and> c \<noteq> 0xD7 then [c + 32]
      else if c = 0x130 then [0x69, 0x307]
      else if 0x100 \<le> c \<and> c \<le> 0x137 \<and> even c then [c + 1]
      else if 0x139 \<le> c \<and> c \<le> 0x148 \<and> odd c then [c + 1]
      else if 0x14A \<le> c \<and> c \<le> 0x177 \<and> even c then [c + 1]
      else if c = 0x178 then [0xFF]
      else if 0x179 \<le> c \<and> c \<le> 0x17E \<and> odd c then [c + 1]
      else [c])"

definition js_lower_units :: "js_units \<Rightarrow> js_units" where
  "js_lower_units s = concat (map lower_unit s)"

text \<open>
  The single-unit upper case the regular-expression engine uses; units
  whose upper case is longer (U+00DF, U+0149) keep their value.
\<close>

definition upper_unit1 :: "nat \<Rightarrow> nat" where
  "upper_unit1 c =
     (if 97 \<le> c \<and> c \<le> 122 then c - 32
      else if c = 0xB5 then 0x39C
      else if 0xE0 \<le> c \<and> c \<le> 0xFE \<and> c \<noteq> 0xF7 then c - 32
      else if c = 0xFF then 0x178
      else if c = 0x131 then 0x49
      else if 0x101 \<le> c \<and> c \<le> 0x137 \<and> odd c then c - 1
      else if 0x13A \<le> c \<and> c \<le> 0x148 \<and> even c then c - 1
      else if 0x14B \<le> c \<and> c \<le> 0x177 \<and> odd c then c - 1
      else if 0x17A \<le> c \<and> c \<le> 0x17E \<and> even c then c - 1
      else if c = 0x17F then 0x53
      else c)"

text \<open>\<open>Canonicalize\<close> of a non-Unicode \<open>/i\<close> pattern: no unit above ASCII is mapped into ASCII.\<close>

definition canon_unit :: "nat \<Rightarrow> nat" where
  "canon_unit c = (let u = upper_unit1 c in if 128 \<le> c \<and> u < 128 then c else u)"

fun ci_prefix :: "js_units \<Rightarrow> js_units \<Rightarrow> bool" where
  "ci_prefix [] s = True"
| "ci_prefix (p # ps) [] = False"
| "ci_prefix (p # ps) (c # cs) = (canon_unit p = canon_unit c \<and> ci_prefix ps cs)"

fun ci_search :: "js_units \<Rightarrow> js_units \<Rightarrow> bool" where
  "ci_search pat [] = ci_prefix pat []"
| "ci_search pat (c # cs) = (ci_prefix pat (c # cs) \<or> ci_search pat cs)"

text \<open>\<open>/a|b|...|z/i.test(s)\<close>.\<close>

definition regex_test :: "js_units list \<Rightarrow> js_units \<Rightarrow> bool" where
  "regex_test alts s = list_ex (\<lambda>a. ci_search a s) alts"

text \<open>\<open>\s\<close>: the white space and line terminators of ECMAScript; \<open>trim\<close> strips the same units.\<close>

definition ws_unit :: "nat \<Rightarrow> bool" where
  "ws_unit c \<longleftrightarrow> c \<in> set [9, 10, 11, 12, 13, 32, 0xA0, 0x1680, 0x2028, 0x2029, 0x202F, 0x205F, 0x3000, 0xFEFF] \<or>
                (0x2000 \<le> c \<and> c \<le> 0x200A)"

definition units_trim :: "js_units \<Rightarrow> js_units" where
  "units_trim s = rev (dropWhile ws_unit (rev (dropWhile ws_unit s)))"

definition digit_unit :: "nat \<Rightarrow> bool" where
  "digit_unit c \<longleftrightarrow> 48 \<le> c \<and> c \<le> 57"

text \<open>The texts the handler looks for: \<open>adim\<close>, \<open>sinif\<close> and \<open>odev\<close> with their Turkish letters.\<close>

definition adim_units :: js_units where
  "adim_units = asc ''ad'' @ [0x131] @ asc ''m''"

definition sinif_units :: js_units where
  "sinif_units = asc ''s'' @ [0x131] @ asc ''n'' @ [0x131] @ asc ''f''"

definition odev_units :: js_units where
  "odev_units = [0xF6] @ asc ''dev''"

section \<open>The three detections\<close>

text \<open>The letters of \<open>/^[A-ZGUSIOCAIUa-zgusiocaiu]+$/\<close> with their Turkish forms (no \<open>i\<close> flag).\<close>

definition name_unit :: "nat \<Rightarrow> bool" where
  "name_unit c \<longleftrightarrow> (65 \<le> c \<and> c \<le> 90) \<or> (97 \<le> c \<and> c \<le> 122) \<or>
     c \<in> set [0x11E, 0xDC, 0x15E, 0x130, 0xD6, 0xC7, 0xC2, 0xCE, 0xDB,
                0x11F, 0xFC, 0x15F, 0x131, 0xF6, 0xE7, 0xE2, 0xEE, 0xFB]"

text \<open>The filter of \<open>possibleNames\<close>: longer than two units and all letters.\<close>

definition name_candidate :: "js_units \<Rightarrow> bool" where
  "name_candidate w \<longleftrightarrow> 2 < length w \<and> list_all name_unit w"

definition possible_names :: "js_units \<Rightarrow> js_units list" where
  "possible_names q = filter name_candidate (js_split (asc '' '') q)"

text \<open>
  \<open>/(\d+)\s*\.?\s*sinif/i\<close>: after a maximal run of digits, white space, an
  optional dot, white space and the grade word.  The greedy choices are
  the only ones that can succeed, since none of the following pieces can
  start with what the previous one leaves.
\<close>

definition grade_tail :: "js_units \<Rightarrow> bool" where
  "grade_tail r =
     (let r1 = dropWhile ws_unit r;
          r2 = (if r1 \<noteq> [] \<and> hd r1 = 46 then tl r1 else r1)
      in ci_prefix sinif_units (dropWhile ws_unit r2))"

text \<open>\<open>match\<close> tries the positions from the left; the result is the first group.\<close>

fun grade_match :: "js_units \<Rightarrow> js_units option" where
  "grade_match [] = None"
| "grade_match (c # cs) =
     (let ds = takeWhile digit_unit (c # cs)
      in if ds \<noteq> [] \<and> grade_tail (dropWhile digit_unit (c # cs)) then Some ds else grade_match cs)"

definition grade_suffix :: js_units where
  "grade_suffix = asc ''. S'' @ [0x131] @ asc ''n'' @ [0x131] @ asc ''f''"

text \<open>The six subject matchers, tried in order on the lower-cased answer.\<close>

definition subject_matchers :: "(js_units list \<times> string) list" where
  "subject_matchers =
     [([asc ''matematik'', asc ''trigonometri'', asc ''integral'', asc ''t'' @ [0xFC] @ asc ''rev'', asc ''fonksiyon''],
       ''Matematik''),
      ([asc ''fizik'', asc ''mekanik'', asc ''elektrik'', asc ''manyetik'', asc ''termodinamik''], ''Fizik''),
      ([asc ''kimya'', asc ''element'', asc ''periyodik'', asc ''asit'', asc ''baz'', asc ''mol''], ''Kimya''),
      ([asc ''biyoloji'', asc ''h'' @ [0xFC] @ asc ''cre'', asc ''organ'', asc ''sistem'', asc ''genetik''], ''Biyoloji''),
      ([asc ''tarih'', asc ''devlet'', asc ''imparatorluk'', asc ''sava'' @ [0x15F], asc ''d'' @ [0xF6] @ asc ''nem''],
       ''Tarih''),
      ([asc ''edebiyat'', [0x15F] @ asc ''iir'', asc ''roman'', asc ''yazar'', asc ''eser''], ''Edebiyat'')]"

definition detect_subject :: "js_units \<Rightarrow> string" where
  "detect_subject resp =
     (case find (\<lambda>(alts, _). regex_test alts (js_lower_units resp)) subject_matchers of
        None \<Rightarrow> ''Genel''
      | Some (_, s) \<Rightarrow> s)"

text \<open>\<open>assignmentLines\<close>: lines that contain \<open>hafta\<close> after lower-casing and \<open>odev\<close> as written.\<close>

definition assignment_lines :: "js_units \<Rightarrow> js_units list" where
  "assignment_lines resp =
     filter (\<lambda>l. sublist (asc ''hafta'') (js_lower_units l) \<and> sublist odev_units l) (js_split [10] resp)"

text \<open>The model's ASCII form of a Turkish text written to the store.\<close>

definition translit_unit :: "nat \<Rightarrow> char" where
  "translit_unit c =
     (if c < 128 then char_of c
      else if c = 0x130 \<or> c = 0xCE then CHR ''I'' else if c = 0x131 \<or> c = 0xEE then CHR ''i''
      else if c = 0x11E then CHR ''G'' else if c = 0x11F then CHR ''g''
      else if c = 0xDC \<or> c = 0xDB then CHR ''U'' else if c = 0xFC \<or> c = 0xFB then CHR ''u''
      else if c = 0x15E then CHR ''S'' else if c = 0x15F then CHR ''s''
      else if c = 0xD6 then CHR ''O'' else if c = 0xF6 then CHR ''o''
      else if c = 0xC7 then CHR ''C'' else if c = 0xE7 then CHR ''c''
      else if c = 0xC2 then CHR ''A'' else if c = 0xE2 then CHR ''a''
      else CHR ''?'')"

definition translit :: "js_units \<Rightarrow> string" where
  "translit s = map translit_unit s"

definition name_patch :: "string \<Rightarrow> user_patch" where
  "name_patch n = \<lparr>up_name = Some (Some n), up_grade = None, up_target = None, up_score = None,
                   up_strong = None, up_weak = None\<rparr>"

definition grade_patch :: "string \<Rightarrow> user_patch" where
  "grade_patch g = \<lparr>up_name = None, up_grade = Some (Some g), up_target = None, up_score = None,
                    up_strong = None, up_weak = None\<rparr>"

section \<open>The handler\<close>

text \<open>
  The name step: a question that contains \<open>adim\<close> after lower-casing and is
  shorter than 50 units, with a candidate word, when the profile has no
  name: the last candidate is written, and the screen's copy is updated
  whether or not the write succeeded.
\<close>

definition name_step :: "user_id \<Rightarrow> user_info \<Rightarrow> js_units \<Rightarrow> ai_screen \<times> aidb \<Rightarrow> ai_screen \<times> aidb" where
  "name_step u info q st =
     (let ns = possible_names q
      in if sublist adim_units (js_lower_units q) \<and> length q < 50 \<and> ns \<noteq> [] \<and> js_falsy (ui_name info)
         then (let n = translit (last ns)
               in ((fst st)\<lparr>sc_info := map_option (\<lambda>i. i\<lparr>ui_name := Some n\<rparr>) (sc_info (fst st))\<rparr>,
                   snd (update_user_info u (name_patch n) (snd st))))
         else st)"

text \<open>The grade step: the question's \<open>sinif\<close>, the grade read from the closure's \<open>userInfo\<close>.\<close>

definition grade_step :: "user_id \<Rightarrow> user_info \<Rightarrow> js_units \<Rightarrow> ai_screen \<times> aidb \<Rightarrow> ai_screen \<times> aidb" where
  "grade_step u info q st =
     (if sublist sinif_units (js_lower_units q) \<and> js_falsy (ui_grade info)
      then (case grade_match q of
              None \<Rightarrow> st
            | Some ds \<Rightarrow>
                (let g = translit (ds @ grade_suffix)
                 in ((fst st)\<lparr>sc_info := map_option (\<lambda>i. i\<lparr>ui_grade := Some g\<rparr>) (sc_info (fst st))\<rparr>,
                     snd (update_user_info u (grade_patch g) (snd st)))))
      else st)"

text \<open>
  The assignment step: an answer with \<open>odev\<close> (lower-cased) and \<open>hafta\<close>
  (as written) and an assignment line creates an assignment due a week
  later (\<open>due\<close>, the local date seven days on, an input like the clock),
  then reloads the user info.
\<close>

definition assignment_step ::
  "user_id \<Rightarrow> js_units \<Rightarrow> time_ms \<Rightarrow> time_ms \<Rightarrow> ai_screen \<times> aidb \<Rightarrow> ai_screen \<times> aidb" where
  "assignment_step u resp due now st =
     (if sublist odev_units (js_lower_units resp) \<and> sublist (asc ''hafta'') resp \<and> assignment_lines resp \<noteq> []
      then (let d1 = snd (create_assignment u (translit (units_trim (hd (assignment_lines resp))))
                              (detect_subject resp) due False now (snd st))
            in (load_user_info (Some u) d1 (fst st), d1))
      else st)"

definition process_user_info ::
  "user_id option \<Rightarrow> js_units \<Rightarrow> js_units \<Rightarrow> time_ms \<Rightarrow> time_ms \<Rightarrow> ai_screen \<Rightarrow> aidb \<Rightarrow> ai_screen \<times> aidb" where
  "process_user_info me resp q due now sc d =
     (case me of
        None \<Rightarrow> (sc, d)
      | Some u \<Rightarrow>
          (case sc_info sc of
             None \<Rightarrow> (sc, d)
           | Some info \<Rightarrow> assignment_step u resp due now (grade_step u info q (name_step u info q (sc, d)))))"

text \<open>
  \<open>processAIResponseForUserInfo(fullResponse, newMessage)\<close> as the step
  \<open>processStreamResponse\<close> runs after storing the answer.  The screen model
  keeps text as characters; here each character is read as its code unit
  (exact for texts whose units are below 256, which covers the ASCII the
  keywords are tested against).  \<open>dueDate\<close>, one week after the call, is
  a parameter.
\<close>

definition coach_profile ::
  "user_id option \<Rightarrow> time_ms \<Rightarrow> time_ms \<Rightarrow> string \<Rightarrow> string \<Rightarrow> ai_screen \<times> aidb \<Rightarrow> ai_screen \<times> aidb" where
  "coach_profile me due now resp q st = process_user_info me (map of_char resp) (map of_char q) due now (fst st) (snd st)"

text \<open>\<open>handleSend\<close> of the coach screen, with its profile step.\<close>

definition coach_handle_send ::
  "user_id option \<Rightarrow> time_ms \<Rightarrow> time_ms \<Rightarrow> (nat \<Rightarrow> msg_key) \<Rightarrow> (nat \<Rightarrow> gen_result) \<Rightarrow> ai_screen \<Rightarrow> aidb \<Rightarrow>
   nat \<times> ai_screen \<times> aidb" where
  "coach_handle_send me now due ids gens sc d = handle_send me now ids gens (coach_profile me due now) sc d"

section \<open>Lemmas\<close>

lemma lower_unit_dotless: "0x131 \<in> set (lower_unit c) \<longleftrightarrow> c = 0x131"
  by (auto simp: lower_unit_def)

lemma js_lower_dotless: "0x131 \<in> set (js_lower_units q) \<longleftrightarrow> 0x131 \<in> set q"
  by (auto simp: js_lower_units_def lower_unit_dotless)

lemma sublist_dotless:
  "0x131 \<in> set p \<Longrightarrow> sublist p (js_lower_units q) \<Longrightarrow> 0x131 \<in> set q"
  using set_mono_sublist js_lower_dotless by blast

lemma ai_users_create_assignment [simp]:
  "ai_users (snd (create_assignment u desc subj due done now d)) = ai_users d"
  by (simp add: create_assignment_def)

lemma ai_assignments_update_user_info [simp]:
  "ai_assignments (snd (update_user_info u p d)) = ai_assignments d"
  by (simp add: update_user_info_def)

lemma assignment_step_users [simp]:
  "ai_users (snd (assignment_step u resp due now st)) = ai_users (snd st)"
  by (simp add: assignment_step_def Let_def)

lemma name_step_assignments [simp]:
  "ai_assignments (snd (name_step u info q st)) = ai_assignments (snd st)"
  by (simp add: name_step_def Let_def)

lemma grade_step_assignments [simp]:
  "ai_assignments (snd (grade_step u info q st)) = ai_assignments (snd st)"
  by (simp add: grade_step_def Let_def split: option.splits)

lemma name_step_skip: "\<not> sublist adim_units (js_lower_units q) \<Longrightarrow> name_step u info q st = st"
  by (simp add: name_step_def Let_def)

lemma grade_step_skip: "\<not> sublist sinif_units (js_lower_units q) \<Longrightarrow> grade_step u info q st = st"
  by (simp add: grade_step_def)

lemma grade_step_name:
  "map_option ur_name (ai_users (snd (grade_step u info q st)) v) = map_option ur_name (ai_users (snd st) v)"
  by (auto simp: grade_step_def Let_def update_user_info_def update_row_def apply_patch_def grade_patch_def
                 patch_field_def split: option.splits)

lemma process_user_info_eq:
  "process_user_info (Some u) resp q due now sc d =
     (case sc_info sc of None \<Rightarrow> (sc, d)
      | Some info \<Rightarrow> assignment_step u resp due now (grade_step u info q (name_step u info q (sc, d))))"
  by (simp add: process_user_info_def)

lemma list_all_takeWhile: "list_all P (takeWhile P xs)"
  by (induction xs) auto

lemma grade_match_hit:
  "grade_match (c # cs) = Some ds \<Longrightarrow> takeWhile digit_unit (c # cs) \<noteq> [] \<and> grade_tail (dropWhile digit_unit (c # cs)) \<Longrightarrow>
   ds = takeWhile digit_unit (c # cs)"
  by (simp only: grade_match.simps Let_def if_True simp_thms option.inject)

lemma grade_match_miss:
  "grade_match (c # cs) = Some ds \<Longrightarrow> \<not> (takeWhile digit_unit (c # cs) \<noteq> [] \<and> grade_tail (dropWhile digit_unit (c # cs))) \<Longrightarrow>
   grade_match cs = Some ds"
  by (simp only: grade_match.simps Let_def if_False)

lemma grade_match_sound:
  "grade_match q = Some ds \<Longrightarrow> ds \<noteq> [] \<and> list_all digit_unit ds \<and> sublist ds q"
proof (induction q)
  case Nil
  then show ?case by simp
next
  case (Cons c cs)
  show ?case
  proof (cases "takeWhile digit_unit (c # cs) \<noteq> [] \<and> grade_tail (dropWhile digit_unit (c # cs))")
    case True
    then have ds: "ds = takeWhile digit_unit (c # cs)"
      using Cons.prems grade_match_hit by blast
    show ?thesis
      using True list_all_takeWhile[of digit_unit "c # cs"] prefix_imp_sublist[OF takeWhile_is_prefix, of digit_unit "c # cs"]
      unfolding ds by blast
  next
    case False
    then have "ds \<noteq> [] \<and> list_all digit_unit ds \<and> sublist ds cs"
      using Cons.prems grade_match_miss Cons.IH by blast
    then show ?thesis
      by (simp add: sublist_Cons_right)
  qed
qed

text \<open>A question with the grade in capitals finds no grade: the dotless i of the pattern matches only itself.\<close>

lemma grade_capitals: "grade_match (asc ''11. SINIF'') = None"
  by (simp add: asc_def digit_unit_def grade_tail_def ws_unit_def sinif_units_def canon_unit_def upper_unit1_def)

text \<open>The subject matchers test substrings: the everyday word "bazi" (some) makes an answer a chemistry assignment.\<close>

lemma subject_bazi_chemistry:
  "detect_subject (asc ''Bu hafta baz'' @ [0x131] @ asc '' konulara bakal'' @ [0x131] @ asc ''m'') = ''Kimya''"
  by (simp add: detect_subject_def subject_matchers_def regex_test_def asc_def js_lower_units_def lower_unit_def
                canon_unit_def upper_unit1_def)

text \<open>When the write of the name fails, the screen still shows the name the store does not hold.\<close>

lemma name_step_offline:
  assumes "\<not> ai_online d" and "sublist adim_units (js_lower_units q)" and "length q < 50"
    and "possible_names q \<noteq> []" and "js_falsy (ui_name info)"
  shows "name_step u info q (sc, d) =
           (sc\<lparr>sc_info := map_option (\<lambda>i. i\<lparr>ui_name := Some (translit (last (possible_names q)))\<rparr>) (sc_info sc)\<rparr>, d)"
  using assms by (simp add: name_step_def Let_def update_user_info_def)

text \<open>C26. A question that contains no dotless i never changes the user's stored profile: toLowerCase maps I to i, so the name and grade keywords of a question typed in capitals (ADIM, SINIF) are never found.\<close>

theorem capitals_never_update_profile:
  assumes "0x131 \<notin> set q"
  shows "ai_users (snd (process_user_info me resp q due now sc d)) = ai_users d"
proof -
  have "\<not> sublist adim_units (js_lower_units q)" "\<not> sublist sinif_units (js_lower_units q)"
    using assms sublist_dotless[of adim_units q] sublist_dotless[of sinif_units q]
    by (auto simp: adim_units_def sinif_units_def)
  then show ?thesis
    by (simp add: process_user_info_def name_step_skip grade_step_skip split: option.splits)
qed

theorem capitals_never_update_profile_witness:
  "0x131 \<notin> set (asc ''BENIM ADIM ALI, 11. SINIF'') \<and>
   ai_users (snd (process_user_info (Some 1) [] (asc ''BENIM ADIM ALI, 11. SINIF'') 0 0
      \<lparr>sc_messages = [], sc_new = [], sc_loading = False, sc_streaming = [],
       sc_info = Some \<lparr>ui_id = 1, ui_name = None, ui_grade = None, ui_target = None, ui_score = None,
                       ui_strong = None, ui_weak = None, ui_assignments = []\<rparr>\<rparr>
      \<lparr>ai_online = True, ai_rows = [], ai_users = [1 \<mapsto> \<lparr>ur_name = None, ur_grade = None, ur_target = None,
          ur_score = None, ur_strong = None, ur_weak = None\<rparr>], ai_assignments = [], ai_next = 0\<rparr>))
   = [1 \<mapsto> \<lparr>ur_name = None, ur_grade = None, ur_target = None, ur_score = None, ur_strong = None, ur_weak = None\<rparr>]"
proof -
  have h: "0x131 \<notin> set (asc ''BENIM ADIM ALI, 11. SINIF'')"
    by (simp add: asc_def)
  show ?thesis
    using h capitals_never_update_profile[OF h] by simp
qed

text \<open>C27. When the question names the user (it contains adim and is shorter than 50 units) and the profile has no name, the stored name is the last word of more than two letters, whatever that word is: in "Benim adim Ali nasilsin" it is "nasilsin".\<close>

theorem name_is_last_candidate:
  assumes info: "sc_info sc = Some info" and unnamed: "js_falsy (ui_name info)"
    and kw: "sublist adim_units (js_lower_units q)" and short: "length q < 50"
    and ns: "possible_names q \<noteq> []" and on: "ai_online d" and row: "ai_users d u \<noteq> None"
  shows "map_option ur_name (ai_users (snd (process_user_info (Some u) resp q due now sc d)) u) =
         Some (Some (translit (last (possible_names q))))"
proof -
  have "map_option ur_name (ai_users (snd (name_step u info q (sc, d))) u) =
        Some (Some (translit (last (possible_names q))))"
    using kw short ns unnamed on row
    by (auto simp: name_step_def Let_def update_user_info_def update_row_def apply_patch_def name_patch_def patch_field_def)
  then show ?thesis
    using info by (simp add: process_user_info_eq grade_step_name)
qed

theorem name_is_last_candidate_witness:
  "map_option ur_name (ai_users (snd (process_user_info (Some 1) []
      (asc ''Benim ad'' @ [0x131] @ asc ''m Ali nas'' @ [0x131] @ asc ''ls'' @ [0x131] @ asc ''n'') 0 0
      \<lparr>sc_messages = [], sc_new = [], sc_loading = False, sc_streaming = [],
       sc_info = Some \<lparr>ui_id = 1, ui_name = None, ui_grade = None, ui_target = None, ui_score = None,
                       ui_strong = None, ui_weak = None, ui_assignments = []\<rparr>\<rparr>
      \<lparr>ai_online = True, ai_rows = [], ai_users = [1 \<mapsto> \<lparr>ur_name = None, ur_grade = None, ur_target = None,
          ur_score = None, ur_strong = None, ur_weak = None\<rparr>], ai_assignments = [], ai_next = 0\<rparr>)) 1)
   = Some (Some ''nasilsin'')"
proof -
  define q where "q = asc ''Benim ad'' @ [0x131] @ asc ''m Ali nas'' @ [0x131] @ asc ''ls'' @ [0x131] @ asc ''n''"
  have kw: "sublist adim_units (js_lower_units q)"
    unfolding q_def by code_simp
  have short: "length q < 50"
    unfolding q_def by (simp add: asc_def)
  have last: "translit (last (possible_names q)) = ''nasilsin''"
    unfolding q_def by code_simp
  have ns: "possible_names q \<noteq> []"
    unfolding q_def by code_simp
  show ?thesis
    using name_is_last_candidate[OF _ _ kw short ns, where u = 1 and resp = "[]" and due = 0 and now = 0,
      of "\<lparr>sc_messages = [], sc_new = [], sc_loading = False, sc_streaming = [],
       sc_info = Some \<lparr>ui_id = 1, ui_name = None, ui_grade = None, ui_target = None, ui_score = None,
                       ui_strong = None, ui_weak = None, ui_assignments = []\<rparr>\<rparr>"]
    unfolding last q_def[symmetric] by (simp add: js_falsy_def)
qed

text \<open>C28. An answer none of whose lines contains odev exactly as written creates no assignment, even when it passes the first, lower-cased test: a line that begins with a capital O-umlaut ("Odev: bu hafta ...") is never taken.\<close>

theorem odev_line_case_sensitive:
  assumes "\<forall>l \<in> set (js_split [10] resp). \<not> sublist odev_units l"
  shows "ai_assignments (snd (process_user_info me resp q due now sc d)) = ai_assignments d"
proof -
  have "assignment_lines resp = []"
    using assms by (simp add: assignment_lines_def filter_empty_conv)
  then have "assignment_step u resp due now st = st" for u st
    by (simp add: assignment_step_def)
  then show ?thesis
    by (simp add: process_user_info_def split: option.splits)
qed

theorem odev_line_case_sensitive_witness:
  "sublist odev_units (js_lower_units ([0xD6] @ asc ''dev: bu hafta integral'')) \<and>
   sublist (asc ''hafta'') ([0xD6] @ asc ''dev: bu hafta integral'') \<and>
   ai_assignments (snd (process_user_info (Some 1) ([0xD6] @ asc ''dev: bu hafta integral'') (asc ''tamam'') 7 0
      \<lparr>sc_messages = [], sc_new = [], sc_loading = False, sc_streaming = [],
       sc_info = Some \<lparr>ui_id = 1, ui_name = None, ui_grade = None, ui_target = None, ui_score = None,
                       ui_strong = None, ui_weak = None, ui_assignments = []\<rparr>\<rparr>
      \<lparr>ai_online = True, ai_rows = [], ai_users = Map.empty, ai_assignments = [], ai_next = 0\<rparr>)) = []"
proof -
  have g1: "sublist odev_units (js_lower_units ([0xD6] @ asc ''dev: bu hafta integral''))"
    by code_simp
  have g2: "sublist (asc ''hafta'') ([0xD6] @ asc ''dev: bu hafta integral'')"
    by code_simp
  have h: "\<forall>l \<in> set (js_split [10] ([0xD6] @ asc ''dev: bu hafta integral'')). \<not> sublist odev_units l"
    by code_simp
  show ?thesis
    using g1 g2 odev_line_case_sensitive[OF h] by simp
qed

text \<open>The profile step never touches the message list, as the message claims of \<open>handleSend\<close> require of it.\<close>

lemma coach_profile_keeps_messages:
  "sc_messages (fst (coach_profile me due now r q st)) = sc_messages (fst st)"
  by (simp add: coach_profile_def process_user_info_def name_step_def grade_step_def assignment_step_def
      load_user_info_def Let_def split: option.splits)

end
