(* ===== verification/AICoachView.thy ===== *)
theory AICoachView
  imports AITyping
begin

text \<open>
  The render of the coach screen (\<open>src/proje/app/ai-chat.tsx\<close>): the
  header with the greeting, the assignments panel with its status buttons,
  the messages, the typing bubble or the loading line, and the input with
  its send button.  The screen state is \<open>ai_screen\<close> of \<open>AIChat\<close>, the typing
  animation \<open>typing\<close> of \<open>AITyping\<close>; \<open>isReady\<close> and \<open>isLoadingHistory\<close> are
  parameters.  Dates are shown with \<open>toLocaleTimeString\<close> and
  \<open>toLocaleDateString('tr-TR')\<close>, which depend on the device, so the view
  keeps the time values.
\<close>

record asg_view =
  av_id :: nat
  av_badge :: string
  av_text :: string
  av_due :: time_ms
  av_status :: string

text \<open>One row of the panel: the subject's first three characters, the description, the due date and the status button.\<close>

definition asg_view_of :: "assignment \<Rightarrow> asg_view" where
  "asg_view_of a =
     \<lparr>av_id = asg_id a, av_badge = take 3 (asg_subject a), av_text = asg_description a, av_due = asg_due a,
      av_status = (if asg_completed a then ''Tamamlandi'' else ''Yapilacak'')\<rparr>"

text \<open>\<open>userInfo.assignments.slice(0, 2)\<close>, when there are any.\<close>

definition shown_assignments :: "user_info option \<Rightarrow> assignment list" where
  "shown_assignments i = (case i of None \<Rightarrow> [] | Some x \<Rightarrow> take 2 (ui_assignments x))"

datatype coach_tail = TailTyping string | TailLoading | TailNone

datatype coach_body =
    BodyLoadingHistory
  | BodyMessages "asg_view list" "(chat_role \<times> string \<times> time_ms) list" coach_tail

record coach_view =
  cv_subtitle :: string
  cv_body :: coach_body
  cv_input :: string
  cv_send_enabled :: bool

definition coach_subtitle :: "user_info option \<Rightarrow> string" where
  "coach_subtitle i =
     (case i of
        Some x \<Rightarrow> (case ui_name x of Some n \<Rightarrow> if n \<noteq> [] then ''Merhaba, '' @ n else ''Size nasil yardimci olabilirim?''
                  | None \<Rightarrow> ''Size nasil yardimci olabilirim?'')
      | None \<Rightarrow> ''Size nasil yardimci olabilirim?'')"

text \<open>
  The whole render: nothing until \<open>isReady\<close>; the streaming bubble shows
  the typed prefix while \<open>streamingContent\<close> is set, otherwise the
  loading line while \<open>isLoading\<close>; the send button is disabled for a blank
  input or while loading.
\<close>

definition coach_view :: "bool \<Rightarrow> bool \<Rightarrow> typing \<Rightarrow> ai_screen \<Rightarrow> coach_view option" where
  "coach_view ready loading_history ty sc =
     (if \<not> ready then None
      else Some
        \<lparr>cv_subtitle = coach_subtitle (sc_info sc),
         cv_body =
           (if loading_history then BodyLoadingHistory
            else BodyMessages (map asg_view_of (shown_assignments (sc_info sc)))
                   (map (\<lambda>m. (cm_role m, cm_content m, cm_time m)) (sc_messages sc))
                   (if sc_streaming sc \<noteq> [] then TailTyping (ty_shown ty)
                    else if sc_loading sc then TailLoading else TailNone)),
         cv_input = sc_new sc,
         cv_send_enabled = (js_trim (sc_new sc) \<noteq> [] \<and> \<not> sc_loading sc)\<rparr>)"

text \<open>\<open>onChangeText={setNewMessage}\<close> with \<open>maxLength={500}\<close>.\<close>

definition coach_type :: "string \<Rightarrow> ai_screen \<Rightarrow> ai_screen" where
  "coach_type s sc = sc\<lparr>sc_new := take 500 s\<rparr>"

text \<open>The status button: \<open>updateAssignmentStatus(id, !isCompleted)\<close>, then \<open>loadUserInfo()\<close>.\<close>

definition toggle_assignment :: "user_id option \<Rightarrow> assignment \<Rightarrow> ai_screen \<Rightarrow> aidb \<Rightarrow> ai_screen \<times> aidb" where
  "toggle_assignment me a sc d =
     (let d1 = snd (update_assignment_status (asg_id a) (\<not> asg_completed a) d)
      in (load_user_info me d1 sc, d1))"

section \<open>Lemmas\<close>

lemma get_user_info_sorted:
  "get_user_info u d = Some i \<Longrightarrow> sorted_wrt (\<lambda>a b. asg_due b \<le> asg_due a) (ui_assignments i)"
proof -
  assume "get_user_info u d = Some i"
  then have i: "ui_assignments i = sort_key (\<lambda>a. - asg_due a) (filter (\<lambda>a. asg_user a = u) (ai_assignments d))"
    by (auto simp: get_user_info_def split: if_splits option.splits)
  have "sorted (map (\<lambda>a. - asg_due a) (ui_assignments i))"
    unfolding i by (rule sorted_sort_key)
  then show ?thesis
    by (simp add: sorted_map)
qed

lemma get_user_info_assignments:
  "get_user_info u d = Some i \<Longrightarrow> set (ui_assignments i) = {a \<in> set (ai_assignments d). asg_user a = u}"
  by (auto simp: get_user_info_def split: if_splits option.splits)

lemma sorted_wrt_take_drop:
  "sorted_wrt R xs \<Longrightarrow> a \<in> set (take n xs) \<Longrightarrow> b \<in> set (drop n xs) \<Longrightarrow> R a b"
  by (metis append_take_drop_id sorted_wrt_append)

text \<open>C29. The assignments panel shows two of the user's assignments, and every assignment it hides is due no later than each one it shows: the list is ordered by descending due date, so the most urgent assignments are the ones left out.\<close>

theorem coach_panel_latest_due:
  assumes "get_user_info u d = Some i"
  shows "shown_assignments (sc_info (load_user_info (Some u) d sc)) = take 2 (ui_assignments i) \<and>
         set (ui_assignments i) = {a \<in> set (ai_assignments d). asg_user a = u} \<and>
         (\<forall>a \<in> set (take 2 (ui_assignments i)). \<forall>b \<in> set (drop 2 (ui_assignments i)). asg_due b \<le> asg_due a)"
  using assms get_user_info_assignments[OF assms] sorted_wrt_take_drop[OF get_user_info_sorted[OF assms]]
  by (simp add: load_user_info_def shown_assignments_def)

theorem coach_panel_latest_due_witness:
  "map asg_due (shown_assignments (sc_info (load_user_info (Some 1)
      \<lparr>ai_online = True, ai_rows = [], ai_users = [1 \<mapsto> \<lparr>ur_name = None, ur_grade = None, ur_target = None,
          ur_score = None, ur_strong = None, ur_weak = None\<rparr>],
       ai_assignments =
         [\<lparr>asg_id = 0, asg_user = 1, asg_description = ''Limit'', asg_subject = ''Matematik'', asg_due = 10,
           asg_completed = False, asg_created = 0\<rparr>,
          \<lparr>asg_id = 1, asg_user = 1, asg_description = ''Mol'', asg_subject = ''Kimya'', asg_due = 30,
           asg_completed = False, asg_created = 0\<rparr>,
          \<lparr>asg_id = 2, asg_user = 1, asg_description = ''Siir'', asg_subject = ''Edebiyat'', asg_due = 20,
           asg_completed = False, asg_created = 0\<rparr>], ai_next = 3\<rparr>
      \<lparr>sc_messages = [], sc_new = [], sc_loading = False, sc_streaming = [], sc_info = None\<rparr>))) = [30, 20]"
proof -
  define d where "d = \<lparr>ai_online = True, ai_rows = [], ai_users = [1 \<mapsto> \<lparr>ur_name = None, ur_grade = None, ur_target = None,
          ur_score = None, ur_strong = None, ur_weak = None\<rparr>],
       ai_assignments =
         [\<lparr>asg_id = 0, asg_user = 1, asg_description = ''Limit'', asg_subject = ''Matematik'', asg_due = 10,
           asg_completed = False, asg_created = 0\<rparr>,
          \<lparr>asg_id = 1, asg_user = 1, asg_description = ''Mol'', asg_subject = ''Kimya'', asg_due = 30,
           asg_completed = False, asg_created = 0\<rparr>,
          \<lparr>asg_id = 2, asg_user = 1, asg_description = ''Siir'', asg_subject = ''Edebiyat'', asg_due = 20,
           asg_completed = False, asg_created = 0\<rparr>], ai_next = 3\<rparr>"
  have g: "get_user_info 1 d = Some (the (get_user_info 1 d))"
    by (simp add: d_def get_user_info_def)
  have "map asg_due (take 2 (ui_assignments (the (get_user_info 1 d)))) = [30, 20]"
    by (simp add: d_def get_user_info_def)
  then show ?thesis
    using conjunct1[OF coach_panel_latest_due[OF g, where sc = "\<lparr>sc_messages = [], sc_new = [], sc_loading = False,
      sc_streaming = [], sc_info = None\<rparr>"]]
    unfolding d_def by simp
qed

end
