(* ===== verification/Profile.thy ===== *)
theory Profile
  imports Prelude
begin

text \<open>
  The profile tab, \<open>src/proje/app/(tabs)/profile.tsx\<close>: the rank of a
  message count (\<open>getRankInfo\<close>), the statistics (\<open>fetchUserStats\<close>,
  \<open>fetchProfilePhoto\<close>), the achievements (\<open>checkAchievements\<close> with its
  day-streak loop) and the screen's mount effect and change-feed callbacks.
  Session durations are the seconds counted by \<open>useStudyTimer\<close>; times
  are milliseconds.
\<close>

datatype achievement = StudyMaster | BrainPower | Bookworm | Focused

datatype rank = Profesor | Docent | Ogrenci | Caylak

definition get_rank_info :: "nat \<Rightarrow> rank" where
  "get_rank_info n =
     (if n \<ge> 200 then Profesor else if n \<ge> 100 then Docent else if n \<ge> 20 then Ogrenci else Caylak)"

record prof_user =
  pu_name :: "string option"
  pu_pro :: bool

record session_stat =
  ss_user :: user_id
  ss_duration :: nat
  ss_created :: time_ms

text \<open>
  The tables the screen reads.  \<open>p_ai_counts\<close> is the row count of
  \<open>ai_chat_messages\<close>, a table no code of the repository writes; \<open>None\<close>
  is a failed count.
\<close>

record pdb =
  p_online :: bool
  p_users :: "user_id \<rightharpoonup> prof_user"
  p_leaderboard :: "user_id \<rightharpoonup> int option"
  p_chat_counts :: "user_id \<Rightarrow> nat"
  p_photos :: "user_id \<rightharpoonup> string option"
  p_sessions :: "session_stat list"
  p_ai_counts :: "(user_id \<Rightarrow> nat) option"

record profile_screen =
  pf_total :: int
  pf_msgs :: nat
  pf_user :: "prof_user option"
  pf_photo :: "string option"
  pf_unlocked :: "achievement list"

definition profile0 :: profile_screen where
  "profile0 = \<lparr>pf_total = 0, pf_msgs = 0, pf_user = None, pf_photo = None, pf_unlocked = []\<rparr>"

section \<open>Statistics\<close>

text \<open>\<open>fetchProfilePhoto\<close>: \<open>data?.photo_url || null\<close>; a failed call keeps the photo.\<close>

definition fetch_profile_photo :: "user_id \<Rightarrow> pdb \<Rightarrow> profile_screen \<Rightarrow> profile_screen" where
  "fetch_profile_photo u d ps =
     (if \<not> p_online d then ps
      else ps\<lparr>pf_photo := (case p_photos d u of Some p \<Rightarrow> if js_falsy p then None else p | None \<Rightarrow> None)\<rparr>)"

text \<open>
  \<open>fetchUserStats\<close>: the errors of its queries are not checked, so a
  failed query reads as \<open>null\<close>: no user row, a total of 0
  (\<open>studyData ? studyData.total_duration || 0 : 0\<close>) and a count of 0.
\<close>

definition fetch_user_stats :: "user_id option \<Rightarrow> pdb \<Rightarrow> profile_screen \<Rightarrow> profile_screen" where
  "fetch_user_stats me d ps =
     (case me of None \<Rightarrow> ps
      | Some u \<Rightarrow>
          (fetch_profile_photo u d (ps\<lparr>pf_user := (if p_online d then p_users d u else None)\<rparr>))
            \<lparr>pf_total := (if p_online d then (case p_leaderboard d u of Some (Some t) \<Rightarrow> t | _ \<Rightarrow> 0) else 0),
             pf_msgs := (if p_online d then p_chat_counts d u else 0)\<rparr>)"

definition format_study_time :: "int \<Rightarrow> int" where
  "format_study_time minutes = minutes div 60"

section \<open>Achievements\<close>

text \<open>
  The day-streak loop over the session times in descending order:
  \<open>diffDays = floor ((lastDate - currentDate) / 86400000)\<close>; a gap of one
  day extends the streak, and a streak of five unlocks the achievement and
  leaves the loop; a longer gap restarts it at one; a gap of zero or less
  leaves it unchanged.
\<close>

definition day_ms :: int where
  "day_ms = 1000 * 60 * 60 * 24"

fun streak_loop :: "time_ms \<Rightarrow> nat \<Rightarrow> time_ms list \<Rightarrow> bool" where
  "streak_loop prev s [] = False"
| "streak_loop prev s (c # cs) =
     (let diff = (prev - c) div day_ms
      in if diff = 1 then (if 5 \<le> Suc s then True else streak_loop c (Suc s) cs)
         else if diff > 1 then streak_loop c 1 cs
         else streak_loop c s cs)"

text \<open>An empty list gives an invalid first date and no iteration.\<close>

definition focused_streak :: "time_ms list \<Rightarrow> bool" where
  "focused_streak ts = (case ts of [] \<Rightarrow> False | t # rest \<Rightarrow> streak_loop t 1 rest)"

text \<open>The reference: four one-day gaps in a row among the positive day gaps.\<close>

fun day_gaps :: "time_ms list \<Rightarrow> int list" where
  "day_gaps (a # b # rest) = ((a - b) div day_ms) # day_gaps (b # rest)"
| "day_gaps _ = []"

definition focused_ref :: "time_ms list \<Rightarrow> bool" where
  "focused_ref ts = sublist [1, 1, 1, 1] (filter (\<lambda>g. 0 < g) (day_gaps ts))"

definition user_sessions :: "user_id \<Rightarrow> pdb \<Rightarrow> session_stat list" where
  "user_sessions u d = filter (\<lambda>s. ss_user s = u) (p_sessions d)"

text \<open>
  \<open>checkAchievements\<close>, given the \<open>totalStudyTime\<close> its closure sees: the
  longest session (\<open>order('duration', desc).limit(1).single()\<close>) of at least
  600, the total of at least 3000, at least 100 rows of
  \<open>ai_chat_messages\<close>, and the streak over the session times in
  descending order (a stable sort stands for the store's order).
\<close>

definition check_achievements :: "user_id option \<Rightarrow> int \<Rightarrow> pdb \<Rightarrow> profile_screen \<Rightarrow> profile_screen" where
  "check_achievements me tot d ps =
     (case me of None \<Rightarrow> ps
      | Some u \<Rightarrow>
          (let ss = user_sessions u d;
               longest = (if \<not> p_online d \<or> ss = [] then None else Some (Max (set (map ss_duration ss))));
               ai = (if p_online d then map_option (\<lambda>f. f u) (p_ai_counts d) else None);
               days = rev (sort (map ss_created ss))
           in ps\<lparr>pf_unlocked :=
                   (if (case longest of Some l \<Rightarrow> 600 \<le> l | None \<Rightarrow> False) then [StudyMaster] else []) @
                   (if 3000 \<le> tot then [Bookworm] else []) @
                   (if (case ai of Some n \<Rightarrow> 100 \<le> n | None \<Rightarrow> False) then [BrainPower] else []) @
                   (if p_online d \<and> focused_streak days then [Focused] else [])\<rparr>))"

section \<open>The screen\<close>

text \<open>
  The mount effect (\<open>useEffect(..., [user?.id])\<close>) calls
  \<open>fetchUserStats\<close> and \<open>checkAchievements\<close> and subscribes four change
  feeds; every callback is a closure of the mount render, whose
  \<open>totalStudyTime\<close> is the value at mount.
\<close>

datatype profile_event = UserRowChanged | LeaderboardChanged | MessagesChanged | PhotoChanged

record profile_state =
  pr_screen :: profile_screen
  pr_mount_total :: int

definition profile_mount :: "user_id option \<Rightarrow> pdb \<Rightarrow> profile_screen \<Rightarrow> profile_state" where
  "profile_mount me d ps =
     \<lparr>pr_screen = check_achievements me (pf_total ps) d (fetch_user_stats me d ps), pr_mount_total = pf_total ps\<rparr>"

fun profile_step :: "user_id option \<Rightarrow> pdb \<Rightarrow> profile_state \<Rightarrow> profile_event \<Rightarrow> profile_state" where
  "profile_step me d st UserRowChanged = st\<lparr>pr_screen := fetch_user_stats me d (pr_screen st)\<rparr>"
| "profile_step me d st LeaderboardChanged =
     st\<lparr>pr_screen := check_achievements me (pr_mount_total st) d (fetch_user_stats me d (pr_screen st))\<rparr>"
| "profile_step me d st MessagesChanged = st\<lparr>pr_screen := fetch_user_stats me d (pr_screen st)\<rparr>"
| "profile_step me d st PhotoChanged =
     st\<lparr>pr_screen := (case me of None \<Rightarrow> pr_screen st | Some u \<Rightarrow> fetch_profile_photo u d (pr_screen st))\<rparr>"

text \<open>The store may change between callbacks: each event comes with the store it reads.\<close>

definition profile_run :: "user_id option \<Rightarrow> profile_state \<Rightarrow> (pdb \<times> profile_event) list \<Rightarrow> profile_state" where
  "profile_run me = foldl (\<lambda>st (d, e). profile_step me d st e)"


text \<open>A store with one 600-second session and a leaderboard total of 5000 for user 1.\<close>

definition demo_pdb :: pdb where
  "demo_pdb = \<lparr>p_online = True, p_users = Map.empty, p_leaderboard = [1 \<mapsto> Some 5000], p_chat_counts = (\<lambda>_. 0),
     p_photos = Map.empty, p_sessions = [\<lparr>ss_user = 1, ss_duration = 600, ss_created = 0\<rparr>], p_ai_counts = None\<rparr>"

section \<open>Lemmas\<close>

lemma prefix_replicate_mono:
  "m \<le> n \<Longrightarrow> prefix (replicate n x) ys \<Longrightarrow> prefix (replicate m x) ys"
proof -
  assume "m \<le> n" "prefix (replicate n x) ys"
  moreover have "prefix (replicate m x) (replicate n x)"
    using \<open>m \<le> n\<close> by (metis le_add_diff_inverse prefixI replicate_add)
  ultimately show ?thesis by (metis prefix_order.trans)
qed

lemma streak_loop_char:
  "1 \<le> s \<Longrightarrow> s \<le> 4 \<Longrightarrow>
   streak_loop prev s cs \<longleftrightarrow>
     prefix (replicate (5 - s) 1) (filter (\<lambda>g. 0 < g) (day_gaps (prev # cs))) \<or>
     sublist [1, 1, 1, 1] (filter (\<lambda>g. 0 < g) (day_gaps (prev # cs)))"
proof (induction cs arbitrary: prev s)
  case Nil
  then show ?case by (cases "5 - s") auto
next
  case (Cons c cs)
  let ?g = "(prev - c) div day_ms"
  let ?F = "filter (\<lambda>g. 0 < g) (day_gaps (c # cs))"
  have gaps: "day_gaps (prev # c # cs) = ?g # day_gaps (c # cs)" by simp
  have r5: "replicate (5 - s) (1::int) = 1 # replicate (4 - s) 1"
  proof -
    have "5 - s = Suc (4 - s)" using Cons.prems by simp
    then show ?thesis by simp
  qed
  have r3: "replicate 3 (1::int) = [1, 1, 1]" by (simp add: numeral_eq_Suc)
  show ?case
  proof (cases "?g = 1")
    case True
    show ?thesis
    proof (cases "s = 4")
      case True
      then show ?thesis using \<open>?g = 1\<close> by (simp add: gaps)
    next
      case False
      then have s4: "Suc s \<le> 4" using Cons.prems by simp
      have ih: "streak_loop c (Suc s) cs \<longleftrightarrow> prefix (replicate (4 - s) 1) ?F \<or> sublist [1, 1, 1, 1] ?F"
        using Cons.IH[of "Suc s" c] s4 by simp
      have mono: "prefix [1, 1, 1] ?F \<Longrightarrow> prefix (replicate (4 - s) 1) ?F"
        using prefix_replicate_mono[of "4 - s" 3 1 ?F] Cons.prems r3 by simp
      have "sublist [1, 1, 1, 1] (1 # ?F) \<longleftrightarrow> prefix [1, 1, 1] ?F \<or> sublist [1, 1, 1, 1] ?F"
        by (simp add: sublist_Cons_right)
      then show ?thesis
        using \<open>?g = 1\<close> s4 ih mono by (auto simp: gaps r5)
    qed
  next
    case False
    show ?thesis
    proof (cases "?g > 1")
      case True
      have "5 - s = Suc (4 - s)" using Cons.prems by simp
      then show ?thesis
        using True Cons.IH[of 1 c] by (auto simp: gaps sublist_Cons_right numeral_eq_Suc dest: prefix_imp_sublist)
    next
      case False
      then have "\<not> 0 < ?g" using \<open>?g \<noteq> 1\<close> by simp
      then show ?thesis
        using \<open>?g \<noteq> 1\<close> False Cons.IH[of s c] Cons.prems by (simp add: gaps)
    qed
  qed
qed

lemma fetch_user_stats_unlocked [simp]: "pf_unlocked (fetch_user_stats me d ps) = pf_unlocked ps"
  by (simp add: fetch_user_stats_def fetch_profile_photo_def split: option.splits)

lemma check_achievements_no_bookworm:
  "tot < 3000 \<Longrightarrow> Bookworm \<notin> set (pf_unlocked ps) \<Longrightarrow> Bookworm \<notin> set (pf_unlocked (check_achievements me tot d ps))"
  by (auto simp: check_achievements_def Let_def split: option.splits)

lemma profile_run_Cons [simp]: "profile_run me st (e # es) = profile_run me (profile_step me (fst e) st (snd e)) es"
  by (simp add: profile_run_def split: prod.splits)

lemma profile_run_Nil [simp]: "profile_run me st [] = st"
  by (simp add: profile_run_def)

lemma profile_step_mount_total [simp]: "pr_mount_total (profile_step me d st e) = pr_mount_total st"
  by (cases e) simp_all

lemma profile_step_no_bookworm:
  "pr_mount_total st < 3000 \<Longrightarrow> Bookworm \<notin> set (pf_unlocked (pr_screen st)) \<Longrightarrow>
   Bookworm \<notin> set (pf_unlocked (pr_screen (profile_step me d st e)))"
  by (cases e) (auto simp: check_achievements_no_bookworm fetch_profile_photo_def split: option.splits)

section \<open>Properties\<close>

text \<open>C31. The day-streak loop of checkAchievements unlocks Focused exactly when four one-day gaps follow each other among the positive day gaps of the sessions.\<close>

theorem focused_streak_equiv: "focused_streak ts = focused_ref ts"
proof (cases ts)
  case Nil
  then show ?thesis by (simp add: focused_streak_def focused_ref_def)
next
  case (Cons t rest)
  then show ?thesis
    using streak_loop_char[of 1 t rest]
    by (auto simp: focused_streak_def focused_ref_def numeral_eq_Suc dest: prefix_imp_sublist)
qed

text \<open>C32. Whatever the stores and the change-feed events after mount, the profile never shows Bookworm: every check sees the total of the mount render, 0.\<close>

theorem bookworm_never_unlocked:
  "Bookworm \<notin> set (pf_unlocked (pr_screen (profile_run me (profile_mount me d profile0) evs)))"
proof -
  have "pr_mount_total st < 3000 \<Longrightarrow> Bookworm \<notin> set (pf_unlocked (pr_screen st)) \<Longrightarrow>
        Bookworm \<notin> set (pf_unlocked (pr_screen (profile_run me st evs)))" for st
    by (induction evs arbitrary: st) (simp_all add: profile_step_no_bookworm)
  moreover have "Bookworm \<notin> set (pf_unlocked (pr_screen (profile_mount me d profile0)))"
    by (simp add: profile_mount_def profile0_def check_achievements_no_bookworm)
  ultimately show ?thesis by (simp add: profile_mount_def profile0_def)
qed

text \<open>StudyMaster is unlocked exactly when a session of the user lasted at least 600 timer ticks, ten minutes, while its description promises ten hours.\<close>

theorem study_master_ten_minutes:
  "p_online d \<Longrightarrow>
   StudyMaster \<in> set (pf_unlocked (check_achievements (Some u) tot d ps)) \<longleftrightarrow>
   (\<exists>s\<in>set (user_sessions u d). 600 \<le> ss_duration s)"
  by (auto simp: check_achievements_def Let_def Max_ge_iff)

theorem study_master_ten_minutes_witness:
  "StudyMaster \<in> set (pf_unlocked (check_achievements (Some 1) 0 demo_pdb profile0)) \<and>
   (\<exists>s\<in>set (user_sessions 1 demo_pdb). ss_duration s = 10 * 60)"
  using study_master_ten_minutes[where d = demo_pdb and u = 1 and tot = 0 and ps = profile0]
  by (simp add: demo_pdb_def user_sessions_def)

end
