(* ===== verification/ProfileView.thy ===== *)
theory ProfileView
  imports Profile
begin

text \<open>
  The render of the profile tab (\<open>src/proje/app/(tabs)/profile.tsx\<close>): the
  photo, name and pro crowns, the three \<open>ProfileStatCard\<close>s, the
  \<open>AchievementCard\<close>s of \<open>ACHIEVEMENTS\<close> and the four \<open>SettingsItem\<close>s, whose
  pro item shows a notice for a pro user instead of navigating and hides
  it with a 2500 ms timeout.  The screen state is \<open>profile_screen\<close> of
  \<open>Profile\<close>; the signed-in user's e-mail is a parameter.
\<close>

definition achievement_title :: "achievement \<Rightarrow> string" where
  "achievement_title a =
     (case a of StudyMaster \<Rightarrow> ''Calisma Ustasi'' | BrainPower \<Rightarrow> ''Beyin Gucu''
      | Bookworm \<Rightarrow> ''Kitap Kurdu'' | Focused \<Rightarrow> ''Odaklanmis'')"

definition achievement_description :: "achievement \<Rightarrow> string" where
  "achievement_description a =
     (case a of StudyMaster \<Rightarrow> ''10 saat kesintisiz calisma'' | BrainPower \<Rightarrow> ''100 soru cozumu''
      | Bookworm \<Rightarrow> ''50 saat toplam calisma'' | Focused \<Rightarrow> ''5 gun ust uste calisma'')"

text \<open>\<open>Object.values(ACHIEVEMENTS)\<close>, in declaration order.\<close>

definition all_achievements :: "achievement list" where
  "all_achievements = [StudyMaster, BrainPower, Bookworm, Focused]"

definition rank_title :: "rank \<Rightarrow> string" where
  "rank_title r = (case r of Profesor \<Rightarrow> ''Profesor'' | Docent \<Rightarrow> ''Docent'' | Ogrenci \<Rightarrow> ''Ogrenci''
                   | Caylak \<Rightarrow> ''Caylak'')"

definition default_profile_photo :: string where
  "default_profile_photo =
     ''https://images.pexels.com/photos/771742/pexels-photo-771742.jpeg?auto=compress&cs=tinysrgb&w=1260&h=750&dpr=1''"

datatype settings_item = SAccount | SNotifications | SPro | SHelp

text \<open>The four items in order, each with its title and whether it shows the notification badge \<open>2\<close>.\<close>

definition settings_items :: "bool \<Rightarrow> (settings_item \<times> string \<times> bool) list" where
  "settings_items pro =
     [(SAccount, ''Hesap Ayarlari'', False), (SNotifications, ''Bildirimler'', True),
      (SPro, if pro then ''Pro Kullanici'' else ''Pro'' @ [CHR 0x27] @ ''ya Yukselt'', False),
      (SHelp, ''Yardim & Destek'', False)]"

text \<open>\<open>ProfileStatCard\<close>: a title and a value.\<close>

definition stat_card :: "string \<Rightarrow> string \<Rightarrow> string \<times> string" where
  "stat_card title value = (title, value)"

datatype ach_icon = IconMedal | IconLock

text \<open>\<open>AchievementCard\<close>: title, description, and the medal when unlocked, the lock otherwise.\<close>

definition achievement_card :: "achievement \<Rightarrow> bool \<Rightarrow> string \<times> string \<times> ach_icon" where
  "achievement_card a unlocked =
     (achievement_title a, achievement_description a, if unlocked then IconMedal else IconLock)"

record profile_view =
  pv_photo :: string
  pv_name :: string
  pv_crown :: bool
  pv_email :: "string option"
  pv_stats :: "(string \<times> string) list"
  pv_achievements :: "(string \<times> string \<times> ach_icon) list"
  pv_settings :: "(settings_item \<times> string \<times> bool) list"

definition profile_is_pro :: "profile_screen \<Rightarrow> bool" where
  "profile_is_pro ps = (case pf_user ps of Some r \<Rightarrow> pu_pro r | None \<Rightarrow> False)"

definition profile_view :: "string option \<Rightarrow> profile_screen \<Rightarrow> profile_view" where
  "profile_view email ps =
     \<lparr>pv_photo = (case pf_photo ps of Some p \<Rightarrow> if p \<noteq> [] then p else default_profile_photo
                  | None \<Rightarrow> default_profile_photo),
      pv_name = (case pf_user ps of
                   Some r \<Rightarrow> (case pu_name r of Some n \<Rightarrow> if n \<noteq> [] then n else ''Misafir'' | None \<Rightarrow> ''Misafir'')
                 | None \<Rightarrow> ''Misafir''),
      pv_crown = profile_is_pro ps,
      pv_email = email,
      pv_stats = [stat_card ''Calisma Saati'' (show_int (format_study_time (pf_total ps))),
                  stat_card ''Mesajlar'' (digits_nat (pf_msgs ps)),
                  stat_card ''Rutbe'' (rank_title (get_rank_info (pf_msgs ps)))],
      pv_achievements = map (\<lambda>a. achievement_card a (a \<in> set (pf_unlocked ps))) all_achievements,
      pv_settings = settings_items (profile_is_pro ps)\<rparr>"

section \<open>SettingsItem\<close>

text \<open>The local state of one item: the notice and the hide timeouts not yet fired.\<close>

record item_state =
  is_notice :: bool
  is_timers :: nat

definition item0 :: item_state where
  "item0 = \<lparr>is_notice = False, is_timers = 0\<rparr>"

definition settings_route :: "settings_item \<Rightarrow> string" where
  "settings_route i =
     (case i of SAccount \<Rightarrow> ''/account-settings'' | SNotifications \<Rightarrow> ''/notification-settings''
      | SPro \<Rightarrow> ''/pro-upgrade'' | SHelp \<Rightarrow> ''/help-support'')"

text \<open>\<open>handlePress\<close>: with \<open>showProBadge\<close> the notice and a timeout, otherwise \<open>onPress\<close> (\<open>router.push\<close>).\<close>

definition settings_press :: "bool \<Rightarrow> settings_item \<Rightarrow> item_state \<Rightarrow> item_state \<times> string option" where
  "settings_press pro i st =
     (if i = SPro \<and> pro then (st\<lparr>is_notice := True, is_timers := Suc (is_timers st)\<rparr>, None)
      else (st, Some (settings_route i)))"

text \<open>A timeout fires: \<open>setShowNotification(false)\<close>.\<close>

definition settings_hide :: "item_state \<Rightarrow> item_state" where
  "settings_hide st = (if is_timers st = 0 then st else st\<lparr>is_notice := False, is_timers := is_timers st - 1\<rparr>)"

text \<open>What an item shows besides its title: the badge \<open>2\<close> and the notice.\<close>

definition item_render :: "bool \<Rightarrow> item_state \<Rightarrow> string option \<times> string option" where
  "item_render badge st =
     (if badge then Some ''2'' else None, if is_notice st then Some ''Zaten Pro Kullanicisiniz'' else None)"

section \<open>Lemmas\<close>

lemma settings_pro_route:
  "snd (settings_press pro SPro st) = (if pro then None else Some ''/pro-upgrade'')"
  by (simp add: settings_press_def settings_route_def)

lemma settings_press_timers:
  "is_timers (fst (settings_press pro i st)) = (if i = SPro \<and> pro then Suc (is_timers st) else is_timers st)"
  by (simp add: settings_press_def)

text \<open>
  Two presses of the pro item, then the first timeout: the notice of the
  second press is already hidden, although its own timeout has not fired.
\<close>

lemma settings_notice_hidden_early:
  "is_notice (settings_hide (fst (settings_press True SPro (fst (settings_press True SPro st))))) = False \<and>
   is_timers (settings_hide (fst (settings_press True SPro (fst (settings_press True SPro st))))) = Suc (is_timers st)"
  by (simp add: settings_hide_def settings_press_def)

text \<open>So the notice of the second press disappears at once, and the item then shows no notice.\<close>

lemma settings_notice_hidden_render:
  "snd (item_render False (settings_hide (fst (settings_press True SPro (fst (settings_press True SPro st)))))) = None"
  by (simp add: item_render_def settings_hide_def settings_press_def)

end
