(* ===== verification/ChatTab.thy ===== *)
theory ChatTab
  imports ProUpgrade
begin

text \<open>
  The chat tab (\<open>src/proje/app/(tabs)/chat.tsx\<close>) over the room list of
  \<open>useChat\<close> (\<open>src/proje/hooks/useChat.ts\<close>): \<open>fetchRooms\<close> at mount and on
  every change of \<open>chat_rooms\<close>, the search, the two \<open>RoomSection\<close>s with
  their cards, and the screen's own state: the query, the open room, the
  room waiting for its password and the create modal.  The modals the tab
  renders are imported from \<open>components/Chat\<close>, which holds no such files;
  their callbacks are the tab's and are modelled.
\<close>

record chat_list =
  cl_rooms :: "(room_id \<times> chat_room_row) list"
  cl_loading :: bool
  cl_error :: "error option"

definition chat_list0 :: chat_list where
  "chat_list0 = \<lparr>cl_rooms = [], cl_loading = True, cl_error = None\<rparr>"

text \<open>\<open>fetchRooms\<close>: \<open>setRooms\<close> or \<open>setError\<close>, then \<open>loading\<close> ends; nothing clears the error.\<close>

definition chat_list_fetch :: "cdb \<Rightarrow> chat_list \<Rightarrow> chat_list" where
  "chat_list_fetch d l =
     (case chat_fetch_rooms d of
        Inl e \<Rightarrow> l\<lparr>cl_error := Some e, cl_loading := False\<rparr>
      | Inr rs \<Rightarrow> l\<lparr>cl_rooms := rs, cl_loading := False\<rparr>)"

text \<open>The stores the mount fetch and the change-feed fetches read, in order.\<close>

definition chat_list_run :: "chat_list \<Rightarrow> cdb list \<Rightarrow> chat_list" where
  "chat_list_run = foldl (\<lambda>l d. chat_list_fetch d l)"

text \<open>\<open>filteredPrivateRooms\<close> and \<open>filteredPublicRooms\<close> with the rooms' ids.\<close>

definition chat_filtered :: "string \<Rightarrow> bool \<Rightarrow> (room_id \<times> chat_room_row) list \<Rightarrow> (room_id \<times> chat_room_row) list" where
  "chat_filtered q priv rs = filter (\<lambda>x. room_matches q (snd x)) (filter (\<lambda>x. cr_private (snd x) = priv) rs)"

record chat_card =
  cc_room :: room_id
  cc_name :: string
  cc_description :: "string option"
  cc_lock :: bool
  cc_crown :: bool
  cc_delete :: bool

text \<open>One card of \<open>RoomSection\<close>: the lock for a private room other than the pro room, the crown for the pro room, the delete button for its creator.\<close>

definition chat_card_of :: "user_id option \<Rightarrow> room_id \<times> chat_room_row \<Rightarrow> chat_card" where
  "chat_card_of me x =
     (case x of (rid, r) \<Rightarrow>
        \<lparr>cc_room = rid, cc_name = cr_name r, cc_description = cr_description r,
         cc_lock = (cr_private r \<and> cr_name r \<noteq> pro_room_name), cc_crown = (cr_name r = pro_room_name),
         cc_delete = (me = Some (cr_creator r))\<rparr>)"

definition chat_section ::
  "user_id option \<Rightarrow> (room_id \<times> chat_room_row) list \<Rightarrow> chat_card list \<times> string option" where
  "chat_section me rs = (map (chat_card_of me) rs, if rs = [] then Some ''Bu kategoride henuz oda yok'' else None)"

record chat_tab =
  ct_query :: string
  ct_create :: bool
  ct_join :: "(room_id \<times> string) option"
  ct_join_visible :: bool
  ct_selected :: "room_id option"

definition chat_tab0 :: chat_tab where
  "chat_tab0 = \<lparr>ct_query = [], ct_create = False, ct_join = None, ct_join_visible = False, ct_selected = None\<rparr>"

datatype chat_tab_view =
    CTRoom room_id
  | CTLoading
  | CTError error
  | CTLists "chat_card list \<times> string option" "chat_card list \<times> string option" bool

text \<open>
  The render: an open room replaces the tab; then loading, the error, or
  the private and public sections, with the empty notice and its create
  button when both filtered lists are empty.
\<close>

definition chat_tab_view :: "user_id option \<Rightarrow> chat_tab \<Rightarrow> chat_list \<Rightarrow> chat_tab_view" where
  "chat_tab_view me st l =
     (case ct_selected st of
        Some rid \<Rightarrow> CTRoom rid
      | None \<Rightarrow>
          if cl_loading l then CTLoading
          else (case cl_error l of
                  Some e \<Rightarrow> CTError e
                | None \<Rightarrow>
                    (let priv = chat_filtered (ct_query st) True (cl_rooms l);
                         pub = chat_filtered (ct_query st) False (cl_rooms l)
                     in CTLists (chat_section me priv) (chat_section me pub) (pub = [] \<and> priv = []))))"

text \<open>A press on a card: \<open>handleJoinRoom\<close>, with the route it pushes, if any.\<close>

definition chat_press :: "bool option \<Rightarrow> room_id \<times> chat_room_row \<Rightarrow> chat_tab \<Rightarrow> chat_tab \<times> string option" where
  "chat_press pro x st =
     (case x of (rid, r) \<Rightarrow>
        (case chat_open_room (chat_is_pro pro) rid (cr_private r) (cr_name r) of
           ChatGoPro \<Rightarrow> (st, Some ''/pro-upgrade'')
         | ChatOpen k \<Rightarrow> (st\<lparr>ct_selected := Some k\<rparr>, None)
         | ChatJoinPrompt k \<Rightarrow> (st\<lparr>ct_join := Some (k, cr_name r), ct_join_visible := True\<rparr>, None)
         | ChatList \<Rightarrow> (st, None)))"

text \<open>The join modal's callbacks: success opens the room the prompt was for; close forgets it.\<close>

definition chat_join_success :: "chat_tab \<Rightarrow> chat_tab" where
  "chat_join_success st =
     (case ct_join st of
        None \<Rightarrow> st
      | Some (rid, _) \<Rightarrow> st\<lparr>ct_join_visible := False, ct_selected := Some rid, ct_join := None\<rparr>)"

definition chat_join_close :: "chat_tab \<Rightarrow> chat_tab" where
  "chat_join_close st = st\<lparr>ct_join_visible := False, ct_join := None\<rparr>"

text \<open>The create button and the create modal's \<open>onClose\<close>/\<open>onSuccess\<close>; the room's \<open>onClose\<close>; the search field.\<close>

definition chat_set_create :: "bool \<Rightarrow> chat_tab \<Rightarrow> chat_tab" where
  "chat_set_create b st = st\<lparr>ct_create := b\<rparr>"

definition chat_room_close :: "chat_tab \<Rightarrow> chat_tab" where
  "chat_room_close st = st\<lparr>ct_selected := None\<rparr>"

definition chat_search :: "string \<Rightarrow> chat_tab \<Rightarrow> chat_tab" where
  "chat_search q st = st\<lparr>ct_query := q\<rparr>"

text \<open>
  The chat tab's effect on \<open>[user]\<close>: \<open>fetchUserData()\<close> for a signed-in
  user and \<open>eventEmitter.on(USER_DATA_UPDATED, ...)\<close>; its cleanup
  \<open>eventEmitter.off\<close> removes that listener.  A change of \<open>user\<close> runs the
  cleanup of the old effect and then the new effect.
\<close>

definition chat_tab_effect :: "user_id option \<Rightarrow> app_state \<Rightarrow> app_state" where
  "chat_tab_effect me s = mount_listener me ChatListener s"

definition chat_tab_cleanup :: "app_state \<Rightarrow> app_state" where
  "chat_tab_cleanup s = unmount_listener ChatListener s"

definition chat_user_change :: "user_id option \<Rightarrow> app_state \<Rightarrow> app_state" where
  "chat_user_change me s = chat_tab_effect me (chat_tab_cleanup s)"

section \<open>Lemmas\<close>

text \<open>The tab's filter with ids refines the search of \<open>ChatRooms\<close>.\<close>

lemma chat_filtered_refines: "map snd (chat_filtered q priv rs) = filtered_rooms q priv (map snd rs)"
  by (simp add: chat_filtered_def filtered_rooms_def filter_map comp_def)

lemma chat_list_fetch_flags:
  "\<not> cl_loading (chat_list_fetch d l)"
  "cl_error l \<noteq> None \<Longrightarrow> cl_error (chat_list_fetch d l) \<noteq> None"
  "\<not> c_online d \<Longrightarrow> cl_error (chat_list_fetch d l) \<noteq> None"
  by (simp_all add: chat_list_fetch_def chat_fetch_rooms_def split: sum.splits)

lemma chat_list_run_error:
  "cl_error l \<noteq> None \<Longrightarrow> \<not> cl_loading l \<Longrightarrow> cl_error (chat_list_run l ds) \<noteq> None \<and> \<not> cl_loading (chat_list_run l ds)"
proof (induction ds arbitrary: l)
  case Nil
  then show ?case by (simp add: chat_list_run_def)
next
  case (Cons d ds)
  have "cl_error (chat_list_fetch d l) \<noteq> None" "\<not> cl_loading (chat_list_fetch d l)"
    using Cons.prems chat_list_fetch_flags(1)[of d l] chat_list_fetch_flags(2)[of l d] by simp_all
  then show ?case
    using Cons.IH[of "chat_list_fetch d l"] by (simp add: chat_list_run_def)
qed

text \<open>As on the watch and study tabs, one failed fetch hides the chat rooms until the tab remounts.\<close>

lemma chat_tab_error_sticks:
  assumes "\<not> c_online d" and "ct_selected st = None"
  shows "\<exists>e. chat_tab_view me st (chat_list_run (chat_list_fetch d l) ds) = CTError e"
proof -
  have "cl_error (chat_list_run (chat_list_fetch d l) ds) \<noteq> None \<and> \<not> cl_loading (chat_list_run (chat_list_fetch d l) ds)"
    using chat_list_run_error chat_list_fetch_flags(1)[of d l] chat_list_fetch_flags(3)[OF assms(1), of l] by blast
  then show ?thesis
    using assms(2) by (auto simp: chat_tab_view_def split: option.splits)
qed

text \<open>
  A search that matches no room shows the notice for a tab without any
  room and its create button, although rooms exist.
\<close>

lemma chat_search_miss_says_empty:
  assumes "ct_selected st = None" and "\<not> cl_loading l" and "cl_error l = None"
    and "\<forall>x \<in> set (cl_rooms l). \<not> room_matches (ct_query st) (snd x)"
  shows "chat_tab_view me st l =
           CTLists ([], Some ''Bu kategoride henuz oda yok'') ([], Some ''Bu kategoride henuz oda yok'') True"
proof -
  have "chat_filtered (ct_query st) b (cl_rooms l) = []" for b
    using assms(4) by (auto simp: chat_filtered_def filter_empty_conv)
  then show ?thesis
    using assms(1-3) by (simp add: chat_tab_view_def chat_section_def)
qed

text \<open>A private room other than the pro room opens only through the password prompt, and its success opens that room.\<close>

lemma chat_private_join_opens:
  assumes "cr_private r" and "cr_name r \<noteq> pro_room_name"
  shows "snd (chat_press pro (rid, r) st) = None \<and> ct_selected (fst (chat_press pro (rid, r) st)) = ct_selected st \<and>
         ct_selected (chat_join_success (fst (chat_press pro (rid, r) st))) = Some rid"
  using assms by (simp add: chat_press_def chat_open_room_def chat_join_success_def)

text \<open>The pro room sends a user who is not pro to the upgrade screen and opens nothing.\<close>

lemma chat_pro_room_gate:
  assumes "cr_name r = pro_room_name" and "\<not> chat_is_pro pro"
  shows "chat_press pro (rid, r) st = (st, Some ''/pro-upgrade'')"
  using assms by (simp add: chat_press_def chat_open_room_def)

text \<open>A change of user keeps exactly one chat listener registered: the effect's cleanup removes the old one before the new one is added.\<close>

lemma chat_user_change_one_listener:
  "count_list (st_listeners s) ChatListener = 1 \<Longrightarrow>
   count_list (st_listeners (chat_user_change me s)) ChatListener = 1"
proof -
  assume one: "count_list (st_listeners s) ChatListener = 1"
  have "count_list (remove1 x xs) x = count_list xs x - 1" for x :: listener and xs
    by (induction xs) auto
  then show ?thesis
    using one
    by (simp add: chat_user_change_def chat_tab_effect_def chat_tab_cleanup_def mount_listener_def
        unmount_listener_def run_listener_def)
qed

end
