(* ===== verification/HomeTab.thy ===== *)
theory HomeTab
  imports ProUpgrade Profile
begin

text \<open>
  The home tab (\<open>src/proje/app/(tabs)/index.tsx\<close>): \<open>fetchUserData\<close> of the
  user's row at mount and on \<open>USER_DATA_UPDATED\<close>, the welcome with the
  user's name, the three \<open>FeatureCard\<close>s, the AI card and the study card.
  A \<open>FeatureCard\<close> press plays its animation and calls \<open>onPress\<close> from a
  300 ms timeout; the timeouts are events, fired in the order they were
  set (they all have the same delay).  The row is the \<open>users\<close> row of
  \<open>Profile\<close>'s store (name and \<open>is_pro\<close>), the columns the tab reads.
\<close>

definition home_fetch :: "user_id option \<Rightarrow> pdb \<Rightarrow> prof_user option \<Rightarrow> prof_user option" where
  "home_fetch me d old =
     (case me of None \<Rightarrow> old
      | Some u \<Rightarrow> if \<not> p_online d then old else (case p_users d u of None \<Rightarrow> old | Some r \<Rightarrow> Some r))"

text \<open>The three feature cards: title, description and the route of \<open>onPress\<close>.\<close>

definition feature_cards :: "(string \<times> string \<times> string) list" where
  "feature_cards =
     [(''Sohbet Odalari'', ''Genel sohbetlere katil veya ozel sifreli odalar olustur'', ''/(tabs)/chat''),
      (''Calisma Oturumlari'', ''Calisma suresini takip et ve arkadaslarinla yaris'', ''/(tabs)/study''),
      (''Watch Room'', ''Arkadaslarinla beraber video izle ve sohbet et'', ''/watch'')]"

record home_state =
  hs_data :: "prof_user option"
  hs_pending :: "string list"
  hs_stack :: "string list"

definition home0 :: home_state where
  "home0 = \<lparr>hs_data = None, hs_pending = [], hs_stack = []\<rparr>"

definition home_is_pro :: "prof_user option \<Rightarrow> bool" where
  "home_is_pro p = (case p of Some r \<Rightarrow> pu_pro r | None \<Rightarrow> False)"

datatype home_event =
    HomeRefresh        \<comment> \<open>the mount effect's fetch, or the \<open>USER_DATA_UPDATED\<close> listener\<close>
  | PressFeature nat   \<comment> \<open>\<open>handlePress\<close> of the \<open>i\<close>-th feature card\<close>
  | FireTimeout        \<comment> \<open>the oldest pending 300 ms timeout calls \<open>onPress\<close>\<close>
  | PressAiCard
  | PressUpgrade       \<comment> \<open>the AI card's button for a user who is not pro\<close>
  | PressExplore       \<comment> \<open>the study card's button\<close>

fun home_step :: "user_id option \<Rightarrow> pdb \<Rightarrow> home_state \<Rightarrow> home_event \<Rightarrow> home_state" where
  "home_step me d st HomeRefresh = st\<lparr>hs_data := home_fetch me d (hs_data st)\<rparr>"
| "home_step me d st (PressFeature i) =
     (if i < length feature_cards then st\<lparr>hs_pending := hs_pending st @ [snd (snd (feature_cards ! i))]\<rparr> else st)"
| "home_step me d st FireTimeout =
     (case hs_pending st of [] \<Rightarrow> st | r # rs \<Rightarrow> st\<lparr>hs_pending := rs, hs_stack := hs_stack st @ [r]\<rparr>)"
| "home_step me d st PressAiCard =
     st\<lparr>hs_stack := hs_stack st @ [if home_is_pro (hs_data st) then ''/ai-chat'' else ''/pro-upgrade'']\<rparr>"
| "home_step me d st PressUpgrade =
     (if home_is_pro (hs_data st) then st else st\<lparr>hs_stack := hs_stack st @ [''/pro-upgrade'']\<rparr>)"
| "home_step me d st PressExplore = st\<lparr>hs_stack := hs_stack st @ [''/(tabs)/study'']\<rparr>"

definition home_run :: "user_id option \<Rightarrow> pdb \<Rightarrow> home_state \<Rightarrow> home_event list \<Rightarrow> home_state" where
  "home_run me d = foldl (home_step me d)"

record home_view =
  hv_name :: string
  hv_active :: string
  hv_features :: "(string \<times> string) list"
  hv_ai_title :: string
  hv_ai_description :: string
  hv_ai_button :: bool

text \<open>The render: \<open>userData?.name || 'Misafir'\<close>, the fixed activity line, the AI card's texts and its upgrade button.\<close>

definition home_view :: "home_state \<Rightarrow> home_view" where
  "home_view st =
     \<lparr>hv_name = (case hs_data st of
                  Some r \<Rightarrow> (case pu_name r of Some n \<Rightarrow> if n \<noteq> [] then n else ''Misafir'' | None \<Rightarrow> ''Misafir'')
                | None \<Rightarrow> ''Misafir''),
      hv_active = ''12 arkadasin aktif'',
      hv_features = map (\<lambda>(t, ds, _). (t, ds)) feature_cards,
      hv_ai_title = (if home_is_pro (hs_data st) then ''Egitim Kocum'' else ''Yapay Zeka ile Calis''),
      hv_ai_description =
        (if home_is_pro (hs_data st)
         then ''Yapay zeka destekli egitim asistaniniz size yardimci olmak icin hazir''
         else ''Yapay zeka destekli egitim kocu ve soru cozum asistani ile calismalarini daha verimli hale getir''),
      hv_ai_button = (\<not> home_is_pro (hs_data st))\<rparr>"

section \<open>Lemmas\<close>

text \<open>The home tab's row refines the pro flag \<open>ProUpgrade\<close> keeps for the same fetch.\<close>

lemma home_fetch_refines:
  "map_option pu_pro (home_fetch me d old) =
   fetch_user_pro me \<lparr>u_online = p_online d, u_pro = (\<lambda>u. map_option pu_pro (p_users d u))\<rparr> (map_option pu_pro old)"
  by (simp add: home_fetch_def fetch_user_pro_def split: option.splits)

lemma home_ai_card_route:
  "last (hs_stack (home_step me d st PressAiCard)) =
     (if home_ai_route (map_option pu_pro (hs_data st)) = RouteAiChat then ''/ai-chat'' else ''/pro-upgrade'')"
  by (simp add: home_is_pro_def home_ai_route_def split: option.splits)

lemma home_run_append [simp]: "home_run me d st (xs @ ys) = home_run me d (home_run me d st xs) ys"
  by (simp add: home_run_def)

lemma home_presses:
  "i < length feature_cards \<Longrightarrow>
   home_run me d st (replicate n (PressFeature i)) =
     st\<lparr>hs_pending := hs_pending st @ replicate n (snd (snd (feature_cards ! i)))\<rparr>"
proof (induction n arbitrary: st)
  case 0
  then show ?case by (simp add: home_run_def)
next
  case (Suc n)
  then show ?case
    by (simp add: home_run_def replicate_append_same[symmetric])
qed

lemma home_fires:
  "length xs = n \<Longrightarrow> hs_pending st = xs @ ys \<Longrightarrow>
   home_run me d st (replicate n FireTimeout) = st\<lparr>hs_pending := ys, hs_stack := hs_stack st @ xs\<rparr>"
proof (induction n arbitrary: st xs)
  case 0
  then show ?case by (simp add: home_run_def)
next
  case (Suc n)
  then obtain x xs' where xs: "xs = x # xs'" and len: "length xs' = n"
    by (cases xs) auto
  have "home_step me d st FireTimeout = st\<lparr>hs_pending := xs' @ ys, hs_stack := hs_stack st @ [x]\<rparr>"
    using Suc.prems xs by simp
  then show ?case
    using Suc.IH[OF len, of "st\<lparr>hs_pending := xs' @ ys, hs_stack := hs_stack st @ [x]\<rparr>"] xs
    by (simp add: home_run_def)
qed

text \<open>A feature card has no guard against repeated presses: n presses before the timeouts fire push its screen n times.\<close>

theorem feature_card_repeated_press:
  assumes "i < length feature_cards" and "hs_pending st = []"
  shows "hs_stack (home_run me d st (replicate n (PressFeature i) @ replicate n FireTimeout)) =
         hs_stack st @ replicate n (snd (snd (feature_cards ! i)))"
  using assms home_fires[of "replicate n (snd (snd (feature_cards ! i)))" n _ "[]"]
  by (simp add: home_presses)

theorem feature_card_repeated_press_witness:
  "hs_stack (home_run None demo_pdb home0 [PressFeature 0, PressFeature 0, FireTimeout, FireTimeout]) =
   [''/(tabs)/chat'', ''/(tabs)/chat'']"
proof -
  have i: "0 < length feature_cards"
    by (simp add: feature_cards_def)
  have p: "hs_pending home0 = []"
    by (simp add: home0_def)
  show ?thesis
    using feature_card_repeated_press[OF i p, of None demo_pdb 2]
    by (simp add: numeral_2_eq_2 home0_def feature_cards_def)
qed

end
