(* ===== verification/WatchRoomView.thy ===== *)
theory WatchRoomView
  imports WatchPlayer
begin

text \<open>
  The watch room screen's chat and member list and its render
  (\<open>src/proje/components/Watch/WatchRoom.tsx\<close>): \<open>fetchMessages\<close> with the
  authors' names, \<open>fetchMembers\<close>, the two change feeds that re-run them,
  the orientation listener, and the header, message list, error line and
  input.  The playback state and its feed are \<open>WatchSync\<close>.  The
  \<open>users\<close> rows the screen reads are a map from ids to name and avatar;
  the watch tables fail with \<open>w_online\<close>, and so does the second read.
  The order of the rows \<open>.in('id', ...)\<close> returns is the store's; the model
  takes the order of the member rows.
\<close>

type_synonym wusers = "user_id \<rightharpoonup> string option \<times> string option"

record wroom =
  wr_messages :: "(message_row \<times> string) list"
  wr_members :: "(user_id \<times> string option \<times> string option) list"
  wr_error :: "string option"
  wr_landscape :: bool

definition wroom0 :: "bool \<Rightarrow> wroom" where
  "wroom0 land = \<lparr>wr_messages = [], wr_members = [], wr_error = None, wr_landscape = land\<rparr>"

text \<open>\<open>userMap\<close>: the names of the authors that have a row; \<open>userMap.get(id) || 'Anonim Kullanici'\<close> treats a null or empty name as missing.\<close>

definition watch_user_names :: "wusers \<Rightarrow> user_id list \<Rightarrow> user_id \<rightharpoonup> string" where
  "watch_user_names us ids u =
     (if u \<in> set ids then (case us u of Some (Some n, _) \<Rightarrow> if n = [] then None else Some n | _ \<Rightarrow> None) else None)"

definition fetch_room_messages :: "room_id \<Rightarrow> wdb \<Rightarrow> wusers \<Rightarrow> wroom \<Rightarrow> wroom" where
  "fetch_room_messages rid w us st =
     (if \<not> w_online w then st\<lparr>wr_error := Some ''Mesajlar alinamadi''\<rparr>
      else (let ms = room_messages rid w;
                names = watch_user_names us (remdups (map msg_user ms))
            in st\<lparr>wr_messages := map (\<lambda>m. (m, message_author names m)) ms\<rparr>))"

definition room_member_ids :: "room_id \<Rightarrow> wdb \<Rightarrow> user_id list" where
  "room_member_ids rid w = map (\<lambda>((_, u), _). u) (filter (\<lambda>((r, _), _). r = rid) (watch_members w))"

definition fetch_room_members :: "room_id \<Rightarrow> wdb \<Rightarrow> wusers \<Rightarrow> wroom \<Rightarrow> wroom" where
  "fetch_room_members rid w us st =
     (if \<not> w_online w then st\<lparr>wr_error := Some ''Uyeler alinamadi''\<rparr>
      else st\<lparr>wr_members := List.map_filter (\<lambda>u. map_option (\<lambda>(n, a). (u, n, a)) (us u)) (room_member_ids rid w)\<rparr>)"

datatype wroom_event =
    MessagesChanged wdb
  | MembersChanged wdb
  | Dimensions nat nat

fun wroom_step :: "room_id \<Rightarrow> wusers \<Rightarrow> wroom \<Rightarrow> wroom_event \<Rightarrow> wroom" where
  "wroom_step rid us st (MessagesChanged w) = fetch_room_messages rid w us st"
| "wroom_step rid us st (MembersChanged w) = fetch_room_members rid w us st"
| "wroom_step rid us st (Dimensions wd ht) = st\<lparr>wr_landscape := (ht < wd)\<rparr>"

text \<open>The mount effect (the video state apart): messages, then members.\<close>

definition wroom_mount :: "room_id \<Rightarrow> wdb \<Rightarrow> wusers \<Rightarrow> bool \<Rightarrow> wroom" where
  "wroom_mount rid w us land = fetch_room_members rid w us (fetch_room_messages rid w us (wroom0 land))"

definition wroom_run :: "room_id \<Rightarrow> wusers \<Rightarrow> wroom \<Rightarrow> wroom_event list \<Rightarrow> wroom" where
  "wroom_run rid us = foldl (wroom_step rid us)"

record wroom_view =
  wv_title :: string
  wv_members :: string
  wv_play :: "bool option"
  wv_messages :: "(string \<times> string option \<times> bool) list"
  wv_error :: "string option"
  wv_send_enabled :: bool

text \<open>
  The render: the room's name and \<open>`${members.length} uye`\<close>; the creator's
  play button (\<open>Some\<close> whether it shows pause); each message with its
  sender's name when shown and whether it is the user's own; the error
  line; the send button, disabled for a blank draft or while sending.
\<close>

definition wroom_view :: "user_id option \<Rightarrow> watch_room_row \<Rightarrow> vstate \<Rightarrow> chat_input \<Rightarrow> wroom \<Rightarrow> wroom_view" where
  "wroom_view me room v ci st =
     \<lparr>wv_title = w_name room,
      wv_members = digits_nat (length (wr_members st)) @ '' uye'',
      wv_play = (if me = Some (w_creator room) then Some (vs_playing v) else None),
      wv_messages = map2 (\<lambda>(m, n) s. (msg_content m, if s then Some n else None, Some (msg_user m) = me))
                      (wr_messages st) (show_sender me None (map fst (wr_messages st))),
      wv_error = wr_error st,
      wv_send_enabled = (js_trim (ci_draft ci) \<noteq> [] \<and> \<not> ci_loading ci)\<rparr>"

text \<open>
  \<open>getContentStyles\<close>, \<open>getVideoSectionStyles\<close> and
  \<open>getChatSectionStyles\<close>: the web layout on the web, else the landscape or
  the portrait layout by the screen's orientation; the three agree.
\<close>

datatype room_layout = WebLayout | LandscapeLayout | PortraitLayout

definition section_layout :: "platform \<Rightarrow> wroom \<Rightarrow> room_layout" where
  "section_layout pf st = (case pf of Web \<Rightarrow> WebLayout | Native \<Rightarrow> if wr_landscape st then LandscapeLayout else PortraitLayout)"

definition room_layouts :: "platform \<Rightarrow> wroom \<Rightarrow> room_layout \<times> room_layout \<times> room_layout" where
  "room_layouts pf st = (section_layout pf st, section_layout pf st, section_layout pf st)"

section \<open>Lemmas\<close>

lemma wroom_step_error:
  "wr_error st \<noteq> None \<Longrightarrow> wr_error (wroom_step rid us st e) \<noteq> None"
  by (cases e) (simp_all add: fetch_room_messages_def fetch_room_members_def Let_def)

text \<open>The room's error line, once set, stays for the life of the screen: no fetch clears it.\<close>

lemma wroom_error_sticks:
  "wr_error st \<noteq> None \<Longrightarrow> wr_error (wroom_run rid us st es) \<noteq> None"
proof (induction es arbitrary: st)
  case Nil
  then show ?case by (simp add: wroom_run_def)
next
  case (Cons e es)
  have "wr_error (wroom_step rid us st e) \<noteq> None"
    using Cons.prems by (rule wroom_step_error)
  then show ?case
    using Cons.IH by (simp add: wroom_run_def)
qed

text \<open>Restricting the name map to the authors does not change any author's name.\<close>

lemma fetch_room_messages_names:
  assumes "w_online w"
  shows "map snd (wr_messages (fetch_room_messages rid w us st)) =
         map (\<lambda>m. case us (msg_user m) of Some (Some n, _) \<Rightarrow> if n = [] then ''Anonim Kullanici'' else n
                                       | _ \<Rightarrow> ''Anonim Kullanici'') (room_messages rid w)"
  using assms
  by (auto simp: fetch_room_messages_def message_author_def watch_user_names_def Let_def
           split: option.splits prod.splits)

lemma map_filter_length:
  "length (List.map_filter (\<lambda>u. map_option (g u) (f u)) xs) = length (filter (\<lambda>u. f u \<noteq> None) xs)"
  by (induction xs) (auto simp: List.map_filter_def)

text \<open>The header counts the members that have a user row, not the member rows.\<close>

lemma wroom_member_count:
  "w_online w \<Longrightarrow>
   length (wr_members (fetch_room_members rid w us st)) = length (filter (\<lambda>u. us u \<noteq> None) (room_member_ids rid w))"
  by (simp add: fetch_room_members_def map_filter_length)

lemma show_sender_length [simp]: "length (show_sender me prev ms) = length ms"
  by (induction ms arbitrary: prev) simp_all

lemma map_zip_fst:
  "length ys = length xs \<Longrightarrow> map (\<lambda>x. g (fst x)) (zip xs ys) = map g xs"
  by (induction xs arbitrary: ys) (auto simp: length_Suc_conv)

text \<open>Every message of the state is rendered, in order.\<close>

lemma wroom_view_messages:
  "map fst (wv_messages (wroom_view me room v ci st)) = map (msg_content \<circ> fst) (wr_messages st)"
  by (simp add: wroom_view_def comp_def split_def map_zip_fst[where g = "\<lambda>x. msg_content (fst x)"])

text \<open>On a device, turning the screen switches the three sections together to the landscape layout.\<close>

lemma rotate_landscape:
  "ht < wd \<Longrightarrow> room_layouts Native (wroom_step rid us st (Dimensions wd ht)) = (LandscapeLayout, LandscapeLayout, LandscapeLayout)"
  by (simp add: room_layouts_def section_layout_def)

end
