(* ===== verification/StudyRoomView.thy ===== *)
theory StudyRoomView
  imports Presence StudyTab TimerDisplay
begin

text \<open>
  The render of the study room screen (\<open>src/proje/components/Study/StudyRoom.tsx\<close>):
  the header with the member count, the clock of the timer hook, the timer
  and reset buttons, and one card per member with photo, name and counter.
  The members and counters are \<open>room_screen\<close> of \<open>Presence\<close>; the names the
  member query joins from \<open>users\<close> are a map, and the photos are the
  \<open>profile_photos\<close> rows \<open>fetchMembers\<close> reads.  \<open>formatTime\<close> is applied to
  integers: a remote counter is negative when the session row was created
  after the device's clock reading.
\<close>

text \<open>\<open>photoData.reduce\<close>: a later row of the same user overwrites an earlier one.\<close>

definition member_photos :: "(user_id \<times> string) list \<Rightarrow> user_id \<rightharpoonup> string" where
  "member_photos rows = map_of (rev rows)"

text \<open>JavaScript's \<open>%\<close> on integers: the sign of the dividend.\<close>

definition js_rem :: "int \<Rightarrow> int \<Rightarrow> int" where
  "js_rem x y = sgn x * (\<bar>x\<bar> mod \<bar>y\<bar>)"

text \<open>\<open>formatTime\<close> on any integer, \<open>Math.floor\<close> being \<open>div\<close>.\<close>

definition format_time_js :: "int \<Rightarrow> string" where
  "format_time_js secs =
     (let h = secs div 3600; m = js_rem secs 3600 div 60; s = js_rem secs 60
      in if 0 < h then show_int h @ ''s '' @ show_int m @ ''d '' @ show_int s @ ''sn''
         else if 0 < m then show_int m @ ''d '' @ show_int s @ ''sn''
         else show_int s @ ''sn'')"

definition member_default_photo :: string where
  "member_default_photo =
     ''https://images.pexels.com/photos/771742/pexels-photo-771742.jpeg?auto=compress&cs=tinysrgb&w=1260&h=750&dpr=1''"

record member_card =
  mc_photo :: string
  mc_name :: string
  mc_timer :: "string option"

text \<open>One member card: the photo or the default, the name or \<open>Anonim Kullanici\<close> with \<open> (Sen)\<close> for the user, and the counter for a member with a session, \<open>Bekliyor\<close> (\<open>None\<close>) otherwise.\<close>

definition member_card_of ::
  "user_id option \<Rightarrow> nat \<Rightarrow> (user_id \<rightharpoonup> string option) \<Rightarrow> (user_id \<rightharpoonup> string) \<Rightarrow> room_screen \<Rightarrow> member_view \<Rightarrow> member_card" where
  "member_card_of me local names photos rs v =
     \<lparr>mc_photo = (case photos (mv_user v) of Some p \<Rightarrow> if p \<noteq> [] then p else member_default_photo | None \<Rightarrow> member_default_photo),
      mc_name = (case names (mv_user v) of Some (Some n) \<Rightarrow> if n \<noteq> [] then n else ''Anonim Kullanici''
                 | _ \<Rightarrow> ''Anonim Kullanici'') @ (if Some (mv_user v) = me then '' (Sen)'' else []),
      mc_timer = (if mv_session_id v = None then None
                  else if Some (mv_user v) = me then Some (format_time_js (int local))
                  else Some (format_time_js (case rs_timers rs (mv_user v) of Some t \<Rightarrow> mt_elapsed t | None \<Rightarrow> 0)))\<rparr>"

record study_room_view =
  srv_title :: string
  srv_members :: string
  srv_clock :: string
  srv_button :: string
  srv_reset :: bool
  srv_cards :: "member_card list"

text \<open>The render; \<open>None\<close> is the loading screen of a missing \<open>room\<close>.\<close>

definition study_room_view ::
  "user_id option \<Rightarrow> (user_id \<rightharpoonup> string option) \<Rightarrow> (user_id \<rightharpoonup> string) \<Rightarrow> room_row option \<Rightarrow> timer \<Rightarrow> room_screen \<Rightarrow>
   study_room_view option" where
  "study_room_view me names photos room t rs =
     (case room of
        None \<Rightarrow> None
      | Some r \<Rightarrow> Some
          \<lparr>srv_title = r_name r,
           srv_members = digits_nat (length (rs_members rs)) @ '' uye'',
           srv_clock = elapsed_text (elapsed t),
           srv_button = timer_button_label t,
           srv_reset = reset_enabled t,
           srv_cards = map (member_card_of me (elapsed t) names photos rs) (rs_members rs)\<rparr>)"

section \<open>Lemmas\<close>

lemma js_rem_nat: "0 < k \<Longrightarrow> js_rem (int n) k = int n mod k"
  by (cases "n = 0") (simp_all add: js_rem_def)

lemma show_int_nat [simp]: "show_int (int n) = digits_nat n"
  by (simp add: show_int_def)

text \<open>On the counters of the screen, which are whole seconds, \<open>formatTime\<close> is the member list's format of \<open>TimerDisplay\<close>.\<close>

lemma format_time_js_nat: "format_time_js (int n) = format_time n"
proof -
  have h: "int n div 3600 = int (n div 3600)" and m: "js_rem (int n) 3600 div 60 = int (n mod 3600 div 60)"
    and s: "js_rem (int n) 60 = int (n mod 60)"
    by (simp_all add: js_rem_nat zdiv_int zmod_int)
  show ?thesis
    unfolding format_time_js_def format_time_def Let_def h m s by simp
qed

text \<open>A counter five seconds below zero, as a session created after the device's clock reading gives, is shown as such.\<close>

lemma format_time_negative: "format_time_js (-5) = ''-5sn''"
  by (simp add: format_time_js_def js_rem_def show_int_def digits_nat.simps char_of_def bit_0)

text \<open>The user's own card shows the timer hook's value, whatever \<open>memberTimers\<close> holds for the user.\<close>

lemma own_card_ignores_timers:
  "Some (mv_user v) = me \<Longrightarrow> member_card_of me local names photos rs v = member_card_of me local names photos rs' v"
  by (simp add: member_card_of_def)

end
