(* ===== verification/AccountView.thy ===== *)
theory AccountView
  imports Accounts
begin

text \<open>
  The rest of the account settings screen (\<open>src/proje/app/account-settings.tsx\<close>):
  the mount effect with its redirect and its \<open>profile_photos\<close> feed,
  \<open>handleImagePick\<close> over the image picker's answer, and the render with
  the avatar, the fields, the two buttons and the error and success lines.
\<close>

text \<open>The image picker's answer: cancelled, one asset's uri, or a thrown error.\<close>

datatype pick_result = PickCanceled | PickAsset string | PickFailed

definition handle_image_pick ::
  "user_id option \<Rightarrow> time_ms \<Rightarrow> pick_result \<Rightarrow> adb \<Rightarrow> account_screen \<Rightarrow> account_screen \<times> adb" where
  "handle_image_pick me now res d sc =
     (case res of
        PickCanceled \<Rightarrow> (sc, d)
      | PickAsset uri \<Rightarrow> upload_avatar me now uri d sc
      | PickFailed \<Rightarrow> (sc\<lparr>ac_error := Some ''Resim secilirken bir hata olustu''\<rparr>, d))"

text \<open>The mount effect: without a screen to go back to, replace with the profile tab and fetch nothing.\<close>

definition account_mount :: "bool \<Rightarrow> user_id option \<Rightarrow> adb \<Rightarrow> account_screen \<Rightarrow> account_screen \<times> string option" where
  "account_mount can_back me d sc =
     (if \<not> can_back then (sc, Some ''/(tabs)/profile'') else (fetch_user_profile me d sc, None))"

text \<open>The events after mount: the photo feed re-fetches; the buttons and the picker.\<close>

datatype account_event =
    PhotoFeed adb
  | PressUpdateProfile
  | PressUpdatePassword auth_result
  | PickImage time_ms pick_result
  | TypeName string
  | TypeNewPassword string
  | TypeConfirm string

fun account_step :: "user_id option \<Rightarrow> account_screen \<times> adb \<Rightarrow> account_event \<Rightarrow> account_screen \<times> adb" where
  "account_step me (sc, d) (PhotoFeed d') = (fetch_user_profile me d' sc, d')"
| "account_step me (sc, d) PressUpdateProfile = handle_update_profile me d sc"
| "account_step me (sc, d) (PressUpdatePassword r) = (fst (handle_update_password me r sc), d)"
| "account_step me (sc, d) (PickImage now res) = handle_image_pick me now res d sc"
| "account_step me (sc, d) (TypeName s) = (sc\<lparr>ac_name := s\<rparr>, d)"
| "account_step me (sc, d) (TypeNewPassword s) = (sc\<lparr>ac_new_pw := s\<rparr>, d)"
| "account_step me (sc, d) (TypeConfirm s) = (sc\<lparr>ac_confirm := s\<rparr>, d)"

definition account_run :: "user_id option \<Rightarrow> account_screen \<times> adb \<Rightarrow> account_event list \<Rightarrow> account_screen \<times> adb" where
  "account_run me = foldl (account_step me)"

record account_view =
  acv_avatar :: string
  acv_name :: string
  acv_email :: "string option"
  acv_busy :: bool
  acv_error :: "string option"
  acv_success :: "string option"

definition account_default_avatar :: string where
  "account_default_avatar =
     ''https://images.pexels.com/photos/771742/pexels-photo-771742.jpeg?auto=compress&cs=tinysrgb&w=1260&h=750&dpr=1''"

text \<open>The render: the avatar or the default, the name field, the read-only e-mail, the buttons' loading state, and each message line when set.\<close>

definition account_view :: "string option \<Rightarrow> account_screen \<Rightarrow> account_view" where
  "account_view email sc =
     \<lparr>acv_avatar = (case ac_avatar sc of Some a \<Rightarrow> if a \<noteq> [] then a else account_default_avatar
                    | None \<Rightarrow> account_default_avatar),
      acv_name = ac_name sc, acv_email = email, acv_busy = ac_loading sc,
      acv_error = ac_error sc, acv_success = ac_success sc\<rparr>"

section \<open>Lemmas\<close>

lemma account_run_Cons [simp]: "account_run me st (e # es) = account_run me (account_step me st e) es"
  by (simp add: account_run_def)

lemma account_run_Nil [simp]: "account_run me st [] = st"
  by (simp add: account_run_def)

text \<open>
  Only the handlers clear the other line: after a successful profile
  update, a failed re-fetch from the photo feed leaves both the success
  and the error on the screen.
\<close>

lemma account_success_and_error:
  assumes "a_online d" and "\<not> a_online d'"
  shows "acv_success (account_view e (fst (account_run (Some u) (sc, d) [PressUpdateProfile, PhotoFeed d']))) =
           Some ''Profil basariyla guncellendi'' \<and>
         acv_error (account_view e (fst (account_run (Some u) (sc, d) [PressUpdateProfile, PhotoFeed d']))) =
           Some ''Profil bilgileri yuklenirken bir hata olustu''"
  using assms by (simp add: handle_update_profile_def fetch_user_profile_def account_view_def)

end
