(* ===== verification/ProUpgradeView.thy ===== *)
theory ProUpgradeView
  imports ProUpgrade
begin

text \<open>
  The render of the upgrade screen (\<open>src/proje/app/pro-upgrade.tsx\<close>): the
  price card, the four \<open>ProFeature\<close>s, the error line, and either the
  upgrade and promotion buttons or the promotion code field with its
  button.  The screen's own state is whether the code field is open and
  the code typed (in UTF-16 units, as \<open>handlePromoCode\<close> reads it).
\<close>

record upgrade_ui =
  uu_show_promo :: bool
  uu_code :: js_units

definition upgrade_ui0 :: upgrade_ui where
  "upgrade_ui0 = \<lparr>uu_show_promo = False, uu_code = []\<rparr>"

text \<open>\<open>ProFeature\<close> titles, in order.\<close>

definition pro_features :: "string list" where
  "pro_features =
     [''Basari analizi'', ''Yapay zeka destekli egitim koclugu'', ''Yapay zeka destekli soru cozum asistani'',
      ''Sinirsiz kullanim hakki'']"

datatype upgrade_buttons =
    UpgradeAndPromo        \<comment> \<open>\<open>Pro'ya Yukselt\<close> and \<open>Promosyon Kodu Kullan\<close>\<close>
  | PromoField js_units    \<comment> \<open>the code field with its value and \<open>Kodu Kullan\<close>\<close>

record upgrade_view =
  uv_price :: string
  uv_features :: "string list"
  uv_error :: "string option"
  uv_buttons :: upgrade_buttons

definition upgrade_view :: "app_state \<Rightarrow> upgrade_ui \<Rightarrow> upgrade_view" where
  "upgrade_view s ui =
     \<lparr>uv_price = ''59.90 TL aylik'', uv_features = pro_features, uv_error = st_error s,
      uv_buttons = (if uu_show_promo ui then PromoField (uu_code ui) else UpgradeAndPromo)\<rparr>"

text \<open>The screen's events: the two buttons of the first mode, typing a code, and the code button.\<close>

datatype upgrade_event = PressUpgradeButton | OpenPromo | TypeCode js_units | PressUseCode

fun upgrade_step :: "user_id option \<Rightarrow> app_state \<times> upgrade_ui \<Rightarrow> upgrade_event \<Rightarrow> app_state \<times> upgrade_ui" where
  "upgrade_step me (s, ui) PressUpgradeButton =
     (if uu_show_promo ui then (s, ui) else (handle_upgrade me s, ui))"
| "upgrade_step me (s, ui) OpenPromo = (s, if uu_show_promo ui then ui else ui\<lparr>uu_show_promo := True\<rparr>)"
| "upgrade_step me (s, ui) (TypeCode c) = (s, if uu_show_promo ui then ui\<lparr>uu_code := c\<rparr> else ui)"
| "upgrade_step me (s, ui) PressUseCode =
     (if uu_show_promo ui then (handle_promo_code me (uu_code ui) s, ui) else (s, ui))"

section \<open>Lemmas\<close>

text \<open>Once the code field is open, the upgrade button is gone for the life of the screen: no event closes the field.\<close>

lemma upgrade_promo_stays_open:
  "uu_show_promo (snd st) \<Longrightarrow> uu_show_promo (snd (upgrade_step me st e))"
  by (cases st; cases e) auto

lemma upgrade_promo_no_upgrade:
  "uu_show_promo (snd st) \<Longrightarrow> upgrade_step me st PressUpgradeButton = st"
  by (cases st) simp

end
