(* ===== verification/AuthView.thy ===== *)
theory AuthView
  imports Accounts
begin

text \<open>
  The sign-in and sign-up screens as state machines with their renders
  (\<open>src/proje/app/(auth)/sign-in.tsx\<close>, \<open>sign-up.tsx\<close>): typing into a
  field, pressing the button with the authentication library's answer,
  and, on sign-up, the cooldown's one-second timeout.  Sign-in clears a
  field's error when the field is edited; sign-up does not.
\<close>

record signin_form =
  si_email :: string
  si_password :: string
  si_errors :: form_errors

definition signin_form0 :: signin_form where
  "signin_form0 = \<lparr>si_email = [], si_password = [], si_errors = no_errors\<rparr>"

datatype signin_event = SITypeEmail string | SITypePassword string | SIPress auth_result

fun signin_step :: "signin_form \<Rightarrow> signin_event \<Rightarrow> signin_form" where
  "signin_step f (SITypeEmail s) = f\<lparr>si_email := s, si_errors := (si_errors f)\<lparr>fe_email := None\<rparr>\<rparr>"
| "signin_step f (SITypePassword s) = f\<lparr>si_password := s, si_errors := (si_errors f)\<lparr>fe_password := None\<rparr>\<rparr>"
| "signin_step f (SIPress r) = f\<lparr>si_errors := fst (handle_sign_in (si_email f) (si_password f) r)\<rparr>"

text \<open>The fields with their error texts, the button's loading state (the auth context's \<open>isLoading\<close>).\<close>

record auth_view =
  au_fields :: "(string \<times> string option) list"
  au_button :: string
  au_enabled :: bool
  au_loading :: bool

definition signin_view :: "bool \<Rightarrow> signin_form \<Rightarrow> auth_view" where
  "signin_view loading f =
     \<lparr>au_fields = [(si_email f, fe_email (si_errors f)), (si_password f, fe_password (si_errors f))],
      au_button = ''Giris Yap'', au_enabled = True, au_loading = loading\<rparr>"

datatype signup_event =
    SUTypeName string | SUTypeEmail string | SUTypePassword string | SUTypeConfirm string
  | SUPress auth_result
  | SUTick

text \<open>A thrown \<open>TypeError\<close> leaves the form as the handler left it before the throw.\<close>

fun signup_step :: "signup_form \<Rightarrow> signup_event \<Rightarrow> signup_form" where
  "signup_step f (SUTypeName s) = f\<lparr>su_name := s\<rparr>"
| "signup_step f (SUTypeEmail s) = f\<lparr>su_email := s\<rparr>"
| "signup_step f (SUTypePassword s) = f\<lparr>su_password := s\<rparr>"
| "signup_step f (SUTypeConfirm s) = f\<lparr>su_confirm := s\<rparr>"
| "signup_step f (SUPress r) = fst (fst (handle_sign_up r f))"
| "signup_step f SUTick = cooldown_tick f"

definition signup_view :: "bool \<Rightarrow> signup_form \<Rightarrow> auth_view" where
  "signup_view loading f =
     \<lparr>au_fields = [(su_name f, fe_name (su_errors f)), (su_email f, fe_email (su_errors f)),
                  (su_password f, fe_password (su_errors f)), (su_confirm f, fe_confirm (su_errors f))],
      au_button = fst (sign_up_button loading f), au_enabled = snd (sign_up_button loading f), au_loading = loading\<rparr>"

section \<open>Lemmas\<close>

text \<open>On sign-up an error stays under its field while the user corrects it, until the next press.\<close>

lemma signup_typing_keeps_errors:
  "e \<noteq> SUTick \<Longrightarrow> (\<forall>r. e \<noteq> SUPress r) \<Longrightarrow> su_errors (signup_step f e) = su_errors f"
  by (cases e) simp_all

text \<open>A successful sign-up is reported in the e-mail field's error slot, rendered as an error.\<close>

lemma signup_success_as_error:
  assumes "sign_up_errors f = no_errors" and "su_cooldown f = 0"
  shows "au_fields (signup_view l (signup_step f (SUPress AuthOk))) ! 1 =
           (su_email f, Some ''Kayit basarili! Lutfen e-posta adresinizi dogrulayin.'')"
  using assms by (simp add: signup_view_def handle_sign_up_def sign_up_answer_def no_errors_def)

end
