(* ===== verification/Spec2Isabelle.thy ===== *)
theory Spec2Isabelle
  imports Polyfills WatchScreen StudyScreen InfoScreens UIKit RoomModals NotificationView Presence StudyTab StoreWF WatchPlayer AITyping AIUserInfo AICoachView ProfileView ChatTab HomeTab WatchRoomView StudyRoomView AccountView ProUpgradeView AuthView Profile ProUpgrade Accounts TimerDisplay
begin

text \<open>
  A shallow embedding of the StudyRoomix mobile application
  (React Native, TypeScript, \<open>src/proje/\<close>) and the properties that make
  its features correct or show where they are not.

  \<^bold>\<open>The program.\<close>  The application is a set of screens over one hosted row
  store (Supabase tables with realtime change feeds).  Each screen or hook
  reads and writes rows, subscribes to change events, and keeps React state.
  The model follows that split:
  \<^item> \<open>Prelude\<close>: the identifiers and clock, the JavaScript primitives the code
    calls (\<open>trim\<close>, \<open>slice(-n)\<close>, truthiness, \<open>`${n}`\<close> and \<open>parseInt\<close> of
    decimal digits with their round trip), the association-list tables
    with \<open>update\<close>/\<open>upsert\<close>/\<open>delete\<close> and their lemma collection
    \<open>store_simps\<close>.
  \<^item> \<open>Store\<close>: the study tables (\<open>study_sessions\<close>, \<open>study_rooms\<close>,
    \<open>study_room_members\<close>) as one record with an \<open>online\<close> flag (every call
    fails when it is false, as a network or row-level-security error does)
    and fresh-id counters.
  \<^item> \<open>StudyTimer\<close>: \<open>hooks/useStudyTimer.ts\<close> (\<open>startTimer\<close>, \<open>stopTimer\<close>,
    \<open>resumeTimer\<close>, \<open>resetTimer\<close>, \<open>saveSession\<close>, \<open>updateSession\<close>, the
    one-second interval) as a record of the hook's state and a step function
    over an event datatype; the study tab's buttons
    (\<open>app/(tabs)/study.tsx\<close>) and its save effect, whose cleanup runs after
    every render that changes \<open>isRunning\<close> or \<open>isPaused\<close> with the values of
    the render it was installed in (\<open>effect_commit\<close>, \<open>tab_step\<close>: the state is
    the hook's state, the render the installed effect holds, and the store).
  \<^item> \<open>StudyRooms\<close>: \<open>hooks/useStudyRooms.ts\<close> (join, create, leave, delete),
    the create and join modals and the study tab's room list.
  \<^item> \<open>StudyTab\<close>: the hook's room list state (\<open>fetchRooms\<close> on every change
    feed), the study tab's render of loading, error and room sections, and
    its timer buttons.
  \<^item> \<open>Presence\<close>: the room screen \<open>components/Study/StudyRoom.tsx\<close>: member
    views rebuilt by \<open>fetchMembers\<close>, the local one-second counters, the
    realtime handler and the room timer controls; \<open>room_mount\<close> is the
    \<open>[roomId]\<close> effect, which fetches and subscribes with the
    \<open>fetchMembers\<close> of the first render (and so its \<open>elapsedTime\<close>), and
    \<open>room_step\<close> runs the mounted screen over timer presses, hook ticks,
    presence ticks, realtime events and other clients' writes.
  \<^item> \<open>TimerDisplay\<close>: the clock of \<open>components/UI/AnimatedCounter.tsx\<close> as the
    study tab and the study room feed it, and \<open>formatTime\<close> of the member list.
  \<^item> \<open>WatchRooms\<close> and \<open>WatchSync\<close>: the watch tab (its room list with
    \<open>fetchRooms\<close> and the render), its modals and room chat,
    and the playback synchronisation of \<open>components/Watch/WatchRoom.tsx\<close>:
    a system of several open screens (clients), each with its mount-time
    creator flag, one shared \<open>video_states\<close> row, and one FIFO queue of
    realtime payloads per client; events interleave player events, button
    presses, deliveries and connectivity changes.  \<open>WatchPlayer\<close>:
    \<open>getEmbedUrl\<close> with JavaScript \<open>split\<close> semantics, the messages of the
    injected page script, the web (iframe) and native (WebView) players and
    the player effect.
  \<^item> \<open>AIService\<close> and \<open>AIChat\<close>: \<open>lib/aiChatService.ts\<close> (user info, chat
    history, assignments), \<open>lib/gemini.ts\<close> (prompt building, the streaming
    request body as JSON text) and the coach screen \<open>app/ai-chat.tsx\<close>
    (UUIDs, history loading, the retry loop of \<open>handleSend\<close>, clearing);
    \<open>AITyping\<close>: the typing animation as a state with \<open>setStreamingContent\<close>
    and timer events, and the focus and redirect effects.
  \<^item> \<open>Profile\<close>: \<open>app/(tabs)/profile.tsx\<close>: ranks, statistics and the
    achievement check, with the mount-time statistics the effect captures.
  \<^item> \<open>ChatRooms\<close>: \<open>hooks/useChat.ts\<close>, the chat tab's filters and
    navigation, and the room screen \<open>components/Chat/ChatRoom.tsx\<close> whose
    message list is written both by a fetch and by a realtime subscription,
    with its user map, header, message rendering and input.
  \<^item> \<open>ProUpgrade\<close>: \<open>app/pro-upgrade.tsx\<close>, \<open>lib/eventEmitter.ts\<close> and the
    \<open>USER_DATA_UPDATED\<close> listeners of the home and chat tabs.
  \<^item> \<open>Accounts\<close>: sign-in and sign-up (\<open>app/(auth)\<close>) with the e-mail pattern,
    the rate-limit branch and its cooldown; the account settings screen
    (profile, avatar upload, password) and the notification toggles.
  \<^item> \<open>StoreWF\<close>: the study tables as an instance of their schema, and the
    writes of the study hooks as a datatype of operations over it.
  \<^item> \<open>AIUserInfo\<close>: \<open>processAIResponseForUserInfo\<close> of the coach screen, on
    UTF-16 code units with JavaScript's \<open>toLowerCase\<close> and the \<open>/i\<close>
    canonicalisation of its regular expressions; \<open>AICoachView\<close>: the coach
    screen's render and its assignments panel.
  \<^item> Views of the screens, each a function from the screen's state to what
    it draws, with the screen's remaining handlers as events:
    \<open>ProfileView\<close> (\<open>profile.tsx\<close>), \<open>ChatTab\<close> (\<open>chat.tsx\<close> over
    \<open>useChat\<close>), \<open>HomeTab\<close> (\<open>index.tsx\<close>), \<open>WatchRoomView\<close> (the watch room's
    message list, members and layout), \<open>StudyRoomView\<close> (the member cards of
    \<open>StudyRoom.tsx\<close>), \<open>AccountView\<close> (\<open>account-settings.tsx\<close>),
    \<open>ProUpgradeView\<close> (\<open>pro-upgrade.tsx\<close>), \<open>AuthView\<close> (the sign-in and
    sign-up forms) and \<open>NotificationView\<close> (\<open>notification-settings.tsx\<close>).
  \<^item> \<open>UIKit\<close>: \<open>constants/Theme.ts\<close>, \<open>components/UI/Button.tsx\<close> (style,
    content, and \<open>disabled || isLoading\<close>), \<open>components/UI/Input.tsx\<close> (focus,
    floating label and password eye as a state machine), \<open>Card.tsx\<close>,
    \<open>context/ThemeContext.tsx\<close> and the tab bar of \<open>app/(tabs)/_layout.tsx\<close>.
  \<^item> \<open>StudyScreen\<close> and \<open>WatchScreen\<close>: the study and watch tabs as
    wholes: the study tab's auth gate, timer card and room list, and the
    watch tab's selection state with its two asynchronous modals and their
    callbacks.  \<open>InfoScreens\<close>: the welcome and help screens and the root
    layout's font gate.
  \<^item> \<open>RoomModals\<close>: the four room modals as forms over the handlers of
    \<open>StudyRooms\<close> and \<open>WatchRooms\<close>, and their asynchronous press: a generic
    \<open>modal_step\<close> (form events, a press through the kit's \<open>Button\<close>, the
    checks made before the first \<open>await\<close>, which settle the press at once,
    and the settling of the call) instantiated for each modal.
  \<^item> \<open>Polyfills\<close>: the \<open>Symbol.asyncIterator\<close> and
    \<open>crypto.getRandomValues\<close> polyfills of \<open>index.js\<close>, with \<open>for await\<close>
    over the polyfilled iterators.

  \<^bold>\<open>Modelling choices.\<close>
  \<^item> Calls to the store return \<open>error + 'a\<close> (\<open>Inl\<close> the error); each
    \<open>if (error) throw\<close> and early \<open>return\<close> of the source is a branch.
  \<^item> Ids and clock readings (\<open>Date.now()\<close>, \<open>Math.random()\<close>) are inputs of
    the operations, so every run is a deterministic function of its events.
  \<^item> React effects that capture values (stale closures) hold them in the
    state, set by the operation that installs the effect: the room screen's
    \<open>rs_mount_elapsed\<close> by \<open>room_mount\<close>, the study tab's installed render by
    \<open>effect_commit\<close>, the creator flag of a watch client by its mount; or
    take them as explicit parameters where the effect runs once
    (\<open>pr_mount_total\<close>, the message list an AI request is built from).
  \<^item> A check that throws before a handler's first \<open>await\<close> is handled in
    the same synchronous run, so React batches its state updates: the modal
    shows the error without a loading state.
  \<^item> Interleavings of realtime payloads and fetches are lists of events folded
    by a step function; the realtime channel is a FIFO queue per subscriber.
    The chat room's fetch and its insert feed race (their results are
    separate events).  A watch screen's mount (\<open>fetchVideoState\<close> and the
    subscription) is one step: the model assumes the fetch answers before
    the first payload reaches that screen.
  \<^item> The presence interval of the room screen is re-created whenever
    \<open>elapsedTime\<close> or \<open>members\<close> changes (\<open>StudyRoom.tsx:185\<close>); its ticks
    are free events that may fire between any two other events, which
    covers every real schedule.
  \<^item> The store's \<open>online\<close> flag is read once per handler: the calls of
    one handler succeed or fail together.  A failure between two awaited
    calls of the same handler (a room inserted, its member upsert refused)
    is outside the model; the findings record where it would leave a room
    without its creator.
  \<^item> Characters of a \<open>string\<close> are the code units U+0000 to U+00FF;
    \<open>js_space\<close> is exactly JavaScript's white space among them (tab, line
    feed, vertical tab, form feed, carriage return, space, no-break space).
  \<^item> Turkish strings are transliterated to ASCII, one character per UTF-16
    unit, so lengths and limits are preserved; the promotion code, whose
    comparison depends on \<open>toUpperCase\<close>, is modelled on code units.
  \<^item> Limits are the source's: 50 history rows, the last 10 messages of the
    context, the last 2 of the prompt, 4000 characters, 3 retries, 500
    characters of chat input.
  \<^item> Libraries the code calls but the repository does not hold (the
    authentication client, Gemini, the image picker) are inputs: their
    answer is a parameter of the handler, so every answer is covered.
  \<^item> Regular expressions the code tests are matchers written as recursive
    functions, each checked against a reference definition of its pattern.
  \<^item> Timers and animations are events: the cooldown and typing timeouts fire
    as steps, and random delays are parameters in \<open>[0, 1)\<close>.

  \<^bold>\<open>What the lemmas show.\<close>  Each component theory ends with its claims:
  the timer invariant and session accounting, and the stale values the
  study tab's save effect writes (\<open>StudyTimer\<close>), password and
  creator checks of rooms (\<open>StudyRooms\<close>), that one user's writes never
  change another user's membership (\<open>StoreWF\<close>, with the schema kept by
  every write as a lemma), the single call of a create modal however often
  its loading button is tapped (\<open>RoomModals\<close>), what the presence counters
  display, over every run of the mounted room screen (\<open>Presence\<close>), the
  invariant of the playback system and the catch-up of followers, and that
  a creator's screen never follows the feed (\<open>WatchSync\<close>), the single
  request of \<open>handleSend\<close> and the prompt bound (\<open>AIChat\<close>),
  the profile updates that never happen and the name and assignment
  extraction (\<open>AIUserInfo\<close>), the assignments panel (\<open>AICoachView\<close>), the
  equivalence of the streak loop with a reference definition and the
  unreachable achievement (\<open>Profile\<close>), the feed race of the chat room
  over every later run of events (\<open>ChatRooms\<close>), the promotion code no keyboard in ASCII can type
  (\<open>ProUpgrade\<close>), the sticky error of the watch tab (\<open>WatchRooms\<close>), the
  new room a successful create opens on the watch tab (\<open>WatchScreen\<close>), the
  exception of the rate-limit branch and the exact cooldown, with the
  e-mail pattern's meaning as a lemma (\<open>Accounts\<close>), the floating label's invariant
  (\<open>UIKit\<close>) and the lossless clock (\<open>TimerDisplay\<close>).  The view theories
  hold lemmas on what each screen shows: the sticky errors of the tabs,
  the forms that keep their fields after a refusal, the inert web player.
  This theory holds the property that spans the upgrade screen, the
  emitter and the two tabs.

  \<^bold>\<open>Bounds and fuel.\<close>  The retry loop of \<open>handleSend\<close> is a structural
  recursion on its three tries, the typing animation a recursion on the
  remaining text, and every realtime interleaving a fold over a finite list
  of events.  Only \<open>for await\<close> over a polyfilled iterator (\<open>Polyfills\<close>)
  runs with fuel: the lemmas show it returns for enough fuel over the
  iterators that end, and is \<open>None\<close> for every fuel over a \<open>Promise\<close>.

  \<^bold>\<open>Not modelled.\<close>  The animations themselves (springs, easing curves,
  the bubbles' drift and the repeating typing dots; a value is modelled by
  what it settles at); the stack's transition options; the \<open>fetch\<close>
  polyfill of \<open>index.js\<close> (it only logs and forwards); the authentication context, which the
  repository imports but does not hold (its user and session are inputs);
  the network transport
  of Gemini, the authentication client and the image upload's blob fetch
  (their results are inputs); \<open>toLocaleTimeString\<close> of the message times,
  which depends on the device locale; the YouTube iframe API behind the
  injected player script (which player states it reports).
\<close>

section \<open>Properties across components\<close>

text \<open>C35. Upgrading to pro refreshes the mounted home and chat tabs through
  the emitter: the upgrade screen returns home, the home AI card then opens
  the coach, and the chat tab opens the pro room.\<close>

theorem upgrade_opens_coach:
  assumes on: "u_online (st_store s)" and row: "u_pro (st_store s) u \<noteq> None"
    and home: "HomeListener \<in> set (st_listeners s)" and chat: "ChatListener \<in> set (st_listeners s)"
  shows "st_route (handle_upgrade (Some u) s) = RouteHome \<and>
         home_ai_route (st_home_pro (handle_upgrade (Some u) s)) = RouteAiChat \<and>
         chat_open_room (chat_is_pro (st_chat_pro (handle_upgrade (Some u) s))) rid True pro_room_name = ChatOpen rid"
  using emit_sets_pro[of "s\<lparr>st_store := set_pro u (st_store s), st_error := None\<rparr>" u "st_listeners s"]
    set_pro_row[OF row] on home chat
  by (simp add: handle_upgrade_def emit_user_data_updated_def home_ai_route_def chat_is_pro_def chat_open_room_def set_pro_def)

theorem upgrade_opens_coach_witness:
  "home_ai_route (st_home_pro (handle_upgrade (Some 1)
      \<lparr>st_store = \<lparr>u_online = True, u_pro = [1 \<mapsto> False]\<rparr>, st_home_pro = Some False, st_chat_pro = Some False,
       st_listeners = [HomeListener, ChatListener], st_route = RouteStay, st_error = None\<rparr>)) = RouteAiChat"
  using upgrade_opens_coach[where u = 1 and rid = 0 and
      s = "\<lparr>st_store = \<lparr>u_online = True, u_pro = [1 \<mapsto> False]\<rparr>, st_home_pro = Some False, st_chat_pro = Some False,
            st_listeners = [HomeListener, ChatListener], st_route = RouteStay, st_error = None\<rparr>"]
  by simp

end
